(* ===== verification/Prelude.thy ===== *)
theory Prelude
  imports Main "HOL-Library.Word"
begin

text \<open>
  Shared vocabulary of the development: the machine integer types of the crate, the
  combinators for \<open>Option\<close> and \<open>Result\<close> that the source writes as
  \<^verbatim>\<open>?\<close>, \<^verbatim>\<open>ok_or\<close> and \<^verbatim>\<open>map_err\<close>, the total slice operations of the
  Rust standard library, the arithmetic on \<^verbatim>\<open>usize\<close>, and the generic lemmas
  every component uses.  A \<^verbatim>\<open>usize\<close> is a natural number whose bound
  \<open>usize_max\<close> (64-bit targets) is written out wherever the source saturates or checks.
\<close>

unbundle bit_operations_syntax

named_theorems wire_simps "facts that evaluate reads from concrete byte layouts"
named_theorems result_simps "inversion of Option and Result combinators"

type_synonym u8 = "8 word"
type_synonym u32 = "32 word"
type_synonym u64 = "64 word"

section \<open>Option and Result\<close>

text \<open>The \<^verbatim>\<open>?\<close> operator: continue with the value or return the error.\<close>

definition try_with :: "'e + 'a \<Rightarrow> ('a \<Rightarrow> 'e + 'b) \<Rightarrow> 'e + 'b" where
  "try_with r f = (case r of Inl e \<Rightarrow> Inl e | Inr x \<Rightarrow> f x)"

definition ok_or :: "'a option \<Rightarrow> 'e \<Rightarrow> 'e + 'a" where
  "ok_or m e = (case m of None \<Rightarrow> Inl e | Some x \<Rightarrow> Inr x)"

definition is_ok :: "'e + 'a \<Rightarrow> bool" where
  "is_ok r = (case r of Inl _ \<Rightarrow> False | Inr _ \<Rightarrow> True)"

definition result_ok :: "'e + 'a \<Rightarrow> 'a option" where
  "result_ok r = (case r of Inl _ \<Rightarrow> None | Inr x \<Rightarrow> Some x)"

definition unwrap_or :: "'a option \<Rightarrow> 'a \<Rightarrow> 'a" where
  "unwrap_or m d = (case m of None \<Rightarrow> d | Some x \<Rightarrow> x)"

definition then_some :: "bool \<Rightarrow> 'a \<Rightarrow> 'a option" where
  "then_some b x = (if b then Some x else None)"

lemma try_with_simps [simp]:
  "try_with (Inl e) f = Inl e"
  "try_with (Inr x) f = f x"
  by (simp_all add: try_with_def)

lemma ok_or_simps [simp]:
  "ok_or None e = Inl e"
  "ok_or (Some x) e = Inr x"
  by (simp_all add: ok_or_def)

lemma unwrap_or_simps [simp]:
  "unwrap_or None d = d"
  "unwrap_or (Some x) d = x"
  by (simp_all add: unwrap_or_def)

lemma is_ok_simps [simp]: "\<not> is_ok (Inl e)" "is_ok (Inr x)"
  by (simp_all add: is_ok_def)

lemma result_ok_simps [simp]: "result_ok (Inl e) = None" "result_ok (Inr x) = Some x"
  by (simp_all add: result_ok_def)

lemma try_with_Inr_iff [result_simps]:
  "try_with r f = Inr y \<longleftrightarrow> (\<exists>x. r = Inr x \<and> f x = Inr y)"
  by (cases r) auto

lemma try_with_Inl_iff [result_simps]:
  "try_with r f = Inl e \<longleftrightarrow> r = Inl e \<or> (\<exists>x. r = Inr x \<and> f x = Inl e)"
  by (cases r) auto

lemma ok_or_Inr_iff [result_simps]: "ok_or m e = Inr x \<longleftrightarrow> m = Some x"
  by (cases m) auto

lemma ok_or_Inl_iff [result_simps]: "ok_or m e = Inl e' \<longleftrightarrow> m = None \<and> e' = e"
  by (cases m) auto

lemma then_some_Some_iff [result_simps]: "then_some b x = Some y \<longleftrightarrow> b \<and> y = x"
  by (auto simp: then_some_def)

lemma then_some_None_iff [result_simps]: "then_some b x = None \<longleftrightarrow> \<not> b"
  by (auto simp: then_some_def)

section \<open>Total slice operations\<close>

text \<open>\<^verbatim>\<open>xs.get(start..)\<close>, \<^verbatim>\<open>xs.get(start..end)\<close>, \<^verbatim>\<open>xs.first_chunk::<N>()\<close> and
  \<^verbatim>\<open>xs.split_at_checked(mid)\<close>: each is \<open>None\<close> outside the slice.\<close>

definition slice_from :: "'a list \<Rightarrow> nat \<Rightarrow> 'a list option" where
  "slice_from xs start = (if start \<le> length xs then Some (drop start xs) else None)"

definition slice_range :: "'a list \<Rightarrow> nat \<Rightarrow> nat \<Rightarrow> 'a list option" where
  "slice_range xs start stop =
     (if start \<le> stop \<and> stop \<le> length xs then Some (take (stop - start) (drop start xs)) else None)"

definition first_chunk :: "nat \<Rightarrow> 'a list \<Rightarrow> 'a list option" where
  "first_chunk n xs = (if n \<le> length xs then Some (take n xs) else None)"

definition split_at_checked :: "'a list \<Rightarrow> nat \<Rightarrow> ('a list \<times> 'a list) option" where
  "split_at_checked xs mid = (if mid \<le> length xs then Some (take mid xs, drop mid xs) else None)"

lemma slice_range_length: "slice_range xs a b = Some ys \<Longrightarrow> length ys = b - a"
  by (auto simp: slice_range_def split: if_splits)

lemma first_chunk_length: "first_chunk n xs = Some ys \<Longrightarrow> length ys = n"
  by (auto simp: first_chunk_def split: if_splits)

section \<open>Arithmetic on usize\<close>

definition usize_max :: nat where
  "usize_max = 2 ^ 64 - 1"

definition saturating_add :: "nat \<Rightarrow> nat \<Rightarrow> nat" where
  "saturating_add a b = (if a + b \<le> usize_max then a + b else usize_max)"

definition checked_add :: "nat \<Rightarrow> nat \<Rightarrow> nat option" where
  "checked_add a b = (if a + b \<le> usize_max then Some (a + b) else None)"

text \<open>\<^verbatim>\<open>usize::try_from\<close> on a \<^verbatim>\<open>u32\<close>, \<^verbatim>\<open>u32::try_from\<close> on a \<^verbatim>\<open>usize\<close>.\<close>

definition usize_try_from :: "u32 \<Rightarrow> nat option" where
  "usize_try_from w = (if unat w \<le> usize_max then Some (unat w) else None)"

definition u32_try_from :: "nat \<Rightarrow> u32 option" where
  "u32_try_from n = (if n < 2 ^ 32 then Some (of_nat n) else None)"

definition saturating_sub :: "'a::len word \<Rightarrow> 'a word \<Rightarrow> 'a word" where
  "saturating_sub a b = (if b \<le> a then a - b else 0)"

definition word_saturating_add :: "'a::len word \<Rightarrow> 'a word \<Rightarrow> 'a word" where
  "word_saturating_add a b = (if a \<le> a + b then a + b else - 1)"

lemma unat_u32_less: "unat (w :: u32) < 4294967296"
  using unsigned_less [of w] by simp

lemma unat_u32_le_usize: "unat (w :: u32) \<le> usize_max"
  using unat_u32_less [of w] by (simp add: usize_max_def)

lemma usize_try_from_u32 [simp]: "usize_try_from w = Some (unat w)"
  by (simp add: usize_try_from_def unat_u32_le_usize)

lemma saturating_add_small: "a + b \<le> usize_max \<Longrightarrow> saturating_add a b = a + b"
  by (simp add: saturating_add_def)

lemma checked_add_u32 [simp]:
  "checked_add (unat (a :: u32)) (unat (b :: u32)) = Some (unat a + unat b)"
  using unat_u32_less [of a] unat_u32_less [of b]
  by (simp add: checked_add_def usize_max_def)

section \<open>Shifts\<close>

text \<open>\<^verbatim>\<open>wrapping_shr\<close> and \<^verbatim>\<open>wrapping_shl\<close> mask the shift amount to the width.\<close>

definition wrapping_shr :: "'a::len word \<Rightarrow> nat \<Rightarrow> 'a word" where
  "wrapping_shr w n = drop_bit (n mod LENGTH('a)) w"

definition wrapping_shl :: "'a::len word \<Rightarrow> nat \<Rightarrow> 'a word" where
  "wrapping_shl w n = push_bit (n mod LENGTH('a)) w"

text \<open>The test \<^verbatim>\<open>x.wrapping_shr(i) & 1 == 1\<close> reads one bit.\<close>

lemma and_one_eq_one_iff: "(w :: 'a::len word) AND 1 = 1 \<longleftrightarrow> bit w 0"
  by (metis and_one_eq bit_0 mod2_eq_if odd_one one_mod_two_eq_one zero_neq_one)

lemma wrapping_shr_bit:
  "wrapping_shr (w :: 'a::len word) n AND 1 = 1 \<longleftrightarrow> bit w (n mod LENGTH('a))"
  by (simp add: and_one_eq_one_iff wrapping_shr_def bit_drop_bit_eq)

section \<open>Masks\<close>

text \<open>A conjunction with a run of ones is a truncation, which the bit lemmas evaluate.\<close>

lemma and_masks:
  fixes w :: "'a::len word"
  shows "w AND 7 = take_bit 3 w" "w AND 0xF = take_bit 4 w" "w AND 0x3F = take_bit 6 w"
    "w AND 0xFF = take_bit 8 w"
  by (simp_all add: take_bit_eq_mask mask_eq_exp_minus_1)

lemma and_0xF0: "(w :: 'a::len word) AND 0xF0 = push_bit 4 (take_bit 4 (drop_bit 4 w))"
proof -
  have "(0xF0 :: 'a word) = push_bit 4 (mask 4)"
    by (simp add: push_bit_eq_mult mask_eq_exp_minus_1)
  then show ?thesis
    by (simp add: bit_eq_iff bit_simps) (auto)
qed

text \<open>Equality of words bit by bit, over the explicit list of positions.\<close>

lemma word_eq_all_bits:
  "list_all (\<lambda>n. bit a n = bit b n) [0..<LENGTH('a)] \<Longrightarrow> a = (b :: 'a::len word)"
  by (rule bit_word_eqI) (auto simp: list_all_iff)

lemma bit_beyond: "LENGTH('a) \<le> n \<Longrightarrow> \<not> bit (w :: 'a::len word) n"
  using bit_imp_le_length not_less by blast

lemma upt_8: "[0..<8] = [0, 1, 2, 3, 4, 5, 6, 7]"
  by code_simp

lemma upt_32:
  "[0..<32] = [0, 1, 2, 3, 4, 5, 6, 7, 8, 9, 10, 11, 12, 13, 14, 15, 16,
    17, 18, 19, 20, 21, 22, 23, 24, 25, 26, 27, 28, 29, 30, 31]"
  by code_simp

lemma take_bit_small: "unat w < 2 ^ k \<Longrightarrow> take_bit k (w :: 'a::len word) = w"
  by (metis take_bit_nat_eq_self unsigned_take_bit_eq word_unat_eq_iff)

end
