(* ===== verification/Bytes.thy ===== *)
theory Bytes
  imports Prelude
begin

text \<open>
  Byte buffers: the little-endian codecs of the Rust standard library
  (\<^verbatim>\<open>to_le_bytes\<close>, \<^verbatim>\<open>from_le_bytes\<close>) and the total helpers at the crate root
  (\<^verbatim>\<open>src/lib.rs\<close>: \<open>low_byte\<close>, \<open>widen\<close>, \<open>bytes_at\<close>, \<open>u32_at\<close>), with the
  buffer filler \<open>fill\<close> of \<^verbatim>\<open>src/backend/ioctl.rs\<close>.  Every wire structure of the
  crate is a concatenation of fixed-width fields; the locale \<open>fixed_codec\<close> states what such a
  field promises and gives its clients the read-back law, and it is interpreted on the
  two widths the crate uses.
\<close>

section \<open>Little-endian conversion\<close>

definition to_le_bytes :: "'a::len word \<Rightarrow> u8 list" where
  "to_le_bytes w = map (\<lambda>i. ucast (drop_bit (8 * i) w)) [0..<LENGTH('a) div 8]"

definition from_le_bytes :: "u8 list \<Rightarrow> 'a::len word" where
  "from_le_bytes bs = foldr (\<lambda>b acc. ucast b OR push_bit 8 acc) bs 0"

lemma length_to_le_bytes [simp]: "length (to_le_bytes (w :: 'a::len word)) = LENGTH('a) div 8"
  by (simp add: to_le_bytes_def)

lemma from_le_bytes_Nil [simp, wire_simps]: "from_le_bytes [] = 0"
  by (simp add: from_le_bytes_def)

lemma from_le_bytes_Cons [wire_simps]:
  "from_le_bytes (b # bs) = ucast b OR push_bit 8 (from_le_bytes bs)"
  by (simp add: from_le_bytes_def)

lemma from_le_bytes_replicate_0 [simp]: "from_le_bytes (replicate n 0) = 0"
  by (induction n) (simp_all add: from_le_bytes_Cons)

lemma bit_from_le_bytes:
  "bit (from_le_bytes bs :: 'a::len word) n \<longleftrightarrow>
     n < LENGTH('a) \<and> n < 8 * length bs \<and> bit (bs ! (n div 8)) (n mod 8)"
proof (induction bs arbitrary: n)
  case Nil
  then show ?case by simp
next
  case (Cons b bs)
  show ?case
  proof (cases "n < 8")
    case True
    then show ?thesis by (auto simp: from_le_bytes_Cons bit_simps)
  next
    case False
    then have shift: "n div 8 = Suc ((n - 8) div 8)" "n mod 8 = (n - 8) mod 8"
      by (simp_all add: le_div_geq le_mod_geq)
    have no_low: "\<not> bit (ucast b :: 'a word) n"
      using False bit_imp_le_length [of b n] by (auto simp: bit_simps)
    have "bit (from_le_bytes (b # bs) :: 'a word) n \<longleftrightarrow>
        n < LENGTH('a) \<and> bit (from_le_bytes bs :: 'a word) (n - 8)"
      using False no_low by (auto simp: from_le_bytes_Cons bit_simps)
    also have "\<dots> \<longleftrightarrow> n < LENGTH('a) \<and> n < 8 * length (b # bs) \<and>
        bit ((b # bs) ! (n div 8)) (n mod 8)"
      using False by (auto simp: Cons.IH shift)
    finally show ?thesis .
  qed
qed

lemma nth_to_le_bytes:
  "i < LENGTH('a) div 8 \<Longrightarrow> to_le_bytes (w :: 'a::len word) ! i = ucast (drop_bit (8 * i) w)"
  by (simp add: to_le_bytes_def)

lemma from_le_bytes_to_le_bytes:
  assumes "8 dvd LENGTH('a)"
  shows "from_le_bytes (to_le_bytes w) = (w :: 'a::len word)"
proof (rule bit_word_eqI)
  fix n
  assume n: "n < LENGTH('a)"
  from assms n have i: "n div 8 < LENGTH('a) div 8"
    by (simp add: less_mult_imp_div_less)
  have "8 * (n div 8) + n mod 8 = n" by simp
  with assms n i show "bit (from_le_bytes (to_le_bytes w) :: 'a word) n = bit w n"
    by (auto simp: bit_from_le_bytes nth_to_le_bytes bit_simps)
qed

lemma to_le_bytes_from_le_bytes:
  assumes "8 dvd LENGTH('a)" and len: "length bs = LENGTH('a) div 8"
  shows "to_le_bytes (from_le_bytes bs :: 'a::len word) = bs"
proof (rule nth_equalityI)
  show "length (to_le_bytes (from_le_bytes bs :: 'a word)) = length bs"
    by (simp add: len)
next
  fix i
  assume "i < length (to_le_bytes (from_le_bytes bs :: 'a word))"
  then have i: "i < LENGTH('a) div 8" by simp
  show "to_le_bytes (from_le_bytes bs :: 'a word) ! i = bs ! i"
  proof (rule bit_word_eqI)
    fix n
    assume "n < LENGTH(8)"
    then have n: "n < 8" by simp
    then have "8 * i + n < LENGTH('a)" using i by linarith
    with i n len show "bit (to_le_bytes (from_le_bytes bs :: 'a word) ! i) n = bit (bs ! i) n"
      by (auto simp: nth_to_le_bytes bit_simps bit_from_le_bytes)
  qed
qed

section \<open>Reading fixed-width fields\<close>

definition bytes_at :: "nat \<Rightarrow> u8 list \<Rightarrow> nat \<Rightarrow> u8 list option" where
  "bytes_at n buf offset = Option.bind (slice_from buf offset) (first_chunk n)"

definition u32_at :: "u8 list \<Rightarrow> nat \<Rightarrow> u32 option" where
  "u32_at buf offset = map_option from_le_bytes (bytes_at 4 buf offset)"

definition low_byte :: "u32 \<Rightarrow> u8" where
  "low_byte masked = to_le_bytes masked ! 0"

definition widen :: "u8 \<Rightarrow> u32" where
  "widen byte = from_le_bytes [byte, 0, 0, 0]"

text \<open>Writes bytes into an \<open>n\<close>-byte buffer: zero-padded, and clipped past its end.\<close>

fun zip_into :: "u8 list \<Rightarrow> u8 list \<Rightarrow> u8 list" where
  "zip_into (_ # dst) (b # bytes) = b # zip_into dst bytes"
| "zip_into dst _ = dst"

definition fill :: "nat \<Rightarrow> u8 list \<Rightarrow> u8 list" where
  "fill n bytes = zip_into (replicate n 0) bytes"

lemma bytes_at_eq:
  "bytes_at n buf off = (if off + n \<le> length buf then Some (take n (drop off buf)) else None)"
  by (auto simp: bytes_at_def slice_from_def first_chunk_def split: if_splits)

lemma bytes_at_Some_iff [result_simps]:
  "bytes_at n buf off = Some bs \<longleftrightarrow> off + n \<le> length buf \<and> bs = take n (drop off buf)"
  by (auto simp: bytes_at_eq)

lemma bytes_at_None_iff [result_simps]: "bytes_at n buf off = None \<longleftrightarrow> length buf < off + n"
  by (auto simp: bytes_at_eq)

lemma u32_at_None_iff [result_simps]: "u32_at buf off = None \<longleftrightarrow> length buf < off + 4"
  by (simp add: u32_at_def bytes_at_eq)

lemma u32_at_eq:
  "u32_at buf off =
     (if off + 4 \<le> length buf then Some (from_le_bytes (take 4 (drop off buf))) else None)"
  by (simp add: u32_at_def bytes_at_eq)

lemma low_byte_ucast: "low_byte w = ucast w"
  by (simp add: low_byte_def nth_to_le_bytes)

lemma widen_ucast: "widen b = ucast b"
  by (simp add: widen_def from_le_bytes_Cons)

lemma unat_widen [simp]: "unat (widen b) = unat b"
proof -
  have "unat b < 256"
    using unsigned_less [of b, where 'a = nat] by simp
  then show ?thesis
    by (simp add: widen_ucast unsigned_ucast_eq take_bit_nat_eq_self)
qed

lemma low_byte_widen [simp]: "low_byte (widen b) = b"
  by (rule bit_word_eqI) (auto simp: low_byte_ucast widen_ucast bit_simps)

lemma zip_into_eq: "zip_into dst bytes = take (length dst) bytes @ drop (length bytes) dst"
  by (induction dst bytes rule: zip_into.induct) auto

lemma length_zip_into [simp]: "length (zip_into dst bytes) = length dst"
  by (simp add: zip_into_eq)

lemma length_fill [simp]: "length (fill n bytes) = n"
  by (simp add: fill_def)

lemma fill_fits:
  "length bytes \<le> n \<Longrightarrow> fill n bytes = bytes @ replicate (n - length bytes) 0"
  by (simp add: fill_def zip_into_eq)

section \<open>Fixed-width fields as an interface\<close>

locale fixed_codec =
  fixes enc :: "'v \<Rightarrow> u8 list"
    and dec :: "u8 list \<Rightarrow> 'v"
    and width :: nat
  assumes length_enc: "length (enc x) = width"
    and dec_enc: "dec (enc x) = x"
    and enc_dec: "length bs = width \<Longrightarrow> enc (dec bs) = bs"
begin

lemma enc_inject: "enc x = enc y \<longleftrightarrow> x = y"
  by (metis dec_enc)

text \<open>A field written after a prefix of length \<open>off\<close> is read back at that offset.\<close>

lemma read_back:
  assumes "length pre = off"
  shows "map_option dec (bytes_at width (pre @ enc x @ post) off) = Some x"
  using assms by (simp add: bytes_at_eq length_enc dec_enc)

text \<open>Two buffers that agree on a field's bytes agree on its value, and conversely.\<close>

lemma same_field_iff:
  assumes "length bs = width" "length cs = width"
  shows "dec bs = dec cs \<longleftrightarrow> bs = cs"
  using assms enc_dec by metis

lemma enc_append_inject: "enc x @ xs = enc y @ ys \<longleftrightarrow> x = y \<and> xs = ys"
  by (auto simp: length_enc enc_inject)

end

interpretation le32: fixed_codec "to_le_bytes :: u32 \<Rightarrow> u8 list" from_le_bytes 4
  by unfold_locales (simp_all add: from_le_bytes_to_le_bytes to_le_bytes_from_le_bytes)

interpretation le64: fixed_codec "to_le_bytes :: u64 \<Rightarrow> u8 list" from_le_bytes 8
  by unfold_locales (simp_all add: from_le_bytes_to_le_bytes to_le_bytes_from_le_bytes)

lemmas le_round_trips [simp] = le32.dec_enc le64.dec_enc

text \<open>The words as explicit byte lists, for definitions that destructure them.\<close>

lemma to_le_bytes_u32:
  "to_le_bytes (w :: u32) =
     [ucast w, ucast (drop_bit 8 w), ucast (drop_bit 16 w), ucast (drop_bit 24 w)]"
  by (simp add: to_le_bytes_def upt_rec)

lemma to_le_bytes_u64:
  "to_le_bytes (w :: u64) =
     [ucast w, ucast (drop_bit 8 w), ucast (drop_bit 16 w), ucast (drop_bit 24 w),
      ucast (drop_bit 32 w), ucast (drop_bit 40 w), ucast (drop_bit 48 w), ucast (drop_bit 56 w)]"
  by (simp add: to_le_bytes_def upt_rec)

end
