(* ===== verification/Std.thy ===== *)
theory Std
  imports Bytes
begin

text \<open>
  The parts of the Rust standard library the crate relies on beyond slices: text (a
  \<^verbatim>\<open>str\<close> is its UTF-8 bytes, and a HOL \<^typ>\<open>string\<close> is a list of 8-bit characters, so
  \<^typ>\<open>string\<close> stands for \<^verbatim>\<open>String\<close>), \<^verbatim>\<open>str::trim\<close>, \<^verbatim>\<open>str::parse\<close> for unsigned
  integers, the \<^verbatim>\<open>{}\<close>, \<^verbatim>\<open>{:x}\<close> and \<^verbatim>\<open>{:02X}\<close> formats, and \<^verbatim>\<open>std::io::Error\<close> with the kinds
  the crate distinguishes.  The main facts: printing a number and parsing it back is the
  identity, and trimming the newline the kernel appends does not disturb it.
\<close>

section \<open>Formatting numbers\<close>

definition digit_char :: "nat \<Rightarrow> char" where
  "digit_char d = (if d < 10 then char_of (48 + d) else char_of (87 + d))"

definition upper_digit_char :: "nat \<Rightarrow> char" where
  "upper_digit_char d = (if d < 10 then char_of (48 + d) else char_of (55 + d))"

function digits :: "nat \<Rightarrow> nat \<Rightarrow> nat list" where
  "digits base n = (if base < 2 \<or> n < base then [n] else digits base (n div base) @ [n mod base])"
  by pat_completeness auto
termination
  by (relation "measure snd") auto

declare digits.simps [simp del]

text \<open>\<^verbatim>\<open>{n}\<close>, \<^verbatim>\<open>{n:x}\<close>, \<^verbatim>\<open>{n:X}\<close>, and zero padding to a minimum width.\<close>

definition show_dec :: "nat \<Rightarrow> string" where
  "show_dec n = map digit_char (digits 10 n)"

definition show_hex :: "nat \<Rightarrow> string" where
  "show_hex n = map digit_char (digits 16 n)"

definition show_upper_hex :: "nat \<Rightarrow> string" where
  "show_upper_hex n = map upper_digit_char (digits 16 n)"

definition zero_pad :: "nat \<Rightarrow> string \<Rightarrow> string" where
  "zero_pad w s = replicate (w - length s) CHR ''0'' @ s"

text \<open>\<^verbatim>\<open>{n:#x}\<close> and \<^verbatim>\<open>{n:#0w$x}\<close>: the width counts the \<^verbatim>\<open>0x\<close> prefix.\<close>

definition show_alt_hex :: "nat \<Rightarrow> nat \<Rightarrow> string" where
  "show_alt_hex w n = ''0x'' @ zero_pad (w - 2) (show_hex n)"

lemma digits_bound: "2 \<le> base \<Longrightarrow> d \<in> set (digits base n) \<Longrightarrow> d < base"
proof (induction base n rule: digits.induct)
  case (1 base n)
  then show ?case
    by (subst (asm) (2) digits.simps) (auto split: if_splits)
qed

lemma digits_nonempty [simp]: "digits base n \<noteq> []"
  by (subst digits.simps) simp

lemma digits_value:
  "2 \<le> base \<Longrightarrow> foldl (\<lambda>acc d. acc * base + d) 0 (digits base n) = n"
proof (induction base n rule: digits.induct)
  case (1 base n)
  then show ?case
    by (subst digits.simps) (auto simp: not_le)
qed

section \<open>Parsing unsigned integers\<close>

definition is_digit :: "char \<Rightarrow> bool" where
  "is_digit c \<longleftrightarrow> 48 \<le> (of_char c :: nat) \<and> of_char c \<le> (57 :: nat)"

definition digit_val :: "char \<Rightarrow> nat" where
  "digit_val c = of_char c - 48"

text \<open>
  \<^verbatim>\<open>s.parse::<uN>()\<close> with \<open>bound = 2 ^ N\<close>: one optional \<^verbatim>\<open>+\<close>, at least one digit, nothing
  else, and no overflow.
\<close>

definition parse_uint :: "nat \<Rightarrow> string \<Rightarrow> nat option" where
  "parse_uint bound s =
     (let ds = (case s of c # cs \<Rightarrow> if c = CHR ''+'' then cs else s | [] \<Rightarrow> [])
      in if ds \<noteq> [] \<and> list_all is_digit ds then
           (let v = foldl (\<lambda>acc c. acc * 10 + digit_val c) 0 ds
            in if v < bound then Some v else None)
         else None)"

lemma parse_uint_bound: "parse_uint bound s = Some v \<Longrightarrow> v < bound"
  by (auto simp: parse_uint_def Let_def split: if_splits)

lemma digit_char_parses:
  assumes "d < 10"
  shows "is_digit (digit_char d)" "digit_val (digit_char d) = d" "digit_char d \<noteq> CHR ''+''"
proof -
  have code: "(of_char (digit_char d) :: nat) = 48 + d"
    using assms by (simp add: digit_char_def)
  then show "is_digit (digit_char d)" "digit_val (digit_char d) = d"
    using assms by (simp_all add: is_digit_def digit_val_def)
  show "digit_char d \<noteq> CHR ''+''"
  proof
    assume "digit_char d = CHR ''+''"
    then have "(of_char (digit_char d) :: nat) = 43" by simp
    with code show False by simp
  qed
qed

lemma foldl_digit_chars:
  "\<forall>d \<in> set ds. d < 10 \<Longrightarrow>
   foldl (\<lambda>acc c. acc * 10 + digit_val c) a (map digit_char ds) = foldl (\<lambda>acc d. acc * 10 + d) a ds"
  by (induction ds arbitrary: a) (auto simp: digit_char_parses)

lemma show_dec_nonempty [simp]: "show_dec n \<noteq> []"
  by (simp add: show_dec_def)

lemma show_dec_digits: "list_all is_digit (show_dec n)"
  by (auto simp: show_dec_def list_all_iff dest!: digits_bound [rotated]
      intro: digit_char_parses(1))

lemma parse_show_dec:
  assumes "n < bound"
  shows "parse_uint bound (show_dec n) = Some n"
proof -
  have small: "\<forall>d \<in> set (digits 10 n). d < 10"
    using digits_bound [of 10] by auto
  obtain c cs where s: "show_dec n = c # cs" by (cases "show_dec n") auto
  have "c \<in> digit_char ` set (digits 10 n)"
    using s by (metis list.set_intros(1) set_map show_dec_def)
  then have "c \<noteq> CHR ''+''"
    using small digit_char_parses(3) by auto
  moreover have "foldl (\<lambda>acc c. acc * 10 + digit_val c) 0 (show_dec n) = n"
    by (simp add: show_dec_def foldl_digit_chars [OF small] digits_value)
  ultimately show ?thesis
    using assms show_dec_digits [of n] s by (simp add: parse_uint_def Let_def)
qed

section \<open>UTF-8 and trimming\<close>

definition is_cont :: "u8 \<Rightarrow> bool" where
  "is_cont b \<longleftrightarrow> 0x80 \<le> b \<and> b \<le> 0xBF"

fun utf8_valid :: "u8 list \<Rightarrow> bool" where
  "utf8_valid [] = True"
| "utf8_valid (b # bs) =
     (if b < 0x80 then utf8_valid bs
      else if 0xC2 \<le> b \<and> b \<le> 0xDF then
        (case bs of c1 # r \<Rightarrow> is_cont c1 \<and> utf8_valid r | _ \<Rightarrow> False)
      else if 0xE0 \<le> b \<and> b \<le> 0xEF then
        (case bs of c1 # c2 # r \<Rightarrow>
             (if b = 0xE0 then 0xA0 \<le> c1 \<and> c1 \<le> 0xBF
              else if b = 0xED then 0x80 \<le> c1 \<and> c1 \<le> 0x9F
              else is_cont c1) \<and> is_cont c2 \<and> utf8_valid r
         | _ \<Rightarrow> False)
      else if 0xF0 \<le> b \<and> b \<le> 0xF4 then
        (case bs of c1 # c2 # c3 # r \<Rightarrow>
             (if b = 0xF0 then 0x90 \<le> c1 \<and> c1 \<le> 0xBF
              else if b = 0xF4 then 0x80 \<le> c1 \<and> c1 \<le> 0x8F
              else is_cont c1) \<and> is_cont c2 \<and> is_cont c3 \<and> utf8_valid r
         | _ \<Rightarrow> False)
      else False)"

definition string_of_bytes :: "u8 list \<Rightarrow> string" where
  "string_of_bytes bs = map (\<lambda>b. char_of (unat b)) bs"

definition bytes_of_string :: "string \<Rightarrow> u8 list" where
  "bytes_of_string s = map (\<lambda>c. word_of_nat (of_char c)) s"

text \<open>
  Length in bytes of the white-space character a string starts with (its UTF-8 form), 0 when
  it starts with none.  The three-byte cases are U+1680, U+2000 to U+200A, U+2028, U+2029,
  U+202F, U+205F and U+3000.
\<close>

fun white3 :: "nat \<Rightarrow> nat \<Rightarrow> nat \<Rightarrow> bool" where
  "white3 a b c \<longleftrightarrow>
     a = 0xE1 \<and> b = 0x9A \<and> c = 0x80
   \<or> a = 0xE2 \<and> b = 0x80 \<and> (0x80 \<le> c \<and> c \<le> 0x8A \<or> c = 0xA8 \<or> c = 0xA9 \<or> c = 0xAF)
   \<or> a = 0xE2 \<and> b = 0x81 \<and> c = 0x9F
   \<or> a = 0xE3 \<and> b = 0x80 \<and> c = 0x80"

definition white1 :: "nat \<Rightarrow> bool" where
  "white1 a \<longleftrightarrow> 9 \<le> a \<and> a \<le> 13 \<or> a = 32"

definition white2 :: "nat \<Rightarrow> nat \<Rightarrow> bool" where
  "white2 a b \<longleftrightarrow> a = 0xC2 \<and> (b = 0x85 \<or> b = 0xA0)"

fun trim_start :: "string \<Rightarrow> string" where
  "trim_start (a # b # c # s) =
     (if white1 (of_char a) then trim_start (b # c # s)
      else if white2 (of_char a) (of_char b) then trim_start (c # s)
      else if white3 (of_char a) (of_char b) (of_char c) then trim_start s
      else a # b # c # s)"
| "trim_start [a, b] =
     (if white1 (of_char a) then trim_start [b]
      else if white2 (of_char a) (of_char b) then []
      else [a, b])"
| "trim_start [a] = (if white1 (of_char a) then [] else [a])"
| "trim_start [] = []"

text \<open>The same from the end, on the reversed string.\<close>

fun trim_end_rev :: "string \<Rightarrow> string" where
  "trim_end_rev (c # b # a # s) =
     (if white1 (of_char c) then trim_end_rev (b # a # s)
      else if white2 (of_char b) (of_char c) then trim_end_rev (a # s)
      else if white3 (of_char a) (of_char b) (of_char c) then trim_end_rev s
      else c # b # a # s)"
| "trim_end_rev [c, b] =
     (if white1 (of_char c) then trim_end_rev [b]
      else if white2 (of_char b) (of_char c) then []
      else [c, b])"
| "trim_end_rev [c] = (if white1 (of_char c) then [] else [c])"
| "trim_end_rev [] = []"

definition trim :: "string \<Rightarrow> string" where
  "trim s = rev (trim_end_rev (rev (trim_start s)))"

text \<open>A printable ASCII character is never the start or the end of white space.\<close>

definition solid :: "char \<Rightarrow> bool" where
  "solid c \<longleftrightarrow> 33 \<le> (of_char c :: nat) \<and> of_char c < (127 :: nat)"

lemma trim_start_solid: "solid a \<Longrightarrow> trim_start (a # s) = a # s"
  by (cases "a # s" rule: trim_start.cases) (auto simp: solid_def white1_def white2_def)

lemma trim_end_rev_solid: "solid a \<Longrightarrow> trim_end_rev (a # s) = a # s"
  by (cases "a # s" rule: trim_end_rev.cases) (auto simp: solid_def white1_def white2_def)

lemma trim_end_rev_newline: "solid a \<Longrightarrow> trim_end_rev (CHR 0x0A # a # s) = a # s"
  by (cases s) (simp_all add: trim_end_rev_solid, simp_all add: white1_def trim_end_rev_solid solid_def)

lemma trim_solid_line:
  assumes "s \<noteq> []" "list_all solid s"
  shows "trim (s @ [CHR 0x0A]) = s" "trim s = s"
proof -
  obtain a s' where s: "s = a # s'" using assms(1) by (cases s) auto
  obtain b r where r: "rev s = b # r" using assms(1) by (cases "rev s") auto
  have "solid a" using assms(2) s by simp
  moreover have "solid b"
    using assms r by (metis list.set_intros(1) list_all_iff set_rev)
  moreover have "trim_start (s @ t) = s @ t" for t
    using \<open>solid a\<close> s by (simp add: trim_start_solid)
  moreover have "trim_start s = s"
    using \<open>solid a\<close> s by (simp add: trim_start_solid)
  moreover have "rev (b # r) = s"
    using r by (metis rev_rev_ident)
  ultimately show "trim (s @ [CHR 0x0A]) = s" "trim s = s"
    by (simp_all only: trim_def r rev_append rev_singleton_conv rev.simps append.simps
        trim_end_rev_newline trim_end_rev_solid)
qed

lemma solid_digit: "is_digit c \<Longrightarrow> solid c"
  by (auto simp: is_digit_def solid_def)

text \<open>What the kernel prints into a numeric attribute reads back as the number.\<close>

lemma parse_trim_show_dec:
  assumes "n < bound"
  shows "parse_uint bound (trim (show_dec n @ [CHR 0x0A])) = Some n"
proof -
  have "list_all solid (show_dec n)"
    using show_dec_digits [of n] by (auto simp: list_all_iff intro: solid_digit)
  then show ?thesis
    using assms by (simp add: trim_solid_line parse_show_dec)
qed

section \<open>Debug builders\<close>

text \<open>
  The compact output (\<^verbatim>\<open>{:?}\<close>) of \<^verbatim>\<open>debug_struct\<close> with \<^verbatim>\<open>finish\<close> and with
  \<^verbatim>\<open>finish_non_exhaustive\<close>, and of a derived tuple variant with one field.
\<close>

fun comma_sep :: "string list \<Rightarrow> string" where
  "comma_sep [] = []"
| "comma_sep [x] = x"
| "comma_sep (x # y # zs) = x @ '', '' @ comma_sep (y # zs)"

definition debug_fields :: "(string \<times> string) list \<Rightarrow> string list" where
  "debug_fields fields = map (\<lambda>(name, value). name @ '': '' @ value) fields"

definition debug_struct :: "string \<Rightarrow> (string \<times> string) list \<Rightarrow> string" where
  "debug_struct name fields =
     (if fields = [] then name else name @ '' { '' @ comma_sep (debug_fields fields) @ '' }'')"

definition debug_struct_non_exhaustive :: "string \<Rightarrow> (string \<times> string) list \<Rightarrow> string" where
  "debug_struct_non_exhaustive name fields =
     name @ '' { '' @ comma_sep (debug_fields fields @ [''..'']) @ '' }''"

definition debug_tuple :: "string \<Rightarrow> string \<Rightarrow> string" where
  "debug_tuple name arg = name @ ''('' @ arg @ '')''"

text \<open>
  What a \<^verbatim>\<open>Debug\<close> implementation hands to its formatter, and the formatter's two renderings:
  \<^verbatim>\<open>{:?}\<close> on one line, and \<^verbatim>\<open>{:#?}\<close>, where every part of a nested value goes through an adapter
  that indents each of its lines by four spaces.
\<close>

datatype debug_tree =
    DebugText string
  | DebugTuple string debug_tree
  | DebugStruct string "(string \<times> debug_tree) list"
  | DebugOpenStruct string "(string \<times> debug_tree) list"

fun compact :: "debug_tree \<Rightarrow> string" where
  "compact (DebugText s) = s"
| "compact (DebugTuple name t) = debug_tuple name (compact t)"
| "compact (DebugStruct name fields) = debug_struct name (map (\<lambda>(n, t). (n, compact t)) fields)"
| "compact (DebugOpenStruct name fields) =
     debug_struct_non_exhaustive name (map (\<lambda>(n, t). (n, compact t)) fields)"

definition newline :: string where
  "newline = [CHR 0x0A]"

fun indent :: "bool \<Rightarrow> string \<Rightarrow> string" where
  "indent at_start [] = []"
| "indent at_start (c # cs) = (if at_start then ''    '' else []) @ c # indent (c = CHR 0x0A) cs"

definition pretty_fields :: "(string \<times> string) list \<Rightarrow> string" where
  "pretty_fields fields =
     concat (map (\<lambda>(name, value). indent True (name @ '': '' @ value @ '','' @ newline)) fields)"

fun pretty :: "debug_tree \<Rightarrow> string" where
  "pretty (DebugText s) = s"
| "pretty (DebugTuple name t) =
     name @ ''('' @ newline @ indent True (pretty t @ '','' @ newline) @ '')''"
| "pretty (DebugStruct name fields) =
     (if fields = [] then name
      else name @ '' {'' @ newline @ pretty_fields (map (\<lambda>(n, t). (n, pretty t)) fields) @ ''}'')"
| "pretty (DebugOpenStruct name fields) =
     (if fields = [] then name @ '' { .. }''
      else name @ '' {'' @ newline @ pretty_fields (map (\<lambda>(n, t). (n, pretty t)) fields)
             @ indent True (''..'' @ newline) @ ''}'')"

text \<open>\<^verbatim>\<open>{:?}\<close> of a slice.\<close>

definition debug_list :: "string list \<Rightarrow> string" where
  "debug_list items = ''['' @ comma_sep items @ '']''"

text \<open>\<^verbatim>\<open>{s:<w}\<close>: padded on the right to \<open>w\<close> characters, counted as the bytes that start one.\<close>

definition char_count :: "string \<Rightarrow> nat" where
  "char_count s = length (filter (\<lambda>c. (of_char c :: nat) div 64 \<noteq> 2) s)"

definition pad_right :: "nat \<Rightarrow> string \<Rightarrow> string" where
  "pad_right w s = s @ replicate (w - char_count s) CHR '' ''"

definition debug_bool :: "bool \<Rightarrow> string" where
  "debug_bool b = (if b then ''true'' else ''false'')"

section \<open>I/O errors\<close>

text \<open>
  The kinds of \<^verbatim>\<open>std::io::ErrorKind\<close> the crate names, and one for each of the others by the
  error number it stands for.
\<close>

datatype error_kind =
    ResourceBusy | WouldBlock | Interrupted | WriteZero | InvalidData | OtherKind nat

datatype io_error =
    OsError nat
  | CustomError error_kind string

text \<open>The kind of an operating-system error, by its Linux error number.\<close>

definition io_kind :: "io_error \<Rightarrow> error_kind" where
  "io_kind e =
     (case e of
        OsError n \<Rightarrow>
          (if n = 16 then ResourceBusy
           else if n = 11 then WouldBlock
           else if n = 4 then Interrupted
           else OtherKind n)
      | CustomError k _ \<Rightarrow> k)"

end
