(* ===== verification/Errors.thy ===== *)
theory Errors
  imports Std
begin

text \<open>
  \<^verbatim>\<open>src/error.rs\<close>: the crate's error type, the firmware and hypervisor status codes and their
  interpretation, the parse errors, the \<^verbatim>\<open>Display\<close> texts, and the split of \<^verbatim>\<open>EXITINFO2\<close>.
  The lemmas show that interpreting a status code loses nothing (distinct codes stay distinct)
  and that the hypervisor's half of \<^verbatim>\<open>EXITINFO2\<close> takes precedence.
\<close>

section \<open>Firmware status codes\<close>

datatype (plugins only: code) firmware_error =
    InvalidPlatformState | InvalidGuestState | InvalidConfig | InvalidLen | AlreadyOwned
    | InvalidCertificate | PolicyFailure | Inactive | InvalidAddress | BadSignature
    | BadMeasurement | AsidOwned | InvalidAsid | WbinvdRequired | DfFlushRequired
    | InvalidGuest | InvalidCommand | Active | HwPlatformError | HwUnsafe | Unsupported
    | InvalidParam | ResourceLimit | SecureDataInvalid | InvalidPageSize | InvalidPageState
    | InvalidMetadataEntry | InvalidPageOwner | AeadOverflow | ExitRingBuffer | RmpInitRequired
    | BadSvn | BadVersion | ShutdownRequired | UpdateFailed | RestoreRequired | RmpInitFailed
    | InvalidKey | ShutdownIncomplete | IncorrectBufferLength | ExpandBufferLengthRequest
    | SpdmRequest | SpdmError | ErrInDevConn | InvalidDevCtx | InvalidTdiCtx | InvalidTdi
    | ReclaimRequired | InUse | InvalidDevState | InvalidTdiState | DevCertChanged
    | ResyncRequired | ResponseTooLarge | Unknown u32

text \<open>The arms of \<^verbatim>\<open>FirmwareError::from_raw\<close>, in order; a \<^verbatim>\<open>match\<close> takes the first that fits.\<close>

definition firmware_codes :: "(u32 \<times> firmware_error) list" where
  "firmware_codes =
    [(0x01, InvalidPlatformState), (0x02, InvalidGuestState), (0x03, InvalidConfig),
     (0x04, InvalidLen), (0x05, AlreadyOwned), (0x06, InvalidCertificate),
     (0x07, PolicyFailure), (0x08, Inactive), (0x09, InvalidAddress), (0x0A, BadSignature),
     (0x0B, BadMeasurement), (0x0C, AsidOwned), (0x0D, InvalidAsid), (0x0E, WbinvdRequired),
     (0x0F, DfFlushRequired), (0x10, InvalidGuest), (0x11, InvalidCommand), (0x12, Active),
     (0x13, HwPlatformError), (0x14, HwUnsafe), (0x15, Unsupported), (0x16, InvalidParam),
     (0x17, ResourceLimit), (0x18, SecureDataInvalid), (0x19, InvalidPageSize),
     (0x1A, InvalidPageState), (0x1B, InvalidMetadataEntry), (0x1C, InvalidPageOwner),
     (0x1D, AeadOverflow), (0x1F, ExitRingBuffer), (0x20, RmpInitRequired), (0x21, BadSvn),
     (0x22, BadVersion), (0x23, ShutdownRequired), (0x24, UpdateFailed),
     (0x25, RestoreRequired), (0x26, RmpInitFailed), (0x27, InvalidKey),
     (0x28, ShutdownIncomplete), (0x30, IncorrectBufferLength),
     (0x31, ExpandBufferLengthRequest), (0x32, SpdmRequest), (0x33, SpdmError),
     (0x35, ErrInDevConn), (0x36, InvalidDevCtx), (0x37, InvalidTdiCtx), (0x38, InvalidTdi),
     (0x39, ReclaimRequired), (0x3A, InUse), (0x3B, InvalidDevState), (0x3C, InvalidTdiState),
     (0x3D, DevCertChanged), (0x3E, ResyncRequired), (0x3F, ResponseTooLarge)]"

definition FirmwareError_from_raw :: "u32 \<Rightarrow> firmware_error" where
  "FirmwareError_from_raw code =
     (case map_of firmware_codes code of Some e \<Rightarrow> e | None \<Rightarrow> Unknown code)"

text \<open>The variant's name, which the derived \<^verbatim>\<open>Debug\<close> prints.\<close>

primrec FirmwareError_name :: "firmware_error \<Rightarrow> string" where
  "FirmwareError_name InvalidPlatformState = ''InvalidPlatformState''"
| "FirmwareError_name InvalidGuestState = ''InvalidGuestState''"
| "FirmwareError_name InvalidConfig = ''InvalidConfig''"
| "FirmwareError_name InvalidLen = ''InvalidLen''"
| "FirmwareError_name AlreadyOwned = ''AlreadyOwned''"
| "FirmwareError_name InvalidCertificate = ''InvalidCertificate''"
| "FirmwareError_name PolicyFailure = ''PolicyFailure''"
| "FirmwareError_name Inactive = ''Inactive''"
| "FirmwareError_name InvalidAddress = ''InvalidAddress''"
| "FirmwareError_name BadSignature = ''BadSignature''"
| "FirmwareError_name BadMeasurement = ''BadMeasurement''"
| "FirmwareError_name AsidOwned = ''AsidOwned''"
| "FirmwareError_name InvalidAsid = ''InvalidAsid''"
| "FirmwareError_name WbinvdRequired = ''WbinvdRequired''"
| "FirmwareError_name DfFlushRequired = ''DfFlushRequired''"
| "FirmwareError_name InvalidGuest = ''InvalidGuest''"
| "FirmwareError_name InvalidCommand = ''InvalidCommand''"
| "FirmwareError_name Active = ''Active''"
| "FirmwareError_name HwPlatformError = ''HwPlatformError''"
| "FirmwareError_name HwUnsafe = ''HwUnsafe''"
| "FirmwareError_name Unsupported = ''Unsupported''"
| "FirmwareError_name InvalidParam = ''InvalidParam''"
| "FirmwareError_name ResourceLimit = ''ResourceLimit''"
| "FirmwareError_name SecureDataInvalid = ''SecureDataInvalid''"
| "FirmwareError_name InvalidPageSize = ''InvalidPageSize''"
| "FirmwareError_name InvalidPageState = ''InvalidPageState''"
| "FirmwareError_name InvalidMetadataEntry = ''InvalidMetadataEntry''"
| "FirmwareError_name InvalidPageOwner = ''InvalidPageOwner''"
| "FirmwareError_name AeadOverflow = ''AeadOverflow''"
| "FirmwareError_name ExitRingBuffer = ''ExitRingBuffer''"
| "FirmwareError_name RmpInitRequired = ''RmpInitRequired''"
| "FirmwareError_name BadSvn = ''BadSvn''"
| "FirmwareError_name BadVersion = ''BadVersion''"
| "FirmwareError_name ShutdownRequired = ''ShutdownRequired''"
| "FirmwareError_name UpdateFailed = ''UpdateFailed''"
| "FirmwareError_name RestoreRequired = ''RestoreRequired''"
| "FirmwareError_name RmpInitFailed = ''RmpInitFailed''"
| "FirmwareError_name InvalidKey = ''InvalidKey''"
| "FirmwareError_name ShutdownIncomplete = ''ShutdownIncomplete''"
| "FirmwareError_name IncorrectBufferLength = ''IncorrectBufferLength''"
| "FirmwareError_name ExpandBufferLengthRequest = ''ExpandBufferLengthRequest''"
| "FirmwareError_name SpdmRequest = ''SpdmRequest''"
| "FirmwareError_name SpdmError = ''SpdmError''"
| "FirmwareError_name ErrInDevConn = ''ErrInDevConn''"
| "FirmwareError_name InvalidDevCtx = ''InvalidDevCtx''"
| "FirmwareError_name InvalidTdiCtx = ''InvalidTdiCtx''"
| "FirmwareError_name InvalidTdi = ''InvalidTdi''"
| "FirmwareError_name ReclaimRequired = ''ReclaimRequired''"
| "FirmwareError_name InUse = ''InUse''"
| "FirmwareError_name InvalidDevState = ''InvalidDevState''"
| "FirmwareError_name InvalidTdiState = ''InvalidTdiState''"
| "FirmwareError_name DevCertChanged = ''DevCertChanged''"
| "FirmwareError_name ResyncRequired = ''ResyncRequired''"
| "FirmwareError_name ResponseTooLarge = ''ResponseTooLarge''"
| "FirmwareError_name (Unknown c) = ''Unknown('' @ show_dec (unat c) @ '')''"

definition FirmwareError_display :: "firmware_error \<Rightarrow> string" where
  "FirmwareError_display e =
     (case e of
        Unknown c \<Rightarrow> ''unknown firmware status 0x'' @ zero_pad 2 (show_upper_hex (unat c))
      | other \<Rightarrow> FirmwareError_name other)"

section \<open>Hypervisor status codes\<close>

datatype vmm_error = Vmm_InvalidLen | Vmm_Busy | Vmm_Unknown u32

definition VmmError_from_raw :: "u32 \<Rightarrow> vmm_error" where
  "VmmError_from_raw code =
     (if code = 1 then Vmm_InvalidLen else if code = 2 then Vmm_Busy else Vmm_Unknown code)"

definition VmmError_display :: "vmm_error \<Rightarrow> string" where
  "VmmError_display e =
     (case e of
        Vmm_InvalidLen \<Rightarrow> ''certificate buffer too small''
      | Vmm_Busy \<Rightarrow> ''hypervisor busy, retry''
      | Vmm_Unknown c \<Rightarrow> ''unknown VMM status '' @ show_dec (unat c))"

section \<open>Parse errors and the crate's error type\<close>

text \<open>\<open>TooShort what need got\<close>, and \<open>CertTableTooLarge what limit\<close>.\<close>

datatype parse_error =
    TooShort string nat nat
  | UnsupportedReportVersion u32
  | CertTableOutOfBounds
  | CertTableTooLarge string nat

definition ParseError_display :: "parse_error \<Rightarrow> string" where
  "ParseError_display e =
     (case e of
        TooShort what need got \<Rightarrow>
          what @ '' needs '' @ show_dec need @ '' bytes, got '' @ show_dec got
      | UnsupportedReportVersion v \<Rightarrow>
          ''attestation report version '' @ show_dec (unat v) @ '' is not supported''
      | CertTableOutOfBounds \<Rightarrow> ''certificate table entry points outside the blob''
      | CertTableTooLarge what limit \<Rightarrow>
          ''certificate table '' @ what @ '' exceeds its limit of '' @ show_dec limit)"

datatype error =
    NoBackend
  | Unsupported string
  | InvalidArgument string
  | Firmware firmware_error
  | Vmm vmm_error
  | Parse parse_error
  | Raced
  | Mismatch string
  | WrongProvider string
  | Io io_error

type_synonym 'a result = "error + 'a"

text \<open>\<^verbatim>\<open>Display for Error\<close>; the text of an I/O error is the standard library's, so it is a parameter.\<close>

definition Error_display :: "(io_error \<Rightarrow> string) \<Rightarrow> error \<Rightarrow> string" where
  "Error_display io_display e =
     (case e of
        NoBackend \<Rightarrow>
          ''no SEV-SNP guest interface available (need /dev/sev-guest or configfs-TSM)''
      | Unsupported what \<Rightarrow> ''unsupported by this backend: '' @ what
      | InvalidArgument what \<Rightarrow> ''invalid argument: '' @ what
      | Firmware f \<Rightarrow> ''firmware error: '' @ FirmwareError_display f
      | Vmm v \<Rightarrow> ''hypervisor error: '' @ VmmError_display v
      | Parse p \<Rightarrow> ''malformed response: '' @ ParseError_display p
      | Raced \<Rightarrow> ''concurrent writer detected on configfs report entry''
      | Mismatch what \<Rightarrow> ''response does not match the request: '' @ what
      | WrongProvider name \<Rightarrow> ''configfs-TSM provider is `'' @ name @ ''`, not `sev_guest`''
      | Io i \<Rightarrow> ''io error: '' @ io_display i)"

text \<open>\<^verbatim>\<open>Error::source\<close>: the wrapped cause, where there is one.\<close>

datatype error_source =
    SourceIo io_error
  | SourceParse parse_error
  | SourceFirmware firmware_error
  | SourceVmm vmm_error

definition Error_source :: "error \<Rightarrow> error_source option" where
  "Error_source e =
     (case e of
        Io i \<Rightarrow> Some (SourceIo i)
      | Parse p \<Rightarrow> Some (SourceParse p)
      | Firmware f \<Rightarrow> Some (SourceFirmware f)
      | Vmm v \<Rightarrow> Some (SourceVmm v)
      | _ \<Rightarrow> None)"

section \<open>EXITINFO2\<close>

definition from_exitinfo2 :: "u64 \<Rightarrow> error option" where
  "from_exitinfo2 exitinfo2 =
     (let b = to_le_bytes exitinfo2;
          fw = from_le_bytes [b ! 0, b ! 1, b ! 2, b ! 3] :: u32;
          vmm = from_le_bytes [b ! 4, b ! 5, b ! 6, b ! 7] :: u32
      in if vmm = 0 \<and> fw = 0 then None
         else if vmm = 0 then Some (Firmware (FirmwareError_from_raw fw))
         else Some (Vmm (VmmError_from_raw vmm)))"

section \<open>No status is flattened\<close>

lemma firmware_codes_distinct:
  "distinct (map fst firmware_codes)" "distinct (map snd firmware_codes)"
  by (simp_all add: firmware_codes_def)

lemma firmware_codes_known: "Unknown c \<notin> snd ` set firmware_codes"
  by (simp add: firmware_codes_def)

lemma map_of_firmware_codes_inject:
  assumes "map_of firmware_codes a = Some e" "map_of firmware_codes b = Some e"
  shows "a = b"
proof -
  have "(a, e) \<in> set firmware_codes" "(b, e) \<in> set firmware_codes"
    using assms by (simp_all add: map_of_SomeD)
  then show ?thesis
    using firmware_codes_distinct(2)
      inj_onD [of snd "set firmware_codes" "(a, e)" "(b, e)"] by (simp add: distinct_map)
qed

lemma map_of_firmware_codes_known: "map_of firmware_codes a \<noteq> Some (Unknown c)"
  using firmware_codes_known by (metis image_eqI map_of_SomeD snd_conv)

text \<open>
  C33: interpreting a firmware status loses no information.  Distinct status words give distinct
  \<^verbatim>\<open>FirmwareError\<close> values: no two codes share a name, and a code without a name keeps its value.
\<close>

theorem FirmwareError_from_raw_inject:
  "FirmwareError_from_raw a = FirmwareError_from_raw b \<longleftrightarrow> a = b"
  using map_of_firmware_codes_inject map_of_firmware_codes_known
  by (auto simp: FirmwareError_from_raw_def split: option.splits)

lemma VmmError_from_raw_inject: "VmmError_from_raw a = VmmError_from_raw b \<longleftrightarrow> a = b"
  by (simp add: VmmError_from_raw_def)

lemma u64_halves:
  "(from_le_bytes (take 4 (to_le_bytes (x :: u64))) :: u32) = ucast x"
  "(from_le_bytes (drop 4 (to_le_bytes (x :: u64))) :: u32) = ucast (drop_bit 32 x)"
proof -
  show "(from_le_bytes (take 4 (to_le_bytes x)) :: u32) = ucast x"
  proof (rule bit_word_eqI)
    fix n assume "n < LENGTH(32)"
    then have "n div 8 < 4" "8 * (n div 8) + n mod 8 = n" by auto
    then show "bit (from_le_bytes (take 4 (to_le_bytes x)) :: u32) n = bit (ucast x :: u32) n"
      using \<open>n < LENGTH(32)\<close> by (auto simp: bit_from_le_bytes nth_to_le_bytes bit_simps)
  qed
  show "(from_le_bytes (drop 4 (to_le_bytes x)) :: u32) = ucast (drop_bit 32 x)"
  proof (rule bit_word_eqI)
    fix n assume "n < LENGTH(32)"
    then have "n div 8 < 4" "8 * (4 + n div 8) + n mod 8 = 32 + n" by auto
    then show "bit (from_le_bytes (drop 4 (to_le_bytes x)) :: u32) n
        = bit (ucast (drop_bit 32 x) :: u32) n"
      using \<open>n < LENGTH(32)\<close>
      by (auto simp: bit_from_le_bytes nth_to_le_bytes bit_simps add.commute)
  qed
qed

lemma exitinfo2_words:
  fixes x :: u64
  defines "b \<equiv> to_le_bytes x"
  shows "(from_le_bytes [b ! 0, b ! 1, b ! 2, b ! 3] :: u32) = ucast x"
    "(from_le_bytes [b ! 4, b ! 5, b ! 6, b ! 7] :: u32) = ucast (drop_bit 32 x)"
  using u64_halves [of x] by (simp_all add: b_def to_le_bytes_u64)

lemma u64_zero_iff: "(ucast x :: u32) = 0 \<and> (ucast (drop_bit 32 x) :: u32) = 0 \<longleftrightarrow> (x :: u64) = 0"
proof
  assume z: "(ucast x :: u32) = 0 \<and> (ucast (drop_bit 32 x) :: u32) = 0"
  show "x = 0"
  proof (rule bit_word_eqI)
    fix n assume n: "n < LENGTH(64)"
    have low: "\<not> bit (ucast x :: u32) n" and high: "\<not> bit (ucast (drop_bit 32 x) :: u32) (n - 32)"
      using z by simp_all
    show "bit x n = bit 0 n"
    proof (cases "n < 32")
      case True
      with low show ?thesis by (simp add: bit_simps)
    next
      case False
      with high n show ?thesis by (simp add: bit_simps)
    qed
  qed
qed simp

lemma exitinfo2_split:
  "from_exitinfo2 x =
     (if x = 0 then None
      else if (ucast (drop_bit 32 x) :: u32) \<noteq> 0
        then Some (Vmm (VmmError_from_raw (ucast (drop_bit 32 x))))
      else Some (Firmware (FirmwareError_from_raw (ucast x))))"
  unfolding from_exitinfo2_def Let_def exitinfo2_words
  using u64_zero_iff [of x] by auto

text \<open>
  C34: the split of \<^verbatim>\<open>EXITINFO2\<close>.  The word reports success exactly when it is zero; a non-zero
  upper half is the hypervisor's code whatever the lower half holds, and otherwise the lower
  half is the firmware's status.
\<close>

theorem from_exitinfo2_eq:
  "from_exitinfo2 x =
     (if x = 0 then None
      else if (ucast (drop_bit 32 x) :: u32) \<noteq> 0
        then Some (Vmm (VmmError_from_raw (ucast (drop_bit 32 x))))
      else Some (Firmware (FirmwareError_from_raw (ucast x))))"
  by (rule exitinfo2_split)

end
