(* ===== verification/World.thy ===== *)
theory World
  imports Errors
begin

text \<open>
  The environment the transports run in.  Nothing here is code of the crate: the kernel, the
  file system, the allocator and the clock are the functions of an \<open>'k os\<close> record over an
  arbitrary kernel state, a parameter of every definition that performs I/O.  Each function
  returns a new kernel state, so whatever other processes do between two calls is part of the
  next call.  The \<open>world\<close> record adds what the process itself owns: its memory, the counter
  behind configfs entry names, and a log of the calls made, which the model only appends to and
  never reads.  The combinators are the source's sequencing and its \<^verbatim>\<open>?\<close>; \<open>emits\<close> is the
  relation between an outcome and the calls logged on the way to it.
\<close>

section \<open>The operating system as a parameter\<close>

text \<open>\<^verbatim>\<open>struct snp_guest_request_ioctl\<close> as declared in \<^verbatim>\<open>src/backend/ioctl.rs\<close>.\<close>

record GuestRequestIoctl =
  ioctl_msg_version :: u8
  ioctl_pad :: "u8 list"
  ioctl_req_data :: u64
  ioctl_resp_data :: u64
  ioctl_exitinfo2 :: u64

type_synonym memory = "nat \<Rightarrow> u8"

record 'k os =
  os_is_dir :: "string \<Rightarrow> 'k \<Rightarrow> bool \<times> 'k"
  os_exists :: "string \<Rightarrow> 'k \<Rightarrow> bool \<times> 'k"
  os_create_dir :: "string \<Rightarrow> 'k \<Rightarrow> (io_error + unit) \<times> 'k"
  os_remove_dir :: "string \<Rightarrow> 'k \<Rightarrow> (io_error + unit) \<times> 'k"
  os_open_write :: "string \<Rightarrow> 'k \<Rightarrow> (io_error + nat) \<times> 'k"
  os_open_rw :: "string \<Rightarrow> 'k \<Rightarrow> (io_error + nat) \<times> 'k"
  os_write :: "nat \<Rightarrow> u8 list \<Rightarrow> 'k \<Rightarrow> (io_error + nat) \<times> 'k"
  os_close :: "nat \<Rightarrow> 'k \<Rightarrow> unit \<times> 'k"
  os_read :: "string \<Rightarrow> 'k \<Rightarrow> (io_error + u8 list) \<times> 'k"
  os_ioctl :: "nat \<Rightarrow> u32 \<Rightarrow> GuestRequestIoctl \<Rightarrow> memory \<Rightarrow> 'k \<Rightarrow>
    (int \<times> GuestRequestIoctl \<times> memory) \<times> 'k"
  os_errno :: "'k \<Rightarrow> nat"
  os_pid :: "'k \<Rightarrow> nat"
  os_alloc :: "nat \<Rightarrow> 'k \<Rightarrow> nat \<times> 'k"
  os_sleep :: "nat \<Rightarrow> 'k \<Rightarrow> unit \<times> 'k"
  os_print :: "string \<Rightarrow> 'k \<Rightarrow> (io_error + unit) \<times> 'k"

text \<open>The calls that are logged, with the part of their outcome the theorems speak about.\<close>

datatype event =
    EvIsDir string bool
  | EvExists string bool
  | EvCreateDir string "io_error + unit"
  | EvRemoveDir string
  | EvOpenWrite string "io_error + nat"
  | EvOpenRw string "io_error + nat"
  | EvWrite nat "u8 list" "io_error + nat"
  | EvClose nat
  | EvRead string "io_error + u8 list"
  | EvIoctl nat u32 GuestRequestIoctl
  | EvSleep nat
  | EvPrint string

record 'k world =
  kern :: 'k
  memory :: memory
  counter :: u64
  log :: "event list"

section \<open>Programs\<close>

type_synonym ('k, 'a) io = "'k world \<Rightarrow> 'a \<times> 'k world"

definition io_return :: "'a \<Rightarrow> ('k, 'a) io" where
  "io_return x = (\<lambda>w. (x, w))"

definition io_bind :: "('k, 'a) io \<Rightarrow> ('a \<Rightarrow> ('k, 'b) io) \<Rightarrow> ('k, 'b) io" where
  "io_bind m f = (\<lambda>w. case m w of (x, w1) \<Rightarrow> f x w1)"

text \<open>\<^verbatim>\<open>m?\<close> followed by the rest of the function.\<close>

definition io_try :: "('k, 'e + 'a) io \<Rightarrow> ('a \<Rightarrow> ('k, 'e + 'b) io) \<Rightarrow> ('k, 'e + 'b) io" where
  "io_try m f = io_bind m (\<lambda>r. case r of Inl e \<Rightarrow> io_return (Inl e) | Inr x \<Rightarrow> f x)"

text \<open>\<^verbatim>\<open>?\<close> on a \<^verbatim>\<open>std::io::Result\<close>, through \<^verbatim>\<open>From<std::io::Error> for Error\<close>.\<close>

definition from_io :: "io_error + 'a \<Rightarrow> 'a result" where
  "from_io r = (case r of Inl e \<Rightarrow> Inl (Io e) | Inr x \<Rightarrow> Inr x)"

definition io_try_os :: "('k, io_error + 'a) io \<Rightarrow> ('a \<Rightarrow> ('k, 'b result) io) \<Rightarrow> ('k, 'b result) io"
  where "io_try_os m f = io_try (io_bind m (\<lambda>r. io_return (from_io r))) f"

lemma from_io_simps [simp]: "from_io (Inl e) = Inl (Io e)" "from_io (Inr x) = Inr x"
  by (simp_all add: from_io_def)

lemma from_io_iffs [result_simps]:
  "from_io r = Inr x \<longleftrightarrow> r = Inr x" "from_io r = Inl e \<longleftrightarrow> (\<exists>i. r = Inl i \<and> e = Io i)"
  by (cases r; auto)+

lemma io_return_apply [simp]: "io_return x w = (x, w)"
  by (simp add: io_return_def)

lemma io_bind_eq_iff [result_simps]:
  "io_bind m f w = (r, w') \<longleftrightarrow> (\<exists>x w1. m w = (x, w1) \<and> f x w1 = (r, w'))"
  by (auto simp: io_bind_def split: prod.splits)

lemma io_try_Inr_iff [result_simps]:
  "io_try m f w = (Inr y, w') \<longleftrightarrow> (\<exists>x w1. m w = (Inr x, w1) \<and> f x w1 = (Inr y, w'))"
  by (auto simp: io_try_def io_bind_def split: prod.splits sum.splits)

lemma io_try_Inl_iff [result_simps]:
  "io_try m f w = (Inl e, w') \<longleftrightarrow>
     m w = (Inl e, w') \<or> (\<exists>x w1. m w = (Inr x, w1) \<and> f x w1 = (Inl e, w'))"
  by (auto simp: io_try_def io_bind_def split: prod.splits sum.splits)

lemma io_try_os_Inr_iff [result_simps]:
  "io_try_os m f w = (Inr y, w') \<longleftrightarrow> (\<exists>x w1. m w = (Inr x, w1) \<and> f x w1 = (Inr y, w'))"
  by (auto simp: io_try_os_def result_simps)

lemma io_try_os_Inl_iff [result_simps]:
  "io_try_os m f w = (Inl e, w') \<longleftrightarrow>
     (\<exists>i. m w = (Inl i, w') \<and> e = Io i) \<or> (\<exists>x w1. m w = (Inr x, w1) \<and> f x w1 = (Inl e, w'))"
  by (auto simp: io_try_os_def result_simps)

text \<open>Evaluation, when the first action's outcome is known.\<close>

lemma io_bind_apply: "m w = (x, w1) \<Longrightarrow> io_bind m f w = f x w1"
  by (simp add: io_bind_def)

lemma io_try_Inr: "m w = (Inr x, w1) \<Longrightarrow> io_try m f w = f x w1"
  by (simp add: io_try_def io_bind_def)

lemma io_try_Inl: "m w = (Inl e, w1) \<Longrightarrow> io_try m f w = (Inl e, w1)"
  by (simp add: io_try_def io_bind_def)

lemma io_try_os_Inr: "m w = (Inr x, w1) \<Longrightarrow> io_try_os m f w = f x w1"
  by (simp add: io_try_os_def io_try_def io_bind_def)

lemma io_try_os_Inl: "m w = (Inl e, w1) \<Longrightarrow> io_try_os m f w = (Inl (Io e), w1)"
  by (simp add: io_try_os_def io_try_def io_bind_def)

lemma io_try_return [simp]:
  "io_try (io_return (Inr x)) f = f x" "io_try (io_return (Inl e)) f = io_return (Inl e)"
  by (auto simp: io_try_def io_bind_def)

section \<open>Calls\<close>

definition syscall :: "('k \<Rightarrow> 'a \<times> 'k) \<Rightarrow> ('a \<Rightarrow> event) \<Rightarrow> ('k, 'a) io" where
  "syscall f ev = (\<lambda>w. case f (kern w) of (x, k) \<Rightarrow> (x, w\<lparr>kern := k, log := log w @ [ev x]\<rparr>))"

definition path_is_dir :: "'k os \<Rightarrow> string \<Rightarrow> ('k, bool) io" where
  "path_is_dir os p = syscall (os_is_dir os p) (EvIsDir p)"

definition path_exists :: "'k os \<Rightarrow> string \<Rightarrow> ('k, bool) io" where
  "path_exists os p = syscall (os_exists os p) (EvExists p)"

definition create_dir :: "'k os \<Rightarrow> string \<Rightarrow> ('k, io_error + unit) io" where
  "create_dir os p = syscall (os_create_dir os p) (EvCreateDir p)"

definition remove_dir :: "'k os \<Rightarrow> string \<Rightarrow> ('k, io_error + unit) io" where
  "remove_dir os p = syscall (os_remove_dir os p) (\<lambda>_. EvRemoveDir p)"

definition open_write :: "'k os \<Rightarrow> string \<Rightarrow> ('k, io_error + nat) io" where
  "open_write os p = syscall (os_open_write os p) (EvOpenWrite p)"

definition open_rw :: "'k os \<Rightarrow> string \<Rightarrow> ('k, io_error + nat) io" where
  "open_rw os p = syscall (os_open_rw os p) (EvOpenRw p)"

definition file_write :: "'k os \<Rightarrow> nat \<Rightarrow> u8 list \<Rightarrow> ('k, io_error + nat) io" where
  "file_write os fd bs = syscall (os_write os fd bs) (EvWrite fd bs)"

definition file_close :: "'k os \<Rightarrow> nat \<Rightarrow> ('k, unit) io" where
  "file_close os fd = syscall (os_close os fd) (\<lambda>_. EvClose fd)"

definition fs_read :: "'k os \<Rightarrow> string \<Rightarrow> ('k, io_error + u8 list) io" where
  "fs_read os p = syscall (os_read os p) (EvRead p)"

definition thread_sleep :: "'k os \<Rightarrow> nat \<Rightarrow> ('k, unit) io" where
  "thread_sleep os ms = syscall (os_sleep os ms) (\<lambda>_. EvSleep ms)"

definition print_text :: "'k os \<Rightarrow> string \<Rightarrow> ('k, io_error + unit) io" where
  "print_text os s = syscall (os_print os s) (\<lambda>_. EvPrint s)"

text \<open>\<^verbatim>\<open>std::fs::read_to_string\<close>: the bytes must be UTF-8.\<close>

definition utf8_text :: "u8 list \<Rightarrow> io_error + string" where
  "utf8_text bs =
     (if utf8_valid bs then Inr (string_of_bytes bs)
      else Inl (CustomError InvalidData ''stream did not contain valid UTF-8''))"

definition read_to_string :: "'k os \<Rightarrow> string \<Rightarrow> ('k, io_error + string) io" where
  "read_to_string os p = io_try (fs_read os p) (\<lambda>bs. io_return (utf8_text bs))"

text \<open>\<^verbatim>\<open>Path::join\<close> of a relative name.\<close>

definition path_join :: "string \<Rightarrow> string \<Rightarrow> string" where
  "path_join p name = (if p = [] \<or> last p = CHR ''/'' then p @ name else p @ ''/'' @ name)"

section \<open>Memory\<close>

text \<open>A buffer is its address and length; its contents are in the process's memory.\<close>

definition mem_bytes :: "memory \<Rightarrow> nat \<Rightarrow> nat \<Rightarrow> u8 list" where
  "mem_bytes m a n = map (\<lambda>i. m (a + i)) [0..<n]"

definition mem_store :: "nat \<Rightarrow> u8 list \<Rightarrow> memory \<Rightarrow> memory" where
  "mem_store a bs m = (\<lambda>x. if a \<le> x \<and> x < a + length bs then bs ! (x - a) else m x)"

definition buffer_new :: "'k os \<Rightarrow> u8 list \<Rightarrow> ('k, nat) io" where
  "buffer_new os bs =
     (\<lambda>w. case os_alloc os (length bs) (kern w) of
        (a, k) \<Rightarrow> (a, w\<lparr>kern := k, memory := mem_store a bs (memory w)\<rparr>))"

definition buffer_set :: "nat \<Rightarrow> u8 list \<Rightarrow> ('k, unit) io" where
  "buffer_set a bs = (\<lambda>w. ((), w\<lparr>memory := mem_store a bs (memory w)\<rparr>))"

definition buffer_get :: "nat \<Rightarrow> nat \<Rightarrow> ('k, u8 list) io" where
  "buffer_get a n = (\<lambda>w. (mem_bytes (memory w) a n, w))"

text \<open>\<^verbatim>\<open>u64::try_from\<close> on an address.\<close>

definition u64_try_from :: "nat \<Rightarrow> u64 option" where
  "u64_try_from n = (if n < 2 ^ 64 then Some (of_nat n) else None)"

lemma length_mem_bytes [simp]: "length (mem_bytes m a n) = n"
  by (simp add: mem_bytes_def)

lemma mem_bytes_store [simp]: "mem_bytes (mem_store a bs m) a (length bs) = bs"
  by (rule nth_equalityI) (simp_all add: mem_bytes_def mem_store_def)

lemma mem_bytes_store_other:
  "a + n \<le> b \<or> b + length bs \<le> a \<Longrightarrow> mem_bytes (mem_store b bs m) a n = mem_bytes m a n"
  by (auto simp: mem_bytes_def mem_store_def)

lemma mem_bytes_slice:
  "i + m \<le> n \<Longrightarrow> take m (drop i (mem_bytes mem a n)) = mem_bytes mem (a + i) m"
  by (rule nth_equalityI) (simp_all add: mem_bytes_def add.assoc)

section \<open>What an action logs\<close>

definition emits :: "('k, 'a) io \<Rightarrow> ('a \<Rightarrow> event list \<Rightarrow> bool) \<Rightarrow> bool" where
  "emits m Q \<longleftrightarrow> (\<forall>w x w'. m w = (x, w') \<longrightarrow> (\<exists>evs. log w' = log w @ evs \<and> Q x evs))"

lemma emitsI: "(\<And>w x w'. m w = (x, w') \<Longrightarrow> \<exists>evs. log w' = log w @ evs \<and> Q x evs) \<Longrightarrow> emits m Q"
  by (simp add: emits_def)

lemma emitsD: "emits m Q \<Longrightarrow> m w = (x, w') \<Longrightarrow> \<exists>evs. log w' = log w @ evs \<and> Q x evs"
  by (simp add: emits_def)

lemma emits_mono: "emits m Q \<Longrightarrow> (\<And>x evs. Q x evs \<Longrightarrow> R x evs) \<Longrightarrow> emits m R"
  unfolding emits_def by metis

lemma emits_return [simp]: "emits (io_return x) Q \<longleftrightarrow> Q x []"
  by (auto simp: emits_def io_return_def)

lemma emits_syscall: "(\<And>x. Q x [ev x]) \<Longrightarrow> emits (syscall f ev) Q"
  by (auto simp: emits_def syscall_def split: prod.splits)

lemma emits_syscall_exact: "emits (syscall f ev) (\<lambda>x evs. evs = [ev x])"
  by (rule emits_syscall) simp

lemma emits_bind:
  assumes "emits m P" "\<And>x es. P x es \<Longrightarrow> emits (f x) (\<lambda>y fs. Q y (es @ fs))"
  shows "emits (io_bind m f) Q"
proof (rule emitsI)
  fix w y w'
  assume "io_bind m f w = (y, w')"
  then obtain x w1 where m: "m w = (x, w1)" and f: "f x w1 = (y, w')"
    by (auto simp: io_bind_eq_iff)
  from assms(1) m obtain es where es: "log w1 = log w @ es" "P x es"
    by (blast dest: emitsD)
  from assms(2) [OF es(2)] f obtain fs where "log w' = log w1 @ fs" "Q y (es @ fs)"
    by (blast dest: emitsD)
  with es(1) show "\<exists>evs. log w' = log w @ evs \<and> Q y evs" by auto
qed

lemma emits_try:
  assumes "emits m P" "\<And>e es. P (Inl e) es \<Longrightarrow> Q (Inl e) es"
    "\<And>x es. P (Inr x) es \<Longrightarrow> emits (f x) (\<lambda>y fs. Q y (es @ fs))"
  shows "emits (io_try m f) Q"
  unfolding io_try_def
  by (rule emits_bind [OF assms(1)]) (auto split: sum.splits intro: assms(2,3))

lemma emits_try_os:
  assumes "emits m P" "\<And>i es. P (Inl i) es \<Longrightarrow> Q (Inl (Io i)) es"
    "\<And>x es. P (Inr x) es \<Longrightarrow> emits (f x) (\<lambda>y fs. Q y (es @ fs))"
  shows "emits (io_try_os m f) Q"
  unfolding io_try_os_def
proof (rule emits_try)
  show "emits (io_bind m (\<lambda>r. io_return (from_io r))) (\<lambda>r es. \<exists>r0. P r0 es \<and> from_io r0 = r)"
    by (rule emits_bind [OF assms(1)]) auto
qed (auto simp: result_simps intro: assms(2,3))

lemma emits_memory:
  "Q () [] \<Longrightarrow> emits (buffer_set a bs) Q"
  "(\<And>bs. length bs = n \<Longrightarrow> R bs []) \<Longrightarrow> emits (buffer_get a n) R"
  "(\<And>a. S a []) \<Longrightarrow> emits (buffer_new os bs) S"
  by (auto simp: emits_def buffer_set_def buffer_get_def buffer_new_def split: prod.splits)

lemmas syscall_defs = path_is_dir_def path_exists_def create_dir_def remove_dir_def
  open_write_def open_rw_def file_write_def file_close_def fs_read_def thread_sleep_def
  print_text_def

end
