(* ===== verification/Tcb.thy ===== *)
theory Tcb
  imports Std
begin

text \<open>
  \<^verbatim>\<open>src/tcb.rs\<close>: processor identification and the \<^verbatim>\<open>TCB_VERSION\<close> word, whose layout depends
  on the processor generation.  The lemmas give the round trips of both encodings
  (\<^verbatim>\<open>CPUID(1).EAX\<close> and \<^verbatim>\<open>TCB_VERSION\<close>) with exactly the bits each of them keeps, and the family
  rule that selects the layout.
\<close>

section \<open>Family, model, stepping\<close>

record Fms =
  family :: u8
  model :: u8
  stepping :: u8

definition Fms_new :: "u8 \<Rightarrow> u8 \<Rightarrow> u8 \<Rightarrow> Fms" where
  "Fms_new f m s = \<lparr>family = f, model = m, stepping = s\<rparr>"

definition to_cpuid_1_eax :: "Fms \<Rightarrow> u32" where
  "to_cpuid_1_eax self =
     (let fam = widen (family self);
          modl = widen (model self);
          (base_family, ext_family) = (if 0xF \<le> fam then (0xF, fam - 0xF) else (fam, 0))
      in wrapping_shl ext_family 20
         OR wrapping_shl (wrapping_shr modl 4) 16
         OR wrapping_shl base_family 8
         OR wrapping_shl (modl AND 0xF) 4
         OR (widen (stepping self) AND 0xF))"

definition from_cpuid_1_eax :: "u32 \<Rightarrow> Fms" where
  "from_cpuid_1_eax eax =
     (let base_family = low_byte (wrapping_shr eax 8 AND 0xF);
          ext_family = low_byte (wrapping_shr eax 20 AND 0xFF);
          fam = (if base_family = 0xF then base_family + ext_family else base_family);
          modl = low_byte ((wrapping_shr eax 12 AND 0xF0) OR (wrapping_shr eax 4 AND 0xF))
      in Fms_new fam modl (low_byte (eax AND 0xF)))"

definition Fms_display :: "Fms \<Rightarrow> string" where
  "Fms_display f =
     ''family '' @ show_alt_hex 4 (unat (family f)) @ '' model '' @ show_alt_hex 4 (unat (model f))
     @ '' stepping '' @ show_dec (unat (stepping f))"

section \<open>Products\<close>

datatype product = Milan | Genoa | Bergamo | Turin | UnknownProduct Fms

datatype tcb_layout = Legacy | TurinLayout

definition Product_from_fms :: "Fms \<Rightarrow> product" where
  "Product_from_fms fms =
     (if family fms = 0x19 \<and> model fms \<le> 0x0F then Milan
      else if family fms = 0x19 \<and> 0x10 \<le> model fms \<and> model fms \<le> 0x1F then Genoa
      else if family fms = 0x19 \<and> 0xA0 \<le> model fms \<and> model fms \<le> 0xAF then Bergamo
      else if family fms = 0x1A then Turin
      else UnknownProduct fms)"

definition Product_tcb_layout :: "product \<Rightarrow> tcb_layout" where
  "Product_tcb_layout p =
     (case p of
        Milan \<Rightarrow> Legacy | Genoa \<Rightarrow> Legacy | Bergamo \<Rightarrow> Legacy
      | Turin \<Rightarrow> TurinLayout
      | UnknownProduct fms \<Rightarrow> (if 0x1A \<le> family fms then TurinLayout else Legacy))"

definition kds_name :: "product \<Rightarrow> string option" where
  "kds_name p =
     (case p of
        Milan \<Rightarrow> Some ''Milan'' | Genoa \<Rightarrow> Some ''Genoa'' | Bergamo \<Rightarrow> Some ''Bergamo''
      | Turin \<Rightarrow> Some ''Turin'' | UnknownProduct _ \<Rightarrow> None)"

definition Product_display :: "product \<Rightarrow> string" where
  "Product_display p =
     (case p of
        UnknownProduct fms \<Rightarrow> ''unknown product ('' @ Fms_display fms @ '')''
      | Milan \<Rightarrow> ''Milan'' | Genoa \<Rightarrow> ''Genoa'' | Bergamo \<Rightarrow> ''Bergamo'' | Turin \<Rightarrow> ''Turin'')"

section \<open>TCB versions\<close>

datatype TcbVersion = TcbVersion (raw: u64)

definition TcbVersion_from_raw :: "u64 \<Rightarrow> TcbVersion" where
  "TcbVersion_from_raw r = TcbVersion r"

definition TcbVersion_raw :: "TcbVersion \<Rightarrow> u64" where
  "TcbVersion_raw v = raw v"

record TcbParts =
  fmc :: "u8 option"
  bootloader :: u8
  tee :: u8
  snp :: u8
  microcode :: u8

definition decode :: "TcbVersion \<Rightarrow> product \<Rightarrow> TcbParts" where
  "decode v p =
     (let b = to_le_bytes (raw v) in
      case Product_tcb_layout p of
        Legacy \<Rightarrow>
          \<lparr>fmc = None, bootloader = b ! 0, tee = b ! 1, snp = b ! 6, microcode = b ! 7\<rparr>
      | TurinLayout \<Rightarrow>
          \<lparr>fmc = Some (b ! 0), bootloader = b ! 1, tee = b ! 2, snp = b ! 3, microcode = b ! 7\<rparr>)"

definition encode :: "TcbParts \<Rightarrow> product \<Rightarrow> TcbVersion" where
  "encode self p =
     (let bytes =
        (case Product_tcb_layout p of
           Legacy \<Rightarrow> [bootloader self, tee self, 0, 0, 0, 0, snp self, microcode self]
         | TurinLayout \<Rightarrow>
             (let f = (case fmc self of Some v \<Rightarrow> v | None \<Rightarrow> 0)
              in [f, bootloader self, tee self, snp self, 0, 0, 0, microcode self]))
      in TcbVersion (from_le_bytes bytes))"

definition TcbVersion_display :: "TcbVersion \<Rightarrow> string" where
  "TcbVersion_display v = show_alt_hex 18 (unat (raw v))"

definition TcbParts_display :: "TcbParts \<Rightarrow> string" where
  "TcbParts_display p =
     (case fmc p of Some f \<Rightarrow> ''fmc='' @ show_dec (unat f) @ '' '' | None \<Rightarrow> [])
     @ ''bootloader='' @ show_dec (unat (bootloader p)) @ '' tee='' @ show_dec (unat (tee p))
     @ '' snp='' @ show_dec (unat (snp p)) @ '' microcode='' @ show_dec (unat (microcode p))"

text \<open>The derived order of \<^verbatim>\<open>TcbVersion\<close> is that of the raw word.\<close>

instantiation TcbVersion :: linorder
begin

definition less_eq_TcbVersion :: "TcbVersion \<Rightarrow> TcbVersion \<Rightarrow> bool" where
  "less_eq_TcbVersion a b \<longleftrightarrow> raw a \<le> raw b"

definition less_TcbVersion :: "TcbVersion \<Rightarrow> TcbVersion \<Rightarrow> bool" where
  "less_TcbVersion a b \<longleftrightarrow> raw a < raw b"

instance
  by standard (auto simp: less_eq_TcbVersion_def less_TcbVersion_def intro: TcbVersion.expand)

end

section \<open>The bits of CPUID(1).EAX\<close>

text \<open>The word assembled from a base family nibble, an extended family, a model and a stepping.\<close>

definition cpuid_word :: "u8 \<Rightarrow> u8 \<Rightarrow> u8 \<Rightarrow> u8 \<Rightarrow> u32" where
  "cpuid_word b e m s =
     push_bit 20 (ucast e) OR push_bit 16 (ucast (drop_bit 4 m)) OR push_bit 8 (ucast b)
     OR push_bit 4 (ucast (take_bit 4 m)) OR ucast (take_bit 4 s)"

lemma cpuid_word_parts:
  assumes "take_bit 4 b = b"
  shows "ucast (drop_bit 8 (cpuid_word b e m s) AND 0xF) = b"
    "ucast (drop_bit 20 (cpuid_word b e m s) AND 0xFF) = e"
    "ucast ((drop_bit 12 (cpuid_word b e m s) AND 0xF0) OR (drop_bit 4 (cpuid_word b e m s) AND 0xF))
       = m"
    "ucast (cpuid_word b e m s AND 0xF) = take_bit 4 s"
proof -
  have b: "bit b n \<Longrightarrow> n < 4" for n
    using assms by (metis bit_take_bit_iff)
  then have nibble: "\<not> bit b 4" "\<not> bit b 5" "\<not> bit b 6" "\<not> bit b 7"
    by fastforce+
  show "ucast (drop_bit 8 (cpuid_word b e m s) AND 0xF) = b"
    by (rule word_eq_all_bits)
      (simp add: cpuid_word_def and_masks bit_simps bit_beyond nibble upt_8)
  show "ucast (drop_bit 20 (cpuid_word b e m s) AND 0xFF) = e"
    by (rule word_eq_all_bits)
      (simp add: cpuid_word_def and_masks bit_simps bit_beyond nibble upt_8)
  show "ucast (cpuid_word b e m s AND 0xF) = take_bit 4 s"
    by (rule word_eq_all_bits)
      (simp add: cpuid_word_def and_masks bit_simps bit_beyond nibble upt_8)
  show "ucast ((drop_bit 12 (cpuid_word b e m s) AND 0xF0) OR (drop_bit 4 (cpuid_word b e m s) AND 0xF))
       = m"
    by (rule word_eq_all_bits)
      (simp add: cpuid_word_def and_masks and_0xF0 bit_simps bit_beyond nibble upt_8)
qed

lemma to_cpuid_1_eax_word:
  "to_cpuid_1_eax f =
     cpuid_word (if 0xF \<le> family f then 0xF else family f)
       (if 0xF \<le> family f then family f - 0xF else 0) (model f) (stepping f)"
proof -
  have le: "0xF \<le> widen b \<longleftrightarrow> 0xF \<le> b" for b
    by (simp add: word_le_nat_alt)
  have sub: "widen b - 0xF = widen (b - 0xF)" if "0xF \<le> b" for b
    using that by (simp add: word_unat_eq_iff word_le_nat_alt unat_sub le)
  have model: "wrapping_shl (wrapping_shr (widen m) 4) 16 = push_bit 16 (widen (drop_bit 4 m))"
    for m
    by (rule bit_word_eqI)
      (auto simp: wrapping_shl_def wrapping_shr_def widen_ucast and_masks bit_simps)
  have step: "widen s AND 0xF = widen (take_bit 4 s)" for s
    by (rule bit_word_eqI) (auto simp: widen_ucast and_masks bit_simps)
  have shl: "wrapping_shl w 20 = push_bit 20 w" "wrapping_shl w 8 = push_bit 8 w"
    "wrapping_shl w 4 = push_bit 4 w" for w :: u32
    by (simp_all add: wrapping_shl_def)
  have const_words: "widen 0xF = 0xF" "widen 0 = 0"
    by (simp_all add: widen_ucast)
  show ?thesis
    unfolding to_cpuid_1_eax_def Let_def le model step
    by (simp add: sub shl cpuid_word_def const_words flip: widen_ucast)
qed

text \<open>
  Encoding a processor identification as \<^verbatim>\<open>CPUID(1).EAX\<close> and decoding it again returns the
  same family and model for every value, and the low four bits of the stepping: the identity
  exactly on the steppings the register can hold.
\<close>

lemma from_cpuid_to_cpuid:
  "from_cpuid_1_eax (to_cpuid_1_eax f) = f\<lparr>stepping := take_bit 4 (stepping f)\<rparr>"
proof -
  define b where "b = (if 0xF \<le> family f then 0xF else family f)"
  define e where "e = (if 0xF \<le> family f then family f - 0xF else 0)"
  have small: "take_bit 4 b = b"
    by (rule take_bit_small) (simp add: b_def word_le_nat_alt)
  have fam: "(if b = 0xF then b + e else b) = family f"
    by (auto simp: b_def e_def)
  have w: "to_cpuid_1_eax f = cpuid_word b e (model f) (stepping f)"
    by (simp add: to_cpuid_1_eax_word b_def e_def)
  show ?thesis
    using fam by (simp add: w from_cpuid_1_eax_def Fms_new_def Let_def low_byte_ucast
        wrapping_shr_def cpuid_word_parts [OF small])
qed

lemma cpuid_word_of_slices:
  fixes eax :: u32
  defines "b \<equiv> ucast (take_bit 4 (drop_bit 8 eax)) :: u8"
    and "m \<equiv> ucast ((drop_bit 12 eax AND 0xF0) OR (drop_bit 4 eax AND 0xF)) :: u8"
  shows "cpuid_word b (ucast (drop_bit 20 eax)) m (ucast eax) = eax AND 0x0FFF0FFF"
    and "cpuid_word b 0 m (ucast eax) = eax AND 0x000F0FFF"
  by (rule word_eq_all_bits,
      simp add: cpuid_word_def b_def m_def and_masks and_0xF0 bit_simps upt_32)+

lemma from_cpuid_1_eax_fields:
  fixes eax :: u32
  defines "b \<equiv> ucast (take_bit 4 (drop_bit 8 eax)) :: u8"
  shows "family (from_cpuid_1_eax eax) = (if b = 0xF then b + ucast (drop_bit 20 eax) else b)"
    "model (from_cpuid_1_eax eax) = ucast ((drop_bit 12 eax AND 0xF0) OR (drop_bit 4 eax AND 0xF))"
    "stepping (from_cpuid_1_eax eax) = ucast (take_bit 4 eax)"
proof -
  have "(ucast (take_bit 8 (drop_bit 20 eax)) :: u8) = ucast (drop_bit 20 eax)"
    by (rule bit_word_eqI) (auto simp: bit_simps)
  then show "family (from_cpuid_1_eax eax) = (if b = 0xF then b + ucast (drop_bit 20 eax) else b)"
    unfolding b_def
    by (simp add: from_cpuid_1_eax_def Fms_new_def low_byte_ucast wrapping_shr_def Let_def
        and_masks(2,4))
qed (simp_all add: from_cpuid_1_eax_def Fms_new_def low_byte_ucast wrapping_shr_def Let_def
    and_masks(2))

lemma cpuid_word_stepping [simp]:
  "cpuid_word b e m (ucast (take_bit 4 eax)) = cpuid_word b e m (ucast (eax :: u32))"
proof -
  have "take_bit 4 (ucast (take_bit 4 eax) :: u8) = take_bit 4 (ucast eax)"
    by (rule bit_word_eqI) (auto simp: bit_simps)
  then show ?thesis by (simp add: cpuid_word_def)
qed

lemma wrapped_family_word:
  fixes eax :: u32
  defines "m \<equiv> ucast ((drop_bit 12 eax AND 0xF0) OR (drop_bit 4 eax AND 0xF)) :: u8"
  assumes "take_bit 4 f = f"
  shows "cpuid_word f 0 m (ucast eax) = (eax AND 0x000F00FF) OR push_bit 8 (ucast f)"
proof -
  have "bit f n \<Longrightarrow> n < 4" for n
    using assms(2) by (metis bit_take_bit_iff)
  then have nibble: "\<not> bit f 4" "\<not> bit f 5" "\<not> bit f 6" "\<not> bit f 7"
    by fastforce+
  show ?thesis
    by (rule word_eq_all_bits)
      (simp add: cpuid_word_def m_def and_masks and_0xF0 bit_simps bit_beyond nibble upt_32)
qed

text \<open>
  C35: decoding a \<^verbatim>\<open>CPUID(1).EAX\<close> value and encoding it again, for every value.  Where the base
  family is not Fh the extended family does not count and is dropped with the reserved bits;
  where it is, every identification bit is kept and only the reserved ones are cleared, as long as
  the combined family fits its byte.  From an extended family of F1h on the 8-bit addition
  wraps, and what comes back is the processor of the small family that is left: the extended
  family and the base family are lost.
\<close>

theorem to_cpuid_from_cpuid:
  "to_cpuid_1_eax (from_cpuid_1_eax eax) =
     (let base = drop_bit 8 eax AND 0xF; ext = drop_bit 20 eax AND 0xFF in
      if base \<noteq> 0xF then eax AND 0x000F0FFF
      else if ext \<le> 0xF0 then eax AND 0x0FFF0FFF
      else (eax AND 0x000F00FF) OR push_bit 8 (ext - 0xF1))"
proof -
  define b where "b = (ucast (take_bit 4 (drop_bit 8 eax)) :: u8)"
  define e where "e = (ucast (drop_bit 20 eax) :: u8)"
  note parts = from_cpuid_1_eax_fields [of eax, folded b_def e_def]
  note slices = cpuid_word_of_slices [of eax, folded b_def e_def]
  have "unat b = unat (take_bit 4 (drop_bit 8 eax))"
    by (simp add: b_def unsigned_ucast_eq unsigned_take_bit_eq)
  then have b_eq: "drop_bit 8 eax AND 0xF = 0xF \<longleftrightarrow> b = 0xF"
    by (simp add: word_unat_eq_iff and_masks)
  have b_less: "unat b < 16"
    by (simp add: b_def unsigned_ucast_eq unsigned_take_bit_eq take_bit_nat_less_exp [of 4, simplified])
  have ext: "drop_bit 20 eax AND 0xFF = ucast e"
    by (rule bit_word_eqI) (auto simp: e_def and_masks bit_simps)
  have unat_small: "unat (ucast x :: u32) = unat x" for x :: u8
    using unsigned_less [where 'a = nat and w = x] by (simp add: unsigned_ucast_eq take_bit_nat_eq_self)
  have ext_le: "drop_bit 20 eax AND 0xFF \<le> 0xF0 \<longleftrightarrow> unat e \<le> 0xF0"
    unfolding ext by (simp add: word_le_nat_alt unat_small)
  consider (plain) "b \<noteq> 0xF" | (extended) "b = 0xF" "unat e \<le> 0xF0" | (wrapped) "b = 0xF" "0xF0 < unat e"
    by linarith
  then show ?thesis
  proof cases
    case plain
    then have "\<not> 0xF \<le> b"
      using b_less by (simp add: word_le_nat_alt word_unat_eq_iff)
    then show ?thesis
      using plain slices(2) by (simp add: b_eq Let_def to_cpuid_1_eax_word parts)
  next
    case extended
    then have "unat (0xF + e) = 0xF + unat e"
      by (subst unat_add_lem [THEN iffD1]) simp_all
    then have "0xF \<le> 0xF + e"
      by (simp add: word_le_nat_alt)
    then show ?thesis
      using extended slices(1) by (simp add: b_eq ext_le Let_def to_cpuid_1_eax_word parts)
  next
    case wrapped
    define f where "f = 0xF + e"
    have f: "f = e - 0xF1" by (simp add: f_def)
    have above: "0xF1 \<le> e" using wrapped(2) by (simp add: word_le_nat_alt)
    have small: "unat f = unat e - 0xF1"
      using unat_sub [OF above] by (simp add: f)
    then have "\<not> 0xF \<le> f" using unsigned_less [where 'a = nat and w = e] by (simp add: word_le_nat_alt)
    moreover have "take_bit 4 f = f"
      using small unsigned_less [where 'a = nat and w = e] by (intro take_bit_small) simp
    moreover have "0xF1 \<le> (ucast e :: u32)"
      using above by (simp add: word_le_nat_alt unat_small)
    then have "(ucast f :: u32) = ucast e - 0xF1"
      using small by (simp add: word_unat_eq_iff unat_small unat_sub)
    ultimately show ?thesis
      using wrapped wrapped_family_word [of f eax]
      by (simp add: b_eq ext_le [unfolded ext] ext Let_def to_cpuid_1_eax_word parts f_def)
  qed
qed

lemma to_cpuid_from_cpuid_values:
  "to_cpuid_1_eax (from_cpuid_1_eax 0x10A00F11) = 0x00A00F11"
  "to_cpuid_1_eax (from_cpuid_1_eax 0x0F100F00) = 0"
  by code_simp+

lemma tcb_layout_by_family:
  "Product_tcb_layout (Product_from_fms f) = (if 0x1A \<le> family f then TurinLayout else Legacy)"
  by (auto simp: Product_tcb_layout_def Product_from_fms_def)

text \<open>
  The layout of \<^verbatim>\<open>TCB_VERSION\<close> is decided by the family alone: from 1Ah on it is the Zen 5
  layout, before it the legacy one, also for processors the crate has no name for.
\<close>

lemma tcb_layout_from_fms:
  "Product_tcb_layout (Product_from_fms f) = (if 0x1A \<le> family f then TurinLayout else Legacy)"
  by (rule tcb_layout_by_family)

section \<open>Round trips of TCB\_VERSION\<close>

text \<open>The bytes of the word that a layout has no slot for.\<close>

definition tcb_reserved :: "tcb_layout \<Rightarrow> nat set" where
  "tcb_reserved l = (case l of Legacy \<Rightarrow> {2, 3, 4, 5} | TurinLayout \<Rightarrow> {4, 5, 6})"

text \<open>What a layout can hold of \<^verbatim>\<open>TcbParts\<close>: a legacy word has no \<^verbatim>\<open>fmc\<close>, a Zen 5 word always has one.\<close>

definition tcb_canonical :: "tcb_layout \<Rightarrow> TcbParts \<Rightarrow> TcbParts" where
  "tcb_canonical l p =
     p\<lparr>fmc := (case l of Legacy \<Rightarrow> None | TurinLayout \<Rightarrow> Some (unwrap_or (fmc p) 0))\<rparr>"

lemma decode_encode_eq: "decode (encode p q) q = tcb_canonical (Product_tcb_layout q) p"
  by (cases "Product_tcb_layout q"; cases "fmc p")
    (simp_all add: decode_def encode_def le64.enc_dec tcb_canonical_def)

text \<open>
  C29: encoding named security versions and decoding them for the same product gives them back;
  \<^verbatim>\<open>fmc\<close> is dropped on a legacy product, where it has no slot, and never lands in another field.
\<close>

theorem decode_encode:
  "decode (encode p q) q = tcb_canonical (Product_tcb_layout q) p"
  by (rule decode_encode_eq)

lemma tcb_encode_decode_byte:
  assumes "i < 8"
  shows "to_le_bytes (raw (encode (decode v q) q)) ! i =
     (if i \<in> tcb_reserved (Product_tcb_layout q) then 0 else to_le_bytes (raw v) ! i)"
proof -
  have "i \<in> {0, 1, 2, 3, 4, 5, 6, 7}" using assms by auto
  then show ?thesis
    by (cases "Product_tcb_layout q")
      (auto simp: decode_def encode_def le64.enc_dec tcb_reserved_def Let_def)
qed

lemma tcb_bytes_kept:
  "i < 8 \<Longrightarrow> i \<notin> tcb_reserved (Product_tcb_layout q) \<Longrightarrow>
   to_le_bytes (raw (encode (decode v q) q)) ! i = to_le_bytes (raw v) ! i"
  by (simp add: tcb_encode_decode_byte)

text \<open>
  C30: decoding a raw \<^verbatim>\<open>TCB_VERSION\<close> and encoding it again changes nothing but the bytes the
  layout reserves, which become zero.
\<close>

theorem encode_decode:
  assumes "i < 8"
  shows "to_le_bytes (raw (encode (decode v q) q)) ! i =
     (if i \<in> tcb_reserved (Product_tcb_layout q) then 0 else to_le_bytes (raw v) ! i)"
  using assms by (rule tcb_encode_decode_byte)

lemma encode_decode_witness:
  "to_le_bytes (raw (encode (decode (TcbVersion 0x0706050403020100) Turin) Turin)) ! 5 = 0"
  using encode_decode [of 5 "TcbVersion 0x0706050403020100" Turin]
  by (simp add: tcb_reserved_def Product_tcb_layout_def)

end
