(* ===== verification/Policy.thy ===== *)
theory Policy
  imports Std
begin

text \<open>
  \<^verbatim>\<open>src/policy.rs\<close>: the bit fields of an attestation report.  The locale \<open>flag_word\<close> states
  what a bit-field type promises (its flags are the bits of its raw word), \<open>known_flags\<close> adds
  the split into named and unknown bits; \<open>GuestPolicy\<close> and \<open>PlatformInfo\<close> interpret it.  The
  theorems show that the named accessors together with \<open>unknown_bits\<close> determine the raw word,
  so no bit is lost, and that the signer's three-bit key field is classified completely.
\<close>

section \<open>Flag words as an interface\<close>

locale flag_word =
  fixes raw_of :: "'t \<Rightarrow> 'w::len word"
    and flag :: "'t \<Rightarrow> nat \<Rightarrow> bool"
  assumes flag_bit: "n < LENGTH('w) \<Longrightarrow> flag x n = bit (raw_of x) n"
begin

lemma same_flags_iff: "(\<forall>n < LENGTH('w). flag x n = flag y n) \<longleftrightarrow> raw_of x = raw_of y"
  by (auto simp: flag_bit intro: bit_word_eqI)

end

locale known_flags = flag_word raw_of flag
  for raw_of :: "'t \<Rightarrow> 'w::len word" and flag :: "'t \<Rightarrow> nat \<Rightarrow> bool" +
  fixes wrap :: "'w word \<Rightarrow> 't"
    and known :: "'w word"
    and unknown :: "'t \<Rightarrow> 'w word"
  assumes raw_wrap: "raw_of (wrap r) = r"
    and wrap_raw: "wrap (raw_of x) = x"
    and unknown_mask: "unknown x = raw_of x AND NOT known"
begin

lemma raw_inject: "raw_of x = raw_of y \<longleftrightarrow> x = y"
  by (metis wrap_raw)

lemma unknown_disjoint: "unknown x AND known = 0"
  by (rule bit_word_eqI) (simp add: unknown_mask bit_simps)

lemma raw_split: "raw_of x = (raw_of x AND known) OR unknown x"
  by (rule bit_word_eqI) (auto simp: unknown_mask bit_simps)

lemma unknown_zero_iff: "unknown x = 0 \<longleftrightarrow> (\<forall>n < LENGTH('w). flag x n \<longrightarrow> bit known n)"
  by (auto simp: unknown_mask flag_bit bit_eq_iff bit_simps)

text \<open>The flags of the known positions and the unknown bits determine the value.\<close>

lemma determined:
  assumes "\<And>n. n < LENGTH('w) \<Longrightarrow> bit known n \<Longrightarrow> flag x n = flag y n"
    and "unknown x = unknown y"
  shows "x = y"
proof -
  have "raw_of x = raw_of y"
  proof (rule bit_word_eqI)
    fix n
    assume n: "n < LENGTH('w)"
    show "bit (raw_of x) n = bit (raw_of y) n"
    proof (cases "bit known n")
      case True
      with assms(1) n show ?thesis by (simp add: flag_bit)
    next
      case False
      have "bit (unknown x) n = bit (unknown y) n" by (simp add: assms(2))
      with False n show ?thesis by (simp add: unknown_mask bit_simps)
    qed
  qed
  then show ?thesis by (simp add: raw_inject)
qed

end

section \<open>The guest policy\<close>

datatype GuestPolicy = GuestPolicy (GuestPolicy_word: u64)

definition GuestPolicy_KNOWN :: u64 where
  "GuestPolicy_KNOWN = 0x03FFFFFF"

definition GuestPolicy_from_raw :: "u64 \<Rightarrow> GuestPolicy" where
  "GuestPolicy_from_raw r = GuestPolicy r"

definition GuestPolicy_raw :: "GuestPolicy \<Rightarrow> u64" where
  "GuestPolicy_raw p = GuestPolicy_word p"

definition GuestPolicy_bit :: "GuestPolicy \<Rightarrow> nat \<Rightarrow> bool" where
  "GuestPolicy_bit p index \<longleftrightarrow> wrapping_shr (GuestPolicy_word p) index AND 1 = 1"

definition abi_minor :: "GuestPolicy \<Rightarrow> u8" where
  "abi_minor p = to_le_bytes (GuestPolicy_word p) ! 0"

definition abi_major :: "GuestPolicy \<Rightarrow> u8" where
  "abi_major p = to_le_bytes (GuestPolicy_word p) ! 1"

definition smt_allowed :: "GuestPolicy \<Rightarrow> bool" where
  "smt_allowed p = GuestPolicy_bit p 16"

definition reserved_bit_set :: "GuestPolicy \<Rightarrow> bool" where
  "reserved_bit_set p = GuestPolicy_bit p 17"

definition migrate_ma_allowed :: "GuestPolicy \<Rightarrow> bool" where
  "migrate_ma_allowed p = GuestPolicy_bit p 18"

definition debug_allowed :: "GuestPolicy \<Rightarrow> bool" where
  "debug_allowed p = GuestPolicy_bit p 19"

definition single_socket_required :: "GuestPolicy \<Rightarrow> bool" where
  "single_socket_required p = GuestPolicy_bit p 20"

definition cxl_allowed :: "GuestPolicy \<Rightarrow> bool" where
  "cxl_allowed p = GuestPolicy_bit p 21"

definition mem_aes_256_xts_required :: "GuestPolicy \<Rightarrow> bool" where
  "mem_aes_256_xts_required p = GuestPolicy_bit p 22"

definition GuestPolicy_rapl_disabled :: "GuestPolicy \<Rightarrow> bool" where
  "GuestPolicy_rapl_disabled p = GuestPolicy_bit p 23"

definition ciphertext_hiding_dram_required :: "GuestPolicy \<Rightarrow> bool" where
  "ciphertext_hiding_dram_required p = GuestPolicy_bit p 24"

definition page_swap_disabled :: "GuestPolicy \<Rightarrow> bool" where
  "page_swap_disabled p = GuestPolicy_bit p 25"

definition GuestPolicy_unknown_bits :: "GuestPolicy \<Rightarrow> u64" where
  "GuestPolicy_unknown_bits p = GuestPolicy_word p AND NOT GuestPolicy_KNOWN"

definition GuestPolicy_display :: "GuestPolicy \<Rightarrow> string" where
  "GuestPolicy_display p =
     ''abi='' @ show_dec (unat (abi_major p)) @ ''.'' @ show_dec (unat (abi_minor p))
     @ concat (map (\<lambda>(name, is_set). if is_set then '' '' @ name else [])
         [(''smt'', smt_allowed p),
          (''migrate-ma'', migrate_ma_allowed p),
          (''debug'', debug_allowed p),
          (''single-socket'', single_socket_required p),
          (''cxl'', cxl_allowed p),
          (''aes-256-xts'', mem_aes_256_xts_required p),
          (''rapl-dis'', GuestPolicy_rapl_disabled p),
          (''ciphertext-hiding'', ciphertext_hiding_dram_required p),
          (''page-swap-dis'', page_swap_disabled p)])"

section \<open>Platform info\<close>

datatype PlatformInfo = PlatformInfo (PlatformInfo_word: u64)

definition PlatformInfo_KNOWN :: u64 where
  "PlatformInfo_KNOWN = 0xBF"

definition PlatformInfo_from_raw :: "u64 \<Rightarrow> PlatformInfo" where
  "PlatformInfo_from_raw r = PlatformInfo r"

definition PlatformInfo_raw :: "PlatformInfo \<Rightarrow> u64" where
  "PlatformInfo_raw p = PlatformInfo_word p"

definition PlatformInfo_bit :: "PlatformInfo \<Rightarrow> nat \<Rightarrow> bool" where
  "PlatformInfo_bit p index \<longleftrightarrow> wrapping_shr (PlatformInfo_word p) index AND 1 = 1"

definition smt_enabled :: "PlatformInfo \<Rightarrow> bool" where
  "smt_enabled p = PlatformInfo_bit p 0"

definition tsme_enabled :: "PlatformInfo \<Rightarrow> bool" where
  "tsme_enabled p = PlatformInfo_bit p 1"

definition ecc_enabled :: "PlatformInfo \<Rightarrow> bool" where
  "ecc_enabled p = PlatformInfo_bit p 2"

definition PlatformInfo_rapl_disabled :: "PlatformInfo \<Rightarrow> bool" where
  "PlatformInfo_rapl_disabled p = PlatformInfo_bit p 3"

definition ciphertext_hiding_dram_enabled :: "PlatformInfo \<Rightarrow> bool" where
  "ciphertext_hiding_dram_enabled p = PlatformInfo_bit p 4"

definition alias_check_complete :: "PlatformInfo \<Rightarrow> bool" where
  "alias_check_complete p = PlatformInfo_bit p 5"

definition tio_enabled :: "PlatformInfo \<Rightarrow> bool" where
  "tio_enabled p = PlatformInfo_bit p 7"

definition PlatformInfo_unknown_bits :: "PlatformInfo \<Rightarrow> u64" where
  "PlatformInfo_unknown_bits p = PlatformInfo_word p AND NOT PlatformInfo_KNOWN"

text \<open>The loop of the \<^verbatim>\<open>Display\<close> text: its second component is the flag \<^verbatim>\<open>first\<close>.\<close>

fun join_names :: "(string \<times> bool) list \<Rightarrow> bool \<Rightarrow> string \<times> bool" where
  "join_names [] first = ([], first)"
| "join_names ((name, is_set) # rest) first =
     (if is_set then
        (let (text, f) = join_names rest False in ((if first then [] else '' '') @ name @ text, f))
      else join_names rest first)"

definition PlatformInfo_display :: "PlatformInfo \<Rightarrow> string" where
  "PlatformInfo_display p =
     (let (text, first) = join_names
         [(''smt'', smt_enabled p),
          (''tsme'', tsme_enabled p),
          (''ecc'', ecc_enabled p),
          (''rapl-dis'', PlatformInfo_rapl_disabled p),
          (''ciphertext-hiding'', ciphertext_hiding_dram_enabled p),
          (''alias-check-complete'', alias_check_complete p),
          (''tio'', tio_enabled p)] True
      in text @ (if first then ''none'' else []))"

section \<open>Signer info and signature algorithm\<close>

datatype signing_key = Sk_Vcek | Sk_Vlek | Sk_None | Sk_Unknown u8

datatype SignerInfo = SignerInfo (SignerInfo_word: u32)

definition SignerInfo_from_raw :: "u32 \<Rightarrow> SignerInfo" where
  "SignerInfo_from_raw r = SignerInfo r"

definition SignerInfo_raw :: "SignerInfo \<Rightarrow> u32" where
  "SignerInfo_raw p = SignerInfo_word p"

definition author_key_enabled :: "SignerInfo \<Rightarrow> bool" where
  "author_key_enabled s \<longleftrightarrow> SignerInfo_word s AND 1 \<noteq> 0"

definition chip_key_masked :: "SignerInfo \<Rightarrow> bool" where
  "chip_key_masked s \<longleftrightarrow> SignerInfo_word s AND 2 \<noteq> 0"

definition SignerInfo_signing_key :: "SignerInfo \<Rightarrow> signing_key" where
  "SignerInfo_signing_key s =
     (let k = low_byte (wrapping_shr (SignerInfo_word s) 2 AND 0x7)
      in if k = 0 then Sk_Vcek else if k = 1 then Sk_Vlek else if k = 7 then Sk_None
         else Sk_Unknown k)"

definition signing_key_debug :: "signing_key \<Rightarrow> string" where
  "signing_key_debug k =
     (case k of
        Sk_Vcek \<Rightarrow> ''Vcek'' | Sk_Vlek \<Rightarrow> ''Vlek'' | Sk_None \<Rightarrow> ''None''
      | Sk_Unknown c \<Rightarrow> ''Unknown('' @ show_dec (unat c) @ '')'')"

definition SignerInfo_display :: "SignerInfo \<Rightarrow> string" where
  "SignerInfo_display s =
     signing_key_debug (SignerInfo_signing_key s)
     @ (if author_key_enabled s then '' author-key'' else [])
     @ (if chip_key_masked s then '' chip-key-masked'' else [])"

datatype signature_algo = Algo_None | EcdsaP384Sha384 | Algo_Unknown u32

definition SignatureAlgo_from_raw :: "u32 \<Rightarrow> signature_algo" where
  "SignatureAlgo_from_raw r =
     (if r = 0 then Algo_None else if r = 1 then EcdsaP384Sha384 else Algo_Unknown r)"

section \<open>The bit fields are flag words\<close>

interpretation gp: known_flags GuestPolicy_word GuestPolicy_bit GuestPolicy_from_raw
  GuestPolicy_KNOWN GuestPolicy_unknown_bits
  by unfold_locales
    (simp_all add: GuestPolicy_bit_def GuestPolicy_from_raw_def GuestPolicy_unknown_bits_def
      wrapping_shr_bit)

interpretation plat: known_flags PlatformInfo_word PlatformInfo_bit PlatformInfo_from_raw
  PlatformInfo_KNOWN PlatformInfo_unknown_bits
  by unfold_locales
    (simp_all add: PlatformInfo_bit_def PlatformInfo_from_raw_def PlatformInfo_unknown_bits_def
      wrapping_shr_bit)

text \<open>The positions the crate names.\<close>

lemma known_positions:
  "bit GuestPolicy_KNOWN n \<longleftrightarrow> n < 26"
  "bit PlatformInfo_KNOWN n \<longleftrightarrow> n < 8 \<and> n \<noteq> 6"
proof -
  have gp: "GuestPolicy_KNOWN = mask 26"
    by (simp add: GuestPolicy_KNOWN_def mask_eq_exp_minus_1)
  show "bit GuestPolicy_KNOWN n \<longleftrightarrow> n < 26"
    unfolding gp by (auto simp: bit_mask_iff)
  have plat: "PlatformInfo_KNOWN = mask 6 OR push_bit 7 (mask 1)"
    by (simp add: PlatformInfo_KNOWN_def mask_eq_exp_minus_1)
  show "bit PlatformInfo_KNOWN n \<longleftrightarrow> n < 8 \<and> n \<noteq> 6"
    unfolding plat bit_or_iff bit_push_bit_iff bit_mask_iff by auto
qed

lemmas guest_policy_flags =
  smt_allowed_def reserved_bit_set_def migrate_ma_allowed_def debug_allowed_def
  single_socket_required_def cxl_allowed_def mem_aes_256_xts_required_def
  GuestPolicy_rapl_disabled_def ciphertext_hiding_dram_required_def page_swap_disabled_def

lemmas platform_info_flags =
  smt_enabled_def tsme_enabled_def ecc_enabled_def PlatformInfo_rapl_disabled_def
  ciphertext_hiding_dram_enabled_def alias_check_complete_def tio_enabled_def

lemma abi_version_bits:
  assumes "abi_minor p = abi_minor q" "abi_major p = abi_major q" "n < 16"
  shows "GuestPolicy_bit p n = GuestPolicy_bit q n"
proof -
  have "bit (ucast (GuestPolicy_word p) :: u8) k = bit (ucast (GuestPolicy_word q) :: u8) k"
    "bit (ucast (drop_bit 8 (GuestPolicy_word p)) :: u8) k
       = bit (ucast (drop_bit 8 (GuestPolicy_word q)) :: u8) k" for k
    using assms(1,2) by (simp_all add: abi_minor_def abi_major_def nth_to_le_bytes)
  from this(1) [of n] this(2) [of "n - 8"] assms(3) show ?thesis
    by (cases "n < 8") (auto simp: gp.flag_bit bit_simps)
qed

text \<open>
  Nothing of a guest policy is lost.  Two policies are equal exactly when they agree on
  the ABI version, on every named feature switch and on \<^verbatim>\<open>unknown_bits\<close>.
\<close>

lemma guest_policy_determined:
  "p = q \<longleftrightarrow>
     abi_major p = abi_major q \<and> abi_minor p = abi_minor q
     \<and> smt_allowed p = smt_allowed q \<and> reserved_bit_set p = reserved_bit_set q
     \<and> migrate_ma_allowed p = migrate_ma_allowed q \<and> debug_allowed p = debug_allowed q
     \<and> single_socket_required p = single_socket_required q \<and> cxl_allowed p = cxl_allowed q
     \<and> mem_aes_256_xts_required p = mem_aes_256_xts_required q
     \<and> GuestPolicy_rapl_disabled p = GuestPolicy_rapl_disabled q
     \<and> ciphertext_hiding_dram_required p = ciphertext_hiding_dram_required q
     \<and> page_swap_disabled p = page_swap_disabled q
     \<and> GuestPolicy_unknown_bits p = GuestPolicy_unknown_bits q" (is "_ \<longleftrightarrow> ?agree")
proof
  assume agree: ?agree
  show "p = q"
  proof (rule gp.determined)
    fix n
    assume "bit GuestPolicy_KNOWN n"
    then have "n < 26" by (simp add: known_positions)
    then have "n < 16 \<or> n \<in> {16, 17, 18, 19, 20, 21, 22, 23, 24, 25}"
      unfolding insert_iff empty_iff by arith
    then consider "n < 16" | "n \<in> {16, 17, 18, 19, 20, 21, 22, 23, 24, 25}"
      by blast
    then show "GuestPolicy_bit p n = GuestPolicy_bit q n"
    proof cases
      case 1
      with agree show ?thesis by (intro abi_version_bits) simp_all
    next
      case 2
      with agree show ?thesis by (auto simp: guest_policy_flags)
    qed
  qed (use agree in blast)
qed simp

text \<open>
  Nothing of the platform information is lost.  The seven named switches and
  \<^verbatim>\<open>unknown_bits\<close> (which holds bit 6 and everything above bit 7) determine the value.
\<close>

lemma platform_info_determined:
  "p = q \<longleftrightarrow>
     smt_enabled p = smt_enabled q \<and> tsme_enabled p = tsme_enabled q
     \<and> ecc_enabled p = ecc_enabled q
     \<and> PlatformInfo_rapl_disabled p = PlatformInfo_rapl_disabled q
     \<and> ciphertext_hiding_dram_enabled p = ciphertext_hiding_dram_enabled q
     \<and> alias_check_complete p = alias_check_complete q \<and> tio_enabled p = tio_enabled q
     \<and> PlatformInfo_unknown_bits p = PlatformInfo_unknown_bits q" (is "_ \<longleftrightarrow> ?agree")
proof
  assume agree: ?agree
  show "p = q"
  proof (rule plat.determined)
    fix n
    assume "bit PlatformInfo_KNOWN n"
    then have "n < 8" "n \<noteq> 6" by (simp_all add: known_positions)
    then have "n \<in> {0, 1, 2, 3, 4, 5, 7}"
      unfolding insert_iff empty_iff by arith
    with agree show "PlatformInfo_bit p n = PlatformInfo_bit q n"
      by (auto simp: platform_info_flags)
  qed (use agree in blast)
qed simp

text \<open>
  The three bits 4:2 of \<^verbatim>\<open>SIGNER_INFO\<close> are classified completely: 0 is the VCEK, 1 the VLEK,
  7 no key, and each of the five other values is preserved as \<^verbatim>\<open>Unknown\<close>; the other bits of the
  word do not influence the answer.
\<close>

lemma signing_key_eq:
  "SignerInfo_signing_key s =
     (let k = take_bit 3 (drop_bit 2 (SignerInfo_word s))
      in if k = 0 then Sk_Vcek else if k = 1 then Sk_Vlek else if k = 7 then Sk_None
         else Sk_Unknown (ucast k))"
proof -
  define k where "k = take_bit 3 (drop_bit 2 (SignerInfo_word s))"
  have k: "unat k < 8"
    by (simp add: k_def unsigned_take_bit_eq take_bit_nat_less_exp [of 3, simplified])
  have "low_byte (wrapping_shr (SignerInfo_word s) 2 AND 0x7) = ucast k"
    by (simp add: k_def low_byte_ucast wrapping_shr_def and_masks)
  moreover have "(ucast k = (0 :: u8)) = (k = 0)" "(ucast k = (1 :: u8)) = (k = 1)"
    "(ucast k = (7 :: u8)) = (k = 7)"
    using k by (simp_all add: word_unat_eq_iff unsigned_ucast_eq take_bit_nat_eq_self)
  ultimately show ?thesis
    by (simp add: SignerInfo_signing_key_def Let_def flip: k_def)
qed

end
