(* ===== verification/Fixture.thy ===== *)
theory Fixture
  imports Bytes
begin

text \<open>
  The captured report \<^verbatim>\<open>tests/data/report-v5-milan.bin\<close> of the repository's test suite, byte by
  byte: a version 5 report from a Zen 3 guest.  It is the concrete input of the witnesses.  The
  bytes are cut into segments so that a read touches one short list only.
\<close>

definition milan_head :: "u8 list" where
  "milan_head =
     [5, 0, 0, 0, 0, 0, 0, 0, 0, 0, 3, 0, 0, 0, 0, 0, 0, 0, 0, 0, 0, 0, 0, 0, 0, 0, 0, 0, 0, 0,
      0, 0, 0, 0, 0, 0, 0, 0, 0, 0, 0, 0, 0, 0, 0, 0, 0, 0, 0, 0, 0, 0, 1, 0, 0, 0, 4, 0, 0, 0,
      0, 0, 29, 222, 39, 0, 0, 0, 0, 0, 0, 0, 0, 0, 0, 0, 0, 0, 0, 0]"

definition milan_data :: "u8 list" where
  "milan_data =
     [248, 69, 198, 255, 47, 134, 86, 27, 123, 41, 138, 68, 161, 229, 31, 29, 114, 35, 225, 180,
      189, 121, 127, 154, 169, 122, 11, 176, 61, 89, 239, 224, 248, 230, 112, 216, 112, 75, 169,
      79, 105, 192, 206, 135, 30, 76, 129, 182, 169, 242, 185, 105, 5, 145, 216, 9, 134, 238, 83,
      178, 249, 115, 27, 191, 210, 3, 241, 243, 209, 151, 175, 197, 111, 24, 84, 123, 239, 75,
      86, 151, 82, 226, 218, 173, 15, 51, 88, 97, 132, 130, 71, 228, 84, 209, 32, 171, 95, 162,
      6, 114, 14, 77, 201, 44, 236, 201, 74, 67, 24, 226, 34, 172, 0, 0, 0, 0, 0, 0, 0, 0, 0, 0,
      0, 0, 0, 0, 0, 0, 0, 0, 0, 0, 0, 0, 0, 0, 0, 0, 0, 0, 0, 0, 0, 0, 0, 0, 0, 0, 0, 0, 0, 0,
      0, 0, 0, 0, 0, 0, 0, 0, 0, 0, 0, 0, 0, 0, 0, 0, 0, 0, 0, 0, 0, 0, 0, 0, 0, 0, 0, 0, 0, 0,
      0, 0, 0, 0, 0, 0, 0, 0, 0, 0, 0, 0, 0, 0, 0, 0, 0, 0, 0, 0, 0, 0, 0, 0, 0, 0, 0, 0, 0, 0,
      0, 0, 0, 0, 0, 0, 0, 0, 0, 0, 0, 0, 0, 0, 0, 0, 0, 0, 0, 0, 0, 0, 0, 0, 0, 0, 0, 0, 199,
      95, 225, 194, 232, 36, 227, 203, 52, 196, 133, 81, 220, 87, 172, 219, 92, 13, 218, 189, 45,
      163, 154, 152, 17, 50, 91, 176, 121, 205, 33, 173, 255, 255, 255, 255, 255, 255, 255, 255,
      255, 255, 255, 255, 255, 255, 255, 255, 255, 255, 255, 255, 255, 255, 255, 255, 255, 255,
      255, 255, 255, 255, 255, 255]"

definition milan_tcb :: "u8 list" where
  "milan_tcb =
     [4, 0, 0, 0, 0, 0, 29, 222, 25, 1, 1, 0, 0, 0, 0, 0, 0, 0, 0, 0, 0, 0, 0, 0, 0, 0, 0, 0, 0,
      0, 0, 0]"

definition milan_chip :: "u8 list" where
  "milan_chip =
     [192, 63, 150, 17, 53, 238, 206, 198, 239, 26, 57, 233, 215, 183, 216, 40, 18, 183, 22, 240,
      80, 246, 171, 125, 201, 115, 232, 93, 223, 253, 65, 209, 160, 194, 148, 159, 119, 106, 180,
      14, 205, 130, 8, 7, 54, 124, 201, 109, 51, 209, 216, 146, 158, 63, 65, 97, 255, 64, 222,
      96, 53, 14, 162, 246]"

definition milan_tail :: "u8 list" where
  "milan_tail =
     [4, 0, 0, 0, 0, 0, 29, 222, 1, 58, 1, 0, 1, 58, 1, 0, 4, 0, 0, 0, 0, 0, 29, 222, 11, 0, 0,
      0, 0, 0, 0, 0, 11, 0, 0, 0, 0, 0, 0, 0, 0, 0, 0, 0, 0, 0, 0, 0, 0, 0, 0, 0, 0, 0, 0, 0, 0,
      0, 0, 0, 0, 0, 0, 0, 0, 0, 0, 0, 0, 0, 0, 0, 0, 0, 0, 0, 0, 0, 0, 0, 0, 0, 0, 0, 0, 0, 0,
      0, 0, 0, 0, 0, 0, 0, 0, 0, 0, 0, 0, 0, 0, 0, 0, 0, 0, 0, 0, 0, 0, 0, 0, 0, 0, 0, 0, 0, 0,
      0, 0, 0, 0, 0, 0, 0, 0, 0, 0, 0, 0, 0, 0, 0, 0, 0, 0, 0, 0, 0, 0, 0, 0, 0, 0, 0, 0, 0, 0,
      0, 0, 0, 0, 0, 0, 0, 0, 0, 0, 0, 0, 0, 0, 0, 0, 0, 0, 0, 0, 0, 0, 0, 0, 0, 0, 0, 0, 0, 0,
      0, 0, 0, 0, 0, 0, 0, 0, 0, 0, 0, 0, 0, 0, 0]"

definition milan_sig_r :: "u8 list" where
  "milan_sig_r =
     [33, 22, 145, 76, 149, 99, 200, 75, 205, 150, 59, 83, 200, 250, 166, 39, 215, 74, 210, 41,
      34, 199, 113, 211, 32, 190, 63, 213, 4, 213, 59, 133, 177, 149, 87, 84, 69, 127, 200, 146,
      225, 134, 2, 81, 25, 244, 215, 240, 0, 0, 0, 0, 0, 0, 0, 0, 0, 0, 0, 0, 0, 0, 0, 0, 0, 0,
      0, 0, 0, 0, 0, 0]"

definition milan_sig_s :: "u8 list" where
  "milan_sig_s =
     [221, 178, 90, 63, 58, 115, 28, 32, 193, 141, 219, 187, 41, 12, 219, 91, 184, 238, 80, 81,
      205, 58, 193, 48, 14, 160, 124, 50, 185, 245, 17, 184, 23, 212, 159, 91, 188, 200, 137,
      164, 208, 60, 185, 195, 81, 178, 88, 56, 0, 0, 0, 0, 0, 0, 0, 0, 0, 0, 0, 0, 0, 0, 0, 0, 0,
      0, 0, 0, 0, 0, 0, 0]"

definition milan_rest :: "u8 list" where
  "milan_rest =
     replicate 368 0"

definition MILAN_V5 :: "u8 list" where
  "MILAN_V5 =
     milan_head @ milan_data @ milan_tcb @ milan_chip @ milan_tail @ milan_sig_r @ milan_sig_s @ milan_rest"

lemma milan_lengths [simp]:
  "length milan_head = 80"
  "length milan_data = 304"
  "length milan_tcb = 32"
  "length milan_chip = 64"
  "length milan_tail = 192"
  "length milan_sig_r = 72"
  "length milan_sig_s = 72"
  "length milan_rest = 368"
  by (simp_all add: milan_head_def milan_data_def milan_tcb_def
      milan_chip_def milan_tail_def milan_sig_r_def milan_sig_s_def milan_rest_def)

lemma length_MILAN_V5 [simp]: "length MILAN_V5 = 1184"
  by (simp add: MILAN_V5_def)

end
