(* ===== verification/Report.thy ===== *)
theory Report
  imports Errors Tcb Policy Fixture
begin

text \<open>
  \<^verbatim>\<open>src/report.rs\<close>: the attestation report.  A report is its 1184 raw bytes; every accessor is
  a read at a fixed offset through the total function \<open>field\<close>.  The lemmas show that no
  accessor ever takes the zero fallback of \<open>field\<close>, that \<open>AttestationReport_parse\<close> accepts
  exactly the encodings of well-formed reports, that the fields tile the structure without
  gap or overlap, and that the signature components are converted to big-endian faithfully.
\<close>

section \<open>The structure\<close>

record AttestationReport =
  report_raw :: "u8 list"

definition SIZE :: nat where
  "SIZE = 0x4A0"

definition SIGNED_LEN :: nat where
  "SIGNED_LEN = 0x2A0"

definition MIN_VERSION :: u32 where
  "MIN_VERSION = 2"

definition MAX_VERSION :: u32 where
  "MAX_VERSION = 16"

definition AttestationReport_as_bytes :: "AttestationReport \<Rightarrow> u8 list" where
  "AttestationReport_as_bytes self = report_raw self"

text \<open>\<^verbatim>\<open>field::<N>(offset)\<close>, \<^verbatim>\<open>u32_at\<close> and \<^verbatim>\<open>u64_at\<close>, with the zero fallback written out.\<close>

definition field :: "nat \<Rightarrow> AttestationReport \<Rightarrow> nat \<Rightarrow> u8 list" where
  "field n self offset =
     (case split_at_checked (report_raw self) offset of
        Some (_, tail) \<Rightarrow>
          (case first_chunk n tail of Some f \<Rightarrow> f | None \<Rightarrow> replicate n 0)
      | None \<Rightarrow> replicate n 0)"

definition report_u32_at :: "AttestationReport \<Rightarrow> nat \<Rightarrow> u32" where
  "report_u32_at self offset = from_le_bytes (field 4 self offset)"

definition report_u64_at :: "AttestationReport \<Rightarrow> nat \<Rightarrow> u64" where
  "report_u64_at self offset = from_le_bytes (field 8 self offset)"

datatype FirmwareVersion = FirmwareVersion (major: u8) (minor: u8) (build: u8)

text \<open>The derived order of \<^verbatim>\<open>FirmwareVersion\<close>: lexicographic in field order.\<close>

instantiation FirmwareVersion :: linorder
begin

definition less_eq_FirmwareVersion :: "FirmwareVersion \<Rightarrow> FirmwareVersion \<Rightarrow> bool" where
  "less_eq_FirmwareVersion a b \<longleftrightarrow>
     major a < major b \<or> major a = major b \<and>
       (minor a < minor b \<or> minor a = minor b \<and> build a \<le> build b)"

definition less_FirmwareVersion :: "FirmwareVersion \<Rightarrow> FirmwareVersion \<Rightarrow> bool" where
  "less_FirmwareVersion a b \<longleftrightarrow>
     major a < major b \<or> major a = major b \<and>
       (minor a < minor b \<or> minor a = minor b \<and> build a < build b)"

instance
  by standard
    (auto simp: less_eq_FirmwareVersion_def less_FirmwareVersion_def intro: FirmwareVersion.expand)

end

record EcdsaP384Signature =
  sig_r :: "u8 list"
  sig_s :: "u8 list"

section \<open>Accessors\<close>

definition version :: "AttestationReport \<Rightarrow> u32" where
  "version self = report_u32_at self 0x00"

definition guest_svn :: "AttestationReport \<Rightarrow> u32" where
  "guest_svn self = report_u32_at self 0x04"

definition policy :: "AttestationReport \<Rightarrow> GuestPolicy" where
  "policy self = GuestPolicy_from_raw (report_u64_at self 0x08)"

definition family_id :: "AttestationReport \<Rightarrow> u8 list" where
  "family_id self = field 16 self 0x10"

definition image_id :: "AttestationReport \<Rightarrow> u8 list" where
  "image_id self = field 16 self 0x20"

definition vmpl :: "AttestationReport \<Rightarrow> u32" where
  "vmpl self = report_u32_at self 0x30"

definition report_signature_algo :: "AttestationReport \<Rightarrow> signature_algo" where
  "report_signature_algo self = SignatureAlgo_from_raw (report_u32_at self 0x34)"

definition current_tcb :: "AttestationReport \<Rightarrow> TcbVersion" where
  "current_tcb self = TcbVersion_from_raw (report_u64_at self 0x38)"

definition platform_info :: "AttestationReport \<Rightarrow> PlatformInfo" where
  "platform_info self = PlatformInfo_from_raw (report_u64_at self 0x40)"

definition signer_info :: "AttestationReport \<Rightarrow> SignerInfo" where
  "signer_info self = SignerInfo_from_raw (report_u32_at self 0x48)"

definition report_data :: "AttestationReport \<Rightarrow> u8 list" where
  "report_data self = field 64 self 0x50"

definition measurement :: "AttestationReport \<Rightarrow> u8 list" where
  "measurement self = field 48 self 0x90"

definition host_data :: "AttestationReport \<Rightarrow> u8 list" where
  "host_data self = field 32 self 0xC0"

definition id_key_digest :: "AttestationReport \<Rightarrow> u8 list" where
  "id_key_digest self = field 48 self 0xE0"

definition author_key_digest :: "AttestationReport \<Rightarrow> u8 list" where
  "author_key_digest self = field 48 self 0x110"

definition report_id :: "AttestationReport \<Rightarrow> u8 list" where
  "report_id self = field 32 self 0x140"

definition report_id_ma :: "AttestationReport \<Rightarrow> u8 list" where
  "report_id_ma self = field 32 self 0x160"

definition reported_tcb :: "AttestationReport \<Rightarrow> TcbVersion" where
  "reported_tcb self = TcbVersion_from_raw (report_u64_at self 0x180)"

definition cpuid_fms :: "AttestationReport \<Rightarrow> Fms option" where
  "cpuid_fms self =
     (let b = field 3 self 0x188
      in then_some (3 \<le> version self) (Fms_new (b ! 0) (b ! 1) (b ! 2)))"

definition product_of :: "AttestationReport \<Rightarrow> product option" where
  "product_of self = map_option Product_from_fms (cpuid_fms self)"

definition chip_id :: "AttestationReport \<Rightarrow> u8 list" where
  "chip_id self = field 64 self 0x1A0"

definition committed_tcb :: "AttestationReport \<Rightarrow> TcbVersion" where
  "committed_tcb self = TcbVersion_from_raw (report_u64_at self 0x1E0)"

definition current_firmware :: "AttestationReport \<Rightarrow> FirmwareVersion" where
  "current_firmware self = (let b = field 3 self 0x1E8 in FirmwareVersion (b ! 2) (b ! 1) (b ! 0))"

definition committed_firmware :: "AttestationReport \<Rightarrow> FirmwareVersion" where
  "committed_firmware self = (let b = field 3 self 0x1EC in FirmwareVersion (b ! 2) (b ! 1) (b ! 0))"

definition launch_tcb :: "AttestationReport \<Rightarrow> TcbVersion" where
  "launch_tcb self = TcbVersion_from_raw (report_u64_at self 0x1F0)"

definition launch_mit_vector :: "AttestationReport \<Rightarrow> u64 option" where
  "launch_mit_vector self = then_some (5 \<le> version self) (report_u64_at self 0x1F8)"

definition current_mit_vector :: "AttestationReport \<Rightarrow> u64 option" where
  "current_mit_vector self = then_some (5 \<le> version self) (report_u64_at self 0x200)"

definition signature :: "AttestationReport \<Rightarrow> u8 list" where
  "signature self = field 512 self 0x2A0"

definition ecdsa_signature :: "AttestationReport \<Rightarrow> EcdsaP384Signature option" where
  "ecdsa_signature self =
     (if report_signature_algo self = EcdsaP384Sha384
      then Some \<lparr>sig_r = field 72 self 0x2A0, sig_s = field 72 self 0x2E8\<rparr>
      else None)"

definition reported_tcb_parts :: "AttestationReport \<Rightarrow> TcbParts option" where
  "reported_tcb_parts self = map_option (\<lambda>p. decode (reported_tcb self) p) (product_of self)"

definition signed_bytes :: "AttestationReport \<Rightarrow> u8 list" where
  "signed_bytes self =
     (case split_at_checked (report_raw self) SIGNED_LEN of
        Some (front, _) \<Rightarrow> front
      | None \<Rightarrow> report_raw self)"

definition to_be_48 :: "u8 list \<Rightarrow> u8 list" where
  "to_be_48 le = rev (unwrap_or (first_chunk 48 le) (replicate 48 0))"

definition r_be :: "EcdsaP384Signature \<Rightarrow> u8 list" where
  "r_be self = to_be_48 (sig_r self)"

definition s_be :: "EcdsaP384Signature \<Rightarrow> u8 list" where
  "s_be self = to_be_48 (sig_s self)"

section \<open>Parsing\<close>

definition AttestationReport_parse :: "u8 list \<Rightarrow> AttestationReport result" where
  "AttestationReport_parse bytes =
     try_with
       (ok_or (bytes_at SIZE bytes 0)
         (Parse (TooShort ''attestation report'' SIZE (length bytes))))
       (\<lambda>raw.
          let report = \<lparr>report_raw = raw\<rparr>;
              v = version report
          in if \<not> (MIN_VERSION \<le> v \<and> v \<le> MAX_VERSION)
             then Inl (Parse (UnsupportedReportVersion v))
             else Inr report)"

section \<open>Text\<close>

definition FirmwareVersion_display :: "FirmwareVersion \<Rightarrow> string" where
  "FirmwareVersion_display v =
     show_dec (unat (major v)) @ ''.'' @ show_dec (unat (minor v)) @ ''.'' @ show_dec (unat (build v))"

definition Hex_debug :: "u8 list \<Rightarrow> string" where
  "Hex_debug bs = concat (map (\<lambda>b. zero_pad 2 (show_hex (unat b))) bs)"

definition EcdsaP384Signature_debug :: "EcdsaP384Signature \<Rightarrow> debug_tree" where
  "EcdsaP384Signature_debug s =
     DebugStruct ''EcdsaP384Signature''
       [(''r'', DebugText (Hex_debug (r_be s))), (''s'', DebugText (Hex_debug (s_be s)))]"

text \<open>The derived \<^verbatim>\<open>Debug\<close> implementations of the field types.\<close>

definition debug_word :: "'a::len word \<Rightarrow> debug_tree" where
  "debug_word w = DebugText (show_dec (unat w))"

definition signature_algo_debug :: "signature_algo \<Rightarrow> debug_tree" where
  "signature_algo_debug a =
     (case a of
        Algo_None \<Rightarrow> DebugText ''None'' | EcdsaP384Sha384 \<Rightarrow> DebugText ''EcdsaP384Sha384''
      | Algo_Unknown c \<Rightarrow> DebugTuple ''Unknown'' (debug_word c))"

definition FirmwareVersion_debug :: "FirmwareVersion \<Rightarrow> debug_tree" where
  "FirmwareVersion_debug v =
     DebugStruct ''FirmwareVersion''
       [(''major'', debug_word (major v)), (''minor'', debug_word (minor v)),
        (''build'', debug_word (build v))]"

definition Fms_debug :: "Fms \<Rightarrow> debug_tree" where
  "Fms_debug f =
     DebugStruct ''Fms''
       [(''family'', debug_word (family f)), (''model'', debug_word (model f)),
        (''stepping'', debug_word (stepping f))]"

definition TcbVersion_debug :: "TcbVersion \<Rightarrow> debug_tree" where
  "TcbVersion_debug v = DebugTuple ''TcbVersion'' (debug_word (raw v))"

definition AttestationReport_debug :: "AttestationReport \<Rightarrow> debug_tree" where
  "AttestationReport_debug self =
     DebugOpenStruct ''AttestationReport''
       ([(''version'', debug_word (version self)),
         (''guest_svn'', debug_word (guest_svn self)),
         (''policy'', DebugTuple ''GuestPolicy'' (debug_word (GuestPolicy_word (policy self)))),
         (''vmpl'', debug_word (vmpl self)),
         (''signature_algo'', signature_algo_debug (report_signature_algo self)),
         (''current_tcb'', TcbVersion_debug (current_tcb self)),
         (''reported_tcb'', TcbVersion_debug (reported_tcb self)),
         (''committed_tcb'', TcbVersion_debug (committed_tcb self)),
         (''launch_tcb'', TcbVersion_debug (launch_tcb self)),
         (''platform_info'',
           DebugTuple ''PlatformInfo'' (debug_word (PlatformInfo_word (platform_info self)))),
         (''signer_info'',
           DebugTuple ''SignerInfo'' (debug_word (SignerInfo_word (signer_info self)))),
         (''measurement'', DebugText (Hex_debug (measurement self))),
         (''report_data'', DebugText (Hex_debug (report_data self))),
         (''host_data'', DebugText (Hex_debug (host_data self))),
         (''report_id'', DebugText (Hex_debug (report_id self))),
         (''chip_id'', DebugText (Hex_debug (chip_id self))),
         (''current_firmware'', FirmwareVersion_debug (current_firmware self)),
         (''committed_firmware'', FirmwareVersion_debug (committed_firmware self))]
        @ (case cpuid_fms self of Some fms \<Rightarrow> [(''cpuid_fms'', Fms_debug fms)] | None \<Rightarrow> [])
        @ (case launch_mit_vector self of
             Some v \<Rightarrow> [(''launch_mit_vector'', DebugText (show_alt_hex 0 (unat v)))] | None \<Rightarrow> [])
        @ (case current_mit_vector self of
             Some v \<Rightarrow> [(''current_mit_vector'', DebugText (show_alt_hex 0 (unat v)))]
           | None \<Rightarrow> []))"

section \<open>Fields of a well-formed report\<close>

definition wf_report :: "AttestationReport \<Rightarrow> bool" where
  "wf_report r \<longleftrightarrow> length (report_raw r) = SIZE"

definition valid_report :: "AttestationReport \<Rightarrow> bool" where
  "valid_report r \<longleftrightarrow> wf_report r \<and> MIN_VERSION \<le> version r \<and> version r \<le> MAX_VERSION"

lemma valid_report_wf [intro]: "valid_report r \<Longrightarrow> wf_report r"
  by (simp add: valid_report_def)

lemma field_eq:
  assumes "offset + n \<le> length (report_raw r)"
  shows "field n r offset = take n (drop offset (report_raw r))"
  using assms by (simp add: field_def split_at_checked_def first_chunk_def)

lemma length_field [simp]: "length (field n r offset) = n"
  by (simp add: field_def split_at_checked_def first_chunk_def)

lemma wf_field:
  "wf_report r \<Longrightarrow> offset + n \<le> 0x4A0 \<Longrightarrow> field n r offset = take n (drop offset (report_raw r))"
  by (simp add: field_eq wf_report_def SIZE_def)

lemma to_le_report_u32 [simp]: "to_le_bytes (report_u32_at r off) = field 4 r off"
  by (simp add: report_u32_at_def le32.enc_dec)

lemma to_le_report_u64 [simp]: "to_le_bytes (report_u64_at r off) = field 8 r off"
  by (simp add: report_u64_at_def le64.enc_dec)

text \<open>Adjacent slices join: the step by which a structure is reassembled from its fields.\<close>

lemma join_slices: "j = i + n \<Longrightarrow> take n (drop i xs) @ drop j xs = drop i xs"
  by (metis add.commute append_take_drop_id drop_drop)

lemma three_bytes: "length b = 3 \<Longrightarrow> [b ! 0, b ! Suc 0, b ! 2] = b"
  by (auto simp: numeral_3_eq_3 length_Suc_conv)

lemma version_parse:
  "SIZE \<le> length bytes \<Longrightarrow> version \<lparr>report_raw = take SIZE bytes\<rparr> = from_le_bytes (take 4 bytes)"
  by (simp add: version_def report_u32_at_def field_eq SIZE_def min_def)

lemma parse_by_case:
  "AttestationReport_parse bytes =
     (let v = (from_le_bytes (take 4 bytes) :: u32) in
      if length bytes < 0x4A0
        then Inl (Parse (TooShort ''attestation report'' 0x4A0 (length bytes)))
      else if v < 2 \<or> 16 < v then Inl (Parse (UnsupportedReportVersion v))
      else Inr \<lparr>report_raw = take 0x4A0 bytes\<rparr>)"
proof (cases "length bytes < SIZE")
  case True
  then show ?thesis
    by (simp add: AttestationReport_parse_def bytes_at_eq SIZE_def)
next
  case False
  then show ?thesis
    using version_parse [of bytes]
    by (auto simp: AttestationReport_parse_def bytes_at_eq SIZE_def MIN_VERSION_def
        MAX_VERSION_def Let_def)
qed

text \<open>
  C5: the outcome of parsing, on every input.  Too few bytes, a version outside 2 to 16, and
  success with the first 1184 bytes are told apart exactly so, with these error values.  A TDX
  quote, whose first word reads as version 131076, is one of the rejected inputs.
\<close>

theorem parse_outcome:
  "AttestationReport_parse bytes =
     (let v = (from_le_bytes (take 4 bytes) :: u32) in
      if length bytes < 0x4A0
        then Inl (Parse (TooShort ''attestation report'' 0x4A0 (length bytes)))
      else if v < 2 \<or> 16 < v then Inl (Parse (UnsupportedReportVersion v))
      else Inr \<lparr>report_raw = take 0x4A0 bytes\<rparr>)"
  by (rule parse_by_case)

text \<open>The bytes of a report parse back to it.\<close>

lemma parse_raw: "valid_report r \<Longrightarrow> AttestationReport_parse (report_raw r) = Inr r"
proof -
  assume valid: "valid_report r"
  then have len: "length (report_raw r) = 1184" by (simp add: valid_report_def wf_report_def SIZE_def)
  then have "version r = from_le_bytes (take 4 (report_raw r))"
    by (simp add: version_def report_u32_at_def field_eq)
  then have "\<not> from_le_bytes (take 4 (report_raw r)) < (2 :: u32)"
    "\<not> (16 :: u32) < from_le_bytes (take 4 (report_raw r))"
    using valid by (simp_all add: valid_report_def MIN_VERSION_def MAX_VERSION_def not_less)
  then show ?thesis
    using len by (cases r) (simp add: parse_by_case Let_def)
qed

lemma parse_valid: "AttestationReport_parse bytes = Inr r \<Longrightarrow> valid_report r"
  by (auto simp: AttestationReport_parse_def valid_report_def wf_report_def Let_def result_simps
      split: if_splits)

section \<open>The layout\<close>

definition signature_algo_word :: "signature_algo \<Rightarrow> u32" where
  "signature_algo_word a =
     (case a of Algo_None \<Rightarrow> 0 | EcdsaP384Sha384 \<Rightarrow> 1 | Algo_Unknown w \<Rightarrow> w)"

lemma signature_algo_word_from_raw [simp]: "signature_algo_word (SignatureAlgo_from_raw w) = w"
  by (simp add: signature_algo_word_def SignatureAlgo_from_raw_def)

lemma firmware_bytes:
  "(let b = field 3 r off; v = FirmwareVersion (b ! 2) (b ! 1) (b ! 0)
    in [build v, minor v, major v]) = field 3 r off"
  by (simp add: Let_def three_bytes)

lemma firmware_fields:
  "[build (current_firmware r), minor (current_firmware r), major (current_firmware r)]
     = field 3 r 0x1E8"
  "[build (committed_firmware r), minor (committed_firmware r), major (committed_firmware r)]
     = field 3 r 0x1EC"
  using firmware_bytes [of r "0x1E8"] firmware_bytes [of r "0x1EC"]
  by (simp_all add: current_firmware_def committed_firmware_def Let_def)

lemmas accessor_fields =
  version_def guest_svn_def policy_def family_id_def image_id_def vmpl_def
  report_signature_algo_def current_tcb_def platform_info_def signer_info_def report_data_def
  measurement_def host_data_def id_key_digest_def author_key_digest_def report_id_def
  report_id_ma_def reported_tcb_def chip_id_def committed_tcb_def launch_tcb_def signature_def
  GuestPolicy_from_raw_def PlatformInfo_from_raw_def SignerInfo_from_raw_def
  TcbVersion_from_raw_def

text \<open>
  C24: the accessors tile the report.  Writing the values they return one after the other, with
  the five regions that no unconditional accessor reads in between, gives back every byte of
  the report: each accessor reads its own slice, no two overlap, and none falls back to zeros.
\<close>

theorem accessors_tile:
  assumes "wf_report r"
  shows "report_raw r =
     to_le_bytes (version r) @ to_le_bytes (guest_svn r) @ to_le_bytes (GuestPolicy_word (policy r))
     @ family_id r @ image_id r @ to_le_bytes (vmpl r)
     @ to_le_bytes (signature_algo_word (report_signature_algo r))
     @ to_le_bytes (raw (current_tcb r)) @ to_le_bytes (PlatformInfo_word (platform_info r))
     @ to_le_bytes (SignerInfo_word (signer_info r)) @ take 4 (drop 0x4C (report_raw r))
     @ report_data r @ measurement r @ host_data r @ id_key_digest r @ author_key_digest r
     @ report_id r @ report_id_ma r @ to_le_bytes (raw (reported_tcb r))
     @ take 24 (drop 0x188 (report_raw r)) @ chip_id r @ to_le_bytes (raw (committed_tcb r))
     @ [build (current_firmware r), minor (current_firmware r), major (current_firmware r)]
     @ take 1 (drop 0x1EB (report_raw r))
     @ [build (committed_firmware r), minor (committed_firmware r), major (committed_firmware r)]
     @ take 1 (drop 0x1EF (report_raw r)) @ to_le_bytes (raw (launch_tcb r))
     @ take 168 (drop 0x1F8 (report_raw r)) @ signature r"
proof -
  have "signature r = drop 0x2A0 (report_raw r)"
    using assms by (simp add: signature_def wf_field) (simp add: wf_report_def SIZE_def)
  moreover have "field 4 r 0 = take 4 (drop 0 (report_raw r))"
    using assms by (rule wf_field) simp
  ultimately show ?thesis
    unfolding firmware_fields
    using assms by (simp add: accessor_fields wf_field join_slices del: drop_0)
qed

text \<open>The captured report, as the parser returns it.\<close>

definition milan_report :: AttestationReport where
  "milan_report = \<lparr>report_raw = MILAN_V5\<rparr>"

lemma milan_field:
  "off + n \<le> 1184 \<Longrightarrow> field n milan_report off = take n (drop off MILAN_V5)"
  by (simp add: field_eq milan_report_def)

lemma milan_wf: "wf_report milan_report"
  by (simp add: wf_report_def milan_report_def SIZE_def)

lemmas milan_segments = MILAN_V5_def milan_head_def milan_data_def milan_tcb_def milan_chip_def
  milan_tail_def milan_sig_r_def milan_sig_s_def milan_rest_def

lemma milan_version: "version milan_report = 5"
  by (simp add: version_def report_u32_at_def milan_field MILAN_V5_def milan_head_def
      from_le_bytes_Cons)

lemma accessors_tile_witness:
  "wf_report milan_report \<and>
   take 8 (report_raw milan_report) = to_le_bytes (version milan_report)
     @ to_le_bytes (guest_svn milan_report)"
proof
  show "take 8 (report_raw milan_report) =
      to_le_bytes (version milan_report) @ to_le_bytes (guest_svn milan_report)"
    by (subst accessors_tile [OF milan_wf]) simp
qed (rule milan_wf)

text \<open>
  Fields introduced by a later report version are present exactly from that version on:
  the CPUID identification, the product and the decoded TCB from version 3, the two mitigation
  vectors from version 5.
\<close>

lemma versioned_fields:
  "(cpuid_fms r \<noteq> None \<longleftrightarrow> 3 \<le> version r)
   \<and> (product_of r \<noteq> None \<longleftrightarrow> 3 \<le> version r)
   \<and> (reported_tcb_parts r \<noteq> None \<longleftrightarrow> 3 \<le> version r)
   \<and> (launch_mit_vector r \<noteq> None \<longleftrightarrow> 5 \<le> version r)
   \<and> (current_mit_vector r \<noteq> None \<longleftrightarrow> 5 \<le> version r)"
  by (simp_all add: cpuid_fms_def product_of_def reported_tcb_parts_def launch_mit_vector_def
      current_mit_vector_def then_some_def Let_def)

text \<open>
  C31: a report decodes its own TCB with the layout of the processor it names.  When the parts
  are available they come from \<^verbatim>\<open>reported_tcb\<close>, an FMC version is present exactly for family 1Ah
  and later, and encoding them again for the same product restores every byte of the reported
  word that the layout does not reserve.
\<close>

theorem reported_tcb_parts_self_consistent:
  assumes parts: "reported_tcb_parts r = Some p"
  shows "\<exists>fms. cpuid_fms r = Some fms
     \<and> p = decode (reported_tcb r) (Product_from_fms fms)
     \<and> (fmc p \<noteq> None \<longleftrightarrow> 0x1A \<le> family fms)
     \<and> (\<forall>i < 8. i \<notin> tcb_reserved (Product_tcb_layout (Product_from_fms fms)) \<longrightarrow>
          to_le_bytes (raw (encode p (Product_from_fms fms))) ! i
            = to_le_bytes (raw (reported_tcb r)) ! i)"
proof -
  obtain fms where fms: "cpuid_fms r = Some fms"
    and p: "p = decode (reported_tcb r) (Product_from_fms fms)"
    using parts by (auto simp: reported_tcb_parts_def product_of_def)
  have "fmc p \<noteq> None \<longleftrightarrow> 0x1A \<le> family fms"
    by (simp add: p decode_def Let_def tcb_layout_by_family)
  then show ?thesis
    using fms p by (auto simp: tcb_bytes_kept)
qed

lemma milan_fms: "cpuid_fms milan_report = Some \<lparr>family = 0x19, model = 1, stepping = 1\<rparr>"
  by (simp add: cpuid_fms_def milan_version milan_field MILAN_V5_def milan_tcb_def then_some_def
      Fms_new_def)

lemma milan_tcb_parts:
  "reported_tcb_parts milan_report =
     Some \<lparr>fmc = None, bootloader = 4, tee = 0, snp = 29, microcode = 222\<rparr>"
  by (simp add: reported_tcb_parts_def product_of_def milan_fms Product_from_fms_def decode_def
      Product_tcb_layout_def reported_tcb_def TcbVersion_from_raw_def milan_field MILAN_V5_def
      milan_tcb_def)

lemma reported_tcb_parts_witness:
  "\<exists>p fms. reported_tcb_parts milan_report = Some p \<and> cpuid_fms milan_report = Some fms
     \<and> p = decode (reported_tcb milan_report) (Product_from_fms fms) \<and> fmc p = None"
  using reported_tcb_parts_self_consistent [OF milan_tcb_parts] milan_tcb_parts by auto

section \<open>Signatures\<close>

text \<open>The integer a little-endian and a big-endian byte string stand for.\<close>

definition le_value :: "u8 list \<Rightarrow> nat" where
  "le_value bs = foldr (\<lambda>b acc. unat b + 256 * acc) bs 0"

definition be_value :: "u8 list \<Rightarrow> nat" where
  "be_value bs = foldl (\<lambda>acc b. acc * 256 + unat b) 0 bs"

lemma be_value_rev: "be_value (rev bs) = le_value bs"
  by (induction bs) (simp_all add: be_value_def le_value_def)

lemma le_value_append: "le_value (xs @ ys) = le_value xs + 256 ^ length xs * le_value ys"
  by (induction xs) (simp_all add: le_value_def algebra_simps)

lemma le_value_less: "le_value bs < 256 ^ length bs"
proof (induction bs)
  case Nil
  then show ?case by (simp add: le_value_def)
next
  case (Cons b bs)
  have "unat b < 256" using unsigned_less [of b, where 'a = nat] by simp
  moreover have "le_value (b # bs) = unat b + 256 * le_value bs" by (simp add: le_value_def)
  ultimately show ?case using Cons by simp
qed

lemma le_value_take: "n \<le> length bs \<Longrightarrow> le_value (take n bs) = le_value bs mod 256 ^ n"
proof -
  assume n: "n \<le> length bs"
  then have "le_value bs = le_value (take n bs) + 256 ^ n * le_value (drop n bs)"
    using le_value_append [of "take n bs" "drop n bs"] by simp
  moreover have "le_value (take n bs) < 256 ^ n"
    using le_value_less [of "take n bs"] n by simp
  ultimately show ?thesis by simp
qed

lemma to_be_48_value:
  "length le = 72 \<Longrightarrow> length (to_be_48 le) = 48 \<and> be_value (to_be_48 le) = le_value le mod 256 ^ 48"
  by (simp add: to_be_48_def first_chunk_def be_value_rev le_value_take)

text \<open>
  C32: the signature of a report is offered only for the one algorithm the crate decodes, its two
  components are the first two 72-byte little-endian numbers of the signature field, and the
  48-byte big-endian forms have the same value modulo \<open>2 ^ 384\<close>; so they are exact whenever the
  24 padding bytes are zero.
\<close>

theorem ecdsa_signature_faithful:
  assumes "wf_report r"
  shows "ecdsa_signature r =
      (if report_u32_at r 0x34 = 1
       then Some \<lparr>sig_r = take 72 (signature r), sig_s = take 72 (drop 72 (signature r))\<rparr>
       else None)
    \<and> (\<forall>s. ecdsa_signature r = Some s \<longrightarrow>
         length (r_be s) = 48 \<and> be_value (r_be s) = le_value (sig_r s) mod 2 ^ 384
       \<and> length (s_be s) = 48 \<and> be_value (s_be s) = le_value (sig_s s) mod 2 ^ 384)"
proof -
  have algo: "report_signature_algo r = EcdsaP384Sha384 \<longleftrightarrow> report_u32_at r 0x34 = 1"
    by (simp add: report_signature_algo_def SignatureAlgo_from_raw_def)
  have parts: "field 72 r 0x2A0 = take 72 (signature r)"
    "field 72 r 0x2E8 = take 72 (drop 72 (signature r))"
    using assms by (simp_all add: signature_def wf_field drop_take min_def)
  have pow: "(256 :: nat) ^ 48 = 2 ^ 384" by simp
  show ?thesis
    using to_be_48_value [of "field 72 r 0x2A0"] to_be_48_value [of "field 72 r 0x2E8"]
    unfolding ecdsa_signature_def algo r_be_def s_be_def pow
    by (auto simp flip: parts)
qed

lemma ecdsa_signature_witness:
  "ecdsa_signature milan_report \<noteq> None \<and> wf_report milan_report"
proof -
  have "report_u32_at milan_report 0x34 = 1"
    by (simp add: report_u32_at_def milan_field MILAN_V5_def milan_head_def from_le_bytes_Cons)
  then show ?thesis
    using ecdsa_signature_faithful [OF milan_wf] milan_wf by simp
qed

text \<open>
  The signed region and the signature split the report: \<^verbatim>\<open>signed_bytes\<close> is the first 672 bytes
  and what follows it is exactly the signature field.
\<close>

lemma signed_bytes_signature:
  assumes "wf_report r"
  shows "signed_bytes r @ signature r = report_raw r \<and> length (signed_bytes r) = SIGNED_LEN"
proof -
  have len: "length (report_raw r) = 1184" using assms by (simp add: wf_report_def SIZE_def)
  then have "signed_bytes r = take 672 (report_raw r)" "signature r = drop 672 (report_raw r)"
    using assms
    by (simp_all add: signed_bytes_def split_at_checked_def SIGNED_LEN_def signature_def wf_field)
  then show ?thesis
    by (simp add: len SIGNED_LEN_def)
qed

lemma signed_bytes_witness: "length (signed_bytes milan_report) = 672"
  using signed_bytes_signature [OF milan_wf] by (simp add: SIGNED_LEN_def)

end
