(* ===== verification/Certs.thy ===== *)
theory Certs
  imports Report
begin

text \<open>
  \<^verbatim>\<open>src/certs.rs\<close>: the certificate table of an extended report.  \<open>CertTable_parse\<close> is the
  source's loop with its cursor and its growing vector; it ends because the number of entries
  is bounded before each one is read.  The abstract view is \<open>table_spec\<close>: a blob describes a
  list of entries when its first records are those entries and the next record is the
  terminator.  The theorems show that the parser implements that view, that a decoded table is
  bounded in entries and bytes, and that the entry limit is one lower than the one documented.
\<close>

section \<open>Data\<close>

definition ENTRY_SIZE :: nat where
  "ENTRY_SIZE = 24"

definition BLOB_MAX :: nat where
  "BLOB_MAX = 0x4000"

definition MAX_ENTRIES :: nat where
  "MAX_ENTRIES = 16"

definition ENTRY_OFFSET_FIELD :: nat where
  "ENTRY_OFFSET_FIELD = 16"

definition ENTRY_LENGTH_FIELD :: nat where
  "ENTRY_LENGTH_FIELD = 20"

datatype cert_kind = Vcek | Vlek | Ask | Ark | ExtraPlatformInfo | UnknownCert

definition VCEK_GUID :: "u8 list" where
  "VCEK_GUID =
    [0x63, 0xda, 0x75, 0x8d, 0xe6, 0x64, 0x45, 0x64, 0xad, 0xc5, 0xf4, 0xb9, 0x3b, 0xe8, 0xac, 0xcd]"

definition VLEK_GUID :: "u8 list" where
  "VLEK_GUID =
    [0xa8, 0x07, 0x4b, 0xc2, 0xa2, 0x5a, 0x48, 0x3e, 0xaa, 0xe6, 0x39, 0xc0, 0x45, 0xa0, 0xb8, 0xa1]"

definition ASK_GUID :: "u8 list" where
  "ASK_GUID =
    [0x4a, 0xb7, 0xb3, 0x79, 0xbb, 0xac, 0x4f, 0xe4, 0xa0, 0x2f, 0x05, 0xae, 0xf3, 0x27, 0xc7, 0x82]"

definition ARK_GUID :: "u8 list" where
  "ARK_GUID =
    [0xc0, 0xb4, 0x06, 0xa4, 0xa8, 0x03, 0x49, 0x52, 0x97, 0x43, 0x3f, 0xb6, 0x01, 0x4c, 0xd0, 0xae]"

definition EXTRA_PLATFORM_INFO_GUID :: "u8 list" where
  "EXTRA_PLATFORM_INFO_GUID =
    [0xec, 0xae, 0x0c, 0x0f, 0x95, 0x02, 0x43, 0xb1, 0xaf, 0xa2, 0x0a, 0xe2, 0xe0, 0xd5, 0x65, 0xb6]"

definition CertKind_from_guid :: "u8 list \<Rightarrow> cert_kind" where
  "CertKind_from_guid guid =
     (if guid = VCEK_GUID then Vcek
      else if guid = VLEK_GUID then Vlek
      else if guid = ASK_GUID then Ask
      else if guid = ARK_GUID then Ark
      else if guid = EXTRA_PLATFORM_INFO_GUID then ExtraPlatformInfo
      else UnknownCert)"

record Certificate =
  cert_kind :: cert_kind
  cert_guid :: "u8 list"
  cert_data :: "u8 list"

datatype CertTable = CertTable (entries: "Certificate list")

record ExtendedReport =
  ext_report :: AttestationReport
  certificates :: CertTable

section \<open>Parsing\<close>

text \<open>One turn of the loop after the entry-count check: stop, an error, or one more certificate.\<close>

datatype entry_step = Terminator | Entry Certificate

definition parse_entry :: "u8 list \<Rightarrow> nat \<Rightarrow> entry_step result" where
  "parse_entry blob cursor =
     (let short = Parse (TooShort ''certificate table entry''
            (saturating_add cursor ENTRY_SIZE) (length blob)) in
      try_with (ok_or (bytes_at 16 blob cursor) short) (\<lambda>guid.
      try_with (ok_or (u32_at blob (saturating_add cursor ENTRY_OFFSET_FIELD)) short) (\<lambda>offset.
      try_with (ok_or (u32_at blob (saturating_add cursor ENTRY_LENGTH_FIELD)) short) (\<lambda>len32.
        if guid = replicate 16 0 \<and> offset = 0 \<and> len32 = 0 then Inr Terminator
        else
          try_with (ok_or (usize_try_from offset) (Parse CertTableOutOfBounds)) (\<lambda>start.
          try_with (ok_or (usize_try_from len32) (Parse CertTableOutOfBounds)) (\<lambda>len.
          try_with (ok_or (checked_add start len) (Parse CertTableOutOfBounds)) (\<lambda>stop.
          try_with (ok_or (slice_range blob start stop) (Parse CertTableOutOfBounds)) (\<lambda>data.
            Inr (Entry \<lparr>cert_kind = CertKind_from_guid guid, cert_guid = guid, cert_data = data\<rparr>)
          ))))))))"

function parse_loop :: "u8 list \<Rightarrow> Certificate list \<Rightarrow> nat \<Rightarrow> Certificate list result" where
  "parse_loop blob certs cursor =
     (if MAX_ENTRIES \<le> length certs
      then Inl (Parse (CertTableTooLarge ''entry count'' MAX_ENTRIES))
      else
        (case parse_entry blob cursor of
           Inl e \<Rightarrow> Inl e
         | Inr Terminator \<Rightarrow> Inr certs
         | Inr (Entry c) \<Rightarrow> parse_loop blob (certs @ [c]) (saturating_add cursor ENTRY_SIZE)))"
  by pat_completeness auto
termination
  by (relation "measure (\<lambda>(blob, certs, cursor). MAX_ENTRIES - length certs)") auto

declare parse_loop.simps [simp del]

definition CertTable_parse :: "u8 list \<Rightarrow> CertTable result" where
  "CertTable_parse blob =
     (if blob = [] then Inr (CertTable [])
      else if BLOB_MAX < length blob then Inl (Parse (CertTableTooLarge ''blob'' BLOB_MAX))
      else try_with (parse_loop blob [] 0) (\<lambda>certs. Inr (CertTable certs)))"

section \<open>Queries\<close>

definition CertTable_entries :: "CertTable \<Rightarrow> Certificate list" where
  "CertTable_entries t = entries t"

definition Certificate_kind :: "Certificate \<Rightarrow> cert_kind" where
  "Certificate_kind c = cert_kind c"

definition Certificate_guid :: "Certificate \<Rightarrow> u8 list" where
  "Certificate_guid c = cert_guid c"

definition Certificate_data :: "Certificate \<Rightarrow> u8 list" where
  "Certificate_data c = cert_data c"

definition CertTable_get :: "CertTable \<Rightarrow> cert_kind \<Rightarrow> Certificate option" where
  "CertTable_get t kind = find (\<lambda>c. cert_kind c = kind) (entries t)"

definition CertTable_is_empty :: "CertTable \<Rightarrow> bool" where
  "CertTable_is_empty t \<longleftrightarrow> entries t = []"

definition CertTable_len :: "CertTable \<Rightarrow> nat" where
  "CertTable_len t = length (entries t)"

definition cert_kind_debug :: "cert_kind \<Rightarrow> string" where
  "cert_kind_debug k =
     (case k of Vcek \<Rightarrow> ''Vcek'' | Vlek \<Rightarrow> ''Vlek'' | Ask \<Rightarrow> ''Ask'' | Ark \<Rightarrow> ''Ark''
      | ExtraPlatformInfo \<Rightarrow> ''ExtraPlatformInfo'' | UnknownCert \<Rightarrow> ''Unknown'')"

definition Certificate_debug :: "Certificate \<Rightarrow> string" where
  "Certificate_debug c =
     debug_struct_non_exhaustive ''Certificate''
       [(''kind'', cert_kind_debug (cert_kind c)), (''len'', show_dec (length (cert_data c)))]"

section \<open>The table as its records describe it\<close>

text \<open>
  The blob read as a sequence of 24-byte records, without the loop: record \<open>n\<close>, the entry it
  describes, whether that entry lies within the blob, and how many leading records are entries.
\<close>

definition table_record :: "u8 list \<Rightarrow> nat \<Rightarrow> u8 list" where
  "table_record blob n = take 24 (drop (24 * n) blob)"

definition body_start :: "u8 list \<Rightarrow> nat \<Rightarrow> nat" where
  "body_start blob n = unat (from_le_bytes (take 4 (drop 16 (table_record blob n))) :: u32)"

definition body_len :: "u8 list \<Rightarrow> nat \<Rightarrow> nat" where
  "body_len blob n = unat (from_le_bytes (drop 20 (table_record blob n)) :: u32)"

definition entry_cert :: "u8 list \<Rightarrow> nat \<Rightarrow> Certificate" where
  "entry_cert blob n =
     (let guid = take 16 (table_record blob n) in
      \<lparr>cert_kind = CertKind_from_guid guid, cert_guid = guid,
       cert_data = take (body_len blob n) (drop (body_start blob n) blob)\<rparr>)"

definition entry_ok :: "u8 list \<Rightarrow> nat \<Rightarrow> bool" where
  "entry_ok blob n \<longleftrightarrow>
     24 * n + 24 \<le> length blob \<and> table_record blob n \<noteq> replicate 24 0
     \<and> body_start blob n + body_len blob n \<le> length blob"

lemma nonzero_record: "hd r \<noteq> 0 \<Longrightarrow> 0 < n \<Longrightarrow> r \<noteq> replicate n (0 :: u8)"
  by auto

lemma record_of_repeat:
  "length r = 24 \<Longrightarrow> i < n \<Longrightarrow> table_record (concat (replicate n r) @ rest) i = r"
proof (induction n arbitrary: i)
  case 0
  then show ?case by simp
next
  case (Suc n)
  then show ?case
    by (cases i) (simp_all add: table_record_def)
qed

definition leading_entries :: "u8 list \<Rightarrow> nat" where
  "leading_entries blob = length (takeWhile (entry_ok blob) [0..<16])"

lemma take_drop_record:
  "off + k \<le> 24 \<Longrightarrow> take k (drop (24 * n + off) blob) = take k (drop off (table_record blob n))"
  by (simp add: table_record_def drop_take min_def add.commute)

lemma le32_zero_iff: "length bs = 4 \<Longrightarrow> (from_le_bytes bs :: u32) = 0 \<longleftrightarrow> bs = replicate 4 0"
  using le32.same_field_iff [of bs "replicate 4 0"] from_le_bytes_replicate_0 [of 4]
  by (metis length_replicate)

lemma record_zero_iff:
  assumes "length rec = 24"
  shows "rec = replicate 24 0 \<longleftrightarrow>
     take 16 rec = replicate 16 0 \<and> (from_le_bytes (take 4 (drop 16 rec)) :: u32) = 0
     \<and> (from_le_bytes (drop 20 rec) :: u32) = 0"
proof -
  have split: "rec = take 16 rec @ take 4 (drop 16 rec) @ drop 20 rec"
    by (simp add: join_slices)
  have zeros: "replicate 24 (0 :: u8) = replicate 16 0 @ replicate 4 0 @ replicate 4 0"
    by (simp flip: replicate_add)
  have "rec = replicate 24 0 \<longleftrightarrow>
      take 16 rec = replicate 16 0 \<and> take 4 (drop 16 rec) = replicate 4 0
      \<and> drop 20 rec = replicate 4 0"
    unfolding zeros using assms
    by (subst split) (simp del: append_take_drop_id)
  then show ?thesis
    using assms by (simp add: le32_zero_iff)
qed

lemma parse_entry_eq:
  assumes "n \<le> 16"
  shows "parse_entry blob (24 * n) =
     (if length blob < 24 * n + 24
        then Inl (Parse (TooShort ''certificate table entry'' (24 * n + 24) (length blob)))
      else if table_record blob n = replicate 24 0 then Inr Terminator
      else if entry_ok blob n then Inr (Entry (entry_cert blob n))
      else Inl (Parse CertTableOutOfBounds))"
proof -
  have sat: "saturating_add (24 * n) 24 = 24 * n + 24" "saturating_add (24 * n) 16 = 24 * n + 16"
    "saturating_add (24 * n) 20 = 24 * n + 20"
    using assms by (simp_all add: saturating_add_small usize_max_def)
  note entry_layout = ENTRY_SIZE_def ENTRY_OFFSET_FIELD_def ENTRY_LENGTH_FIELD_def
  show ?thesis
  proof (cases "length blob < 24 * n + 24")
    case True
    then show ?thesis
      by (auto simp: parse_entry_def entry_layout sat bytes_at_eq u32_at_eq ok_or_def Let_def)
  next
    case False
    then have rec: "length (table_record blob n) = 24"
      by (simp add: table_record_def)
    have guid: "bytes_at 16 blob (24 * n) = Some (take 16 (table_record blob n))"
      using False take_drop_record [of 0 16 n blob] by (simp add: bytes_at_eq)
    have off: "u32_at blob (24 * n + 16)
        = Some (from_le_bytes (take 4 (drop 16 (table_record blob n))))"
      using False take_drop_record [of 16 4 n blob] by (simp add: u32_at_eq)
    have len: "u32_at blob (24 * n + 20) = Some (from_le_bytes (drop 20 (table_record blob n)))"
      using False rec take_drop_record [of 20 4 n blob] by (simp add: u32_at_eq)
    show ?thesis
      using False record_zero_iff [OF rec]
      by (auto simp: parse_entry_def entry_layout sat guid off len Let_def entry_ok_def slice_range_def
          entry_cert_def body_start_def body_len_def)
  qed
qed

lemma entry_ok_step:
  assumes "n < 16" "entry_ok blob n"
  shows "parse_loop blob (map (entry_cert blob) [0..<n]) (24 * n)
     = parse_loop blob (map (entry_cert blob) [0..<Suc n]) (24 * Suc n)"
proof -
  have "saturating_add (24 * n) 24 = 24 * Suc n"
    using assms by (simp add: saturating_add_small usize_max_def)
  moreover have "parse_entry blob (24 * n) = Inr (Entry (entry_cert blob n))"
    using assms by (simp add: parse_entry_eq entry_ok_def)
  ultimately show ?thesis
    using assms(1)
    by (subst parse_loop.simps) (simp add: MAX_ENTRIES_def ENTRY_SIZE_def)
qed

lemma parse_loop_prefix:
  "n \<le> 16 \<Longrightarrow> (\<And>i. i < n \<Longrightarrow> entry_ok blob i) \<Longrightarrow>
   parse_loop blob [] 0 = parse_loop blob (map (entry_cert blob) [0..<n]) (24 * n)"
proof (induction n)
  case 0
  then show ?case by simp
next
  case (Suc n)
  then show ?case using entry_ok_step [of n blob] by simp
qed

lemma leading_entries_bound: "leading_entries blob \<le> 16"
  using length_takeWhile_le [of "entry_ok blob" "[0..<16]"] by (simp add: leading_entries_def)

lemma leading_entries_ok: "i < leading_entries blob \<Longrightarrow> entry_ok blob i"
  using leading_entries_bound [of blob] nth_mem [of i "takeWhile (entry_ok blob) [0..<16]"]
    takeWhile_nth [of i "entry_ok blob" "[0..<16]"] set_takeWhileD
  by (fastforce simp: leading_entries_def)

lemma leading_entries_stop: "leading_entries blob < 16 \<Longrightarrow> \<not> entry_ok blob (leading_entries blob)"
  using nth_length_takeWhile [of "entry_ok blob" "[0..<16]"] by (simp add: leading_entries_def)

lemma leading_entries_unique:
  assumes "k \<le> 16" "\<And>i. i < k \<Longrightarrow> entry_ok blob i" "k < 16 \<Longrightarrow> \<not> entry_ok blob k"
  shows "leading_entries blob = k"
proof (rule linorder_cases [of k "leading_entries blob"])
  assume "k < leading_entries blob"
  then show ?thesis
    using leading_entries_ok [of k blob] leading_entries_bound [of blob] assms(3) by linarith
next
  assume "leading_entries blob < k"
  then show ?thesis
    using leading_entries_stop [of blob] assms(1,2) by force
qed simp

lemma table_outcome:
  "CertTable_parse blob =
     (let k = leading_entries blob in
      if blob = [] then Inr (CertTable [])
      else if 0x4000 < length blob then Inl (Parse (CertTableTooLarge ''blob'' 0x4000))
      else if k = 16 then Inl (Parse (CertTableTooLarge ''entry count'' 16))
      else if length blob < 24 * k + 24
        then Inl (Parse (TooShort ''certificate table entry'' (24 * k + 24) (length blob)))
      else if table_record blob k = replicate 24 0
        then Inr (CertTable (map (entry_cert blob) [0..<k]))
      else Inl (Parse CertTableOutOfBounds))"
proof -
  let ?k = "leading_entries blob"
  have k: "?k \<le> 16" by (rule leading_entries_bound)
  have loop: "parse_loop blob [] 0 = parse_loop blob (map (entry_cert blob) [0..<?k]) (24 * ?k)"
    using k leading_entries_ok by (rule parse_loop_prefix)
  also have "\<dots> =
      (if ?k = 16 then Inl (Parse (CertTableTooLarge ''entry count'' 16))
       else if length blob < 24 * ?k + 24
         then Inl (Parse (TooShort ''certificate table entry'' (24 * ?k + 24) (length blob)))
       else if table_record blob ?k = replicate 24 0 then Inr (map (entry_cert blob) [0..<?k])
       else Inl (Parse CertTableOutOfBounds))"
    using k leading_entries_stop [of blob]
    by (subst parse_loop.simps)
      (auto simp: MAX_ENTRIES_def parse_entry_eq)
  finally show ?thesis
    by (simp add: CertTable_parse_def BLOB_MAX_def Let_def)
qed

text \<open>
  C6: the outcome of parsing a certificate table, on every blob, without the loop.  With \<open>k\<close> the
  number of leading records that are in-bounds entries, the parser returns those \<open>k\<close> entries
  when record \<open>k\<close> is the all-zero terminator and reports the first thing wrong otherwise: the
  blob is over 16 KiB, 16 entries precede the terminator, the records run off the blob, or a
  body does.
\<close>

theorem CertTable_parse_outcome:
  "CertTable_parse blob =
     (let k = leading_entries blob in
      if blob = [] then Inr (CertTable [])
      else if 0x4000 < length blob then Inl (Parse (CertTableTooLarge ''blob'' 0x4000))
      else if k = 16 then Inl (Parse (CertTableTooLarge ''entry count'' 16))
      else if length blob < 24 * k + 24
        then Inl (Parse (TooShort ''certificate table entry'' (24 * k + 24) (length blob)))
      else if table_record blob k = replicate 24 0
        then Inr (CertTable (map (entry_cert blob) [0..<k]))
      else Inl (Parse CertTableOutOfBounds))"
  by (rule table_outcome)

text \<open>
  The abstract contract: a blob describes a list of certificates when its first records are
  those entries, each with its body inside the blob, and the next record is the terminator.
\<close>

definition table_spec :: "u8 list \<Rightarrow> Certificate list \<Rightarrow> bool" where
  "table_spec blob cs \<longleftrightarrow>
     (\<forall>i < length cs. entry_ok blob i \<and> cs ! i = entry_cert blob i)
     \<and> 24 * length cs + 24 \<le> length blob
     \<and> table_record blob (length cs) = replicate 24 0"

lemma table_spec_map:
  "table_spec blob cs \<longleftrightarrow>
     cs = map (entry_cert blob) [0..<length cs] \<and> (\<forall>i < length cs. entry_ok blob i)
     \<and> 24 * length cs + 24 \<le> length blob \<and> table_record blob (length cs) = replicate 24 0"
  unfolding table_spec_def list_eq_iff_nth_eq by auto

lemma table_spec_leading:
  assumes "table_spec blob cs" "length cs \<le> 16"
  shows "leading_entries blob = length cs"
  using assms by (intro leading_entries_unique) (auto simp: table_spec_def entry_ok_def)

lemma table_iff:
  "CertTable_parse blob = Inr (CertTable cs) \<longleftrightarrow>
     blob = [] \<and> cs = [] \<or> length blob \<le> 0x4000 \<and> length cs \<le> 15 \<and> table_spec blob cs"
    (is "?parsed \<longleftrightarrow> ?spec")
proof
  assume ?parsed
  then show ?spec
    using leading_entries_bound [of blob]
    by (auto simp: table_outcome Let_def table_spec_def leading_entries_ok split: if_splits)
next
  assume ?spec
  then show ?parsed
  proof
    assume "blob = [] \<and> cs = []"
    then show ?thesis by (simp add: CertTable_parse_def)
  next
    assume spec: "length blob \<le> 0x4000 \<and> length cs \<le> 15 \<and> table_spec blob cs"
    then have "leading_entries blob = length cs"
      by (intro table_spec_leading) auto
    then show ?thesis
      using spec by (auto simp: table_outcome Let_def table_spec_map)
  qed
qed

text \<open>
  The parser implements the abstract contract.  It returns a table exactly when the blob is
  empty (and the table is), or the blob is at most 16 KiB and describes these at most 15
  entries.
\<close>

lemma CertTable_parse_refines:
  "CertTable_parse blob = Inr (CertTable cs) \<longleftrightarrow>
     blob = [] \<and> cs = [] \<or> length blob \<le> 0x4000 \<and> length cs \<le> 15 \<and> table_spec blob cs"
  by (rule table_iff)

lemma sum_list_map_le:
  "(\<And>x. x \<in> set xs \<Longrightarrow> f x \<le> (b :: nat)) \<Longrightarrow> sum_list (map f xs) \<le> length xs * b"
  by (induction xs) (auto intro!: add_mono)

text \<open>
  C19: a decoded table is bounded whatever the host supplied.  It has at most 15 entries; each
  body is a contiguous part of the blob, each kind is the one its GUID names; and all bodies
  together take at most 15 times 16 KiB, even when every entry points at the same bytes.
\<close>

theorem parsed_table_bounded:
  assumes "CertTable_parse blob = Inr t"
  shows "CertTable_len t \<le> 15
     \<and> (\<forall>c \<in> set (entries t). (\<exists>pre post. blob = pre @ cert_data c @ post)
          \<and> length (cert_guid c) = 16 \<and> cert_kind c = CertKind_from_guid (cert_guid c))
     \<and> sum_list (map (length \<circ> cert_data) (entries t)) \<le> 15 * 0x4000"
proof -
  obtain cs where t: "t = CertTable cs" by (cases t)
  show ?thesis
  proof (cases "cs = []")
    case True
    then show ?thesis by (simp add: t CertTable_len_def)
  next
    case False
    then have len: "length blob \<le> 0x4000" "length cs \<le> 15" and spec: "table_spec blob cs"
      using assms by (auto simp: t table_iff)
    have entry: "(\<exists>pre post. blob = pre @ cert_data c @ post) \<and> length (cert_guid c) = 16
        \<and> cert_kind c = CertKind_from_guid (cert_guid c)" if mem: "c \<in> set cs" for c
    proof -
      obtain i where "i < length cs" "c = cs ! i"
        using mem by (auto simp: in_set_conv_nth)
      then have c: "c = entry_cert blob i" and ok: "entry_ok blob i"
        using spec by (auto simp: table_spec_def)
      have "blob = take (body_start blob i) blob @ cert_data c
          @ drop (body_len blob i) (drop (body_start blob i) blob)"
        by (simp add: c entry_cert_def Let_def del: drop_drop)
      moreover have "length (table_record blob i) = 24"
        using ok by (simp add: entry_ok_def table_record_def le_diff_conv2)
      then have "length (cert_guid c) = 16"
        by (simp add: c entry_cert_def Let_def)
      ultimately show ?thesis by (auto simp: c entry_cert_def Let_def)
    qed
    have "length (cert_data c) \<le> 0x4000" if "c \<in> set cs" for c
      using entry [OF that] len(1) by auto
    then have "sum_list (map (length \<circ> cert_data) cs) \<le> length cs * 0x4000"
      by (intro sum_list_map_le) simp
    then show ?thesis
      using len(2) entry by (auto simp: t CertTable_len_def)
  qed
qed

section \<open>Building a table\<close>

text \<open>
  A table as a host lays one out: the records in order, each body directly after the one
  before it, the terminator, then the bodies.
\<close>

fun table_header :: "nat \<Rightarrow> (u8 list \<times> u8 list) list \<Rightarrow> u8 list" where
  "table_header start [] = replicate 24 0"
| "table_header start ((guid, body) # es) =
     guid @ to_le_bytes (of_nat start :: u32) @ to_le_bytes (of_nat (length body) :: u32)
     @ table_header (start + length body) es"

definition encode_table :: "(u8 list \<times> u8 list) list \<Rightarrow> u8 list" where
  "encode_table es = table_header (24 * length es + 24) es @ concat (map snd es)"

definition offset_of :: "nat \<Rightarrow> (u8 list \<times> u8 list) list \<Rightarrow> nat \<Rightarrow> nat" where
  "offset_of start es i = start + length (concat (map snd (take i es)))"

lemma length_table_header:
  "\<forall>(g, d) \<in> set es. length g = 16 \<Longrightarrow> length (table_header s es) = 24 * length es + 24"
  by (induction s es rule: table_header.induct) auto

lemma header_record:
  "\<forall>(g, d) \<in> set es. length g = 16 \<Longrightarrow> i < length es \<Longrightarrow>
   take 24 (drop (24 * i) (table_header s es @ rest)) =
     fst (es ! i) @ to_le_bytes (of_nat (offset_of s es i) :: u32)
     @ to_le_bytes (of_nat (length (snd (es ! i))) :: u32)"
proof (induction s es arbitrary: i rule: table_header.induct)
  case (1 s)
  then show ?case by simp
next
  case (2 s g d es)
  show ?case
  proof (cases i)
    case 0
    then show ?thesis using 2 by (simp add: offset_of_def)
  next
    case (Suc j)
    then have "drop (24 * i) (table_header s ((g, d) # es) @ rest)
        = drop (24 * j) (table_header (s + length d) es @ rest)"
      using 2 by simp
    then show ?thesis
      using 2 Suc by (simp add: offset_of_def add.assoc)
  qed
qed

lemma header_terminator:
  "\<forall>(g, d) \<in> set es. length g = 16 \<Longrightarrow>
   take 24 (drop (24 * length es) (table_header s es @ rest)) = replicate 24 0"
  by (induction s es rule: table_header.induct) auto

lemma body_at:
  "i < length es \<Longrightarrow>
   take (length (snd (es ! i))) (drop (length (concat (map snd (take i es)))) (concat (map snd es)))
     = snd (es ! i)"
proof (induction es arbitrary: i)
  case Nil
  then show ?case by simp
next
  case (Cons e es)
  then show ?case by (cases i) auto
qed

lemma body_fits:
  "i < length es \<Longrightarrow>
   length (concat (map snd (take i es))) + length (snd (es ! i)) \<le> length (concat (map snd es))"
proof (induction es arbitrary: i)
  case Nil
  then show ?case by simp
next
  case (Cons e es)
  then show ?case by (cases i) auto
qed

lemma unat_small_u32: "n \<le> 0x4000 \<Longrightarrow> unat (of_nat n :: u32) = n"
  by (simp add: unat_of_nat take_bit_nat_eq_self)

definition named :: "u8 list \<times> u8 list \<Rightarrow> Certificate" where
  "named e = \<lparr>cert_kind = CertKind_from_guid (fst e), cert_guid = fst e, cert_data = snd e\<rparr>"

lemma encoded_entry:
  assumes guids: "\<forall>(g, d) \<in> set es. length g = 16" and i: "i < length es"
    and len: "length (encode_table es) \<le> 0x4000"
  shows "entry_ok (encode_table es) i \<and> entry_cert (encode_table es) i = named (es ! i)"
proof -
  let ?blob = "encode_table es" and ?e = "es ! i"
  let ?off = "offset_of (24 * length es + 24) es i"
  have size: "length ?blob = 24 * length es + 24 + length (concat (map snd es))"
    using guids by (simp add: encode_table_def length_table_header)
  have fits: "?off + length (snd ?e) \<le> length ?blob"
    using body_fits [OF i] by (simp add: offset_of_def size)
  have g: "length (fst ?e) = 16" using guids i by (auto simp: all_set_conv_all_nth case_prod_beta)
  have rec: "table_record ?blob i = fst ?e @ to_le_bytes (of_nat ?off :: u32)
      @ to_le_bytes (of_nat (length (snd ?e)) :: u32)"
    unfolding table_record_def encode_table_def using guids i by (rule header_record)
  have start: "body_start ?blob i = ?off" and blen: "body_len ?blob i = length (snd ?e)"
    using fits len by (simp_all add: body_start_def body_len_def rec g unat_small_u32)
  have "0 < ?off" by (simp add: offset_of_def)
  moreover have "body_start ?blob i = 0" if "table_record ?blob i = replicate 24 0"
    by (simp add: body_start_def that)
  ultimately have "table_record ?blob i \<noteq> replicate 24 0"
    using start by auto
  moreover have "take (length (snd ?e)) (drop ?off ?blob) = snd ?e"
    using guids body_at [OF i] by (simp add: encode_table_def offset_of_def length_table_header)
  ultimately show ?thesis
    using fits i size
    by (auto simp: entry_ok_def start blen entry_cert_def Let_def named_def rec g)
qed

lemma encoded_spec:
  assumes "\<forall>(g, d) \<in> set es. length g = 16" "length (encode_table es) \<le> 0x4000"
  shows "table_spec (encode_table es) (map named es)"
proof -
  have "table_record (encode_table es) (length es) = replicate 24 0"
    unfolding table_record_def encode_table_def using assms(1) by (rule header_terminator)
  moreover have "24 * length es + 24 \<le> length (encode_table es)"
    using assms(1) by (simp add: encode_table_def length_table_header)
  ultimately show ?thesis
    using encoded_entry [OF assms(1) _ assms(2)] by (simp add: table_spec_def)
qed

lemma encoded_parse:
  assumes guids: "\<forall>(g, d) \<in> set es. length g = 16"
    and len: "length (encode_table es) \<le> 0x4000"
  shows "CertTable_parse (encode_table es) =
     (if length es < MAX_ENTRIES then Inr (CertTable (map named es))
      else Inl (Parse (CertTableTooLarge ''entry count'' MAX_ENTRIES)))"
proof (cases "length es < 16")
  case True
  then show ?thesis
    using encoded_spec [OF guids len] len by (simp add: table_iff MAX_ENTRIES_def)
next
  case False
  then have "leading_entries (encode_table es) = 16"
    using encoded_entry [OF guids _ len] by (intro leading_entries_unique) auto
  moreover have "encode_table es \<noteq> []"
    using False length_table_header [OF guids, of "24 * length es + 24"]
    by (auto simp: encode_table_def)
  ultimately show ?thesis
    using False len by (simp add: table_outcome MAX_ENTRIES_def)
qed

lemma parsed_table_bounded_witness:
  "CertTable_parse (encode_table [(VCEK_GUID, [0x30, 0x82]), (ASK_GUID, [0x31])])
     = Inr (CertTable [named (VCEK_GUID, [0x30, 0x82]), named (ASK_GUID, [0x31])])
   \<and> sum_list (map (length \<circ> cert_data)
       (entries (CertTable [named (VCEK_GUID, [0x30, 0x82]), named (ASK_GUID, [0x31])]))) \<le> 15 * 0x4000"
proof -
  let ?es = "[(VCEK_GUID, [0x30, 0x82]), (ASK_GUID, [0x31])] :: (u8 list \<times> u8 list) list"
  have "length (encode_table ?es) = 75"
    by (simp add: encode_table_def VCEK_GUID_def ASK_GUID_def)
  then have parsed: "CertTable_parse (encode_table ?es) = Inr (CertTable (map named ?es))"
    using encoded_parse [of ?es] by (simp add: VCEK_GUID_def ASK_GUID_def MAX_ENTRIES_def)
  then show ?thesis using parsed_table_bounded [OF parsed] by simp
qed

text \<open>
  C20: laying a table out and parsing it returns its entries, in order, each with the body and
  the kind of its GUID, as long as there are at most 15.  From 16 entries on a well-formed
  table is rejected: the entry count is checked before the terminator is looked at, so the
  largest table the parser accepts has one entry fewer than \<open>MAX_ENTRIES\<close>.
\<close>

theorem encode_table_round_trip:
  assumes guids: "\<forall>(g, d) \<in> set es. length g = 16"
    and len: "length (encode_table es) \<le> 0x4000"
  shows "CertTable_parse (encode_table es) =
     (if length es < MAX_ENTRIES then Inr (CertTable (map named es))
      else Inl (Parse (CertTableTooLarge ''entry count'' MAX_ENTRIES)))"
  using assms by (rule encoded_parse)

lemma encode_table_witness:
  "CertTable_parse (encode_table [(VCEK_GUID, [0x30]), (ASK_GUID, [])])
     = Inr (CertTable
         [\<lparr>cert_kind = Vcek, cert_guid = VCEK_GUID, cert_data = [0x30]\<rparr>,
          \<lparr>cert_kind = Ask, cert_guid = ASK_GUID, cert_data = []\<rparr>])
   \<and> CertTable_parse (encode_table (replicate 16 (VCEK_GUID, [])))
     = Inl (Parse (CertTableTooLarge ''entry count'' 16))"
proof
  show "CertTable_parse (encode_table [(VCEK_GUID, [0x30]), (ASK_GUID, [])])
     = Inr (CertTable
         [\<lparr>cert_kind = Vcek, cert_guid = VCEK_GUID, cert_data = [0x30]\<rparr>,
          \<lparr>cert_kind = Ask, cert_guid = ASK_GUID, cert_data = []\<rparr>])"
    by (subst encode_table_round_trip)
      (simp_all add: encode_table_def VCEK_GUID_def ASK_GUID_def MAX_ENTRIES_def named_def
        CertKind_from_guid_def VLEK_GUID_def)
  have "\<forall>(g, d) \<in> set (replicate 16 (VCEK_GUID, [])). length g = 16"
    by (simp add: VCEK_GUID_def)
  then show "CertTable_parse (encode_table (replicate 16 (VCEK_GUID, [])))
     = Inl (Parse (CertTableTooLarge ''entry count'' 16))"
    by (subst encode_table_round_trip)
      (simp_all add: encode_table_def length_table_header MAX_ENTRIES_def)
qed

text \<open>
  Looking a kind up in a table that was laid out returns the first entry whose GUID names
  that kind, with its body intact, and nothing when no entry does.
\<close>

lemma get_after_parse:
  assumes "\<forall>(g, d) \<in> set es. length g = 16" "length (encode_table es) \<le> 0x4000"
    and parsed: "CertTable_parse (encode_table es) = Inr t"
  shows "CertTable_get t kind =
     map_option named (find (\<lambda>e. CertKind_from_guid (fst e) = kind) es)"
proof -
  have "t = CertTable (map named es)"
    using encoded_parse [OF assms(1,2)] parsed by (simp split: if_splits)
  moreover have "find (\<lambda>c. cert_kind c = kind) (map named es)
      = map_option named (find (\<lambda>e. CertKind_from_guid (fst e) = kind) es)"
    by (induction es) (auto simp: named_def)
  ultimately show ?thesis by (simp add: CertTable_get_def)
qed

lemma get_after_parse_witness:
  "CertTable_get (CertTable (map named [(VCEK_GUID, [0x30]), (ASK_GUID, []), (VCEK_GUID, [])])) Vcek
     = Some \<lparr>cert_kind = Vcek, cert_guid = VCEK_GUID, cert_data = [0x30]\<rparr>"
proof -
  let ?es = "[(VCEK_GUID, [0x30]), (ASK_GUID, []), (VCEK_GUID, [])] :: (u8 list \<times> u8 list) list"
  have guids: "\<forall>(g, d) \<in> set ?es. length g = 16"
    by (simp add: VCEK_GUID_def ASK_GUID_def)
  have len: "length (encode_table ?es) \<le> 0x4000"
    using guids by (simp add: encode_table_def length_table_header del: table_header.simps)
  have parsed: "CertTable_parse (encode_table ?es) = Inr (CertTable (map named ?es))"
    using encoded_parse [OF guids len] by (simp add: MAX_ENTRIES_def)
  have "CertKind_from_guid VCEK_GUID = Vcek"
    by (simp add: CertKind_from_guid_def)
  then show ?thesis
    using get_after_parse [OF guids len parsed, of Vcek] by (simp add: named_def)
qed

end
