(* ===== verification/Key.thy ===== *)
theory Key
  imports Errors Tcb Policy
begin

text \<open>
  \<^verbatim>\<open>src/key.rs\<close>: requests for a hardware-derived key.  A request is built by the \<open>bind_*\<close>
  methods; \<open>built\<close> is the set of requests they can produce, and it is exactly the set of
  requests whose selector names only defined fields and whose unselected operands are zero.
  The wire form is proved field by field and injective, so two different requests never reach
  the firmware as the same bytes.  \<open>KeyFields\<close> interprets the flag-word interface.
\<close>

section \<open>Root key and field selector\<close>

datatype root_key = Root_Vcek | Root_Vmrk

definition RootKey_as_raw :: "root_key \<Rightarrow> u32" where
  "RootKey_as_raw k = (case k of Root_Vcek \<Rightarrow> 0 | Root_Vmrk \<Rightarrow> 1)"

datatype KeyFields = KeyFields (KeyFields_word: u64)

definition KeyFields_NONE :: KeyFields where
  "KeyFields_NONE = KeyFields 0"

definition KeyFields_raw :: "KeyFields \<Rightarrow> u64" where
  "KeyFields_raw f = KeyFields_word f"

definition KeyFields_bit :: "KeyFields \<Rightarrow> nat \<Rightarrow> bool" where
  "KeyFields_bit f index \<longleftrightarrow> wrapping_shr (KeyFields_word f) index AND 1 = 1"

definition KeyFields_with :: "KeyFields \<Rightarrow> nat \<Rightarrow> KeyFields" where
  "KeyFields_with f index = KeyFields (KeyFields_word f OR wrapping_shl 1 index)"

definition KeyFields_guest_policy :: "KeyFields \<Rightarrow> bool" where
  "KeyFields_guest_policy f = KeyFields_bit f 0"

definition KeyFields_image_id :: "KeyFields \<Rightarrow> bool" where
  "KeyFields_image_id f = KeyFields_bit f 1"

definition KeyFields_family_id :: "KeyFields \<Rightarrow> bool" where
  "KeyFields_family_id f = KeyFields_bit f 2"

definition KeyFields_measurement :: "KeyFields \<Rightarrow> bool" where
  "KeyFields_measurement f = KeyFields_bit f 3"

definition KeyFields_guest_svn :: "KeyFields \<Rightarrow> bool" where
  "KeyFields_guest_svn f = KeyFields_bit f 4"

definition KeyFields_tcb_version :: "KeyFields \<Rightarrow> bool" where
  "KeyFields_tcb_version f = KeyFields_bit f 5"

definition KeyFields_launch_mit_vector :: "KeyFields \<Rightarrow> bool" where
  "KeyFields_launch_mit_vector f = KeyFields_bit f 6"

section \<open>Requests\<close>

record KeyRequest =
  kr_root_key :: root_key
  kr_fields :: KeyFields
  kr_vmpl :: u32
  kr_guest_svn :: u32
  kr_tcb_version :: u64
  kr_launch_mit_vector :: u64

definition MAX_VMPL :: u32 where
  "MAX_VMPL = 3"

definition KeyRequest_new :: KeyRequest where
  "KeyRequest_new =
     \<lparr>kr_root_key = Root_Vcek, kr_fields = KeyFields_NONE, kr_vmpl = 0, kr_guest_svn = 0,
      kr_tcb_version = 0, kr_launch_mit_vector = 0\<rparr>"

definition KeyRequest_root_key :: "root_key \<Rightarrow> KeyRequest \<Rightarrow> KeyRequest" where
  "KeyRequest_root_key root r = r\<lparr>kr_root_key := root\<rparr>"

definition KeyRequest_vmpl :: "u32 \<Rightarrow> KeyRequest \<Rightarrow> KeyRequest" where
  "KeyRequest_vmpl v r = r\<lparr>kr_vmpl := v\<rparr>"

definition KeyRequest_fields :: "KeyRequest \<Rightarrow> KeyFields" where
  "KeyRequest_fields r = kr_fields r"

definition selected_root_key :: "KeyRequest \<Rightarrow> root_key" where
  "selected_root_key r = kr_root_key r"

definition bind_guest_policy :: "KeyRequest \<Rightarrow> KeyRequest" where
  "bind_guest_policy r = r\<lparr>kr_fields := KeyFields_with (kr_fields r) 0\<rparr>"

definition bind_image_id :: "KeyRequest \<Rightarrow> KeyRequest" where
  "bind_image_id r = r\<lparr>kr_fields := KeyFields_with (kr_fields r) 1\<rparr>"

definition bind_family_id :: "KeyRequest \<Rightarrow> KeyRequest" where
  "bind_family_id r = r\<lparr>kr_fields := KeyFields_with (kr_fields r) 2\<rparr>"

definition bind_measurement :: "KeyRequest \<Rightarrow> KeyRequest" where
  "bind_measurement r = r\<lparr>kr_fields := KeyFields_with (kr_fields r) 3\<rparr>"

definition bind_guest_svn :: "u32 \<Rightarrow> KeyRequest \<Rightarrow> KeyRequest" where
  "bind_guest_svn svn r =
     r\<lparr>kr_fields := KeyFields_with (kr_fields r) 4, kr_guest_svn := svn\<rparr>"

definition bind_tcb :: "TcbVersion \<Rightarrow> KeyRequest \<Rightarrow> KeyRequest" where
  "bind_tcb tcb r =
     r\<lparr>kr_fields := KeyFields_with (kr_fields r) 5, kr_tcb_version := raw tcb\<rparr>"

definition bind_launch_mit_vector :: "u64 \<Rightarrow> KeyRequest \<Rightarrow> KeyRequest" where
  "bind_launch_mit_vector vector r =
     r\<lparr>kr_fields := KeyFields_with (kr_fields r) 6, kr_launch_mit_vector := vector\<rparr>"

definition KeyRequest_validate :: "KeyRequest \<Rightarrow> unit result" where
  "KeyRequest_validate r =
     (if MAX_VMPL < kr_vmpl r then Inl (InvalidArgument ''vmpl must be 0..=3'') else Inr ())"

definition to_wire :: "KeyRequest \<Rightarrow> u8 list" where
  "to_wire r =
     (let fields = to_le_bytes (RootKey_as_raw (kr_root_key r)) @ replicate 4 0
            @ to_le_bytes (KeyFields_word (kr_fields r)) @ to_le_bytes (kr_vmpl r)
            @ to_le_bytes (kr_guest_svn r) @ to_le_bytes (kr_tcb_version r)
            @ to_le_bytes (kr_launch_mit_vector r)
      in zip_into (replicate 40 0) fields)"

section \<open>Derived keys\<close>

text \<open>
  Wiping is the third-party \<^verbatim>\<open>zeroize\<close> crate's operation on a byte array; it is a parameter,
  and \<open>zeroizes\<close> is its documented behaviour.
\<close>

datatype DerivedKey = DerivedKey (key_bytes: "u8 list")

definition DerivedKey_LEN :: nat where
  "DerivedKey_LEN = 32"

definition DerivedKey_from_bytes :: "u8 list \<Rightarrow> DerivedKey" where
  "DerivedKey_from_bytes bytes = DerivedKey bytes"

definition DerivedKey_as_bytes :: "DerivedKey \<Rightarrow> u8 list" where
  "DerivedKey_as_bytes k = key_bytes k"

definition zeroize_now :: "(u8 list \<Rightarrow> u8 list) \<Rightarrow> DerivedKey \<Rightarrow> DerivedKey" where
  "zeroize_now zeroize k = DerivedKey (zeroize (key_bytes k))"

definition DerivedKey_drop :: "(u8 list \<Rightarrow> u8 list) \<Rightarrow> DerivedKey \<Rightarrow> DerivedKey" where
  "DerivedKey_drop zeroize k = DerivedKey (zeroize (key_bytes k))"

definition DerivedKey_debug :: "DerivedKey \<Rightarrow> string" where
  "DerivedKey_debug k = ''DerivedKey(<redacted>)''"

definition zeroizes :: "(u8 list \<Rightarrow> u8 list) \<Rightarrow> bool" where
  "zeroizes z \<longleftrightarrow> (\<forall>bs. z bs = replicate (length bs) 0)"

lemma wiped:
  "zeroizes z \<Longrightarrow> key_bytes (zeroize_now z k) = replicate (length (key_bytes k)) 0"
  "zeroizes z \<Longrightarrow> key_bytes (DerivedKey_drop z k) = replicate (length (key_bytes k)) 0"
  by (simp_all add: zeroizes_def zeroize_now_def DerivedKey_drop_def)

section \<open>What the builder can produce\<close>

interpretation kf: flag_word KeyFields_word KeyFields_bit
  by unfold_locales (simp add: KeyFields_bit_def wrapping_shr_bit)

lemma bit_with:
  "index < 64 \<Longrightarrow> bit (KeyFields_word (KeyFields_with f index)) n \<longleftrightarrow>
     n = index \<or> bit (KeyFields_word f) n"
  by (auto simp: KeyFields_with_def wrapping_shl_def bit_simps)

inductive built :: "KeyRequest \<Rightarrow> bool" where
  new: "built KeyRequest_new"
| root: "built r \<Longrightarrow> built (KeyRequest_root_key k r)"
| vmpl: "built r \<Longrightarrow> built (KeyRequest_vmpl v r)"
| guest_policy: "built r \<Longrightarrow> built (bind_guest_policy r)"
| image_id: "built r \<Longrightarrow> built (bind_image_id r)"
| family_id: "built r \<Longrightarrow> built (bind_family_id r)"
| measurement: "built r \<Longrightarrow> built (bind_measurement r)"
| guest_svn: "built r \<Longrightarrow> built (bind_guest_svn svn r)"
| tcb: "built r \<Longrightarrow> built (bind_tcb t r)"
| mit_vector: "built r \<Longrightarrow> built (bind_launch_mit_vector m r)"

lemmas builder_defs = KeyRequest_new_def KeyRequest_root_key_def KeyRequest_vmpl_def
  bind_guest_policy_def bind_image_id_def bind_family_id_def bind_measurement_def
  bind_guest_svn_def bind_tcb_def bind_launch_mit_vector_def

definition wf_request :: "KeyRequest \<Rightarrow> bool" where
  "wf_request r \<longleftrightarrow>
     unat (KeyFields_word (kr_fields r)) < 2 ^ 7
     \<and> (\<not> KeyFields_guest_svn (kr_fields r) \<longrightarrow> kr_guest_svn r = 0)
     \<and> (\<not> KeyFields_tcb_version (kr_fields r) \<longrightarrow> kr_tcb_version r = 0)
     \<and> (\<not> KeyFields_launch_mit_vector (kr_fields r) \<longrightarrow> kr_launch_mit_vector r = 0)"

lemma small_iff_bits: "unat w < 2 ^ k \<longleftrightarrow> (\<forall>n. bit (w :: 'a::len word) n \<longrightarrow> n < k)"
proof
  assume "unat w < 2 ^ k"
  then have "take_bit k w = w" by (rule take_bit_small)
  then show "\<forall>n. bit w n \<longrightarrow> n < k"
    by (metis bit_take_bit_iff)
next
  assume "\<forall>n. bit w n \<longrightarrow> n < k"
  then have "take_bit k w = w"
    by (auto simp: bit_eq_iff bit_take_bit_iff)
  then show "unat w < 2 ^ k"
    by (metis take_bit_nat_less_exp unsigned_take_bit_eq)
qed

lemma wf_request_bits:
  "wf_request r \<longleftrightarrow>
     (\<forall>n. bit (KeyFields_word (kr_fields r)) n \<longrightarrow> n < 7)
     \<and> (\<not> bit (KeyFields_word (kr_fields r)) 4 \<longrightarrow> kr_guest_svn r = 0)
     \<and> (\<not> bit (KeyFields_word (kr_fields r)) 5 \<longrightarrow> kr_tcb_version r = 0)
     \<and> (\<not> bit (KeyFields_word (kr_fields r)) 6 \<longrightarrow> kr_launch_mit_vector r = 0)"
  by (simp add: wf_request_def small_iff_bits [of _ 7, simplified] kf.flag_bit
      KeyFields_guest_svn_def KeyFields_tcb_version_def KeyFields_launch_mit_vector_def)

lemma built_wf: "built r \<Longrightarrow> wf_request r"
  by (induction rule: built.induct)
    (auto simp: wf_request_bits builder_defs KeyFields_NONE_def bit_with)

lemma built_if: "(\<And>r. built r \<Longrightarrow> built (f r)) \<Longrightarrow> built r \<Longrightarrow> built (if b then f r else r)"
  by simp

definition rebuild :: "KeyRequest \<Rightarrow> KeyRequest" where
  "rebuild r =
     (let on = bit (KeyFields_word (kr_fields r));
          add = (\<lambda>n f q. if on n then f q else q)
      in add 6 (bind_launch_mit_vector (kr_launch_mit_vector r))
        (add 5 (bind_tcb (TcbVersion_from_raw (kr_tcb_version r)))
        (add 4 (bind_guest_svn (kr_guest_svn r))
        (add 3 bind_measurement (add 2 bind_family_id (add 1 bind_image_id
        (add 0 bind_guest_policy
          (KeyRequest_vmpl (kr_vmpl r) (KeyRequest_root_key (kr_root_key r) KeyRequest_new)))))))))"

lemma built_rebuild: "built (rebuild r)"
  unfolding rebuild_def Let_def by (intro built_if built.intros)

lemma fields_of_bind:
  "kr_fields (KeyRequest_vmpl v q) = kr_fields q"
  "kr_fields (KeyRequest_root_key k q) = kr_fields q"
  "kr_fields KeyRequest_new = KeyFields_NONE"
  "kr_fields (bind_guest_policy q) = KeyFields_with (kr_fields q) 0"
  "kr_fields (bind_image_id q) = KeyFields_with (kr_fields q) 1"
  "kr_fields (bind_family_id q) = KeyFields_with (kr_fields q) 2"
  "kr_fields (bind_measurement q) = KeyFields_with (kr_fields q) 3"
  "kr_fields (bind_guest_svn svn q) = KeyFields_with (kr_fields q) 4"
  "kr_fields (bind_tcb t q) = KeyFields_with (kr_fields q) 5"
  "kr_fields (bind_launch_mit_vector m q) = KeyFields_with (kr_fields q) 6"
  by (simp_all add: builder_defs)

lemma bit_if_with:
  "i < 64 \<Longrightarrow> bit (KeyFields_word (if b then KeyFields_with f i else f)) n \<longleftrightarrow>
     b \<and> n = i \<or> bit (KeyFields_word f) n"
  by (simp add: bit_with)

lemma rebuild_fields:
  assumes "\<forall>n. bit (KeyFields_word (kr_fields r)) n \<longrightarrow> n < 7"
  shows "kr_fields (rebuild r) = kr_fields r"
proof (rule KeyFields.expand, rule bit_word_eqI)
  fix n
  let ?on = "bit (KeyFields_word (kr_fields r))"
  have "bit (KeyFields_word (kr_fields (rebuild r))) n \<longleftrightarrow>
      ?on 6 \<and> n = 6 \<or> ?on 5 \<and> n = 5 \<or> ?on 4 \<and> n = 4 \<or> ?on 3 \<and> n = 3
      \<or> ?on 2 \<and> n = 2 \<or> ?on 1 \<and> n = 1 \<or> ?on 0 \<and> n = 0"
    unfolding rebuild_def Let_def if_distrib [of kr_fields] fields_of_bind
    by (simp only: bit_if_with) (simp add: KeyFields_NONE_def)
  also have "\<dots> \<longleftrightarrow> ?on n \<and> n < 7"
    by (auto simp: less_Suc_eq numeral_eq_Suc)
  finally show "bit (KeyFields_word (kr_fields (rebuild r))) n = ?on n"
    using assms by blast
qed

lemma rebuild_wf:
  assumes "wf_request r"
  shows "rebuild r = r"
proof -
  have "kr_fields (rebuild r) = kr_fields r"
    using assms by (intro rebuild_fields) (simp add: wf_request_bits)
  moreover have "kr_root_key (rebuild r) = kr_root_key r" "kr_vmpl (rebuild r) = kr_vmpl r"
    by (simp_all add: rebuild_def Let_def builder_defs)
  moreover have "kr_guest_svn (rebuild r) = kr_guest_svn r"
      "kr_tcb_version (rebuild r) = kr_tcb_version r"
      "kr_launch_mit_vector (rebuild r) = kr_launch_mit_vector r"
    using assms
    by (simp_all add: wf_request_bits rebuild_def Let_def builder_defs TcbVersion_from_raw_def)
  moreover have "KeyRequest.more (rebuild r) = KeyRequest.more r" by simp
  ultimately show ?thesis by (intro KeyRequest.equality)
qed

text \<open>
  C25: the requests the builder can produce are exactly the well-formed ones.  Whatever sequence
  of methods is called, the selector names only the seven defined fields and an operand whose
  field is not selected is zero; and every request with these properties can be built.
\<close>

theorem built_iff_wf: "built r \<longleftrightarrow> wf_request r"
  using built_wf built_rebuild rebuild_wf by metis

section \<open>The wire form\<close>

lemma to_wire_eq:
  "to_wire r = to_le_bytes (RootKey_as_raw (kr_root_key r)) @ replicate 4 0
     @ to_le_bytes (KeyFields_word (kr_fields r)) @ to_le_bytes (kr_vmpl r)
     @ to_le_bytes (kr_guest_svn r) @ to_le_bytes (kr_tcb_version r)
     @ to_le_bytes (kr_launch_mit_vector r)"
  by (simp add: to_wire_def zip_into_eq)

lemma RootKey_as_raw_inject [simp]: "RootKey_as_raw a = RootKey_as_raw b \<longleftrightarrow> a = b"
  by (cases a; cases b) (simp_all add: RootKey_as_raw_def)

text \<open>
  C26: the 40 bytes sent to the kernel hold each field of the request at its offset in
  \<^verbatim>\<open>struct snp_derived_key_req\<close>, with a zero reserved word, and two requests have the same
  bytes only when they are the same request.
\<close>

theorem to_wire_layout:
  "length (to_wire r) = 40
   \<and> u32_at (to_wire r) 0 = Some (RootKey_as_raw (kr_root_key r))
   \<and> u32_at (to_wire r) 4 = Some 0
   \<and> map_option from_le_bytes (bytes_at 8 (to_wire r) 8) = Some (KeyFields_word (kr_fields r))
   \<and> u32_at (to_wire r) 16 = Some (kr_vmpl r)
   \<and> u32_at (to_wire r) 20 = Some (kr_guest_svn r)
   \<and> map_option from_le_bytes (bytes_at 8 (to_wire r) 24) = Some (kr_tcb_version r)
   \<and> map_option from_le_bytes (bytes_at 8 (to_wire r) 32) = Some (kr_launch_mit_vector r)
   \<and> (to_wire r = to_wire r' \<longleftrightarrow> r = r')"
proof (intro conjI)
  show "to_wire r = to_wire r' \<longleftrightarrow> r = r'"
    by (cases r; cases r')
      (auto simp: to_wire_eq le32.enc_append_inject le64.enc_append_inject le64.enc_inject
        intro: KeyFields.expand)
qed (simp_all add: to_wire_eq u32_at_eq bytes_at_eq)

end
