(* ===== verification/Backend.thy ===== *)
theory Backend
  imports World Report Certs Key
begin

text \<open>
  \<^verbatim>\<open>src/backend/mod.rs\<close>: what the two transports share.  A report request, the check that a
  report answers it, and the trait \<^verbatim>\<open>GuestBackend\<close> as a locale: its operations, and the
  promises the trait's documentation makes of every implementation.  Both transports and the
  dispatcher of \<^verbatim>\<open>Firmware\<close> interpret it in their own theories.
\<close>

datatype transport = Ioctl | ConfigFs

section \<open>Report requests\<close>

record ReportRequest =
  req_data :: "u8 list"
  req_vmpl :: "u32 option"

definition ReportRequest_new :: ReportRequest where
  "ReportRequest_new = \<lparr>req_data = replicate 64 0, req_vmpl = None\<rparr>"

definition ReportRequest_data :: "u8 list \<Rightarrow> ReportRequest \<Rightarrow> ReportRequest" where
  "ReportRequest_data d r = r\<lparr>req_data := d\<rparr>"

definition ReportRequest_vmpl :: "u32 \<Rightarrow> ReportRequest \<Rightarrow> ReportRequest" where
  "ReportRequest_vmpl v r = r\<lparr>req_vmpl := Some v\<rparr>"

definition ReportRequest_report_data :: "ReportRequest \<Rightarrow> u8 list" where
  "ReportRequest_report_data r = req_data r"

definition requested_vmpl :: "ReportRequest \<Rightarrow> u32 option" where
  "requested_vmpl r = req_vmpl r"

definition ReportRequest_default :: ReportRequest where
  "ReportRequest_default = ReportRequest_new"

definition ReportRequest_from :: "u8 list \<Rightarrow> ReportRequest" where
  "ReportRequest_from d = ReportRequest_data d ReportRequest_new"

text \<open>\<^verbatim>\<open>From<&[u8; 64]>\<close>, which \<^verbatim>\<open>Firmware::report\<close> is called with.\<close>

definition ReportRequest_from_ref :: "u8 list \<Rightarrow> ReportRequest" where
  "ReportRequest_from_ref d = ReportRequest_data d ReportRequest_new"

text \<open>The array type of the source fixes the length of the report data.\<close>

definition wf_report_request :: "ReportRequest \<Rightarrow> bool" where
  "wf_report_request r \<longleftrightarrow> length (req_data r) = 64"

lemma ReportRequest_from_ref_eq [simp]: "ReportRequest_from_ref d = ReportRequest_from d"
  by (simp add: ReportRequest_from_ref_def ReportRequest_from_def)

lemma ReportRequest_from_simps [simp]:
  "req_data (ReportRequest_from d) = d" "req_vmpl (ReportRequest_from d) = None"
  by (simp_all add: ReportRequest_from_def ReportRequest_data_def ReportRequest_new_def)

section \<open>Does a report answer its request?\<close>

definition verify_answers :: "ReportRequest \<Rightarrow> AttestationReport \<Rightarrow> unit result" where
  "verify_answers request report =
     (if report_data report \<noteq> req_data request
      then Inl (Mismatch ''report data is not the nonce that was requested'')
      else if (case req_vmpl request of Some v \<Rightarrow> v \<noteq> vmpl report | None \<Rightarrow> False)
      then Inl (Mismatch ''report was signed at a different privilege level'')
      else Inr ())"

definition answers :: "ReportRequest \<Rightarrow> AttestationReport \<Rightarrow> bool" where
  "answers request report \<longleftrightarrow>
     report_data report = req_data request
     \<and> (\<forall>v. req_vmpl request = Some v \<longrightarrow> vmpl report = v)"

lemma verify_answers_iff [result_simps]: "verify_answers q r = Inr u \<longleftrightarrow> answers q r"
  by (auto simp: verify_answers_def answers_def split: option.splits)

lemma verify_answers_error: "verify_answers q r = Inl e \<Longrightarrow> \<exists>m. e = Mismatch m"
  by (auto simp: verify_answers_def split: if_splits)

section \<open>The trait\<close>

lemma AttestationReport_parse_error: "AttestationReport_parse bytes = Inl e \<Longrightarrow> \<exists>p. e = Parse p"
  by (auto simp: AttestationReport_parse_def Let_def result_simps split: if_splits)

lemma CertTable_parse_error: "CertTable_parse blob = Inl e \<Longrightarrow> \<exists>p. e = Parse p"
  by (auto simp: table_outcome Let_def split: if_splits)

definition bounded_table :: "CertTable \<Rightarrow> bool" where
  "bounded_table t \<longleftrightarrow>
     CertTable_len t < MAX_ENTRIES \<and> (\<forall>c \<in> set (entries t). length (cert_data c) \<le> BLOB_MAX)"

lemma CertTable_parse_bounded: "CertTable_parse blob = Inr t \<Longrightarrow> bounded_table t"
  by (cases t) (auto simp: bounded_table_def CertTable_len_def MAX_ENTRIES_def BLOB_MAX_def table_iff
      table_spec_def in_set_conv_nth entry_cert_def Let_def entry_ok_def)

text \<open>The errors a backend may report for a request: never that no backend is open.\<close>

definition request_error :: "error \<Rightarrow> bool" where
  "request_error e \<longleftrightarrow> e \<noteq> NoBackend \<and> (\<forall>p. e \<noteq> WrongProvider p)"

lemma request_errors [simp]:
  "request_error (Parse p)" "request_error (Mismatch m)" "request_error (Io i)"
  "request_error Raced" "request_error (Firmware f)" "request_error (Vmm v)"
  "request_error (InvalidArgument m)" "request_error (Unsupported m)"
  by (simp_all add: request_error_def)

lemmas response_errors =
  verify_answers_error AttestationReport_parse_error CertTable_parse_error

locale guest_backend =
  fixes report :: "ReportRequest \<Rightarrow> ('k, AttestationReport result) io"
    and extended_report :: "ReportRequest \<Rightarrow> ('k, ExtendedReport result) io"
    and derive_key :: "KeyRequest \<Rightarrow> ('k, DerivedKey result) io"
  assumes report_Inr: "report q w = (Inr r, w') \<Longrightarrow> valid_report r \<and> answers q r"
    and report_Inl: "report q w = (Inl e, w') \<Longrightarrow> request_error e"
    and extended_Inr: "extended_report q w = (Inr x, w') \<Longrightarrow>
      valid_report (ext_report x) \<and> answers q (ext_report x) \<and> bounded_table (certificates x)"
    and extended_Inl: "extended_report q w = (Inl e, w') \<Longrightarrow> request_error e"
    and derive_key_Inr: "derive_key k w = (Inr d, w') \<Longrightarrow>
      length (key_bytes d) = DerivedKey_LEN \<and> kr_vmpl k \<le> MAX_VMPL"

end
