(* ===== verification/Configfs.thy ===== *)
theory Configfs
  imports Backend
begin

text \<open>
  \<^verbatim>\<open>src/backend/configfs.rs\<close>: the configfs-TSM transport.  A request is a directory entry that
  is created, written, read and removed; \<open>with_entry\<close> is the scope of the source's
  \<^verbatim>\<open>Entry\<close>, whose \<^verbatim>\<open>Drop\<close> removes the directory when the function returns by any path.
  The specifications \<open>open_spec\<close>, \<open>attr_spec\<close> and \<open>run_spec\<close> relate the calls an operation
  makes to its outcome; the theorems show that the operations implement them, so that an
  interface of another provider is never attached to, an entry never outlives its call, and a
  response is returned only when the generation counter equals the writes made.
\<close>

section \<open>Definitions\<close>

definition REPORT_ROOT :: string where
  "REPORT_ROOT = ''/sys/kernel/config/tsm/report''"

definition PROVIDER :: string where
  "PROVIDER = ''sev_guest''"

definition configfs_available :: "'k os \<Rightarrow> ('k, bool) io" where
  "configfs_available os = path_is_dir os REPORT_ROOT"

record ConfigFs =
  cfs_root :: string

datatype Entry = Entry (entry_path: string)

definition entry_name :: "string \<Rightarrow> nat \<Rightarrow> u64 \<Rightarrow> string" where
  "entry_name root pid n =
     path_join root (''sev-snp-rs-'' @ show_dec pid @ ''-'' @ show_dec (unat n))"

definition Entry_create :: "'k os \<Rightarrow> string \<Rightarrow> ('k, Entry result) io" where
  "Entry_create os root =
     (\<lambda>w. let n = counter w;
              w1 = w\<lparr>counter := n + 1\<rparr>;
              path = entry_name root (os_pid os (kern w1)) n
          in io_try_os (create_dir os path) (\<lambda>_. io_return (Inr (Entry path))) w1)"

definition Entry_drop :: "'k os \<Rightarrow> Entry \<Rightarrow> ('k, unit) io" where
  "Entry_drop os entry = io_bind (remove_dir os (entry_path entry)) (\<lambda>_. io_return ())"

definition with_entry ::
  "'k os \<Rightarrow> string \<Rightarrow> (Entry \<Rightarrow> ('k, 'a result) io) \<Rightarrow> ('k, 'a result) io" where
  "with_entry os root body =
     io_try (Entry_create os root) (\<lambda>entry.
     io_bind (body entry) (\<lambda>r.
     io_bind (Entry_drop os entry) (\<lambda>_. io_return r)))"

definition provider :: "'k os \<Rightarrow> ConfigFs \<Rightarrow> ('k, string result) io" where
  "provider os self =
     with_entry os (cfs_root self) (\<lambda>entry.
       io_try_os (read_to_string os (path_join (entry_path entry) ''provider'')) (\<lambda>p.
         io_return (Inr (trim p))))"

definition ConfigFs_open_at :: "'k os \<Rightarrow> string \<Rightarrow> ('k, ConfigFs result) io" where
  "ConfigFs_open_at os root =
     io_bind (path_is_dir os root) (\<lambda>is_dir.
       if \<not> is_dir then io_return (Inl NoBackend)
       else
         let this = \<lparr>cfs_root = root\<rparr> in
         io_try (provider os this) (\<lambda>p.
           if p \<noteq> PROVIDER then io_return (Inl (WrongProvider p))
           else io_return (Inr this)))"

definition ConfigFs_open :: "'k os \<Rightarrow> ('k, ConfigFs result) io" where
  "ConfigFs_open os = ConfigFs_open_at os REPORT_ROOT"

definition privlevel_floor :: "'k os \<Rightarrow> ConfigFs \<Rightarrow> ('k, u32 result) io" where
  "privlevel_floor os self =
     with_entry os (cfs_root self) (\<lambda>entry.
       io_try_os (read_to_string os (path_join (entry_path entry) ''privlevel_floor'')) (\<lambda>text.
         io_return (ok_or (map_option of_nat (parse_uint (2 ^ 32) (trim text)))
           (InvalidArgument ''privlevel_floor is not a number''))))"

definition write_attr :: "'k os \<Rightarrow> string \<Rightarrow> u8 list \<Rightarrow> ('k, unit result) io" where
  "write_attr os path bytes =
     io_try_os (open_write os path) (\<lambda>file.
       io_bind
         (io_try_os (file_write os file bytes) (\<lambda>n.
            if n \<noteq> length bytes
            then io_return (Inl (Io (CustomError WriteZero
              ''configfs accepted a partial attribute write'')))
            else io_return (Inr ())))
         (\<lambda>r. io_bind (file_close os file) (\<lambda>_. io_return r)))"

definition u64_max :: nat where
  "u64_max = 2 ^ 64 - 1"

definition run_entry ::
  "'k os \<Rightarrow> ReportRequest \<Rightarrow> Entry \<Rightarrow> ('k, (u8 list \<times> u8 list) result) io" where
  "run_entry os request entry =
     (let path = path_join (entry_path entry) in
      io_try
        (case req_vmpl request of
           Some v \<Rightarrow>
             io_try (write_attr os (path ''privlevel'') (bytes_of_string (show_dec (unat v))))
               (\<lambda>_. io_return (Inr (saturating_add 0 1)))
         | None \<Rightarrow> io_return (Inr 0)) (\<lambda>writes0.
      io_try (write_attr os (path ''inblob'') (req_data request)) (\<lambda>_.
        let writes = saturating_add writes0 1 in
      io_try_os (fs_read os (path ''outblob'')) (\<lambda>outblob.
      io_bind (fs_read os (path ''auxblob'')) (\<lambda>aux.
        let auxblob = unwrap_or (result_ok aux) [] in
      io_try_os (read_to_string os (path ''generation'')) (\<lambda>text.
        let generation = unwrap_or (parse_uint (2 ^ 64) (trim text)) u64_max in
        if generation \<noteq> writes then io_return (Inl Raced)
        else io_return (Inr (outblob, auxblob))))))))"

definition run :: "'k os \<Rightarrow> ConfigFs \<Rightarrow> ReportRequest \<Rightarrow> ('k, (u8 list \<times> u8 list) result) io" where
  "run os self request = with_entry os (cfs_root self) (run_entry os request)"

definition ConfigFs_transport :: "ConfigFs \<Rightarrow> transport" where
  "ConfigFs_transport self = ConfigFs"

definition ConfigFs_report ::
  "'k os \<Rightarrow> ConfigFs \<Rightarrow> ReportRequest \<Rightarrow> ('k, AttestationReport result) io" where
  "ConfigFs_report os self request =
     io_try (run os self request) (\<lambda>(outblob, _).
     io_try (io_return (AttestationReport_parse outblob)) (\<lambda>report.
     io_try (io_return (verify_answers request report)) (\<lambda>_.
       io_return (Inr report))))"

definition ConfigFs_extended_report ::
  "'k os \<Rightarrow> ConfigFs \<Rightarrow> ReportRequest \<Rightarrow> ('k, ExtendedReport result) io" where
  "ConfigFs_extended_report os self request =
     io_try (run os self request) (\<lambda>(outblob, auxblob).
     io_try (io_return (AttestationReport_parse outblob)) (\<lambda>report.
     io_try (io_return (verify_answers request report)) (\<lambda>_.
     io_try (io_return (CertTable_parse auxblob)) (\<lambda>certs.
       io_return (Inr \<lparr>ext_report = report, certificates = certs\<rparr>)))))"

definition ConfigFs_derive_key ::
  "'k os \<Rightarrow> ConfigFs \<Rightarrow> KeyRequest \<Rightarrow> ('k, DerivedKey result) io" where
  "ConfigFs_derive_key os self request =
     io_return (Inl (Unsupported
       (''configfs-TSM has no key derivation interface; enable the ''
        @ ''`sev-guest` feature and use /dev/sev-guest'')))"

section \<open>The life of an entry\<close>

text \<open>
  What a scope \<open>with_entry\<close> logs: the failed creation alone, or the creation, the calls of the
  body, and the removal of the same directory, however the body ended.
\<close>

definition entry_scope ::
  "string \<Rightarrow> (string \<Rightarrow> 'a result \<Rightarrow> event list \<Rightarrow> bool) \<Rightarrow> 'a result \<Rightarrow> event list \<Rightarrow> bool" where
  "entry_scope root body r evs \<longleftrightarrow>
     (\<exists>pid n. let d = entry_name root pid n in
        (\<exists>i. r = Inl (Io i) \<and> evs = [EvCreateDir d (Inl i)])
        \<or> (\<exists>mid. evs = EvCreateDir d (Inr ()) # mid @ [EvRemoveDir d] \<and> body d r mid))"

lemma entry_scopeI:
  "body (entry_name root pid n) r mid \<Longrightarrow>
   entry_scope root body r
     (EvCreateDir (entry_name root pid n) (Inr ()) # mid @ [EvRemoveDir (entry_name root pid n)])"
  unfolding entry_scope_def Let_def by blast

lemma emits_Entry_drop: "emits (Entry_drop os (Entry d)) (\<lambda>_ evs. evs = [EvRemoveDir d])"
  unfolding Entry_drop_def remove_dir_def
  by (rule emits_bind [OF emits_syscall_exact]) simp

lemma emits_with_entry:
  assumes body: "\<And>d. emits (body (Entry d)) (Q d)"
  shows "emits (with_entry os root body) (entry_scope root Q)"
proof -
  have create: "emits (Entry_create os root)
      (\<lambda>r evs. \<exists>pid n. let d = entry_name root pid n in
         (\<exists>i. evs = [EvCreateDir d (Inl i)] \<and> r = Inl (Io i))
         \<or> evs = [EvCreateDir d (Inr ())] \<and> r = Inr (Entry d))"
  proof (rule emitsI)
    fix w w' :: "'a world" and r
    let ?d = "entry_name root (os_pid os (kern w)) (counter w)"
    assume r: "Entry_create os root w = (r, w')"
    obtain c k where "os_create_dir os ?d (kern w) = (c, k)" by fastforce
    with r have "(\<exists>i. log w' = log w @ [EvCreateDir ?d (Inl i)] \<and> r = Inl (Io i))
        \<or> log w' = log w @ [EvCreateDir ?d (Inr ())] \<and> r = Inr (Entry ?d)"
      by (cases c) (auto simp: Entry_create_def Let_def create_dir_def syscall_def io_try_os_def
          io_try_def io_bind_def)
    then show "\<exists>evs. log w' = log w @ evs \<and> (\<exists>pid n. let d = entry_name root pid n in
        (\<exists>i. evs = [EvCreateDir d (Inl i)] \<and> r = Inl (Io i))
         \<or> evs = [EvCreateDir d (Inr ())] \<and> r = Inr (Entry d))"
      unfolding Let_def by blast
  qed
  show ?thesis
    unfolding with_entry_def
  proof (rule emits_try [OF create], goal_cases)
    case (1 e es)
    then show ?case by (auto simp: entry_scope_def Let_def)
  next
    case (2 entry es)
    then obtain pid n where d: "entry = Entry (entry_name root pid n)"
      and es: "es = [EvCreateDir (entry_name root pid n) (Inr ())]"
      by (auto simp: Let_def)
    show ?case
      unfolding d es
      by (rule emits_bind [OF body], rule emits_bind [OF emits_Entry_drop])
        (simp add: entry_scopeI)
  qed
qed

section \<open>What the operations do\<close>

definition confined :: "string \<Rightarrow> event list \<Rightarrow> bool" where
  "confined d evs \<longleftrightarrow>
     (\<forall>e \<in> set evs. case e of
        EvOpenWrite p _ \<Rightarrow> \<exists>a. p = path_join d a
      | EvRead p _ \<Rightarrow> \<exists>a. p = path_join d a
      | EvWrite _ _ _ \<Rightarrow> True
      | EvClose _ \<Rightarrow> True
      | _ \<Rightarrow> False)"

definition opened :: "event list \<Rightarrow> nat list" where
  "opened evs = concat (map (\<lambda>e. case e of EvOpenWrite _ (Inr fd) \<Rightarrow> [fd] | _ \<Rightarrow> []) evs)"

definition closed :: "event list \<Rightarrow> nat list" where
  "closed evs = concat (map (\<lambda>e. case e of EvClose fd \<Rightarrow> [fd] | _ \<Rightarrow> []) evs)"

definition own_writes :: "event list \<Rightarrow> nat" where
  "own_writes evs =
     length (filter (\<lambda>e. case e of EvWrite _ _ (Inr _) \<Rightarrow> True | _ \<Rightarrow> False) evs)"

definition text_read :: "io_error + u8 list \<Rightarrow> io_error + string" where
  "text_read c = (case c of Inl i \<Rightarrow> Inl i | Inr bs \<Rightarrow> utf8_text bs)"

lemma emits_read_to_string:
  "emits (read_to_string os p) (\<lambda>r evs. \<exists>c. evs = [EvRead p c] \<and> r = text_read c)"
  unfolding read_to_string_def fs_read_def
  by (rule emits_try [OF emits_syscall_exact]) (auto simp: text_read_def)

text \<open>One attribute write: opened, written once, closed; short writes are errors.\<close>

definition attr_verdict :: "u8 list \<Rightarrow> io_error + nat \<Rightarrow> unit result" where
  "attr_verdict bs c =
     (case c of
        Inl i \<Rightarrow> Inl (Io i)
      | Inr n \<Rightarrow>
          if n = length bs then Inr ()
          else Inl (Io (CustomError WriteZero ''configfs accepted a partial attribute write'')))"

definition attr_spec :: "string \<Rightarrow> u8 list \<Rightarrow> unit result \<Rightarrow> event list \<Rightarrow> bool" where
  "attr_spec p bs r evs \<longleftrightarrow>
     (\<exists>i. evs = [EvOpenWrite p (Inl i)] \<and> r = Inl (Io i))
     \<or> (\<exists>fd c. evs = [EvOpenWrite p (Inr fd), EvWrite fd bs c, EvClose fd]
          \<and> r = attr_verdict bs c)"

lemma attr_verdict_iffs:
  "attr_verdict bs c = Inr u \<longleftrightarrow> c = Inr (length bs)"
  "attr_verdict bs c = Inl e \<Longrightarrow> \<exists>i. e = Io i"
  by (cases c; auto simp: attr_verdict_def split: if_splits)+

lemma emits_write_attr: "emits (write_attr os p bs) (attr_spec p bs)"
  unfolding write_attr_def open_write_def file_write_def file_close_def
proof (rule emits_try_os [OF emits_syscall_exact], goal_cases)
  case (1 i es)
  then show ?case by (auto simp: attr_spec_def)
next
  case (2 fd es)
  show ?case
    by (rule emits_bind, rule emits_try_os [OF emits_syscall_exact,
          where Q = "\<lambda>r fs. \<exists>c. fs = [EvWrite fd bs c] \<and> r = attr_verdict bs c"])
      (auto simp: 2 attr_spec_def attr_verdict_def intro!: emits_bind [OF emits_syscall_exact])
qed

text \<open>The verdict on the provider name, and on the generation counter.\<close>

definition provider_verdict :: "string \<Rightarrow> io_error + u8 list \<Rightarrow> ConfigFs result" where
  "provider_verdict root c =
     (case text_read c of
        Inl i \<Rightarrow> Inl (Io i)
      | Inr t \<Rightarrow>
          if trim t = PROVIDER then Inr \<lparr>cfs_root = root\<rparr> else Inl (WrongProvider (trim t)))"

definition open_spec :: "string \<Rightarrow> ConfigFs result \<Rightarrow> event list \<Rightarrow> bool" where
  "open_spec root r evs \<longleftrightarrow>
     evs = [EvIsDir root False] \<and> r = Inl NoBackend
     \<or> (\<exists>es. evs = EvIsDir root True # es
          \<and> entry_scope root (\<lambda>d r mid. \<exists>c. mid = [EvRead (path_join d ''provider'') c]
              \<and> r = provider_verdict root c) r es)"

definition run_verdict ::
  "nat \<Rightarrow> u8 list \<Rightarrow> io_error + u8 list \<Rightarrow> io_error + u8 list \<Rightarrow> (u8 list \<times> u8 list) result" where
  "run_verdict writes outblob aux generation =
     (case text_read generation of
        Inl i \<Rightarrow> Inl (Io i)
      | Inr t \<Rightarrow>
          if parse_uint (2 ^ 64) (trim t) = Some writes
          then Inr (outblob, case aux of Inl _ \<Rightarrow> [] | Inr bs \<Rightarrow> bs)
          else Inl Raced)"

definition vmpl_written :: "string \<Rightarrow> ReportRequest \<Rightarrow> event list \<Rightarrow> bool" where
  "vmpl_written d q evs \<longleftrightarrow>
     (case req_vmpl q of
        None \<Rightarrow> evs = []
      | Some v \<Rightarrow>
          attr_spec (path_join d ''privlevel'') (bytes_of_string (show_dec (unat v))) (Inr ()) evs)"

inductive run_spec ::
  "ReportRequest \<Rightarrow> string \<Rightarrow> (u8 list \<times> u8 list) result \<Rightarrow> event list \<Rightarrow> bool" for q d where
  no_privlevel:
    "req_vmpl q = Some v \<Longrightarrow>
     attr_spec (path_join d ''privlevel'') (bytes_of_string (show_dec (unat v))) (Inl e) evs \<Longrightarrow>
     run_spec q d (Inl e) evs"
| no_inblob:
    "vmpl_written d q pre \<Longrightarrow> attr_spec (path_join d ''inblob'') (req_data q) (Inl e) evs \<Longrightarrow>
     run_spec q d (Inl e) (pre @ evs)"
| no_outblob:
    "vmpl_written d q pre \<Longrightarrow> attr_spec (path_join d ''inblob'') (req_data q) (Inr ()) evs \<Longrightarrow>
     run_spec q d (Inl (Io i)) (pre @ evs @ [EvRead (path_join d ''outblob'') (Inl i)])"
| answered:
    "vmpl_written d q pre \<Longrightarrow> attr_spec (path_join d ''inblob'') (req_data q) (Inr ()) evs \<Longrightarrow>
     run_spec q d (run_verdict (own_writes (pre @ evs)) outblob aux gen)
       (pre @ evs @ [EvRead (path_join d ''outblob'') (Inr outblob),
          EvRead (path_join d ''auxblob'') aux, EvRead (path_join d ''generation'') gen])"

lemma attr_spec_Inr:
  "attr_spec p bs (Inr u) evs \<longleftrightarrow>
     (\<exists>fd. evs = [EvOpenWrite p (Inr fd), EvWrite fd bs (Inr (length bs)), EvClose fd])"
  by (auto simp: attr_spec_def eq_commute [of "Inr _"] attr_verdict_iffs)

lemma own_writes_Nil [simp]: "own_writes [] = 0"
  by (simp add: own_writes_def)

lemma own_writes_append [simp]: "own_writes (xs @ ys) = own_writes xs + own_writes ys"
  by (simp add: own_writes_def)

lemma own_writes_attr: "attr_spec p bs (Inr u) evs \<Longrightarrow> own_writes evs = 1"
  by (auto simp: attr_spec_Inr own_writes_def)

lemma emits_provider:
  "emits (provider os self) (entry_scope (cfs_root self) (\<lambda>d r mid.
     \<exists>c. mid = [EvRead (path_join d ''provider'') c] \<and> r = from_io (map_sum id trim (text_read c))))"
  unfolding provider_def
  by (rule emits_with_entry, rule emits_try_os [OF emits_read_to_string])
    (auto simp: eq_commute [of "Inl _"] eq_commute [of "Inr _"])

lemma entry_scope_map:
  assumes "entry_scope root P r evs"
    and "\<And>d mid. P d r mid \<Longrightarrow> Q d r' mid" and "\<And>i. r = Inl (Io i) \<Longrightarrow> r' = Inl (Io i)"
  shows "entry_scope root Q r' evs"
  using assms unfolding entry_scope_def Let_def by metis

lemma emits_open_at: "emits (ConfigFs_open_at os root) (open_spec root)"
  unfolding ConfigFs_open_at_def path_is_dir_def Let_def
proof (rule emits_bind [OF emits_syscall_exact], goal_cases)
  case (1 is_dir es)
  show ?case
  proof (cases is_dir)
    case False
    then show ?thesis by (simp add: 1 open_spec_def)
  next
    case True
    have "emits (io_try (provider os \<lparr>cfs_root = root\<rparr>) (\<lambda>p.
          if p \<noteq> PROVIDER then io_return (Inl (WrongProvider p))
          else io_return (Inr \<lparr>cfs_root = root\<rparr>)))
        (\<lambda>r fs. entry_scope root (\<lambda>d r mid. \<exists>c. mid = [EvRead (path_join d ''provider'') c]
              \<and> r = provider_verdict root c) r fs)"
      by (rule emits_try [OF emits_provider])
        (auto elim!: entry_scope_map simp: provider_verdict_def split: sum.splits if_splits)
    then show ?thesis
      using True by (auto simp: 1 open_spec_def elim: emits_mono)
  qed
qed

lemma emits_read_answers:
  assumes pre: "vmpl_written d q pre"
    and es: "attr_spec (path_join d ''inblob'') (req_data q) (Inr ()) es"
    and small: "own_writes (pre @ es) \<noteq> u64_max"
  shows "emits
     (io_try_os (fs_read os (path_join d ''outblob'')) (\<lambda>outblob.
      io_bind (fs_read os (path_join d ''auxblob'')) (\<lambda>aux.
      io_try_os (read_to_string os (path_join d ''generation'')) (\<lambda>text.
        if unwrap_or (parse_uint (2 ^ 64) (trim text)) u64_max \<noteq> own_writes (pre @ es)
        then io_return (Inl Raced)
        else io_return (Inr (outblob, unwrap_or (result_ok aux) []))))))
     (\<lambda>r fs. run_spec q d r (pre @ es @ fs))"
  unfolding fs_read_def
proof (rule emits_try_os [OF emits_syscall_exact], goal_cases)
  case (1 i fs)
  then show ?case using no_outblob [OF pre es] by simp
next
  case out: (2 outblob fs)
  show ?case
  proof (rule emits_bind [OF emits_syscall_exact],
      rule emits_try_os [OF emits_read_to_string], goal_cases)
    case (1 aux gs i hs)
    then obtain gen where "hs = [EvRead (path_join d ''generation'') gen]" "text_read gen = Inl i"
      by auto
    then show ?case
      using answered [OF pre es, of outblob aux gen] 1(1) out by (simp add: run_verdict_def)
  next
    case (2 aux gs s hs)
    then obtain gen where "hs = [EvRead (path_join d ''generation'') gen]"
      "text_read gen = Inr s" by auto
    moreover have "unwrap_or (result_ok aux) [] = (case aux of Inl _ \<Rightarrow> [] | Inr bs \<Rightarrow> bs)"
      by (cases aux) simp_all
    ultimately show ?case
      using answered [OF pre es, of outblob aux gen] 2(1) out small
      by (cases "parse_uint (2 ^ 64) (trim s)") (simp_all add: run_verdict_def split: if_splits)
  qed
qed

lemma emits_write_vmpl:
  "emits
     (case req_vmpl q of
        Some v \<Rightarrow>
          io_try (write_attr os (path_join d ''privlevel'') (bytes_of_string (show_dec (unat v))))
            (\<lambda>_. io_return (Inr (saturating_add 0 1)))
      | None \<Rightarrow> io_return (Inr 0))
     (\<lambda>r evs. (\<forall>e. r = Inl e \<longrightarrow> run_spec q d (Inl e) evs)
        \<and> (\<forall>n. r = Inr n \<longrightarrow> vmpl_written d q evs \<and> n = own_writes evs \<and> n \<le> 1))"
proof (cases "req_vmpl q")
  case None
  then show ?thesis by (simp add: vmpl_written_def)
next
  case (Some v)
  show ?thesis
    unfolding Some option.case
    by (rule emits_try [OF emits_write_attr])
      (auto simp: Some vmpl_written_def saturating_add_def usize_max_def own_writes_attr
        intro: no_privlevel)
qed

lemma emits_run_entry: "emits (run_entry os q (Entry d)) (run_spec q d)"
  unfolding run_entry_def Let_def Entry.sel
proof (rule emits_try [OF emits_write_vmpl], goal_cases)
  case (2 n pre)
  then have pre: "vmpl_written d q pre" and n: "n = own_writes pre" "n \<le> 1" by auto
  show ?case
  proof (rule emits_try [OF emits_write_attr], goal_cases)
    case (1 e es)
    then show ?case using pre by (auto intro: no_inblob)
  next
    case (2 u es)
    then have es: "attr_spec (path_join d ''inblob'') (req_data q) (Inr ()) es" by simp
    have writes: "saturating_add n 1 = own_writes (pre @ es)"
      using n own_writes_attr [OF es] by (simp add: saturating_add_def usize_max_def)
    have "own_writes (pre @ es) \<noteq> u64_max"
      using n own_writes_attr [OF es] by (simp add: u64_max_def)
    then show ?case
      unfolding writes using emits_read_answers [OF pre es] by simp
  qed
qed simp

lemma emits_run: "emits (run os self q) (entry_scope (cfs_root self) (run_spec q))"
  unfolding run_def by (rule emits_with_entry, rule emits_run_entry)

section \<open>Properties\<close>

text \<open>
  C13: opening the interface implements its specification.  Without a directory it is
  \<^verbatim>\<open>NoBackend\<close>; otherwise exactly one entry is created, its \<open>provider\<close> attribute read and the
  entry removed, and a handle on this root is returned only if the trimmed text is
  \<open>sev_guest\<close>; any other name, unreadable bytes or a failed call is the corresponding error.
\<close>

theorem ConfigFs_open_at_implements: "emits (ConfigFs_open_at os root) (open_spec root)"
  by (rule emits_open_at)

text \<open>
  C12: running a request implements its specification.  In one fresh entry the privilege level (if
  requested) and then the nonce are written, each in a single call; \<open>outblob\<close>, \<open>auxblob\<close> and
  \<open>generation\<close> are read in that order; the blobs are returned only when the generation parses
  to the number of writes this request made, and every other value is a detected race.
\<close>

theorem run_implements: "emits (run os self q) (entry_scope (cfs_root self) (run_spec q))"
  by (rule emits_run)

lemma confined_append [simp]: "confined d (xs @ ys) \<longleftrightarrow> confined d xs \<and> confined d ys"
  by (auto simp: confined_def)

lemma opened_append [simp]: "opened (xs @ ys) = opened xs @ opened ys"
  by (simp add: opened_def)

lemma closed_append [simp]: "closed (xs @ ys) = closed xs @ closed ys"
  by (simp add: closed_def)

definition tidy :: "string \<Rightarrow> event list \<Rightarrow> bool" where
  "tidy d evs \<longleftrightarrow> confined d evs \<and> opened evs = closed evs"

lemma tidy_append: "tidy d xs \<Longrightarrow> tidy d ys \<Longrightarrow> tidy d (xs @ ys)"
  by (simp add: tidy_def)

lemma tidy_Nil: "tidy d []"
  by (simp add: tidy_def confined_def opened_def closed_def)

lemma tidy_read: "tidy d evs \<Longrightarrow> tidy d (EvRead (path_join d a) c # evs)"
  by (auto simp: tidy_def confined_def opened_def closed_def)

lemma tidy_attr: "attr_spec (path_join d a) bs r evs \<Longrightarrow> tidy d evs"
  unfolding attr_spec_def by (elim disjE exE) (auto simp: tidy_def confined_def opened_def closed_def)

lemma tidy_run_spec: "run_spec q d r evs \<Longrightarrow> tidy d evs"
proof (induction rule: run_spec.induct)
  case (no_privlevel v e evs)
  show ?case by (rule tidy_attr [OF no_privlevel(2)])
qed (auto simp: vmpl_written_def intro!: tidy_append tidy_read tidy_Nil
    elim: tidy_attr split: option.splits)

lemma entry_scope_mono:
  "(\<And>d r mid. P d r mid \<Longrightarrow> Q d r mid) \<Longrightarrow> entry_scope root P r evs \<Longrightarrow> entry_scope root Q r evs"
  unfolding entry_scope_def Let_def by blast

text \<open>
  C7: an entry never outlives the call that made it.  Each of the three operations either fails
  to create its directory and does nothing else, or creates it, touches only attributes under
  it, closes every file it opened, in order, and removes it again, whatever went wrong between.
\<close>

theorem entry_lifecycle:
  "emits (run os self q) (entry_scope (cfs_root self) (\<lambda>d _. tidy d))
   \<and> emits (provider os self) (entry_scope (cfs_root self) (\<lambda>d _. tidy d))
   \<and> emits (privlevel_floor os self) (entry_scope (cfs_root self) (\<lambda>d _. tidy d))"
proof (intro conjI)
  show "emits (run os self q) (entry_scope (cfs_root self) (\<lambda>d _. tidy d))"
    by (rule emits_mono [OF emits_run], erule entry_scope_mono [rotated], rule tidy_run_spec)
  show "emits (provider os self) (entry_scope (cfs_root self) (\<lambda>d _. tidy d))"
    by (rule emits_mono [OF emits_provider], erule entry_scope_mono [rotated])
      (auto intro: tidy_read tidy_Nil)
  show "emits (privlevel_floor os self) (entry_scope (cfs_root self) (\<lambda>d _. tidy d))"
    unfolding privlevel_floor_def
    by (rule emits_with_entry, rule emits_try_os [OF emits_read_to_string])
      (auto intro: tidy_read tidy_Nil)
qed

lemma split_at_dash:
  assumes "list_all is_digit xs" "list_all is_digit xs'"
    and "xs @ CHR ''-'' # ys = xs' @ CHR ''-'' # ys'"
  shows "xs = xs' \<and> ys = ys'"
proof -
  have dash: "\<not> is_digit (CHR ''-'')" by (simp add: is_digit_def)
  have "takeWhile is_digit (zs @ CHR ''-'' # us) = zs" if "list_all is_digit zs" for zs us
    using that dash by (simp add: takeWhile_append2 list_all_iff)
  then have "xs = xs'" using assms by metis
  then show ?thesis using assms(3) by simp
qed

lemma show_dec_inject [simp]: "show_dec m = show_dec n \<longleftrightarrow> m = n"
proof
  assume eq: "show_dec m = show_dec n"
  have "parse_uint (Suc (max m n)) (show_dec m) = Some m"
    "parse_uint (Suc (max m n)) (show_dec n) = Some n"
    by (rule parse_show_dec, simp)+
  with eq show "m = n" by (metis option.inject)
qed simp

text \<open>
  Entry names are unique: they determine the process and the counter value.
\<close>

lemma entry_name_inject:
  "entry_name root pid n = entry_name root pid' n' \<longleftrightarrow> pid = pid' \<and> n = n'"
proof
  assume "entry_name root pid n = entry_name root pid' n'"
  then have "show_dec pid @ CHR ''-'' # show_dec (unat n) = show_dec pid' @ CHR ''-'' # show_dec (unat n')"
    by (simp add: entry_name_def path_join_def split: if_splits)
  then have "show_dec pid = show_dec pid' \<and> show_dec (unat n) = show_dec (unat n')"
    by (rule split_at_dash [OF show_dec_digits show_dec_digits])
  then show "pid = pid' \<and> n = n'" by (simp add: word_unat_eq_iff)
qed simp

section \<open>The transport as a guest backend\<close>

lemma attr_spec_Inl: "attr_spec p bs (Inl e) evs \<Longrightarrow> \<exists>i. e = Io i"
  unfolding attr_spec_def by (metis attr_verdict_iffs(2) sum.inject(1))

lemma run_verdict_Inl: "run_verdict n out aux gen = Inl e \<Longrightarrow> e = Raced \<or> (\<exists>i. e = Io i)"
  by (cases "text_read gen") (auto simp: run_verdict_def split: if_splits)

lemma run_spec_Inl: "run_spec q d r evs \<Longrightarrow> r = Inl e \<Longrightarrow> e = Raced \<or> (\<exists>i. e = Io i)"
  by (induction rule: run_spec.induct) (metis attr_spec_Inl run_verdict_Inl sum.inject(1))+

lemma run_error: "run os self q w = (Inl e, w') \<Longrightarrow> e = Raced \<or> (\<exists>i. e = Io i)"
proof -
  assume "run os self q w = (Inl e, w')"
  then obtain evs where "entry_scope (cfs_root self) (run_spec q) (Inl e) evs"
    using emitsD [OF emits_run] by blast
  then show ?thesis
    unfolding entry_scope_def Let_def using run_spec_Inl by blast
qed

definition file_only :: "event list \<Rightarrow> bool" where
  "file_only evs \<longleftrightarrow> (\<forall>e \<in> set evs. case e of EvIoctl _ _ _ \<Rightarrow> False | EvSleep _ \<Rightarrow> False | EvPrint _ \<Rightarrow> False
       | _ \<Rightarrow> True)"

lemma tidy_file_only: "tidy d evs \<Longrightarrow> file_only evs"
  by (auto simp: tidy_def confined_def file_only_def split: event.splits)

lemma emits_run_file_only: "emits (run os self q) (\<lambda>_. file_only)"
proof (rule emits_mono [OF emits_run])
  fix r evs
  assume "entry_scope (cfs_root self) (run_spec q) r evs"
  then obtain d where "(\<exists>i. evs = [EvCreateDir d (Inl i)])
      \<or> (\<exists>mid. evs = EvCreateDir d (Inr ()) # mid @ [EvRemoveDir d] \<and> run_spec q d r mid)"
    unfolding entry_scope_def Let_def by blast
  then show "file_only evs"
    using tidy_file_only [OF tidy_run_spec] by (auto simp: file_only_def)
qed

lemma emits_try_pure:
  assumes "emits m (\<lambda>_. Q)" "\<And>x. emits (f x) (\<lambda>_ evs. evs = [])"
  shows "emits (io_try m f) (\<lambda>_. Q)"
  by (rule emits_try [OF assms(1)]) (auto intro: emits_mono [OF assms(2)])

lemma emits_cfs_report:
  "emits (ConfigFs_report os self q) (\<lambda>_. file_only)"
  "emits (ConfigFs_extended_report os self q) (\<lambda>_. file_only)"
  unfolding ConfigFs_report_def ConfigFs_extended_report_def case_prod_beta
  by (intro emits_try_pure [OF emits_run_file_only] emits_try_pure; simp)+

interpretation cfs: guest_backend "ConfigFs_report os self" "ConfigFs_extended_report os self"
  "ConfigFs_derive_key os self" for os :: "'k os" and self
proof unfold_locales
  fix q w w' and r :: AttestationReport
  assume "ConfigFs_report os self q w = (Inr r, w')"
  then show "valid_report r \<and> answers q r"
    by (auto simp: ConfigFs_report_def result_simps dest: parse_valid)
next
  fix q w w' e
  assume "ConfigFs_report os self q w = (Inl e, w')"
  then show "request_error e"
    by (auto simp: ConfigFs_report_def result_simps dest!: run_error response_errors)
next
  fix q w w' and x :: ExtendedReport
  assume "ConfigFs_extended_report os self q w = (Inr x, w')"
  then show "valid_report (ext_report x) \<and> answers q (ext_report x) \<and> bounded_table (certificates x)"
    by (auto simp: ConfigFs_extended_report_def result_simps dest: parse_valid
        CertTable_parse_bounded)
next
  fix q w w' e
  assume "ConfigFs_extended_report os self q w = (Inl e, w')"
  then show "request_error e"
    by (auto simp: ConfigFs_extended_report_def result_simps dest!: run_error response_errors)
qed (simp_all add: ConfigFs_derive_key_def)

end
