(* ===== verification/Sample.thy ===== *)
theory Sample
  imports World Report
begin

text \<open>
  A concrete operating system for the witnesses: an instance of the \<open>os\<close> parameter on which the
  hypotheses of the theorems hold.  It is not a model of Linux.  Its state is the next free
  address; every file operation succeeds; the TSM attributes hold the captured Milan report;
  the guest device answers a report request with that report, asks once for a page of
  certificate space, and answers a key request with a constant key.
\<close>

definition ends_with :: "string \<Rightarrow> string \<Rightarrow> bool" where
  "ends_with suffix s \<longleftrightarrow> take (length suffix) (rev s) = rev suffix"

definition sample_read :: "string \<Rightarrow> io_error + u8 list" where
  "sample_read p =
     (if ends_with ''provider'' p then Inr (bytes_of_string ''sev_guest'')
      else if ends_with ''outblob'' p then Inr MILAN_V5
      else if ends_with ''auxblob'' p then Inr []
      else if ends_with ''generation'' p then Inr (bytes_of_string ''1'')
      else Inl (OsError 2))"

definition sample_report_response :: "u8 list" where
  "sample_report_response = replicate 32 0 @ MILAN_V5 @ replicate 2784 0"

definition sample_key_response :: "u8 list" where
  "sample_key_response = replicate 32 0 @ replicate 32 0xAA"

definition sample_ioctl ::
  "u32 \<Rightarrow> GuestRequestIoctl \<Rightarrow> memory \<Rightarrow> int \<times> GuestRequestIoctl \<times> memory" where
  "sample_ioctl code arg m =
     (let resp = unat (ioctl_resp_data arg); req = unat (ioctl_req_data arg) in
      if code = 0xC0205301 then (0, arg, mem_store resp sample_key_response m)
      else if code = 0xC0205302 \<and> mem_bytes m (req + 104) 4 = [0, 0, 0, 0]
      then (- 1, arg\<lparr>ioctl_exitinfo2 := 0x100000000\<rparr>, mem_store (req + 104) [0, 0x10, 0, 0] m)
      else (0, arg, mem_store resp sample_report_response m))"

definition sample_os :: "nat os" where
  "sample_os =
     \<lparr>os_is_dir = (\<lambda>p k. (True, k)),
      os_exists = (\<lambda>p k. (True, k)),
      os_create_dir = (\<lambda>p k. (Inr (), k)),
      os_remove_dir = (\<lambda>p k. (Inr (), k)),
      os_open_write = (\<lambda>p k. (Inr 3, k)),
      os_open_rw = (\<lambda>p k. (Inr 4, k)),
      os_write = (\<lambda>fd bs k. (Inr (length bs), k)),
      os_close = (\<lambda>fd k. ((), k)),
      os_read = (\<lambda>p k. (sample_read p, k)),
      os_ioctl = (\<lambda>fd code arg m k. (sample_ioctl code arg m, k)),
      os_errno = (\<lambda>k. 5),
      os_pid = (\<lambda>k. 7),
      os_alloc = (\<lambda>n k. (k, k + n)),
      os_sleep = (\<lambda>ms k. ((), k)),
      os_print = (\<lambda>s k. (Inr (), k))\<rparr>"

definition sample_world :: "nat world" where
  "sample_world = \<lparr>kern = 4096, memory = (\<lambda>_. 0), counter = 0, log = []\<rparr>"

lemma length_sample_responses [simp]:
  "length sample_report_response = 4000" "length sample_key_response = 64"
  by (simp_all add: sample_report_response_def sample_key_response_def)

lemma parse_milan: "AttestationReport_parse (MILAN_V5 @ rest) = Inr milan_report"
proof -
  have "version milan_report = 5" by (rule milan_version)
  moreover have "take SIZE (MILAN_V5 @ rest) = MILAN_V5" by (simp add: SIZE_def)
  ultimately show ?thesis
    by (simp add: AttestationReport_parse_def bytes_at_eq SIZE_def MIN_VERSION_def MAX_VERSION_def
        Let_def milan_report_def)
qed

end
