(* ===== verification/Race.thy ===== *)
theory Race
  imports Configfs Sample
begin

text \<open>
  The race detection of the configfs transport under the documented meaning of its
  \<open>generation\<close> attribute: it counts the writes made to an entry, by whomever.  The predicate
  \<open>counts_writes\<close> states that behaviour of a kernel with other writers: \<open>own\<close> and \<open>other\<close> count the
  writes of this process and of everybody else to each entry, other writers may act during
  every call, and reading the attribute yields the sum.  The theorem is what the source's
  comparison is for: when a request returns, nobody else had written to its entry by the time
  the report was generated.  Conversely the comparison raises no false alarm: a request nobody
  disturbs is served.
\<close>

definition plain :: "string \<Rightarrow> bool" where
  "plain d \<longleftrightarrow> d \<noteq> [] \<and> last d \<noteq> CHR ''/''"

definition counts_writes ::
  "'k os \<Rightarrow> ('k \<Rightarrow> string \<Rightarrow> nat) \<Rightarrow> ('k \<Rightarrow> string \<Rightarrow> nat) \<Rightarrow> ('k \<Rightarrow> nat \<Rightarrow> string) \<Rightarrow> bool" where
  "counts_writes os own other target \<longleftrightarrow>
     (\<forall>d k k'. os_create_dir os d k = (Inr (), k') \<longrightarrow> own k' d = 0)
     \<and> (\<forall>d a k fd k'. plain d \<longrightarrow> a \<in> {''inblob'', ''privlevel''} \<longrightarrow>
          os_open_write os (path_join d a) k = (Inr fd, k') \<longrightarrow>
          target k' fd = d \<and> own k' d = own k d \<and> other k d \<le> other k' d)
     \<and> (\<forall>fd bs k n k'. os_write os fd bs k = (Inr n, k') \<longrightarrow>
          own k' (target k fd) = own k (target k fd) + 1
          \<and> other k (target k fd) \<le> other k' (target k fd))
     \<and> (\<forall>fd d k u k'. os_close os fd k = (u, k') \<longrightarrow>
          own k' d = own k d \<and> other k d \<le> other k' d)
     \<and> (\<forall>p d k r k'. os_read os p k = (r, k') \<longrightarrow> own k' d = own k d \<and> other k d \<le> other k' d)
     \<and> (\<forall>d k bs k'. plain d \<longrightarrow> os_read os (path_join d ''generation'') k = (Inr bs, k') \<longrightarrow>
          text_read (Inr bs) = Inr (show_dec (own k' d + other k' d) @ [CHR 0x0A]))"

text \<open>The clauses of \<open>counts_writes\<close>, one by one.\<close>

lemma counts_clauses:
  assumes "counts_writes os own other target"
  shows "os_create_dir os d k = (Inr (), k') \<Longrightarrow> own k' d = 0"
    "plain d \<Longrightarrow> a \<in> {''inblob'', ''privlevel''} \<Longrightarrow>
      os_open_write os (path_join d a) k = (Inr fd, k') \<Longrightarrow> target k' fd = d \<and> own k' d = own k d"
    "os_write os fd bs k = (Inr n, k') \<Longrightarrow> target k fd = d \<Longrightarrow> own k' d = own k d + 1"
    "os_close os fd k = (u, k') \<Longrightarrow> own k' d = own k d"
    "os_read os p k = (r, k') \<Longrightarrow> own k' d = own k d \<and> other k d \<le> other k' d"
    "plain d \<Longrightarrow> os_read os (path_join d ''generation'') k = (Inr bs, k') \<Longrightarrow>
      text_read (Inr bs) = Inr (show_dec (own k' d + other k' d) @ [CHR 0x0A])"
proof -
  note laws = assms [unfolded counts_writes_def]
  show "os_create_dir os d k = (Inr (), k') \<Longrightarrow> own k' d = 0"
    by (rule laws [THEN conjunct1, rule_format])
  show "plain d \<Longrightarrow> a \<in> {''inblob'', ''privlevel''} \<Longrightarrow>
      os_open_write os (path_join d a) k = (Inr fd, k') \<Longrightarrow> target k' fd = d \<and> own k' d = own k d"
    using laws [THEN conjunct2, THEN conjunct1, rule_format, of d a k fd k'] by simp
  show "os_write os fd bs k = (Inr n, k') \<Longrightarrow> target k fd = d \<Longrightarrow> own k' d = own k d + 1"
    using laws [THEN conjunct2, THEN conjunct2, THEN conjunct1, rule_format, of fd bs k n k'] by simp
  show "os_close os fd k = (u, k') \<Longrightarrow> own k' d = own k d"
    using laws [THEN conjunct2, THEN conjunct2, THEN conjunct2, THEN conjunct1, rule_format,
        of fd k u k' d] by simp
  note reads = laws [THEN conjunct2, THEN conjunct2, THEN conjunct2, THEN conjunct2]
  show "os_read os p k = (r, k') \<Longrightarrow> own k' d = own k d \<and> other k d \<le> other k' d"
    using reads [THEN conjunct1, rule_format, of p k r k' d] by simp
  show "plain d \<Longrightarrow> os_read os (path_join d ''generation'') k = (Inr bs, k') \<Longrightarrow>
      text_read (Inr bs) = Inr (show_dec (own k' d + other k' d) @ [CHR 0x0A])"
    by (rule reads [THEN conjunct2, rule_format])
qed

lemma plain_entry_name: "plain (entry_name root pid n)"
proof -
  have "is_digit (last (show_dec m))" for m
    using show_dec_digits [of m] last_in_set [OF show_dec_nonempty [of m]]
    by (simp add: list_all_iff)
  moreover have "\<not> is_digit (CHR ''/'')" by (simp add: is_digit_def)
  ultimately have "last (show_dec m) \<noteq> CHR ''/''" for m by metis
  then show ?thesis by (simp add: plain_def entry_name_def path_join_def)
qed

lemma syscall_kern:
  "syscall f ev w = (x, w') \<longleftrightarrow>
     (\<exists>k. f (kern w) = (x, k) \<and> w' = w\<lparr>kern := k, log := log w @ [ev x]\<rparr>)"
  by (auto simp: syscall_def split: prod.splits)

lemma write_attr_calls:
  assumes "write_attr os p bs w = (Inr u, w')"
  shows "\<exists>fd k1 n k2 c. os_open_write os p (kern w) = (Inr fd, k1)
     \<and> os_write os fd bs k1 = (Inr n, k2) \<and> os_close os fd k2 = (c, kern w')"
  using assms
  by (auto simp: write_attr_def open_write_def file_write_def file_close_def syscall_kern
      result_simps split: if_splits)

lemma write_attr_counts:
  assumes kernel: "counts_writes os own other target"
    and "plain d" "a \<in> {''inblob'', ''privlevel''}" "write_attr os (path_join d a) bs w = (Inr u, w')"
  shows "own (kern w') d = own (kern w) d + 1"
proof -
  obtain fd k1 n k2 c where calls: "os_open_write os (path_join d a) (kern w) = (Inr fd, k1)"
    "os_write os fd bs k1 = (Inr n, k2)" "os_close os fd k2 = (c, kern w')"
    using write_attr_calls [OF assms(4)] by blast
  have "target k1 fd = d" "own k1 d = own (kern w) d"
    using counts_clauses(2) [OF kernel assms(2,3) calls(1)] by auto
  then show ?thesis
    using counts_clauses(3) [OF kernel calls(2)] counts_clauses(4) [OF kernel calls(3)] by simp
qed

lemma parse_uint_mono: "parse_uint b s = Some v \<Longrightarrow> b \<le> c \<Longrightarrow> parse_uint c s = Some v"
  by (auto simp: parse_uint_def Let_def split: if_splits)

lemma parse_trim_exact: "parse_uint b (trim (show_dec m @ [CHR 0x0A])) = Some v \<Longrightarrow> v = m"
  using parse_uint_mono [of b _ v "max b (Suc m)"] parse_trim_show_dec [of m "max b (Suc m)"]
  by fastforce

lemma read_to_string_kern:
  "read_to_string os p w = (Inr t, w') \<Longrightarrow>
   \<exists>bs. os_read os p (kern w) = (Inr bs, kern w') \<and> text_read (Inr bs) = Inr t"
  by (auto simp: read_to_string_def fs_read_def syscall_kern result_simps text_read_def)

lemma run_entry_calls:
  assumes "run_entry os q (Entry d) w = (Inr (out, aux), w')"
  obtains (answered) n w1 w2 w3 c k2 bs k3 t where
    "(case req_vmpl q of
        Some v \<Rightarrow> (\<exists>u. write_attr os (path_join d ''privlevel'')
          (bytes_of_string (show_dec (unat v))) w = (Inr u, w1)) \<and> n = 1
      | None \<Rightarrow> w1 = w \<and> n = 0)"
    "write_attr os (path_join d ''inblob'') (req_data q) w1 = (Inr (), w2)"
    "os_read os (path_join d ''outblob'') (kern w2) = (Inr out, kern w3)"
    "os_read os (path_join d ''auxblob'') (kern w3) = (c, k2)"
    "os_read os (path_join d ''generation'') k2 = (Inr bs, k3)"
    "text_read (Inr bs) = Inr t" "parse_uint (2 ^ 64) (trim t) = Some (n + 1)"
    "aux = unwrap_or (result_ok c) []" "fs_read os (path_join d ''outblob'') w2 = (Inr out, w3)"
proof -
  let ?vmpl = "case req_vmpl q of
      Some v \<Rightarrow> io_try (write_attr os (path_join d ''privlevel'') (bytes_of_string (show_dec (unat v))))
         (\<lambda>_. io_return (Inr (saturating_add 0 1)))
    | None \<Rightarrow> io_return (Inr 0)"
  obtain n w1 w2 w3 c w4 t w5 where v: "?vmpl w = (Inr n, w1)"
    and inblob: "write_attr os (path_join d ''inblob'') (req_data q) w1 = (Inr (), w2)"
    and out: "fs_read os (path_join d ''outblob'') w2 = (Inr out, w3)"
    and auxblob: "fs_read os (path_join d ''auxblob'') w3 = (c, w4)" "aux = unwrap_or (result_ok c) []"
    and gen: "read_to_string os (path_join d ''generation'') w4 = (Inr t, w5)"
    and eq: "unwrap_or (parse_uint (2 ^ 64) (trim t)) u64_max = saturating_add n 1"
    using assms unfolding run_entry_def Let_def Entry.sel
    by (auto simp: result_simps split: if_splits)
  have n: "case req_vmpl q of
        Some v \<Rightarrow> (\<exists>u. write_attr os (path_join d ''privlevel'')
          (bytes_of_string (show_dec (unat v))) w = (Inr u, w1)) \<and> n = 1
      | None \<Rightarrow> w1 = w \<and> n = 0"
    using v by (auto simp: result_simps saturating_add_def usize_max_def split: option.splits)
  then have "saturating_add n 1 = n + 1" "n + 1 \<noteq> u64_max"
    by (auto simp: saturating_add_def usize_max_def u64_max_def split: option.splits)
  then have parsed: "parse_uint (2 ^ 64) (trim t) = Some (n + 1)"
    using eq by (cases "parse_uint (2 ^ 64) (trim t)") auto
  obtain bs where bs: "os_read os (path_join d ''generation'') (kern w4) = (Inr bs, kern w5)"
    "text_read (Inr bs) = Inr t"
    using read_to_string_kern [OF gen] by blast
  show thesis
    using out auxblob(1) bs(1) answered [OF n inblob _ _ _ bs(2) parsed auxblob(2) out]
    by (auto simp: fs_read_def syscall_kern)
qed

lemma run_calls:
  assumes "run os self q w = (Inr (out, aux), w')"
  obtains (entry) d w1 w2 where "d = entry_name (cfs_root self) (os_pid os (kern w)) (counter w)"
    "plain d" "Entry_create os (cfs_root self) w = (Inr (Entry d), w1)"
    "os_create_dir os d (kern w) = (Inr (), kern w1)"
    "run_entry os q (Entry d) w1 = (Inr (out, aux), w2)"
proof -
  let ?d = "entry_name (cfs_root self) (os_pid os (kern w)) (counter w)"
  obtain e w1 w2 where create: "Entry_create os (cfs_root self) w = (Inr e, w1)"
    and body: "run_entry os q e w1 = (Inr (out, aux), w2)"
    using assms by (auto simp: run_def with_entry_def result_simps)
  from create have "os_create_dir os ?d (kern w) = (Inr (), kern w1)" "e = Entry ?d"
    by (auto simp: Entry_create_def Let_def create_dir_def syscall_kern result_simps)
  then show thesis using entry [OF refl plain_entry_name] create body by blast
qed

text \<open>
  C2: the generation check detects every concurrent writer in time.  On a kernel whose
  generation attribute counts writes, a request that returns blobs went as follows: it created
  its own entry, wrote the level if it has one and then its nonce, and read the report; and in
  the state right after that read nobody else had written to that entry.  The other writers'
  count only grows, so the nonce and the level in effect when the report was read were ours.
\<close>

theorem no_foreign_write_before_report:
  assumes kernel: "counts_writes os own other target"
    and run: "run os self q w = (Inr (out, aux), w')"
    and d: "d = entry_name (cfs_root self) (os_pid os (kern w)) (counter w)"
  shows "\<exists>w1 w2 w3 w4. Entry_create os (cfs_root self) w = (Inr (Entry d), w1)
     \<and> (case req_vmpl q of
          Some v \<Rightarrow> write_attr os (path_join d ''privlevel'') (bytes_of_string (show_dec (unat v))) w1
            = (Inr (), w2)
        | None \<Rightarrow> w2 = w1)
     \<and> write_attr os (path_join d ''inblob'') (req_data q) w2 = (Inr (), w3)
     \<and> fs_read os (path_join d ''outblob'') w3 = (Inr out, w4)
     \<and> other (kern w4) d = 0"
proof -
  obtain w1 w9 where plain: "plain d" and create: "Entry_create os (cfs_root self) w = (Inr (Entry d), w1)"
    "os_create_dir os d (kern w) = (Inr (), kern w1)" and entry: "run_entry os q (Entry d) w1 = (Inr (out, aux), w9)"
    using run unfolding d by (rule run_calls) blast
  from entry show ?thesis
  proof (cases rule: run_entry_calls)
    case (answered n w2 w3 w4 c k2 bs k3 t)
    have fresh: "own (kern w1) d = 0"
      using counts_clauses(1) [OF kernel create(2)] .
    have "own (kern w2) d = n"
    proof (cases "req_vmpl q")
      case None
      then show ?thesis using answered(1) fresh by simp
    next
      case (Some v)
      then obtain u where u: "write_attr os (path_join d ''privlevel'')
          (bytes_of_string (show_dec (unat v))) w1 = (Inr u, w2)" and "n = 1"
        using answered(1) by auto
      then show ?thesis
        using write_attr_counts [OF kernel plain _ u] fresh by simp
    qed
    then have "own (kern w3) d = n + 1"
      using write_attr_counts [OF kernel plain _ answered(2)] by simp
    then have own: "own k3 d = n + 1" and mono: "other (kern w4) d \<le> other k3 d"
      using answered(3-5)[THEN counts_clauses(5) [OF kernel], of d] by auto
    have "t = show_dec (own k3 d + other k3 d) @ [CHR 0x0A]"
      using counts_clauses(6) [OF kernel plain answered(5)] answered(6) by simp
    then have "own k3 d + other k3 d = n + 1"
      using answered(7) parse_trim_exact by metis
    then have "other (kern w4) d = 0" using own mono by simp
    moreover have "case req_vmpl q of
          Some v \<Rightarrow> write_attr os (path_join d ''privlevel'') (bytes_of_string (show_dec (unat v))) w1
            = (Inr (), w2)
        | None \<Rightarrow> w2 = w1"
      using answered(1) by (cases "req_vmpl q") auto
    ultimately show ?thesis using create(1) answered(2,9) by blast
  qed
qed

section \<open>No false alarms\<close>

text \<open>
  A kernel that serves every call and on which nobody else writes to the entry: the other
  writers' count is zero for a new entry and no call changes it.
\<close>

definition undisturbed :: "'k os \<Rightarrow> ('k \<Rightarrow> string \<Rightarrow> nat) \<Rightarrow> bool" where
  "undisturbed os other \<longleftrightarrow>
     (\<forall>d k. \<exists>k'. os_create_dir os d k = (Inr (), k') \<and> other k' d = 0)
     \<and> (\<forall>p k. \<exists>fd k'. os_open_write os p k = (Inr fd, k') \<and> other k' = other k)
     \<and> (\<forall>fd bs k. \<exists>k'. os_write os fd bs k = (Inr (length bs), k') \<and> other k' = other k)
     \<and> (\<forall>fd k. \<exists>u k'. os_close os fd k = (u, k') \<and> other k' = other k)
     \<and> (\<forall>d a k. plain d \<longrightarrow> a \<in> {''outblob'', ''auxblob'', ''generation''} \<longrightarrow>
          (\<exists>bs k'. os_read os (path_join d a) k = (Inr bs, k') \<and> other k' = other k))"

lemma undisturbed_write:
  assumes quiet: "undisturbed os other"
  obtains w' where "write_attr os p bs w = (Inr (), w')" "other (kern w') = other (kern w)"
proof -
  obtain fd k1 where k1: "os_open_write os p (kern w) = (Inr fd, k1)" "other k1 = other (kern w)"
    using quiet unfolding undisturbed_def by blast
  obtain k2 where k2: "os_write os fd bs k1 = (Inr (length bs), k2)" "other k2 = other k1"
    using quiet unfolding undisturbed_def by blast
  obtain u k3 where k3: "os_close os fd k2 = (u, k3)" "other k3 = other k2"
    using quiet unfolding undisturbed_def by blast
  have "\<exists>w'. write_attr os p bs w = (Inr (), w') \<and> kern w' = k3"
    using k1(1) k2(1) k3(1)
    by (simp add: write_attr_def io_try_os_def io_try_def io_bind_def io_return_def open_write_def
        file_write_def file_close_def syscall_def)
  then show thesis using that k1 k2 k3 by auto
qed

lemma undisturbed_os_read:
  assumes "undisturbed os other" "plain d" "a \<in> {''outblob'', ''auxblob'', ''generation''}"
  obtains bs k' where "os_read os (path_join d a) k = (Inr bs, k')" "other k' = other k"
  using assms(1) [unfolded undisturbed_def, THEN conjunct2, THEN conjunct2, THEN conjunct2,
      THEN conjunct2, rule_format, OF assms(2,3), of k] by blast

lemma undisturbed_read:
  assumes "undisturbed os other" "plain d" "a \<in> {''outblob'', ''auxblob'', ''generation''}"
  obtains bs w' where "fs_read os (path_join d a) w = (Inr bs, w')"
    "os_read os (path_join d a) (kern w) = (Inr bs, kern w')" "other (kern w') = other (kern w)"
proof -
  obtain bs k where read: "os_read os (path_join d a) (kern w) = (Inr bs, k)" "other k = other (kern w)"
    using assms by (rule undisturbed_os_read)
  show thesis
    by (rule that [of bs "w\<lparr>kern := k, log := log w @ [EvRead (path_join d a) (Inr bs)]\<rparr>"])
      (simp_all add: read fs_read_def syscall_def)
qed

text \<open>The writes of a request: one to the nonce, one more when it names a privilege level.\<close>

definition writes_of :: "ReportRequest \<Rightarrow> nat" where
  "writes_of q = (if req_vmpl q = None then 1 else 2)"

lemma undisturbed_run_entry:
  assumes kernel: "counts_writes os own other target" and quiet: "undisturbed os other"
    and d: "plain d" and start: "own (kern w) d = 0" "other (kern w) d = 0"
  shows "\<exists>out aux w'. run_entry os q (Entry d) w = (Inr (out, aux), w')"
proof -
  let ?lvl = "\<lambda>v. bytes_of_string (show_dec (unat v))"
  obtain w1 where level: "(case req_vmpl q of
        Some v \<Rightarrow> io_try (write_attr os (path_join d ''privlevel'') (?lvl v))
          (\<lambda>_. io_return (Inr (saturating_add 0 1)))
      | None \<Rightarrow> io_return (Inr 0)) w = (Inr (writes_of q - 1), w1)"
    and w1: "own (kern w1) d = writes_of q - 1" "other (kern w1) d = 0"
  proof (cases "req_vmpl q")
    case None
    then show thesis using that [of w] start by (simp add: writes_of_def io_return_def)
  next
    case (Some v)
    obtain w1 where level: "write_attr os (path_join d ''privlevel'') (?lvl v) w = (Inr (), w1)"
      and other: "other (kern w1) = other (kern w)"
      using quiet by (rule undisturbed_write)
    have "own (kern w1) d = 1"
      using write_attr_counts [OF kernel d _ level] start by simp
    then show thesis
      using that [of w1] level other start Some
      by (simp add: writes_of_def io_try_def io_bind_def io_return_def saturating_add_def usize_max_def)
  qed
  obtain w2 where inblob: "write_attr os (path_join d ''inblob'') (req_data q) w1 = (Inr (), w2)"
    and w2: "other (kern w2) = other (kern w1)"
    using quiet by (rule undisturbed_write)
  have own2: "own (kern w2) d = writes_of q"
    using write_attr_counts [OF kernel d _ inblob] w1(1) by (simp add: writes_of_def split: if_splits)
  have blobs: "''outblob'' \<in> {''outblob'', ''auxblob'', ''generation''}"
    "''auxblob'' \<in> {''outblob'', ''auxblob'', ''generation''}"
    "''generation'' \<in> {''outblob'', ''auxblob'', ''generation''}"
    by simp_all
  obtain out w3 where out: "fs_read os (path_join d ''outblob'') w2 = (Inr out, w3)"
    and k3: "os_read os (path_join d ''outblob'') (kern w2) = (Inr out, kern w3)" "other (kern w3) = other (kern w2)"
    using quiet d blobs(1) by (rule undisturbed_read)
  obtain aux w4 where aux: "fs_read os (path_join d ''auxblob'') w3 = (Inr aux, w4)"
    and k4: "os_read os (path_join d ''auxblob'') (kern w3) = (Inr aux, kern w4)" "other (kern w4) = other (kern w3)"
    using quiet d blobs(2) by (rule undisturbed_read)
  obtain bs w5 where gen: "fs_read os (path_join d ''generation'') w4 = (Inr bs, w5)"
    and k5: "os_read os (path_join d ''generation'') (kern w4) = (Inr bs, kern w5)" "other (kern w5) = other (kern w4)"
    using quiet d blobs(3) by (rule undisturbed_read)
  have "own (kern w5) d = writes_of q" "other (kern w5) d = 0"
    using counts_clauses(5) [OF kernel k3(1), of d] counts_clauses(5) [OF kernel k4(1), of d]
      counts_clauses(5) [OF kernel k5(1), of d] own2 k3(2) k4(2) k5(2) w1(2) w2 by simp_all
  then have decimal: "utf8_text bs = Inr (show_dec (writes_of q) @ [CHR 0x0A])"
    using counts_clauses(6) [OF kernel d k5(1)] by (simp add: text_read_def)
  have "parse_uint (2 ^ 64) (trim (show_dec (writes_of q) @ [CHR 0x0A])) = Some (writes_of q)"
    by (rule parse_trim_show_dec) (simp add: writes_of_def)
  moreover have "saturating_add (writes_of q - 1) 1 = writes_of q"
    by (simp add: writes_of_def saturating_add_def usize_max_def)
  ultimately have "run_entry os q (Entry d) w = (Inr (out, aux), w5)"
    using level inblob out aux gen decimal
    by (simp add: run_entry_def Let_def io_try_os_def io_try_def io_bind_def io_return_def
        read_to_string_def result_ok_def)
  then show ?thesis by blast
qed

text \<open>
  The generation check raises no false alarm.  On a kernel that counts writes and serves every
  call, a request to whose entry nobody else writes returns its blobs, with or without a
  privilege level.
\<close>

lemma undisturbed_run:
  assumes kernel: "counts_writes os own other target" and quiet: "undisturbed os other"
  shows "\<exists>out aux w'. run os self q w = (Inr (out, aux), w')"
proof -
  let ?d = "entry_name (cfs_root self) (os_pid os (kern w)) (counter w)"
  obtain k where create: "os_create_dir os ?d (kern w) = (Inr (), k)" and clean: "other k ?d = 0"
    using quiet unfolding undisturbed_def by blast
  let ?w1 = "w\<lparr>counter := counter w + 1, kern := k, log := log w @ [EvCreateDir ?d (Inr ())]\<rparr>"
  have entry: "Entry_create os (cfs_root self) w = (Inr (Entry ?d), ?w1)"
    using create by (simp add: Entry_create_def Let_def io_try_os_def io_try_def io_bind_def
        io_return_def create_dir_def syscall_def)
  obtain out aux w2 where "run_entry os q (Entry ?d) ?w1 = (Inr (out, aux), w2)"
    using undisturbed_run_entry [OF kernel quiet plain_entry_name, of ?w1 "cfs_root self"
        "os_pid os (kern w)" "counter w" q] counts_clauses(1) [OF kernel create] clean
    by auto
  then show ?thesis
    using entry by (cases "Entry_drop os (Entry ?d) w2")
      (simp add: run_def with_entry_def io_try_def io_bind_def io_return_def)
qed

section \<open>A kernel that counts\<close>

text \<open>
  A concrete kernel with the documented behaviour, for the witness: it counts the writes to each
  entry, and with \<open>tl_rival\<close> set another process writes to the entry whenever this one closes
  an attribute.
\<close>

record tally =
  tl_own :: "string \<Rightarrow> nat"
  tl_other :: "string \<Rightarrow> nat"
  tl_current :: string
  tl_rival :: bool

definition dir_of :: "string \<Rightarrow> string" where
  "dir_of p = rev (tl (dropWhile (\<lambda>c. c \<noteq> CHR ''/'') (rev p)))"

definition tally_read :: "string \<Rightarrow> tally \<Rightarrow> io_error + u8 list" where
  "tally_read p k =
     (if ends_with ''generation'' p
      then Inr (bytes_of_string (show_dec (tl_own k (dir_of p) + tl_other k (dir_of p)) @ [CHR 0x0A]))
      else sample_read p)"

definition tally_os :: "tally os" where
  "tally_os =
     \<lparr>os_is_dir = (\<lambda>p k. (True, k)),
      os_exists = (\<lambda>p k. (True, k)),
      os_create_dir = (\<lambda>d k. (Inr (), k\<lparr>tl_own := (tl_own k)(d := 0), tl_other := (tl_other k)(d := 0)\<rparr>)),
      os_remove_dir = (\<lambda>p k. (Inr (), k)),
      os_open_write = (\<lambda>p k. (Inr 3, k\<lparr>tl_current := dir_of p\<rparr>)),
      os_open_rw = (\<lambda>p k. (Inr 4, k)),
      os_write = (\<lambda>fd bs k. (Inr (length bs),
        k\<lparr>tl_own := (tl_own k)(tl_current k := tl_own k (tl_current k) + 1)\<rparr>)),
      os_close = (\<lambda>fd k. ((), if tl_rival k
        then k\<lparr>tl_other := (tl_other k)(tl_current k := tl_other k (tl_current k) + 1)\<rparr> else k)),
      os_read = (\<lambda>p k. (tally_read p k, k)),
      os_ioctl = (\<lambda>fd code arg m k. ((0, arg, m), k)),
      os_errno = (\<lambda>k. 5),
      os_pid = (\<lambda>k. 7),
      os_alloc = (\<lambda>n k. (0, k)),
      os_sleep = (\<lambda>ms k. ((), k)),
      os_print = (\<lambda>s k. (Inr (), k))\<rparr>"

definition tally_world :: "bool \<Rightarrow> tally world" where
  "tally_world rival =
     \<lparr>kern = \<lparr>tl_own = (\<lambda>_. 0), tl_other = (\<lambda>_. 0), tl_current = [], tl_rival = rival\<rparr>,
      memory = (\<lambda>_. 0), counter = 0, log = []\<rparr>"

lemma plain_join: "plain d \<Longrightarrow> path_join d a = d @ CHR ''/'' # a"
  by (simp add: plain_def path_join_def)

lemma dir_of_join: "plain d \<Longrightarrow> CHR ''/'' \<notin> set a \<Longrightarrow> dir_of (path_join d a) = d"
proof -
  assume "plain d" and a: "CHR ''/'' \<notin> set a"
  have "dropWhile (\<lambda>c. c \<noteq> CHR ''/'') (rev a @ CHR ''/'' # rev d) = CHR ''/'' # rev d"
    using a by (subst dropWhile_append2) auto
  then show ?thesis using \<open>plain d\<close> by (simp add: plain_join dir_of_def)
qed

lemma ends_with_join: "ends_with x (path_join d a) \<longleftrightarrow>
    take (length x) (rev a @ rev (path_join d [])) = rev x"
  by (auto simp: ends_with_def path_join_def)

lemma ascii_text:
  "list_all (\<lambda>c. (of_char c :: nat) < 128) s \<Longrightarrow> text_read (Inr (bytes_of_string s)) = Inr s"
proof -
  assume ascii: "list_all (\<lambda>c. (of_char c :: nat) < 128) s"
  have "utf8_valid (bytes_of_string s)"
    using ascii by (induction s) (simp_all add: bytes_of_string_def word_less_nat_alt unat_of_nat)
  moreover have "string_of_bytes (bytes_of_string s) = s"
    using ascii by (induction s) (simp_all add: bytes_of_string_def string_of_bytes_def unat_of_nat)
  ultimately show ?thesis by (simp add: text_read_def utf8_text_def)
qed

lemma decimal_text: "text_read (Inr (bytes_of_string (show_dec n @ [CHR 0x0A]))) = Inr (show_dec n @ [CHR 0x0A])"
proof (rule ascii_text)
  have "list_all (\<lambda>c. (of_char c :: nat) < 128) (show_dec n)"
    using show_dec_digits [of n] by (auto simp: list_all_iff is_digit_def)
  then show "list_all (\<lambda>c. (of_char c :: nat) < 128) (show_dec n @ [CHR 0x0A])" by simp
qed

lemma tally_counts: "counts_writes tally_os tl_own tl_other (\<lambda>k _. tl_current k)"
  unfolding counts_writes_def
proof (intro conjI allI impI)
  fix d :: string and k :: tally and bs k'
  assume "plain d" and read: "os_read tally_os (path_join d ''generation'') k = (Inr bs, k')"
  then have "dir_of (path_join d ''generation'') = d" by (simp add: dir_of_join)
  moreover have "ends_with ''generation'' (path_join d ''generation'')"
    by (simp add: ends_with_join)
  ultimately have "k' = k" "bs = bytes_of_string (show_dec (tl_own k d + tl_other k d) @ [CHR 0x0A])"
    using read by (auto simp: tally_os_def tally_read_def)
  then show "text_read (Inr bs) = Inr (show_dec (tl_own k' d + tl_other k' d) @ [CHR 0x0A])"
    by (simp only: decimal_text)
qed (auto simp: tally_os_def dir_of_join)

lemma tally_run:
  "fst (run tally_os \<lparr>cfs_root = ''/r''\<rparr> (ReportRequest_from data) (tally_world rival)) =
     (if rival then Inl Raced else Inr (MILAN_V5, []))"
proof -
  let ?d = "entry_name ''/r'' 7 0"
  have d: "plain ?d" by (rule plain_entry_name)
  have dirs: "dir_of (path_join ?d ''inblob'') = ?d" "dir_of (path_join ?d ''generation'') = ?d"
    using d by (simp_all add: dir_of_join)
  have reads: "tally_read (path_join ?d ''outblob'') k = Inr MILAN_V5"
    "tally_read (path_join ?d ''auxblob'') k = Inr []"
    "tally_read (path_join ?d ''generation'') k
      = Inr (bytes_of_string (show_dec (tl_own k ?d + tl_other k ?d) @ [CHR 0x0A]))" for k
    using dirs
    by (simp_all add: tally_read_def sample_read_def ends_with_def plain_join [OF d])
  have gen: "parse_uint 18446744073709551616 (trim (show_dec n @ [CHR 0x0A])) = Some n" if "n < 3" for n
    using that by (intro parse_trim_show_dec) simp
  have utf8: "utf8_text (bytes_of_string (show_dec n @ [CHR 0x0A])) = Inr (show_dec n @ [CHR 0x0A])"
    for n using decimal_text [of n] by (simp add: text_read_def)
  show ?thesis
    by (simp add: run_def with_entry_def Entry_create_def Entry_drop_def run_entry_def Let_def
        io_try_os_def io_try_def io_bind_def create_dir_def remove_dir_def write_attr_def
        open_write_def file_write_def file_close_def fs_read_def read_to_string_def syscall_def
        tally_os_def tally_world_def reads dirs gen utf8 saturating_add_def usize_max_def)
qed

lemma no_foreign_write_witness:
  "fst (run tally_os \<lparr>cfs_root = ''/r''\<rparr> (ReportRequest_from (replicate 64 0)) (tally_world True)) = Inl Raced
   \<and> (\<exists>w3 w4. fs_read tally_os (path_join (entry_name ''/r'' 7 0) ''outblob'') w3 = (Inr MILAN_V5, w4)
        \<and> tl_other (kern w4) (entry_name ''/r'' 7 0) = 0)"
proof -
  obtain w' where run: "run tally_os \<lparr>cfs_root = ''/r''\<rparr> (ReportRequest_from (replicate 64 0)) (tally_world False)
      = (Inr (MILAN_V5, []), w')"
    using tally_run [of "replicate 64 0" False]
    by (cases "run tally_os \<lparr>cfs_root = ''/r''\<rparr> (ReportRequest_from (replicate 64 0)) (tally_world False)") simp
  have "entry_name ''/r'' 7 0 = entry_name (cfs_root \<lparr>cfs_root = ''/r''\<rparr>)
      (os_pid tally_os (kern (tally_world False))) (counter (tally_world False))"
    by (simp add: tally_os_def tally_world_def)
  from no_foreign_write_before_report [OF tally_counts run this] tally_run [of _ True] show ?thesis
    by auto
qed

definition quiet_os :: "tally os" where
  "quiet_os = tally_os\<lparr>os_close := (\<lambda>fd k. ((), k))\<rparr>"

lemma quiet_undisturbed: "undisturbed quiet_os tl_other"
proof -
  have "\<exists>bs. tally_read (path_join d a) k = Inr bs"
    if "plain d" "a \<in> {''outblob'', ''auxblob'', ''generation''}" for d a k
    using that by (auto simp: tally_read_def sample_read_def ends_with_def plain_join)
  then show ?thesis by (simp add: undisturbed_def quiet_os_def tally_os_def)
qed

lemma quiet_counts: "counts_writes quiet_os tl_own tl_other (\<lambda>k _. tl_current k)"
  using tally_counts unfolding counts_writes_def quiet_os_def by simp

lemma quiet_run:
  "\<exists>out aux w'. run quiet_os \<lparr>cfs_root = ''/r''\<rparr> \<lparr>req_data = replicate 64 0, req_vmpl = Some 2\<rparr>
     (tally_world False) = (Inr (out, aux), w')"
  by (rule undisturbed_run [OF quiet_counts quiet_undisturbed])

end
