(* ===== verification/Ioctl.thy ===== *)
theory Ioctl
  imports Backend Sample
begin

text \<open>
  \<^verbatim>\<open>src/backend/ioctl.rs\<close>: the \<^verbatim>\<open>/dev/sev-guest\<close> transport.  The request and response
  structures are byte buffers in the process's memory; the kernel is given their addresses and
  reads and writes that memory, as the parameter \<open>os_ioctl\<close> decides.  The theorems give the
  layouts, the precedence of the error sources of a request, the bounds on the certificate
  buffer, and the protocol of the two-step extended report and of key derivation.
\<close>

section \<open>Constants and layouts\<close>

definition DEVICE :: string where
  "DEVICE = ''/dev/sev-guest''"

definition ioctl_available :: "'k os \<Rightarrow> ('k, bool) io" where
  "ioctl_available os = path_exists os DEVICE"

definition IOCTL_ARG_SIZE :: u32 where
  "IOCTL_ARG_SIZE = 32"

definition iowr :: "u32 \<Rightarrow> u32" where
  "iowr nr =
     wrapping_shl 3 30 OR wrapping_shl IOCTL_ARG_SIZE 16 OR wrapping_shl (widen 0x53) 8 OR nr"

definition SNP_GET_REPORT :: u32 where
  "SNP_GET_REPORT = iowr 0x0"

definition SNP_GET_DERIVED_KEY :: u32 where
  "SNP_GET_DERIVED_KEY = iowr 0x1"

definition SNP_GET_EXT_REPORT :: u32 where
  "SNP_GET_EXT_REPORT = iowr 0x2"

definition REPORT_RESP_LEN :: nat where
  "REPORT_RESP_LEN = 4000"

definition RESP_PAYLOAD :: nat where
  "RESP_PAYLOAD = 0x20"

definition REPORT_REQ_LEN :: nat where
  "REPORT_REQ_LEN = 96"

definition EXT_REPORT_REQ_LEN :: nat where
  "EXT_REPORT_REQ_LEN = 112"

definition EXT_CERTS_LEN_FIELD :: nat where
  "EXT_CERTS_LEN_FIELD = 104"

definition CERT_GRANULARITY :: nat where
  "CERT_GRANULARITY = 4096"

definition CERT_MAX :: nat where
  "CERT_MAX = 0x4000"

definition report_req :: "ReportRequest \<Rightarrow> u8 list" where
  "report_req request =
     (let fields = req_data request @ to_le_bytes (unwrap_or (req_vmpl request) 0)
      in fill REPORT_REQ_LEN fields)"

definition ext_report_req :: "ReportRequest \<Rightarrow> u64 \<Rightarrow> u32 \<Rightarrow> u8 list" where
  "ext_report_req request certs_address certs_len =
     (let fields = report_req request @ to_le_bytes certs_address @ to_le_bytes certs_len
      in fill EXT_REPORT_REQ_LEN fields)"

definition parse_response :: "u8 list \<Rightarrow> AttestationReport result" where
  "parse_response response =
     try_with (ok_or (u32_at response 0)
         (Parse (TooShort ''report response'' 4 (length response)))) (\<lambda>status.
       if status \<noteq> 0 then Inl (Firmware (FirmwareError_from_raw status))
       else
         try_with (ok_or (slice_from response RESP_PAYLOAD)
           (Parse (TooShort ''report response'' RESP_PAYLOAD (length response)))) (\<lambda>payload.
           AttestationReport_parse payload))"

definition requested_cert_len :: "u8 list \<Rightarrow> nat result" where
  "requested_cert_len req =
     try_with (ok_or (Option.bind (u32_at req EXT_CERTS_LEN_FIELD) usize_try_from)
       (InvalidArgument ''kernel did not report a certificate buffer size'')) (\<lambda>needed.
       if needed = 0 \<or> CERT_MAX < needed \<or> \<not> CERT_GRANULARITY dvd needed
       then Inl (InvalidArgument ''kernel asked for an implausible certificate buffer size'')
       else Inr needed)"

section \<open>The device\<close>

record SevGuest =
  sg_device :: nat
  sg_msg_version :: u8

definition SevGuest_open_at :: "'k os \<Rightarrow> string \<Rightarrow> ('k, SevGuest result) io" where
  "SevGuest_open_at os path =
     io_try_os (open_rw os path) (\<lambda>device.
       io_return (Inr \<lparr>sg_device = device, sg_msg_version = 1\<rparr>))"

definition SevGuest_open :: "'k os \<Rightarrow> ('k, SevGuest result) io" where
  "SevGuest_open os = SevGuest_open_at os DEVICE"

text \<open>The builder consumes the handle, so its error path drops it and closes the device.\<close>

definition with_msg_version :: "'k os \<Rightarrow> u8 \<Rightarrow> SevGuest \<Rightarrow> ('k, SevGuest result) io" where
  "with_msg_version os ver self =
     (if ver = 0
      then io_bind (file_close os (sg_device self)) (\<lambda>_.
             io_return (Inl (InvalidArgument ''message version must be non-zero'')))
      else io_return (Inr (self\<lparr>sg_msg_version := ver\<rparr>)))"

definition SevGuest_fd :: "SevGuest \<Rightarrow> nat" where
  [simp]: "SevGuest_fd self = sg_device self"

text \<open>
  The \<^verbatim>\<open>libc::ioctl\<close> call: the kernel sees the argument structure and the whole memory, and
  returns a code, the structure and the memory as it left them.
\<close>

definition libc_ioctl ::
  "'k os \<Rightarrow> nat \<Rightarrow> u32 \<Rightarrow> GuestRequestIoctl \<Rightarrow> ('k, int \<times> GuestRequestIoctl) io" where
  "libc_ioctl os fd code arg =
     (\<lambda>w. case os_ioctl os fd code arg (memory w) (kern w) of
        ((rc, arg', m), k) \<Rightarrow>
          ((rc, arg'), w\<lparr>kern := k, memory := m, log := log w @ [EvIoctl fd code arg]\<rparr>))"

definition last_os_error :: "'k os \<Rightarrow> ('k, io_error) io" where
  "last_os_error os = (\<lambda>w. (OsError (os_errno os (kern w)), w))"

definition issue :: "'k os \<Rightarrow> SevGuest \<Rightarrow> u32 \<Rightarrow> nat \<Rightarrow> nat \<Rightarrow> ('k, unit result) io" where
  "issue os self code request response =
     (let bad_address = InvalidArgument ''buffer address does not fit in a u64'' in
      io_try (io_return (ok_or (u64_try_from request) bad_address)) (\<lambda>req_data.
      io_try (io_return (ok_or (u64_try_from response) bad_address)) (\<lambda>resp_data.
        let arg = \<lparr>ioctl_msg_version = sg_msg_version self, ioctl_pad = replicate 7 0,
                   ioctl_req_data = req_data, ioctl_resp_data = resp_data,
                   ioctl_exitinfo2 = 0\<rparr> in
        io_bind (libc_ioctl os (SevGuest_fd self) code arg) (\<lambda>(rc, arg).
          case from_exitinfo2 (ioctl_exitinfo2 arg) of
            Some err \<Rightarrow> io_return (Inl err)
          | None \<Rightarrow>
              if rc < 0 then io_bind (last_os_error os) (\<lambda>e. io_return (Inl (Io e)))
              else io_return (Inr ())))))"

definition SevGuest_transport :: "SevGuest \<Rightarrow> transport" where
  "SevGuest_transport self = Ioctl"

definition SevGuest_report ::
  "'k os \<Rightarrow> SevGuest \<Rightarrow> ReportRequest \<Rightarrow> ('k, AttestationReport result) io" where
  "SevGuest_report os self request =
     io_bind (buffer_new os (report_req request)) (\<lambda>req.
     io_bind (buffer_new os (replicate REPORT_RESP_LEN 0)) (\<lambda>resp.
     io_try (issue os self SNP_GET_REPORT req resp) (\<lambda>_.
     io_bind (buffer_get resp REPORT_RESP_LEN) (\<lambda>response.
     io_try (io_return (parse_response response)) (\<lambda>report.
     io_try (io_return (verify_answers request report)) (\<lambda>_.
       io_return (Inr report)))))))"

definition ext_second_call ::
  "'k os \<Rightarrow> SevGuest \<Rightarrow> ReportRequest \<Rightarrow> nat \<Rightarrow> nat \<Rightarrow> ('k, (nat \<times> nat) result) io" where
  "ext_second_call os self request req resp =
     io_bind (buffer_get req EXT_REPORT_REQ_LEN) (\<lambda>req_bytes.
     io_try (io_return (requested_cert_len req_bytes)) (\<lambda>needed.
     io_bind (buffer_new os (replicate needed 0)) (\<lambda>certs.
     io_try (io_return (ok_or (u64_try_from certs)
       (InvalidArgument ''certificate buffer address too large''))) (\<lambda>address.
     io_try (io_return (ok_or (u32_try_from needed)
       (InvalidArgument ''certificate buffer too large''))) (\<lambda>len.
     io_bind (buffer_set req (ext_report_req request address len)) (\<lambda>_.
     io_try (issue os self SNP_GET_EXT_REPORT req resp) (\<lambda>_.
       io_return (Inr (certs, needed)))))))))"

definition ext_fetch ::
  "'k os \<Rightarrow> SevGuest \<Rightarrow> ReportRequest \<Rightarrow> nat \<Rightarrow> nat \<Rightarrow> ('k, (nat \<times> nat) result) io" where
  "ext_fetch os self request req resp =
     io_bind (issue os self SNP_GET_EXT_REPORT req resp) (\<lambda>r.
       case r of
         Inr _ \<Rightarrow> io_return (Inr (0, 0))
       | Inl e \<Rightarrow>
           if e = Vmm Vmm_InvalidLen then ext_second_call os self request req resp
           else io_return (Inl e))"

definition SevGuest_extended_report ::
  "'k os \<Rightarrow> SevGuest \<Rightarrow> ReportRequest \<Rightarrow> ('k, ExtendedReport result) io" where
  "SevGuest_extended_report os self request =
     io_bind (buffer_new os (ext_report_req request 0 0)) (\<lambda>req.
     io_bind (buffer_new os (replicate REPORT_RESP_LEN 0)) (\<lambda>resp.
     io_try (ext_fetch os self request req resp) (\<lambda>(certs, certs_len).
     io_bind (buffer_get resp REPORT_RESP_LEN) (\<lambda>response.
     io_try (io_return (parse_response response)) (\<lambda>report.
     io_try (io_return (verify_answers request report)) (\<lambda>_.
     io_bind (buffer_get certs certs_len) (\<lambda>blob.
     io_try (io_return (CertTable_parse blob)) (\<lambda>table.
       io_return (Inr \<lparr>ext_report = report, certificates = table\<rparr>)))))))))"

definition derived_key_of :: "u8 list \<Rightarrow> DerivedKey result" where
  "derived_key_of resp =
     (let status = unwrap_or (u32_at resp 0) 0xFFFFFFFF in
      if status \<noteq> 0 then Inl (Firmware (FirmwareError_from_raw status))
      else
        try_with (ok_or (bytes_at DerivedKey_LEN resp RESP_PAYLOAD)
          (InvalidArgument ''derived key response was truncated'')) (\<lambda>key.
          Inr (DerivedKey_from_bytes key)))"

text \<open>
  \<^verbatim>\<open>Zeroizing\<close> wipes its buffer when it goes out of scope, on every path; the wiping operation
  is the third-party crate's, the parameter \<open>zeroize\<close>.
\<close>

definition zeroizing ::
  "(u8 list \<Rightarrow> u8 list) \<Rightarrow> nat \<Rightarrow> nat \<Rightarrow> ('k, 'a) io \<Rightarrow> ('k, 'a) io" where
  "zeroizing zeroize a n body =
     io_bind body (\<lambda>r.
     io_bind (buffer_get a n) (\<lambda>bs.
     io_bind (buffer_set a (zeroize bs)) (\<lambda>_. io_return r)))"

definition SevGuest_derive_key ::
  "'k os \<Rightarrow> (u8 list \<Rightarrow> u8 list) \<Rightarrow> SevGuest \<Rightarrow> KeyRequest \<Rightarrow> ('k, DerivedKey result) io" where
  "SevGuest_derive_key os zeroize self request =
     io_try (io_return (KeyRequest_validate request)) (\<lambda>_.
     io_bind (buffer_new os (to_wire request)) (\<lambda>req.
     io_bind (buffer_new os (replicate 64 0)) (\<lambda>resp.
     zeroizing zeroize resp 64
       (io_try (issue os self SNP_GET_DERIVED_KEY req resp) (\<lambda>_.
        io_bind (buffer_get resp 64) (\<lambda>response.
          io_return (derived_key_of response)))))))"

section \<open>Layouts\<close>

lemma report_req_eq:
  "wf_report_request q \<Longrightarrow>
   report_req q = req_data q @ to_le_bytes (unwrap_or (req_vmpl q) 0) @ replicate 28 0"
  by (simp add: report_req_def REPORT_REQ_LEN_def fill_fits wf_report_request_def Let_def)

lemma length_report_req [simp]: "length (report_req q) = 96"
  by (simp add: report_req_def REPORT_REQ_LEN_def Let_def)

lemma ext_report_req_eq:
  "ext_report_req q a n = report_req q @ to_le_bytes a @ to_le_bytes n @ replicate 4 0"
  by (simp add: ext_report_req_def EXT_REPORT_REQ_LEN_def fill_fits Let_def)

text \<open>
  C40: the request structures hold each field at its offset: the 64 bytes of report data, the VMPL
  at 64, zero padding to 96, then the address of the certificate buffer at 96 and its length at
  104, zero padding to 112.  An unset VMPL is sent as 0.
\<close>

theorem request_layout:
  assumes "wf_report_request q"
  shows "length (ext_report_req q a n) = 112
     \<and> take 96 (ext_report_req q a n) = report_req q
     \<and> take 64 (report_req q) = req_data q
     \<and> u32_at (report_req q) 64 = Some (unwrap_or (req_vmpl q) 0)
     \<and> drop 68 (report_req q) = replicate 28 0
     \<and> map_option from_le_bytes (bytes_at 8 (ext_report_req q a n) 96) = Some a
     \<and> u32_at (ext_report_req q a n) 104 = Some n
     \<and> drop 108 (ext_report_req q a n) = replicate 4 0"
  using assms
  by (simp add: ext_report_req_eq report_req_eq wf_report_request_def u32_at_eq bytes_at_eq)

lemma request_layout_witness:
  "u32_at (report_req \<lparr>req_data = replicate 64 7, req_vmpl = Some 2\<rparr>) 64 = Some 2"
  using request_layout [of "\<lparr>req_data = replicate 64 7, req_vmpl = Some 2\<rparr>" 0 0]
  by (simp add: wf_report_request_def)

text \<open>
  C36: two requests are the same bytes exactly when they carry the same data and the same level,
  an unset level counting as 0.  So leaving the VMPL unset asks for level 0 on this transport; it
  does not let the kernel choose the level the guest runs at.
\<close>

theorem report_req_same_iff:
  assumes "wf_report_request q" "wf_report_request q'"
  shows "report_req q = report_req q' \<longleftrightarrow>
     req_data q = req_data q' \<and> unwrap_or (req_vmpl q) 0 = unwrap_or (req_vmpl q') 0"
  using assms
  by (simp add: report_req_eq wf_report_request_def le32.enc_append_inject le32.enc_inject)

lemma report_req_same_witness:
  "report_req \<lparr>req_data = replicate 64 0, req_vmpl = None\<rparr>
     = report_req \<lparr>req_data = replicate 64 0, req_vmpl = Some 0\<rparr>"
  by (subst report_req_same_iff) (simp_all add: wf_report_request_def)

lemma requested_cert_len_iff [result_simps]:
  "requested_cert_len req = Inr n \<longleftrightarrow>
     0 < n \<and> n \<le> 0x4000 \<and> 4096 dvd n \<and> map_option unat (u32_at req 104) = Some n"
  by (cases "u32_at req 104")
    (auto simp: requested_cert_len_def EXT_CERTS_LEN_FIELD_def CERT_MAX_def CERT_GRANULARITY_def)

text \<open>
  The size of the certificate buffer the kernel asks for is believed only when it is one, two,
  three or four pages; every other value, zero included, is an error, whatever the buffer holds.
\<close>

lemma requested_cert_len_pages:
  "requested_cert_len req = Inr n \<longleftrightarrow>
     n \<in> {4096, 8192, 12288, 16384} \<and> map_option unat (u32_at req 104) = Some n"
proof -
  have "0 < n \<and> n \<le> 0x4000 \<and> 4096 dvd n \<longleftrightarrow> n \<in> {4096, 8192, 12288, 16384}"
    by auto
  then show ?thesis by (auto simp: requested_cert_len_iff)
qed

section \<open>Issuing a request\<close>

lemma ioctl_codes:
  "SNP_GET_REPORT = 0xC0205300" "SNP_GET_DERIVED_KEY = 0xC0205301"
  "SNP_GET_EXT_REPORT = 0xC0205302"
  by (simp_all add: SNP_GET_REPORT_def SNP_GET_DERIVED_KEY_def SNP_GET_EXT_REPORT_def iowr_def
      IOCTL_ARG_SIZE_def wrapping_shl_def widen_ucast)

definition guest_arg :: "SevGuest \<Rightarrow> u64 \<Rightarrow> u64 \<Rightarrow> GuestRequestIoctl" where
  "guest_arg self req resp =
     \<lparr>ioctl_msg_version = sg_msg_version self, ioctl_pad = replicate 7 0, ioctl_req_data = req,
      ioctl_resp_data = resp, ioctl_exitinfo2 = 0\<rparr>"

lemma from_exitinfo2_zero [simp]: "from_exitinfo2 0 = None"
  by (simp add: from_exitinfo2_def Let_def to_le_bytes_u64 from_le_bytes_Cons)

lemma issue_outcome:
  assumes "req < 2 ^ 64" "resp < 2 ^ 64"
    and "os_ioctl os (sg_device self) code (guest_arg self (of_nat req) (of_nat resp)) (memory w)
      (kern w) = ((rc, arg, m), k)"
  shows "issue os self code req resp w =
     (case from_exitinfo2 (ioctl_exitinfo2 arg) of
        Some e \<Rightarrow> Inl e
      | None \<Rightarrow> if rc < 0 then Inl (Io (OsError (os_errno os k))) else Inr (),
      w\<lparr>kern := k, memory := m,
        log := log w @ [EvIoctl (sg_device self) code (guest_arg self (of_nat req) (of_nat resp))]\<rparr>)"
  using assms
  by (simp add: issue_def Let_def u64_try_from_def libc_ioctl_def last_os_error_def io_bind_def
      guest_arg_def split: option.splits)

text \<open>
  C8: the outcome of one guest request, given what the kernel did.  A non-zero \<open>EXITINFO2\<close> is the
  error reported, whatever the return code; a negative return code is reported as the \<open>errno\<close>
  only when \<open>EXITINFO2\<close> is zero; otherwise the request succeeded.  Exactly one \<open>ioctl\<close> is made,
  on the handle's descriptor, with \<open>EXITINFO2\<close> cleared and the two buffer addresses.
\<close>

theorem issue_error_precedence:
  assumes "req < 2 ^ 64" "resp < 2 ^ 64"
    and "os_ioctl os (sg_device self) code (guest_arg self (of_nat req) (of_nat resp)) (memory w)
      (kern w) = ((rc, arg, m), k)"
  shows "issue os self code req resp w =
     (case from_exitinfo2 (ioctl_exitinfo2 arg) of
        Some e \<Rightarrow> Inl e
      | None \<Rightarrow> if rc < 0 then Inl (Io (OsError (os_errno os k))) else Inr (),
      w\<lparr>kern := k, memory := m,
        log := log w @ [EvIoctl (sg_device self) code (guest_arg self (of_nat req) (of_nat resp))]\<rparr>)"
  using assms by (rule issue_outcome)

definition sample_guest :: SevGuest where
  "sample_guest = \<lparr>sg_device = 4, sg_msg_version = 1\<rparr>"

lemma issue_error_witness:
  "fst (issue sample_os sample_guest 0xC0205302 0 200 sample_world) = Inl (Vmm Vmm_InvalidLen)"
proof -
  have "os_ioctl sample_os (sg_device sample_guest) 0xC0205302
      (guest_arg sample_guest (of_nat 0) (of_nat 200)) (memory sample_world) (kern sample_world)
    = ((- 1, (guest_arg sample_guest 0 200)\<lparr>ioctl_exitinfo2 := 0x100000000\<rparr>,
        mem_store 104 [0, 0x10, 0, 0] (\<lambda>_. 0)), 4096)"
    by (simp add: sample_os_def sample_ioctl_def sample_world_def guest_arg_def mem_bytes_def
        upt_rec Let_def)
  moreover have "from_exitinfo2 0x100000000 = Some (Vmm Vmm_InvalidLen)"
    by (simp add: from_exitinfo2_def Let_def to_le_bytes_u64 from_le_bytes_Cons VmmError_from_raw_def)
  ultimately show ?thesis
    using issue_error_precedence [of 0 200 sample_os sample_guest "0xC0205302" sample_world] by simp
qed

section \<open>The report\<close>

lemma length_derived_key: "derived_key_of bs = Inr d \<Longrightarrow> length (key_bytes d) = DerivedKey_LEN"
  by (auto simp: derived_key_of_def Let_def result_simps DerivedKey_from_bytes_def bytes_at_eq
      split: if_splits)

lemma parse_response_Inr: "parse_response bs = Inr r \<Longrightarrow> valid_report r"
  by (auto simp: parse_response_def result_simps dest: parse_valid split: if_splits)

lemma from_exitinfo2_request_error: "from_exitinfo2 x = Some e \<Longrightarrow> request_error e"
  by (auto simp: from_exitinfo2_def Let_def split: if_splits)

lemma issue_Inl: "issue os self code req resp w = (Inl e, w') \<Longrightarrow> request_error e"
  by (auto simp: issue_def Let_def result_simps last_os_error_def
      dest: from_exitinfo2_request_error split: option.split_asm if_split_asm)

lemma parse_response_Inl: "parse_response bs = Inl e \<Longrightarrow> request_error e"
  by (auto simp: parse_response_def result_simps dest: AttestationReport_parse_error
      split: if_split_asm)

lemma requested_cert_len_Inl: "requested_cert_len bs = Inl e \<Longrightarrow> request_error e"
  by (auto simp: requested_cert_len_def result_simps split: if_split_asm)

lemma ext_second_call_Inl: "ext_second_call os self q req resp w = (Inl e, w') \<Longrightarrow> request_error e"
  by (auto simp: ext_second_call_def result_simps dest: issue_Inl requested_cert_len_Inl)

lemma ext_fetch_Inl: "ext_fetch os self q req resp w = (Inl e, w') \<Longrightarrow> request_error e"
proof -
  assume fetch: "ext_fetch os self q req resp w = (Inl e, w')"
  obtain r w1 where "issue os self SNP_GET_EXT_REPORT req resp w = (r, w1)" by fastforce
  with fetch show ?thesis
    by (cases r) (auto simp: ext_fetch_def io_bind_apply dest: ext_second_call_Inl issue_Inl
        split: if_splits)
qed

interpretation sg: guest_backend "SevGuest_report os self" "SevGuest_extended_report os self"
  "SevGuest_derive_key os zeroize self" for os :: "'k os" and zeroize and self
proof unfold_locales
  fix q w w' and r :: AttestationReport
  assume "SevGuest_report os self q w = (Inr r, w')"
  then show "valid_report r \<and> answers q r"
    by (auto simp: SevGuest_report_def result_simps dest: parse_response_Inr)
next
  fix q w w' e
  assume "SevGuest_report os self q w = (Inl e, w')"
  then show "request_error e"
    by (auto simp: SevGuest_report_def result_simps dest: issue_Inl parse_response_Inl
        dest!: verify_answers_error)
next
  fix q w w' and x :: ExtendedReport
  assume "SevGuest_extended_report os self q w = (Inr x, w')"
  then show "valid_report (ext_report x) \<and> answers q (ext_report x) \<and> bounded_table (certificates x)"
    unfolding SevGuest_extended_report_def
    by (auto simp: result_simps split: prod.split_asm dest: parse_response_Inr CertTable_parse_bounded)
next
  fix q w w' e
  assume "SevGuest_extended_report os self q w = (Inl e, w')"
  then show "request_error e"
    unfolding SevGuest_extended_report_def
    by (auto simp: result_simps split: prod.split_asm dest: parse_response_Inl ext_fetch_Inl
        dest!: verify_answers_error CertTable_parse_error)
next
  fix k w w' d
  assume "SevGuest_derive_key os zeroize self k w = (Inr d, w')"
  then show "length (key_bytes d) = DerivedKey_LEN \<and> kr_vmpl k \<le> MAX_VMPL"
    by (auto simp: SevGuest_derive_key_def zeroizing_def result_simps KeyRequest_validate_def
        dest: length_derived_key split: if_split_asm)
qed

section \<open>How many requests\<close>

definition guest_calls :: "SevGuest \<Rightarrow> u32 \<Rightarrow> nat \<Rightarrow> event list \<Rightarrow> bool" where
  "guest_calls self code n evs \<longleftrightarrow>
     length evs \<le> n
     \<and> (\<forall>e \<in> set evs. \<exists>req resp. e = EvIoctl (sg_device self) code (guest_arg self req resp))"

lemma guest_calls_simps [simp]:
  "guest_calls self code n []"
  by (simp add: guest_calls_def)

lemma guest_calls_append:
  "guest_calls self code m xs \<Longrightarrow> guest_calls self code n ys \<Longrightarrow> m + n \<le> k \<Longrightarrow>
   guest_calls self code k (xs @ ys)"
  by (auto simp: guest_calls_def)

lemma guest_calls_mono: "guest_calls self code m evs \<Longrightarrow> m \<le> n \<Longrightarrow> guest_calls self code n evs"
  by (auto simp: guest_calls_def)

lemma emits_libc_ioctl: "emits (libc_ioctl os fd code arg) (\<lambda>_ evs. evs = [EvIoctl fd code arg])"
  by (auto simp: emits_def libc_ioctl_def split: prod.splits)

lemma emits_quiet:
  "emits (buffer_set a bs) (\<lambda>_ evs. evs = [])" "emits (buffer_get a n) (\<lambda>_ evs. evs = [])"
  "emits (buffer_new os bs) (\<lambda>_ evs. evs = [])" "emits (io_return x) (\<lambda>_ evs. evs = [])"
  "emits (last_os_error os) (\<lambda>_ evs. evs = [])"
  by (auto simp: emits_def last_os_error_def buffer_set_def buffer_get_def buffer_new_def
      split: prod.splits)

lemma emits_quiet_bind:
  "emits m (\<lambda>_ evs. evs = []) \<Longrightarrow> (\<And>x. emits (f x) (\<lambda>_. guest_calls self code n)) \<Longrightarrow>
   emits (io_bind m f) (\<lambda>_. guest_calls self code n)"
  by (erule emits_bind) simp

lemma emits_quiet_try:
  "emits m (\<lambda>_ evs. evs = []) \<Longrightarrow> (\<And>x. emits (f x) (\<lambda>_. guest_calls self code n)) \<Longrightarrow>
   emits (io_try m f) (\<lambda>_. guest_calls self code n)"
  by (erule emits_try) simp_all

lemma emits_calls_bind:
  assumes "emits m (\<lambda>_. guest_calls self code i)"
    and "\<And>x. emits (f x) (\<lambda>_. guest_calls self code j)" and "i + j \<le> n"
  shows "emits (io_bind m f) (\<lambda>_. guest_calls self code n)"
  by (rule emits_bind [OF assms(1)], rule emits_mono [OF assms(2)],
      erule (1) guest_calls_append, rule assms(3))

lemma emits_calls_try:
  assumes "emits m (\<lambda>_. guest_calls self code i)"
    and "\<And>x. emits (f x) (\<lambda>_. guest_calls self code j)" and "i + j \<le> n"
  shows "emits (io_try m f) (\<lambda>_. guest_calls self code n)"
  unfolding io_try_def
  by (rule emits_calls_bind [OF assms(1) _ assms(3)]) (auto split: sum.split intro: assms(2))

lemma emits_silent: "emits (io_return x) (\<lambda>_. guest_calls self code n)"
  by simp

lemmas quiet_steps = emits_quiet_bind emits_quiet_try emits_quiet emits_silent

lemma emits_issue: "emits (issue os self code req resp) (\<lambda>_. guest_calls self code 1)"
proof -
  have ioctl: "emits (libc_ioctl os (sg_device self) code (guest_arg self a b))
      (\<lambda>_. guest_calls self code 1)" for a b
    by (rule emits_mono [OF emits_libc_ioctl]) (auto simp: guest_calls_def)
  have verdict: "emits (case from_exitinfo2 x of
        Some err \<Rightarrow> io_return (Inl err)
      | None \<Rightarrow> if rc < 0 then io_bind (last_os_error os) (\<lambda>e. io_return (Inl (Io e)))
               else io_return (Inr ())) (\<lambda>_. guest_calls self code 0)" for x and rc :: int
    by (auto split: option.split intro!: quiet_steps)
  show ?thesis
    unfolding issue_def Let_def SevGuest_fd_def guest_arg_def [symmetric] case_prod_beta
    by (intro emits_quiet_try emits_quiet emits_calls_bind [OF ioctl verdict]) simp
qed

lemma emits_second:
  "emits (ext_second_call os self q req resp) (\<lambda>_. guest_calls self SNP_GET_EXT_REPORT 1)"
  unfolding ext_second_call_def
  by (intro quiet_steps emits_calls_try [OF emits_issue, where j = 0]) simp

lemma emits_fetch:
  "emits (ext_fetch os self q req resp) (\<lambda>_. guest_calls self SNP_GET_EXT_REPORT 2)"
proof -
  have rest: "emits (case r of
        Inr _ \<Rightarrow> io_return (Inr (0, 0))
      | Inl e \<Rightarrow> if e = Vmm Vmm_InvalidLen then ext_second_call os self q req resp
                 else io_return (Inl e)) (\<lambda>_. guest_calls self SNP_GET_EXT_REPORT 1)"
    for r :: "unit result"
    using emits_second [of os self q req resp] by (simp split: sum.split)
  show ?thesis
    unfolding ext_fetch_def by (rule emits_calls_bind [OF emits_issue rest]) simp
qed

lemma emits_report_calls:
  "emits (SevGuest_report os self q) (\<lambda>_. guest_calls self SNP_GET_REPORT 1)"
  unfolding SevGuest_report_def
  by (intro quiet_steps emits_calls_try [OF emits_issue, where j = 0]) simp

lemma emits_extended_calls:
  "emits (SevGuest_extended_report os self q) (\<lambda>_. guest_calls self SNP_GET_EXT_REPORT 2)"
  unfolding SevGuest_extended_report_def case_prod_beta
  by (intro quiet_steps emits_calls_try [OF emits_fetch, where j = 0]) simp

lemma emits_key_calls:
  "emits (SevGuest_derive_key os zeroize self k) (\<lambda>_. guest_calls self SNP_GET_DERIVED_KEY 1)"
  unfolding SevGuest_derive_key_def zeroizing_def
  by (intro quiet_steps emits_calls_bind [where i = 1 and j = 0]
      emits_calls_try [OF emits_issue, where j = 0]) simp_all

text \<open>
  C37: no operation of this transport issues more guest requests than its protocol needs, and each
  uses its own request code on the handle's descriptor and message version: one for a report,
  at most two for an extended report, one for a derived key.
\<close>

theorem request_budget:
  "emits (SevGuest_report os self q) (\<lambda>_. guest_calls self 0xC0205300 1)
   \<and> emits (SevGuest_extended_report os self q) (\<lambda>_. guest_calls self 0xC0205302 2)
   \<and> emits (SevGuest_derive_key os zeroize self k) (\<lambda>_. guest_calls self 0xC0205301 1)"
  unfolding ioctl_codes [symmetric]
  by (intro conjI emits_report_calls emits_extended_calls emits_key_calls)

section \<open>The second call of an extended report\<close>

lemma requested_fits:
  assumes "requested_cert_len req = Inr n"
  shows "u32_try_from n = Some (of_nat n)" "unat (of_nat n :: u32) = n"
  using assms by (auto simp: requested_cert_len_iff u32_try_from_def unat_small_u32)

definition after_alloc ::
  "nat \<Rightarrow> ReportRequest \<Rightarrow> nat \<Rightarrow> nat \<Rightarrow> 'k \<Rightarrow> 'k world \<Rightarrow> 'k world" where
  "after_alloc req q certs n k w =
     w\<lparr>kern := k,
       memory := mem_store req (ext_report_req q (of_nat certs) (of_nat n))
         (mem_store certs (replicate n 0) (memory w))\<rparr>"

lemma second_call_eq:
  assumes asked: "requested_cert_len (mem_bytes (memory w) req 112) = Inr n"
    and alloc: "os_alloc os n (kern w) = (certs, k)" and "certs < 2 ^ 64"
  shows "ext_second_call os self q req resp w =
     io_try (issue os self SNP_GET_EXT_REPORT req resp) (\<lambda>_. io_return (Inr (certs, n)))
       (after_alloc req q certs n k w)"
  using assms requested_fits [OF asked]
  by (simp add: ext_second_call_def EXT_REPORT_REQ_LEN_def buffer_get_def io_bind_def
      buffer_new_def buffer_set_def u64_try_from_def after_alloc_def)

text \<open>
  C18: when the kernel asks for certificate space, the second request offers exactly what it asked
  for.  A fresh zeroed buffer of that many bytes is allocated, the request structure in place
  is rewritten with that buffer's address and length and the same report data and level, the
  response buffer is untouched, and the same request is issued once more.
\<close>

theorem second_call_offers_buffer:
  assumes "requested_cert_len (mem_bytes (memory w) req 112) = Inr n"
    and "os_alloc os n (kern w) = (certs, k)" "certs + n \<le> 2 ^ 64"
    and "req + 112 \<le> certs \<or> certs + n \<le> req"
    and "resp + 4000 \<le> certs \<or> certs + n \<le> resp" "resp + 4000 \<le> req \<or> req + 112 \<le> resp"
  shows "\<exists>w1. ext_second_call os self q req resp w =
       io_try (issue os self SNP_GET_EXT_REPORT req resp) (\<lambda>_. io_return (Inr (certs, n))) w1
     \<and> mem_bytes (memory w1) certs n = replicate n 0
     \<and> mem_bytes (memory w1) resp 4000 = mem_bytes (memory w) resp 4000
     \<and> take 96 (mem_bytes (memory w1) req 112) = report_req q
     \<and> map_option from_le_bytes (bytes_at 8 (mem_bytes (memory w1) req 112) 96)
         = Some (of_nat certs :: u64)
     \<and> map_option unat (u32_at (mem_bytes (memory w1) req 112) 104) = Some n"
proof (intro exI conjI)
  let ?w1 = "after_alloc req q certs n k w"
  let ?req = "ext_report_req q (of_nat certs) (of_nat n)"
  have n: "0 < n" "unat (of_nat n :: u32) = n"
    using assms(1) requested_fits [OF assms(1)] by (auto simp: requested_cert_len_iff)
  have len: "length ?req = 112" by (simp add: ext_report_req_eq)
  have req: "mem_bytes (memory ?w1) req 112 = ?req"
    using mem_bytes_store [of req ?req "mem_store certs (replicate n 0) (memory w)"]
    by (simp add: after_alloc_def len)
  show "ext_second_call os self q req resp w =
      io_try (issue os self SNP_GET_EXT_REPORT req resp) (\<lambda>_. io_return (Inr (certs, n))) ?w1"
    using assms n by (intro second_call_eq) auto
  have "mem_bytes (memory ?w1) certs n = mem_bytes (mem_store certs (replicate n 0) (memory w)) certs n"
    using assms(4) len by (simp add: after_alloc_def mem_bytes_store_other disj_commute)
  then show "mem_bytes (memory ?w1) certs n = replicate n 0"
    using mem_bytes_store [of certs "replicate n 0" "memory w"] by simp
  show "mem_bytes (memory ?w1) resp 4000 = mem_bytes (memory w) resp 4000"
    using assms(5,6) len by (simp add: after_alloc_def mem_bytes_store_other)
  show "take 96 (mem_bytes (memory ?w1) req 112) = report_req q"
    "map_option from_le_bytes (bytes_at 8 (mem_bytes (memory ?w1) req 112) 96) = Some (of_nat certs :: u64)"
    "map_option unat (u32_at (mem_bytes (memory ?w1) req 112) 104) = Some n"
    unfolding req by (simp_all add: ext_report_req_eq u32_at_eq bytes_at_eq n)
qed

lemma second_call_witness:
  "\<exists>w1. ext_second_call sample_os sample_guest ReportRequest_new 0 200
         (sample_world\<lparr>memory := mem_store 0 (ext_report_req ReportRequest_new 0 4096) (\<lambda>_. 0),
            kern := 8192\<rparr>) =
       io_try (issue sample_os sample_guest SNP_GET_EXT_REPORT 0 200)
         (\<lambda>_. io_return (Inr (8192, 4096))) w1
     \<and> map_option unat (u32_at (mem_bytes (memory w1) 0 112) 104) = Some 4096"
proof -
  let ?req = "ext_report_req ReportRequest_new 0 4096"
  let ?w = "sample_world\<lparr>memory := mem_store 0 ?req (\<lambda>_. 0), kern := 8192\<rparr>"
  have len: "length ?req = 112" by (simp add: ext_report_req_eq)
  have "requested_cert_len (mem_bytes (memory ?w) 0 112) = Inr 4096"
    using mem_bytes_store [of 0 ?req "\<lambda>_. 0"]
    by (simp add: len requested_cert_len_iff u32_at_eq ext_report_req_eq)
  moreover have "os_alloc sample_os 4096 (kern ?w) = (8192, 12288)"
    by (simp add: sample_os_def)
  ultimately show ?thesis
    using second_call_offers_buffer [of ?w 0 4096 sample_os 8192 12288 200 sample_guest
        ReportRequest_new] by auto
qed

section \<open>Derived keys\<close>

text \<open>A request for a level above 3 is refused before anything happens.\<close>

lemma derive_key_validates_first:
  assumes "3 < kr_vmpl q"
  shows "SevGuest_derive_key os zeroize self q w = (Inl (InvalidArgument ''vmpl must be 0..=3''), w)"
  using assms by (simp add: SevGuest_derive_key_def KeyRequest_validate_def MAX_VMPL_def)

lemma zeroizing_wipes:
  assumes "zeroizes z" "zeroizing z a n body w = (r, w')"
  shows "mem_bytes (memory w') a n = replicate n 0"
proof -
  obtain w1 where "body w = (r, w1)"
    and "w' = w1\<lparr>memory := mem_store a (z (mem_bytes (memory w1) a n)) (memory w1)\<rparr>"
    using assms(2) by (auto simp: zeroizing_def result_simps buffer_get_def buffer_set_def)
  then show ?thesis
    using assms(1) mem_bytes_store [of a "replicate n 0" "memory w1"] by (simp add: zeroizes_def)
qed

lemma derived_key_of_64:
  "length bs = 64 \<Longrightarrow> derived_key_of bs =
     (if take 4 bs \<noteq> replicate 4 0
      then Inl (Firmware (FirmwareError_from_raw (from_le_bytes (take 4 bs))))
      else Inr (DerivedKey (drop 32 bs)))"
  using le32_zero_iff [of "take 4 bs"]
  by (simp add: derived_key_of_def Let_def u32_at_eq bytes_at_eq DerivedKey_LEN_def
      RESP_PAYLOAD_def DerivedKey_from_bytes_def)

text \<open>
  C15: key derivation sends the request's wire form, returns the key the device left in the response
  only after a zero status, and wipes the response on every path.  The issued request sees the
  40 bytes of \<open>to_wire\<close> and a zeroed response buffer; its error is passed on; otherwise the key
  is the last 32 bytes of the response; and whichever happens, the 64 response bytes are zero
  when the call returns.
\<close>

theorem derive_key_outcome:
  assumes z: "zeroizes zeroize" and ok: "kr_vmpl q \<le> 3"
    and "os_alloc os 40 (kern w) = (req, k1)" "os_alloc os 64 k1 = (resp, k2)"
    and run: "SevGuest_derive_key os zeroize self q w = (r, w')"
  shows "\<exists>sent w1.
       issue os self SNP_GET_DERIVED_KEY req resp
         (w\<lparr>kern := k2, memory := mem_store resp (replicate 64 0)
              (mem_store req (to_wire q) (memory w))\<rparr>) = (sent, w1)
     \<and> r = (case sent of
              Inl e \<Rightarrow> Inl e
            | Inr _ \<Rightarrow>
                let answer = mem_bytes (memory w1) resp 64 in
                if take 4 answer = replicate 4 0 then Inr (DerivedKey (drop 32 answer))
                else Inl (Firmware (FirmwareError_from_raw (from_le_bytes (take 4 answer)))))
     \<and> mem_bytes (memory w') resp 64 = replicate 64 0"
proof -
  let ?w0 = "w\<lparr>kern := k2, memory := mem_store resp (replicate 64 0)
      (mem_store req (to_wire q) (memory w))\<rparr>"
  have len: "length (to_wire q) = 40" by (simp add: to_wire_def Let_def)
  have valid: "KeyRequest_validate q = Inr ()"
    using ok by (simp add: KeyRequest_validate_def MAX_VMPL_def not_less)
  have body: "zeroizing zeroize resp 64
      (io_try (issue os self SNP_GET_DERIVED_KEY req resp) (\<lambda>_.
       io_bind (buffer_get resp 64) (\<lambda>response. io_return (derived_key_of response)))) ?w0 = (r, w')"
    using run assms(3,4) len valid
    by (simp add: SevGuest_derive_key_def io_bind_apply buffer_new_def)
  obtain sent w1 where sent: "issue os self SNP_GET_DERIVED_KEY req resp ?w0 = (sent, w1)"
    by fastforce
  have "r = (case sent of Inl e \<Rightarrow> Inl e | Inr _ \<Rightarrow> derived_key_of (mem_bytes (memory w1) resp 64))"
    using body sent
    by (cases sent) (auto simp: zeroizing_def io_bind_def buffer_get_def io_try_def split: prod.splits)
  then show ?thesis
    using sent zeroizing_wipes [OF z body]
    by (intro exI conjI) (auto simp: derived_key_of_64 Let_def split: sum.split)
qed

lemma derive_key_outcome_witness:
  "\<exists>r w'. SevGuest_derive_key sample_os (\<lambda>bs. replicate (length bs) 0) sample_guest KeyRequest_new
       sample_world = (r, w')
     \<and> mem_bytes (memory w') 4136 64 = replicate 64 0"
proof -
  let ?z = "\<lambda>bs :: u8 list. replicate (length bs) (0 :: u8)"
  obtain r w' where run:
    "SevGuest_derive_key sample_os ?z sample_guest KeyRequest_new sample_world = (r, w')"
    by fastforce
  have "zeroizes ?z" by (simp add: zeroizes_def)
  moreover have "os_alloc sample_os 40 (kern sample_world) = (4096, 4136)"
    "os_alloc sample_os 64 4136 = (4136, 4200)"
    by (simp_all add: sample_os_def sample_world_def)
  moreover have "kr_vmpl KeyRequest_new \<le> 3" by (simp add: KeyRequest_new_def)
  ultimately show ?thesis
    using derive_key_outcome [of ?z KeyRequest_new sample_os sample_world 4096 4136 4136 4200
        sample_guest r w'] run by blast
qed

end
