(* ===== verification/Detect.thy ===== *)
theory Detect
  imports Configfs Ioctl
begin

text \<open>
  \<^verbatim>\<open>src/detect.rs\<close> and \<open>any_available\<close> of \<^verbatim>\<open>src/backend/mod.rs\<close>: what the processor
  reports and whether this is an SNP guest.  The \<^verbatim>\<open>CPUID\<close> instruction is a parameter, as is
  the build configuration: \<open>features\<close> says which transports are compiled in, and
  \<open>on_x86_64\<close> which of the two definitions of \<open>capabilities\<close> is.
\<close>

section \<open>Build configuration\<close>

record features =
  f_configfs :: bool
  f_sev_guest :: bool

text \<open>Selecting neither transport is a compile error.\<close>

definition valid_features :: "features \<Rightarrow> bool" where
  "valid_features fs \<longleftrightarrow> f_configfs fs \<or> f_sev_guest fs"

definition any_available :: "'k os \<Rightarrow> features \<Rightarrow> ('k, bool) io" where
  "any_available os fs =
     io_bind (if f_configfs fs then configfs_available os else io_return False) (\<lambda>c.
       if c then io_return True
       else
         io_bind (if f_sev_guest fs then ioctl_available os else io_return False) (\<lambda>i.
           if i then io_return True else io_return False))"

section \<open>Capabilities\<close>

record CpuidResult =
  cpuid_eax :: u32
  cpuid_ebx :: u32
  cpuid_ecx :: u32
  cpuid_edx :: u32

record Capabilities =
  cap_eax :: u32
  cap_ebx :: u32
  cap_ecx :: u32
  cap_edx :: u32

definition Capabilities_feature :: "Capabilities \<Rightarrow> nat \<Rightarrow> bool" where
  "Capabilities_feature c index \<longleftrightarrow> wrapping_shr (cap_eax c) index AND 1 = 1"

definition sme :: "Capabilities \<Rightarrow> bool" where
  "sme c = Capabilities_feature c 0"

definition sev :: "Capabilities \<Rightarrow> bool" where
  "sev c = Capabilities_feature c 1"

definition page_flush_msr :: "Capabilities \<Rightarrow> bool" where
  "page_flush_msr c = Capabilities_feature c 2"

definition sev_es :: "Capabilities \<Rightarrow> bool" where
  "sev_es c = Capabilities_feature c 3"

definition sev_snp :: "Capabilities \<Rightarrow> bool" where
  "sev_snp c = Capabilities_feature c 4"

definition cap_vmpl :: "Capabilities \<Rightarrow> bool" where
  "cap_vmpl c = Capabilities_feature c 5"

definition rmpquery :: "Capabilities \<Rightarrow> bool" where
  "rmpquery c = Capabilities_feature c 6"

definition secure_tsc :: "Capabilities \<Rightarrow> bool" where
  "secure_tsc c = Capabilities_feature c 8"

definition vte :: "Capabilities \<Rightarrow> bool" where
  "vte c = Capabilities_feature c 16"

text \<open>The module's own copy of \<^verbatim>\<open>low_byte\<close>.\<close>

definition detect_low_byte :: "u32 \<Rightarrow> u8" where
  "detect_low_byte masked = to_le_bytes masked ! 0"

definition c_bit_position :: "Capabilities \<Rightarrow> u8" where
  "c_bit_position c = detect_low_byte (cap_ebx c AND 0x3F)"

definition phys_addr_reduction :: "Capabilities \<Rightarrow> u8" where
  "phys_addr_reduction c = detect_low_byte (wrapping_shr (cap_ebx c) 6 AND 0x3F)"

definition num_vmpls :: "Capabilities \<Rightarrow> u8" where
  "num_vmpls c = detect_low_byte (wrapping_shr (cap_ebx c) 12 AND 0xF)"

definition max_encrypted_guests :: "Capabilities \<Rightarrow> u32" where
  "max_encrypted_guests c = cap_ecx c"

definition min_sev_no_es_asid :: "Capabilities \<Rightarrow> u32" where
  "min_sev_no_es_asid c = cap_edx c"

definition registers :: "Capabilities \<Rightarrow> u32 list" where
  "registers c = [cap_eax c, cap_ebx c, cap_ecx c, cap_edx c]"

definition Capabilities_debug :: "Capabilities \<Rightarrow> string" where
  "Capabilities_debug c =
     debug_struct_non_exhaustive ''Capabilities''
       [(''sme'', debug_bool (sme c)), (''sev'', debug_bool (sev c)),
        (''sev_es'', debug_bool (sev_es c)), (''sev_snp'', debug_bool (sev_snp c)),
        (''vmpl'', debug_bool (cap_vmpl c)), (''secure_tsc'', debug_bool (secure_tsc c)),
        (''c_bit_position'', show_dec (unat (c_bit_position c))),
        (''phys_addr_reduction'', show_dec (unat (phys_addr_reduction c))),
        (''num_vmpls'', show_dec (unat (num_vmpls c)))]"

text \<open>The two definitions of \<^verbatim>\<open>capabilities\<close>, of which one is compiled in.\<close>

definition capabilities_x86_64 :: "(u32 \<Rightarrow> CpuidResult) \<Rightarrow> Capabilities option" where
  "capabilities_x86_64 cpuid =
     (if cpuid_eax (cpuid 0x80000000) < 0x8000001F then None
      else
        let leaf = cpuid 0x8000001F in
        Some \<lparr>cap_eax = cpuid_eax leaf, cap_ebx = cpuid_ebx leaf, cap_ecx = cpuid_ecx leaf,
              cap_edx = cpuid_edx leaf\<rparr>)"

definition capabilities_other :: "Capabilities option" where
  "capabilities_other = None"

definition capabilities :: "bool \<Rightarrow> (u32 \<Rightarrow> CpuidResult) \<Rightarrow> Capabilities option" where
  "capabilities on_x86_64 cpuid =
     (if on_x86_64 then capabilities_x86_64 cpuid else capabilities_other)"

definition is_snp_guest ::
  "'k os \<Rightarrow> features \<Rightarrow> bool \<Rightarrow> (u32 \<Rightarrow> CpuidResult) \<Rightarrow> ('k, bool) io" where
  "is_snp_guest os fs on_x86_64 cpuid =
     (if (case capabilities on_x86_64 cpuid of Some c \<Rightarrow> sev_snp c | None \<Rightarrow> False)
      then any_available os fs else io_return False)"

interpretation caps: flag_word cap_eax Capabilities_feature
  by unfold_locales (simp add: Capabilities_feature_def wrapping_shr_bit)

section \<open>Properties\<close>

lemma detect_low_byte_eq [simp]: "detect_low_byte = low_byte"
  by (rule ext) (simp add: detect_low_byte_def low_byte_def)

lemma field_bits:
  "k \<le> 8 \<Longrightarrow> unat (low_byte (take_bit k (drop_bit n (w :: u32)))) = unat w div 2 ^ n mod 2 ^ k"
proof -
  assume k: "k \<le> 8"
  have "unat w div 2 ^ n mod 2 ^ k < 2 ^ k" by simp
  also have "(2 :: nat) ^ k \<le> 2 ^ 8" using k by (intro power_increasing) auto
  finally have "take_bit 8 (unat w div 2 ^ n mod 2 ^ k) = unat w div 2 ^ n mod 2 ^ k"
    by (intro take_bit_nat_eq_self) simp
  moreover have "unat (take_bit k (drop_bit n w)) = unat w div 2 ^ n mod 2 ^ k"
    using unat_u32_less [of w]
    by (simp add: unsigned_take_bit_eq unsigned_drop_bit_eq take_bit_nat_def drop_bit_nat_def)
  ultimately show ?thesis
    by (simp add: low_byte_ucast unsigned_ucast_eq)
qed

text \<open>
  The numeric capability fields are the documented bit ranges of \<open>EBX\<close>: the C-bit position is
  bits 0 to 5, the address reduction bits 6 to 11, the number of VMPLs bits 12 to 15.  Each
  fits its byte, so narrowing them loses nothing.
\<close>

lemma capability_fields:
  "unat (c_bit_position c) = unat (cap_ebx c) mod 64
   \<and> unat (phys_addr_reduction c) = unat (cap_ebx c) div 64 mod 64
   \<and> unat (num_vmpls c) = unat (cap_ebx c) div 4096 mod 16"
  using field_bits [of 6 0 "cap_ebx c"] field_bits [of 6 6 "cap_ebx c"]
    field_bits [of 4 12 "cap_ebx c"]
  by (simp add: c_bit_position_def phys_addr_reduction_def num_vmpls_def and_masks
      wrapping_shr_def)

definition snp_bit :: "bool \<Rightarrow> (u32 \<Rightarrow> CpuidResult) \<Rightarrow> bool" where
  "snp_bit on_x86_64 cpuid \<longleftrightarrow>
     on_x86_64 \<and> 0x8000001F \<le> cpuid_eax (cpuid 0x80000000)
     \<and> bit (cpuid_eax (cpuid 0x8000001F)) 4"

definition probe_spec :: "features \<Rightarrow> bool \<Rightarrow> bool \<Rightarrow> event list \<Rightarrow> bool" where
  "probe_spec fs capable r evs \<longleftrightarrow>
     (\<exists>c i. evs = (if capable \<and> f_configfs fs then [EvIsDir REPORT_ROOT c] else [])
          @ (if capable \<and> f_sev_guest fs \<and> \<not> (f_configfs fs \<and> c) then [EvExists DEVICE i] else [])
        \<and> (r \<longleftrightarrow> capable \<and> (f_configfs fs \<and> c \<or> f_sev_guest fs \<and> i)))"

lemma emits_any_available: "emits (any_available os fs) (probe_spec fs True)"
proof -
  have c: "emits (if f_configfs fs then configfs_available os else io_return False)
      (\<lambda>c evs. evs = (if f_configfs fs then [EvIsDir REPORT_ROOT c] else [])
         \<and> (c \<longrightarrow> f_configfs fs))"
    using emits_syscall_exact [of "os_is_dir os REPORT_ROOT" "EvIsDir REPORT_ROOT"]
    by (simp add: configfs_available_def path_is_dir_def)
  have i: "emits (if f_sev_guest fs then ioctl_available os else io_return False)
      (\<lambda>i evs. evs = (if f_sev_guest fs then [EvExists DEVICE i] else [])
         \<and> (i \<longrightarrow> f_sev_guest fs))"
    using emits_syscall_exact [of "os_exists os DEVICE" "EvExists DEVICE"]
    by (simp add: ioctl_available_def path_exists_def)
  show ?thesis
    unfolding any_available_def
  proof (rule emits_bind [OF c], goal_cases)
    case (1 c es)
    show ?case
    proof (cases c)
      case True
      then show ?thesis using 1 by (auto simp: probe_spec_def)
    next
      case False
      have "emits (io_bind (if f_sev_guest fs then ioctl_available os else io_return False)
          (\<lambda>i. if i then io_return True else io_return False))
          (\<lambda>y fs'. probe_spec fs True y (es @ fs'))"
        by (rule emits_bind [OF i]) (use 1 False in \<open>auto simp: probe_spec_def\<close>)
      then show ?thesis using False by simp
    qed
  qed
qed

text \<open>
  C38: the process is taken for an SNP guest exactly when the processor implements the encryption
  leaf and sets its SNP bit, and a compiled-in transport is present; when the bit is clear no
  file is looked at, and off x86-64 the answer is no.
\<close>

theorem is_snp_guest_iff:
  "emits (is_snp_guest os fs on_x86_64 cpuid) (probe_spec fs (snp_bit on_x86_64 cpuid))"
proof -
  have "(case capabilities on_x86_64 cpuid of Some c \<Rightarrow> sev_snp c | None \<Rightarrow> False)
      = snp_bit on_x86_64 cpuid"
    by (auto simp: capabilities_def capabilities_x86_64_def capabilities_other_def snp_bit_def sev_snp_def caps.flag_bit Let_def not_less)
  then show ?thesis
    using emits_any_available [of os fs] by (simp add: is_snp_guest_def probe_spec_def)
qed

end
