(* ===== verification/Client.thy ===== *)
theory Client
  imports Detect
begin

text \<open>
  \<^verbatim>\<open>src/lib.rs\<close>: the \<^verbatim>\<open>Firmware\<close> handle.  It opens the transports that are compiled in,
  fixes one of them for reports, retries transient failures on a fixed schedule and routes key
  derivation to the device.  The dispatch through \<^verbatim>\<open>&dyn GuestBackend\<close> is the datatype
  \<open>backend\<close>, a third interpretation of the trait; the client lemmas are proved once in the
  trait's locale and hold for every transport.
\<close>

section \<open>Retrying\<close>

definition RETRY_BACKOFF :: "nat list" where
  "RETRY_BACKOFF = [20, 80]"

definition is_transient :: "error \<Rightarrow> bool" where
  "is_transient e =
     (case e of
        Raced \<Rightarrow> True
      | Vmm v \<Rightarrow> v = Vmm_Busy
      | Io i \<Rightarrow> io_kind i \<in> {ResourceBusy, WouldBlock, Interrupted}
      | _ \<Rightarrow> False)"

text \<open>The loop over the iterator of remaining delays.\<close>

fun retry_loop :: "'k os \<Rightarrow> nat list \<Rightarrow> ('k, 'a result) io \<Rightarrow> ('k, 'a result) io" where
  "retry_loop os backoff attempt w =
     (case attempt w of
        (Inl e, w1) \<Rightarrow>
          if is_transient e
          then (case backoff of
                  delay # rest \<Rightarrow>
                    io_bind (thread_sleep os delay) (\<lambda>_. retry_loop os rest attempt) w1
                | [] \<Rightarrow> (Inl e, w1))
          else (Inl e, w1)
      | (Inr x, w1) \<Rightarrow> (Inr x, w1))"

definition retrying :: "'k os \<Rightarrow> ('k, 'a result) io \<Rightarrow> ('k, 'a result) io" where
  "retrying os attempt = retry_loop os RETRY_BACKOFF attempt"

section \<open>The handle\<close>

record FirmwareHandle =
  fw_transport :: transport
  fw_configfs :: "ConfigFs option"
  fw_ioctl :: "SevGuest option"

definition Firmware_open :: "'k os \<Rightarrow> features \<Rightarrow> ('k, FirmwareHandle result) io" where
  "Firmware_open os fs =
     io_bind (if f_configfs fs then io_bind (ConfigFs_open os) (\<lambda>r. io_return (result_ok r))
              else io_return None) (\<lambda>configfs.
     io_bind (if f_sev_guest fs then io_bind (SevGuest_open os) (\<lambda>r. io_return (result_ok r))
              else io_return None) (\<lambda>ioctl.
       let transport0 =
             (if f_configfs fs then (if configfs \<noteq> None then Some ConfigFs else None) else None);
           transport1 =
             (if f_sev_guest fs
              then (case transport0 of
                      Some t \<Rightarrow> Some t
                    | None \<Rightarrow> map_option (\<lambda>_. Ioctl) ioctl)
              else transport0)
       in io_return (try_with (ok_or transport1 NoBackend) (\<lambda>t.
            Inr \<lparr>fw_transport = t, fw_configfs = configfs, fw_ioctl = ioctl\<rparr>))))"

definition Firmware_open_with :: "'k os \<Rightarrow> transport \<Rightarrow> ('k, FirmwareHandle result) io" where
  "Firmware_open_with os transport =
     (case transport of
        ConfigFs \<Rightarrow>
          io_try (ConfigFs_open os) (\<lambda>c.
            io_return (Inr \<lparr>fw_transport = transport, fw_configfs = Some c, fw_ioctl = None\<rparr>))
      | Ioctl \<Rightarrow>
          io_try (SevGuest_open os) (\<lambda>g.
            io_return (Inr \<lparr>fw_transport = transport, fw_configfs = None, fw_ioctl = Some g\<rparr>)))"

definition Firmware_transport :: "FirmwareHandle \<Rightarrow> transport" where
  "Firmware_transport self = fw_transport self"

definition can_derive_keys :: "FirmwareHandle \<Rightarrow> bool" where
  "can_derive_keys self \<longleftrightarrow> fw_ioctl self \<noteq> None"

datatype backend = DynConfigFs ConfigFs | DynSevGuest SevGuest

definition report_backend :: "FirmwareHandle \<Rightarrow> backend result" where
  "report_backend self =
     (case fw_transport self of
        ConfigFs \<Rightarrow> ok_or (map_option DynConfigFs (fw_configfs self)) NoBackend
      | Ioctl \<Rightarrow> ok_or (map_option DynSevGuest (fw_ioctl self)) NoBackend)"

text \<open>Dynamic dispatch of the trait's operations.\<close>

definition dyn_report ::
  "'k os \<Rightarrow> backend \<Rightarrow> ReportRequest \<Rightarrow> ('k, AttestationReport result) io" where
  "dyn_report os b q =
     (case b of DynConfigFs c \<Rightarrow> ConfigFs_report os c q | DynSevGuest g \<Rightarrow> SevGuest_report os g q)"

definition dyn_extended_report ::
  "'k os \<Rightarrow> backend \<Rightarrow> ReportRequest \<Rightarrow> ('k, ExtendedReport result) io" where
  "dyn_extended_report os b q =
     (case b of
        DynConfigFs c \<Rightarrow> ConfigFs_extended_report os c q
      | DynSevGuest g \<Rightarrow> SevGuest_extended_report os g q)"

definition dyn_derive_key ::
  "'k os \<Rightarrow> (u8 list \<Rightarrow> u8 list) \<Rightarrow> backend \<Rightarrow> KeyRequest \<Rightarrow> ('k, DerivedKey result) io" where
  "dyn_derive_key os zeroize b k =
     (case b of
        DynConfigFs c \<Rightarrow> ConfigFs_derive_key os c k
      | DynSevGuest g \<Rightarrow> SevGuest_derive_key os zeroize g k)"

definition report_with ::
  "'k os \<Rightarrow> FirmwareHandle \<Rightarrow> ReportRequest \<Rightarrow> ('k, AttestationReport result) io" where
  "report_with os self request =
     retrying os (io_try (io_return (report_backend self)) (\<lambda>b. dyn_report os b request))"

definition Firmware_report ::
  "'k os \<Rightarrow> FirmwareHandle \<Rightarrow> u8 list \<Rightarrow> ('k, AttestationReport result) io" where
  "Firmware_report os self data = report_with os self (ReportRequest_from_ref data)"

definition extended_report_with ::
  "'k os \<Rightarrow> FirmwareHandle \<Rightarrow> ReportRequest \<Rightarrow> ('k, ExtendedReport result) io" where
  "extended_report_with os self request =
     retrying os (io_try (io_return (report_backend self)) (\<lambda>b. dyn_extended_report os b request))"

definition Firmware_extended_report ::
  "'k os \<Rightarrow> FirmwareHandle \<Rightarrow> u8 list \<Rightarrow> ('k, ExtendedReport result) io" where
  "Firmware_extended_report os self data =
     extended_report_with os self (ReportRequest_from_ref data)"

definition Firmware_derive_key ::
  "'k os \<Rightarrow> (u8 list \<Rightarrow> u8 list) \<Rightarrow> FirmwareHandle \<Rightarrow> KeyRequest \<Rightarrow> ('k, DerivedKey result) io"
  where
  "Firmware_derive_key os zeroize self request =
     io_try (io_return (ok_or (fw_ioctl self)
       (Unsupported ''key derivation needs /dev/sev-guest, which is not open''))) (\<lambda>ioctl.
       SevGuest_derive_key os zeroize ioctl request)"

declare retry_loop.simps [simp del]

interpretation dyn: guest_backend "dyn_report os b" "dyn_extended_report os b"
  "dyn_derive_key os zeroize b" for os :: "'k os" and zeroize and b
proof (cases b)
  case (DynConfigFs c)
  have "dyn_report os b = ConfigFs_report os c" "dyn_derive_key os zeroize b = ConfigFs_derive_key os c"
    "dyn_extended_report os b = ConfigFs_extended_report os c"
    by (auto simp: DynConfigFs dyn_report_def dyn_extended_report_def dyn_derive_key_def)
  then show "guest_backend (dyn_report os b) (dyn_extended_report os b) (dyn_derive_key os zeroize b)"
    using cfs.guest_backend_axioms by metis
next
  case (DynSevGuest g)
  have "dyn_report os b = SevGuest_report os g"
    "dyn_derive_key os zeroize b = SevGuest_derive_key os zeroize g"
    "dyn_extended_report os b = SevGuest_extended_report os g"
    by (auto simp: DynSevGuest dyn_report_def dyn_extended_report_def dyn_derive_key_def)
  then show "guest_backend (dyn_report os b) (dyn_extended_report os b) (dyn_derive_key os zeroize b)"
    using sg.guest_backend_axioms by metis
qed

section \<open>The retry schedule\<close>

definition settled :: "'a result \<Rightarrow> bool" where
  "settled r \<longleftrightarrow> (case r of Inl e \<Rightarrow> \<not> is_transient e | Inr _ \<Rightarrow> True)"

fun retry_spec ::
  "('a result \<Rightarrow> event list \<Rightarrow> bool) \<Rightarrow> nat list \<Rightarrow> 'a result \<Rightarrow> event list \<Rightarrow> bool" where
  "retry_spec P [] r evs \<longleftrightarrow> P r evs"
| "retry_spec P (d # ds) r evs \<longleftrightarrow>
     P r evs \<and> settled r
     \<or> (\<exists>e es es'. is_transient e \<and> P (Inl e) es \<and> evs = es @ EvSleep d # es'
          \<and> retry_spec P ds r es')"

lemma retry_loop_cases:
  assumes "retry_loop os ds attempt w = (r, w')"
  obtains (last) "attempt w = (r, w')" "ds = [] \<or> settled r"
  | (again) e d rest w1 w2 where "attempt w = (Inl e, w1)" "is_transient e" "ds = d # rest"
      "thread_sleep os d w1 = ((), w2)" "retry_loop os rest attempt w2 = (r, w')"
proof (cases "attempt w")
  case (Pair x w1)
  show ?thesis
  proof (cases x)
    case (Inr y)
    then show ?thesis
      using assms Pair last by (auto simp: retry_loop.simps settled_def)
  next
    case (Inl e)
    then show ?thesis
      using assms Pair last again
      by (subst (asm) retry_loop.simps)
        (auto simp: settled_def result_simps split: if_splits list.splits)
  qed
qed

lemma emits_retry_loop:
  assumes attempt: "emits attempt P"
  shows "emits (retry_loop os ds attempt) (retry_spec P ds)"
proof (rule emitsI)
  fix w r w'
  assume "retry_loop os ds attempt w = (r, w')"
  then show "\<exists>evs. log w' = log w @ evs \<and> retry_spec P ds r evs"
  proof (induction ds arbitrary: w)
    case Nil
    then have "attempt w = (r, w')" by (auto elim: retry_loop_cases)
    then show ?case using emitsD [OF attempt] by simp
  next
    case (Cons d ds)
    from Cons.prems show ?case
    proof (cases rule: retry_loop_cases)
      case last
      then show ?thesis using emitsD [OF attempt] by fastforce
    next
      case (again e d' rest w1 w2)
      obtain es where es: "log w1 = log w @ es" "P (Inl e) es"
        using emitsD [OF attempt] again(1) by blast
      have "log w2 = log w1 @ [EvSleep d]"
        using again(3,4) by (auto simp: thread_sleep_def syscall_def split: prod.splits)
      moreover obtain es' where "log w' = log w2 @ es'" "retry_spec P ds r es'"
        using Cons.IH again(3,5) by blast
      ultimately have "log w' = log w @ es @ EvSleep d # es'" "retry_spec P (d # ds) r (es @ EvSleep d # es')"
        using es again(2) by auto
      then show ?thesis by blast
    qed
  qed
qed

lemma retry_loop_result:
  "retry_loop os ds attempt w = (r, w') \<Longrightarrow> \<exists>w1. attempt w1 = (r, w')"
proof (induction ds arbitrary: w)
  case Nil
  then show ?case by (auto elim: retry_loop_cases)
next
  case (Cons d ds)
  from Cons.prems show ?case
    by (cases rule: retry_loop_cases) (use Cons.IH in auto)
qed

text \<open>
  C10: the retry schedule.  An operation is attempted once; a transient failure is followed by a
  20 ms pause and a second attempt, a second one by 80 ms and a third and last attempt.  The
  result is that of the last attempt made, every earlier one was transient, and an outcome that
  is not transient, a mismatch for instance, is never retried.
\<close>

theorem retrying_schedule:
  assumes "emits attempt P"
  shows "emits (retrying os attempt) (\<lambda>r evs.
       P r evs \<and> settled r
     \<or> (\<exists>e es1 es2. is_transient e \<and> P (Inl e) es1 \<and> evs = es1 @ EvSleep 20 # es2
          \<and> P r es2 \<and> settled r)
     \<or> (\<exists>e e' es1 es2 es3. is_transient e \<and> is_transient e' \<and> P (Inl e) es1 \<and> P (Inl e') es2
          \<and> evs = es1 @ EvSleep 20 # es2 @ EvSleep 80 # es3 \<and> P r es3))"
  using emits_retry_loop [OF assms, of os RETRY_BACKOFF]
  unfolding retrying_def by (rule emits_mono) (auto simp: RETRY_BACKOFF_def)

lemma retrying_schedule_witness:
  "emits (retrying sample_os (io_return (Inl Raced :: nat result))) (\<lambda>r evs.
     r = Inl Raced \<and> evs = [EvSleep 20, EvSleep 80])"
proof -
  have "emits (io_return (Inl Raced :: nat result)) (\<lambda>r evs. r = Inl Raced \<and> evs = [])"
    by simp
  from retrying_schedule [OF this, of sample_os] show ?thesis
    by (rule emits_mono) (auto simp: settled_def is_transient_def)
qed

context guest_backend
begin

text \<open>What a client of any backend gets through the retry loop.\<close>

lemma retried_report: "retrying os (report q) w = (Inr r, w') \<Longrightarrow> valid_report r \<and> answers q r"
  unfolding retrying_def using retry_loop_result report_Inr by blast

lemma retried_extended:
  "retrying os (extended_report q) w = (Inr x, w') \<Longrightarrow>
   valid_report (ext_report x) \<and> answers q (ext_report x) \<and> bounded_table (certificates x)"
  unfolding retrying_def using retry_loop_result extended_Inr by blast

lemma retried_errors:
  "retrying os (report q) w = (Inl e, w') \<Longrightarrow> request_error e"
  "retrying os (extended_report q) w = (Inl e, w') \<Longrightarrow> request_error e"
  unfolding retrying_def using retry_loop_result report_Inl extended_Inl by blast+

end

section \<open>Reports\<close>

lemma report_with_backend:
  "report_backend f = Inr b \<Longrightarrow> report_with os f q = retrying os (dyn_report os b q)"
  "report_backend f = Inr b \<Longrightarrow>
   extended_report_with os f q = retrying os (dyn_extended_report os b q)"
  by (simp_all add: report_with_def extended_report_with_def)

lemma report_with_no_backend:
  "report_backend f = Inl e \<Longrightarrow> report_with os f q w = (Inl e, w)"
  "report_backend f = Inl e \<Longrightarrow> extended_report_with os f q w = (Inl e, w)"
proof -
  have "e = NoBackend" if "report_backend f = Inl e"
    using that by (auto simp: report_backend_def result_simps split: transport.splits)
  then show "report_backend f = Inl e \<Longrightarrow> report_with os f q w = (Inl e, w)"
    "report_backend f = Inl e \<Longrightarrow> extended_report_with os f q w = (Inl e, w)"
    by (simp_all add: report_with_def extended_report_with_def retrying_def retry_loop.simps
        is_transient_def)
qed

lemma sample_device_report:
  "\<exists>w'. SevGuest_report sample_os sample_guest (ReportRequest_from (report_data milan_report))
     sample_world = (Inr milan_report, w')"
proof -
  let ?q = "ReportRequest_from (report_data milan_report)"
  have alloc: "buffer_new sample_os bs (sample_world\<lparr>kern := a, memory := m\<rparr>)
      = (a, sample_world\<lparr>kern := a + length bs, memory := mem_store a bs m\<rparr>)" for bs a m
    by (simp add: buffer_new_def sample_os_def)
  have start: "sample_world = sample_world\<lparr>kern := 4096, memory := \<lambda>_. 0\<rparr>"
    by (simp add: sample_world_def)
  let ?m = "mem_store 4192 (replicate REPORT_RESP_LEN 0) (mem_store 4096 (report_req ?q) (\<lambda>_. 0))"
  let ?w = "sample_world\<lparr>kern := 8192, memory := ?m\<rparr>"
  have "os_ioctl sample_os (sg_device sample_guest) SNP_GET_REPORT
      (guest_arg sample_guest (of_nat 4096) (of_nat 4192)) ?m 8192
    = ((0, guest_arg sample_guest 4096 4192, mem_store 4192 sample_report_response ?m), 8192)"
    by (simp add: sample_os_def sample_ioctl_def ioctl_codes guest_arg_def Let_def)
  then have "issue sample_os sample_guest SNP_GET_REPORT 4096 4192 ?w
      = (Inr (), ?w\<lparr>kern := 8192, memory := mem_store 4192 sample_report_response ?m,
           log := log ?w @ [EvIoctl (sg_device sample_guest) SNP_GET_REPORT
             (guest_arg sample_guest 4096 4192)]\<rparr>)"
    using issue_outcome [of 4096 4192 sample_os sample_guest SNP_GET_REPORT ?w 0]
    by (simp add: guest_arg_def)
  moreover have "parse_response sample_report_response = Inr milan_report"
    by (simp add: parse_response_def u32_at_eq sample_report_response_def slice_from_def
        RESP_PAYLOAD_def parse_milan)
  moreover have "mem_bytes (mem_store 4192 sample_report_response ?m) 4192 4000
      = sample_report_response"
    using mem_bytes_store [of 4192 sample_report_response ?m] by simp
  ultimately show ?thesis
    unfolding SevGuest_report_def
    by (subst start) (simp add: io_bind_def alloc io_try_def buffer_get_def REPORT_RESP_LEN_def
        verify_answers_def)
qed

lemma report_with_Inr:
  "report_with os f q w = (Inr r, w') \<Longrightarrow> valid_report r \<and> answers q r"
  by (cases "report_backend f")
    (auto simp: report_with_backend report_with_no_backend dest: dyn.retried_report)

lemma extended_report_with_Inr:
  "extended_report_with os f q w = (Inr x, w') \<Longrightarrow>
   valid_report (ext_report x) \<and> answers q (ext_report x) \<and> bounded_table (certificates x)"
  by (cases "report_backend f")
    (auto simp: report_with_backend report_with_no_backend dest: dyn.retried_extended)

text \<open>
  C1: a report that is returned answers its request, whatever transport served it, however often
  it was retried and whatever the kernel and other processes did.  It has the full size and a
  supported version, its report data are the requested bytes, its VMPL is the requested one if
  one was; and the certificate table of an extended report is within its bounds.
\<close>

theorem reports_answer_request:
  "(report_with os f q w = (Inr r, w') \<longrightarrow> valid_report r \<and> answers q r)
   \<and> (extended_report_with os f q w = (Inr x, w') \<longrightarrow>
        valid_report (ext_report x) \<and> answers q (ext_report x) \<and> bounded_table (certificates x))"
  using report_with_Inr extended_report_with_Inr by blast

definition sample_handle :: FirmwareHandle where
  "sample_handle = \<lparr>fw_transport = Ioctl, fw_configfs = None, fw_ioctl = Some sample_guest\<rparr>"

lemma reports_answer_witness:
  "\<exists>w'. report_with sample_os sample_handle (ReportRequest_from (report_data milan_report))
       sample_world = (Inr milan_report, w')
     \<and> answers (ReportRequest_from (report_data milan_report)) milan_report"
proof -
  let ?q = "ReportRequest_from (report_data milan_report)"
  obtain w' where once: "dyn_report sample_os (DynSevGuest sample_guest) ?q sample_world
      = (Inr milan_report, w')"
    using sample_device_report by (auto simp: dyn_report_def)
  have "report_backend sample_handle = Inr (DynSevGuest sample_guest)"
    by (simp add: report_backend_def sample_handle_def)
  then have "report_with sample_os sample_handle ?q sample_world = (Inr milan_report, w')"
    using once by (simp add: report_with_backend retrying_def retry_loop.simps)
  then show ?thesis using reports_answer_request by blast
qed

section \<open>Opening\<close>

lemma Firmware_open_eq:
  assumes "(if f_configfs fs then ConfigFs_open os w else (Inl NoBackend, w)) = (c, w1)"
    and "(if f_sev_guest fs then SevGuest_open os w1 else (Inl NoBackend, w1)) = (g, w2)"
  shows "Firmware_open os fs w =
     (case c of
        Inr cfs \<Rightarrow>
          Inr \<lparr>fw_transport = ConfigFs, fw_configfs = Some cfs, fw_ioctl = result_ok g\<rparr>
      | Inl _ \<Rightarrow>
          (case g of
             Inr dev \<Rightarrow> Inr \<lparr>fw_transport = Ioctl, fw_configfs = None, fw_ioctl = Some dev\<rparr>
           | Inl _ \<Rightarrow> Inl NoBackend), w2)"
  using assms
  by (cases "f_configfs fs"; cases "f_sev_guest fs"; cases c; cases g)
    (auto simp: Firmware_open_def io_bind_def Let_def)

text \<open>
  C28: opening tries every compiled-in transport, configfs first, and succeeds when any of them
  does.  Reports go to configfs whenever it opened, otherwise to the device; the device is kept
  for key derivation either way; and when neither opened the error is \<^verbatim>\<open>NoBackend\<close>, whatever
  the transports themselves reported.
\<close>

theorem Firmware_open_outcome:
  assumes "(if f_configfs fs then ConfigFs_open os w else (Inl NoBackend, w)) = (c, w1)"
    and "(if f_sev_guest fs then SevGuest_open os w1 else (Inl NoBackend, w1)) = (g, w2)"
  shows "Firmware_open os fs w =
     (case c of
        Inr cfs \<Rightarrow>
          Inr \<lparr>fw_transport = ConfigFs, fw_configfs = Some cfs, fw_ioctl = result_ok g\<rparr>
      | Inl _ \<Rightarrow>
          (case g of
             Inr dev \<Rightarrow> Inr \<lparr>fw_transport = Ioctl, fw_configfs = None, fw_ioctl = Some dev\<rparr>
           | Inl _ \<Rightarrow> Inl NoBackend), w2)"
  using assms by (rule Firmware_open_eq)

lemma sample_device_open:
  "\<exists>w'. SevGuest_open sample_os w = (Inr \<lparr>sg_device = 4, sg_msg_version = 1\<rparr>, w')"
  by (simp add: SevGuest_open_def SevGuest_open_at_def io_try_os_def io_try_def io_bind_def
      open_rw_def syscall_def sample_os_def)

lemma Firmware_open_witness:
  "\<exists>w2. Firmware_open sample_os \<lparr>f_configfs = False, f_sev_guest = True\<rparr> sample_world =
     (Inr \<lparr>fw_transport = Ioctl, fw_configfs = None,
        fw_ioctl = Some \<lparr>sg_device = 4, sg_msg_version = 1\<rparr>\<rparr>, w2)"
proof -
  obtain w2 where dev: "SevGuest_open sample_os sample_world
      = (Inr \<lparr>sg_device = 4, sg_msg_version = 1\<rparr>, w2)"
    using sample_device_open by blast
  show ?thesis
    using Firmware_open_outcome [of "\<lparr>f_configfs = False, f_sev_guest = True\<rparr>" sample_os
        sample_world "Inl NoBackend" sample_world "Inr \<lparr>sg_device = 4, sg_msg_version = 1\<rparr>" w2] dev
    by simp
qed

definition live :: "FirmwareHandle \<Rightarrow> bool" where
  "live f \<longleftrightarrow> is_ok (report_backend f)"

lemma Firmware_open_live:
  assumes "Firmware_open os fs w = (Inr f, w')"
  shows "live f"
proof -
  obtain c w1 where c: "(if f_configfs fs then ConfigFs_open os w else (Inl NoBackend, w)) = (c, w1)"
    by fastforce
  obtain g w2 where g: "(if f_sev_guest fs then SevGuest_open os w1 else (Inl NoBackend, w1)) = (g, w2)"
    by fastforce
  show ?thesis
    using assms Firmware_open_eq [OF c g]
    by (auto simp: live_def report_backend_def split: sum.splits)
qed

lemma Firmware_open_with_live:
  "Firmware_open_with os t w = (Inr f, w') \<Longrightarrow> live f \<and> fw_transport f = t"
  by (cases t) (auto simp: Firmware_open_with_def live_def report_backend_def result_simps)

lemma live_report_error:
  assumes "live f"
  shows "report_with os f q w = (Inl e, w') \<Longrightarrow> request_error e"
    "extended_report_with os f q w = (Inl e, w') \<Longrightarrow> request_error e"
proof -
  obtain b where "report_backend f = Inr b"
    using assms by (cases "report_backend f") (auto simp: live_def)
  then show "report_with os f q w = (Inl e, w') \<Longrightarrow> request_error e"
    "extended_report_with os f q w = (Inl e, w') \<Longrightarrow> request_error e"
    using dyn.retried_errors by (auto simp: report_with_backend)
qed

lemma live_never_NoBackend:
  assumes "live f"
  shows "fst (report_with os f q w) \<noteq> Inl NoBackend"
    "fst (extended_report_with os f q w) \<noteq> Inl NoBackend"
  using live_report_error [OF assms, of os q w]
  by (cases "report_with os f q w"; force simp: request_error_def)
    (cases "extended_report_with os f q w"; use live_report_error [OF assms, of os q w]
      in \<open>force simp: request_error_def\<close>)

text \<open>
  C27: an open handle is always backed by a live transport.  Both ways of opening establish it, and
  on such a handle no report request, plain or extended, ever fails because no backend is open,
  in whatever state the system is by then.
\<close>

theorem opened_handle_is_live:
  assumes "Firmware_open os fs w = (Inr f, w') \<or> Firmware_open_with os t w = (Inr f, w')"
  shows "live f
     \<and> fst (report_with os f q w1) \<noteq> Inl NoBackend
     \<and> fst (extended_report_with os f q w1) \<noteq> Inl NoBackend"
proof -
  have "live f"
    using assms Firmware_open_live Firmware_open_with_live by blast
  then show ?thesis by (simp add: live_never_NoBackend)
qed

lemma opened_handle_witness: "live (sample_handle\<lparr>fw_ioctl := Some \<lparr>sg_device = 4, sg_msg_version = 1\<rparr>\<rparr>)"
proof -
  obtain w' where "Firmware_open_with sample_os Ioctl sample_world =
      (Inr (sample_handle\<lparr>fw_ioctl := Some \<lparr>sg_device = 4, sg_msg_version = 1\<rparr>\<rparr>), w')"
    using sample_device_open [of sample_world]
    by (auto simp: Firmware_open_with_def io_try_Inr sample_handle_def)
  then show ?thesis
    using opened_handle_is_live [of sample_os _ sample_world _ w' Ioctl] by blast
qed

section \<open>Limits of a request\<close>

definition device_calls :: "event list \<Rightarrow> nat" where
  "device_calls evs = length (filter (\<lambda>e. case e of EvIoctl _ _ _ \<Rightarrow> True | _ \<Rightarrow> False) evs)"

definition slept :: "event list \<Rightarrow> nat" where
  "slept evs = sum_list (map (\<lambda>e. case e of EvSleep n \<Rightarrow> n | _ \<Rightarrow> 0) evs)"

lemma limit_simps [simp]:
  "device_calls [] = 0" "device_calls (xs @ ys) = device_calls xs + device_calls ys"
  "device_calls (EvSleep n # xs) = device_calls xs"
  "slept [] = 0" "slept (xs @ ys) = slept xs + slept ys" "slept (EvSleep n # xs) = n + slept xs"
  by (simp_all add: device_calls_def slept_def)

lemma file_only_limits: "file_only evs \<Longrightarrow> device_calls evs = 0 \<and> slept evs = 0"
  by (induction evs) (auto simp: file_only_def device_calls_def slept_def split: event.splits)

lemma guest_calls_limits: "guest_calls g code n evs \<Longrightarrow> device_calls evs \<le> n \<and> slept evs = 0"
proof -
  assume calls: "guest_calls g code n evs"
  have "device_calls evs \<le> length evs" by (simp add: device_calls_def)
  moreover have "slept evs = 0"
    using calls by (auto simp: guest_calls_def slept_def sum_list_eq_0_iff split: event.splits)
  ultimately show ?thesis using calls by (simp add: guest_calls_def)
qed

lemma retry_spec_limits:
  "retry_spec (\<lambda>_ es. device_calls es \<le> n \<and> slept es = 0) ds r evs \<Longrightarrow>
   device_calls evs \<le> n * (length ds + 1) \<and> slept evs \<le> sum_list ds"
proof (induction ds arbitrary: evs)
  case Nil
  then show ?case by simp
next
  case (Cons d ds)
  then show ?case by (fastforce simp: algebra_simps)
qed

lemma dyn_limits:
  "emits (dyn_report os b q) (\<lambda>_ es. device_calls es \<le> 1 \<and> slept es = 0)"
  "emits (dyn_extended_report os b q) (\<lambda>_ es. device_calls es \<le> 2 \<and> slept es = 0)"
  unfolding dyn_report_def dyn_extended_report_def
  by (cases b; simp; rule emits_mono [OF emits_cfs_report(1)] emits_mono [OF emits_report_calls];
      force dest: file_only_limits guest_calls_limits)
    (cases b; simp; rule emits_mono [OF emits_cfs_report(2)] emits_mono [OF emits_extended_calls];
      force dest: file_only_limits guest_calls_limits)

lemma retrying_limits:
  assumes "emits m (\<lambda>_ es. device_calls es \<le> n \<and> slept es = 0)"
  shows "emits (retrying os m) (\<lambda>_ es. device_calls es \<le> 3 * n \<and> slept es \<le> 100)"
  unfolding retrying_def
  by (rule emits_mono [OF emits_retry_loop [OF assms]], drule retry_spec_limits)
    (simp add: RETRY_BACKOFF_def mult.commute)

text \<open>
  C39: the cost of a request is bounded, whatever the kernel answers.  A report consumes at most
  three guest messages and an extended report at most six, and neither ever sleeps for more
  than 100 milliseconds in all.
\<close>

theorem request_limits:
  "emits (report_with os f q) (\<lambda>_ evs. device_calls evs \<le> 3 \<and> slept evs \<le> 100)
   \<and> emits (extended_report_with os f q) (\<lambda>_ evs. device_calls evs \<le> 6 \<and> slept evs \<le> 100)"
proof (cases "report_backend f")
  case (Inr b)
  show ?thesis
    unfolding report_with_backend [OF Inr]
    by (intro conjI retrying_limits [OF dyn_limits(1), simplified]
        retrying_limits [OF dyn_limits(2), simplified])
next
  case (Inl e)
  then show ?thesis
    by (simp add: emits_def report_with_no_backend)
qed

section \<open>Key derivation\<close>

lemma issue_not_Unsupported: "issue os g code a b w \<noteq> (Inl (Unsupported m), w')"
proof
  assume "issue os g code a b w = (Inl (Unsupported m), w')"
  then show False
    by (auto simp: issue_def Let_def result_simps last_os_error_def from_exitinfo2_def
        split: option.split_asm if_split_asm)
qed

lemma derive_key_not_Unsupported: "SevGuest_derive_key os z g q w \<noteq> (Inl (Unsupported m), w')"
proof
  assume "SevGuest_derive_key os z g q w = (Inl (Unsupported m), w')"
  then show False
    by (auto simp: SevGuest_derive_key_def zeroizing_def result_simps issue_not_Unsupported
        KeyRequest_validate_def derived_key_of_def Let_def split: if_split_asm)
qed

text \<open>
  \<open>can_derive_keys\<close> tells the truth.  Deriving a key is refused as unsupported exactly on the
  handles where it is false, whatever the request, and then nothing at all happens.
\<close>

lemma derive_key_unsupported_iff:
  "(\<not> can_derive_keys f \<longleftrightarrow>
      (\<exists>m w'. Firmware_derive_key os zeroize f q w = (Inl (Unsupported m), w')))
   \<and> (\<not> can_derive_keys f \<longleftrightarrow>
      Firmware_derive_key os zeroize f q w
        = (Inl (Unsupported ''key derivation needs /dev/sev-guest, which is not open''), w))"
  by (cases "fw_ioctl f")
    (simp_all add: Firmware_derive_key_def can_derive_keys_def derive_key_not_Unsupported)

section \<open>A foreign provider\<close>

text \<open>
  On a system whose configfs interface belongs to another architecture, asking for that
  transport by name returns \<^verbatim>\<open>WrongProvider\<close>, an error the documentation of \<^verbatim>\<open>open_with\<close> does
  not list.
\<close>

definition tdx_os :: "nat os" where
  "tdx_os = sample_os\<lparr>os_read := \<lambda>p k. (Inr (bytes_of_string ''tdx_guest''), k)\<rparr>"

lemma tdx_text: "text_read (Inr (bytes_of_string ''tdx_guest'')) = Inr ''tdx_guest''"
  by code_simp

lemma tdx_provider:
  "\<exists>w'. provider tdx_os \<lparr>cfs_root = REPORT_ROOT\<rparr> w = (Inr ''tdx_guest'', w')"
proof -
  have trim: "trim ''tdx_guest'' = ''tdx_guest''"
    by (rule trim_solid_line) (simp_all add: solid_def)
  show ?thesis
    using tdx_text
    by (simp add: provider_def with_entry_def Entry_create_def Entry_drop_def read_to_string_def
        io_try_os_def io_try_def io_bind_def create_dir_def remove_dir_def fs_read_def
        syscall_def tdx_os_def sample_os_def Let_def text_read_def trim)
qed

lemma open_with_wrong_provider:
  "\<exists>w'. Firmware_open_with tdx_os ConfigFs w = (Inl (WrongProvider ''tdx_guest''), w')"
proof -
  obtain w1 where dir: "path_is_dir tdx_os REPORT_ROOT w = (True, w1)"
    by (simp add: path_is_dir_def syscall_def tdx_os_def sample_os_def)
  obtain w2 where "provider tdx_os \<lparr>cfs_root = REPORT_ROOT\<rparr> w1 = (Inr ''tdx_guest'', w2)"
    using tdx_provider by blast
  with dir show ?thesis
    by (simp add: Firmware_open_with_def ConfigFs_open_def ConfigFs_open_at_def Let_def
        io_bind_apply io_try_Inr io_try_Inl PROVIDER_def)
qed

end
