(* ===== verification/Protocol.thy ===== *)
theory Protocol
  imports Client
begin

text \<open>
  The other side of the device protocol.  The preceding theories assume nothing of the kernel;
  here the documented behaviour of a working \<^verbatim>\<open>/dev/sev-guest\<close> is stated as predicates of the
  \<open>os\<close> parameter, and the operations are shown to succeed on it: a report request returns
  the very report the firmware signed, an extended one its certificates as well, and a key
  request the firmware's key, which therefore is the same for the same request.
\<close>

section \<open>Programs whose outcome is fixed\<close>

definition printed :: "event list \<Rightarrow> string list" where
  "printed evs = concat (map (\<lambda>e. case e of EvPrint s \<Rightarrow> [s] | _ \<Rightarrow> []) evs)"

text \<open>In every world \<open>m\<close> ends with \<open>r\<close> and prints \<open>out\<close>.\<close>

definition yields :: "('k, 'a) io \<Rightarrow> 'a \<Rightarrow> string list \<Rightarrow> bool" where
  "yields m r out \<longleftrightarrow> (\<forall>w. \<exists>w'. m w = (r, w') \<and> printed (log w') = printed (log w) @ out)"

lemma printed_simps [simp]:
  "printed [] = []" "printed (xs @ ys) = printed xs @ printed ys"
  "printed (EvPrint s # xs) = s # printed xs"
  "printed (EvIoctl fd code arg # xs) = printed xs" "printed (EvSleep n # xs) = printed xs"
  by (simp_all add: printed_def)

lemma yieldsI: "(\<And>w. \<exists>w'. m w = (r, w') \<and> printed (log w') = printed (log w) @ out) \<Longrightarrow> yields m r out"
  by (simp add: yields_def)

lemma yieldsD: "yields m r out \<Longrightarrow> \<exists>w'. m w = (r, w') \<and> printed (log w') = printed (log w) @ out"
  by (simp add: yields_def)

lemma yields_fst: "yields m r out \<Longrightarrow> fst (m w) = r"
  using yieldsD [of m r out w] by auto

lemma yields_return [intro]: "yields (io_return x) x []"
  by (simp add: yields_def)

lemma yields_bind: "yields m x out \<Longrightarrow> yields (f x) y out' \<Longrightarrow> yields (io_bind m f) y (out @ out')"
  unfolding yields_def io_bind_def by (metis (no_types, lifting) append.assoc case_prod_conv)

lemma yields_try_Inr:
  "yields m (Inr x) out \<Longrightarrow> yields (f x) y out' \<Longrightarrow> yields (io_try m f) y (out @ out')"
  unfolding io_try_def by (rule yields_bind) auto

lemma yields_try_Inl:
  assumes "yields m (Inl e) out"
  shows "yields (io_try m f) (Inl e) out"
proof -
  have "yields (io_try m f) (Inl e) (out @ [])"
    unfolding io_try_def by (rule yields_bind [OF assms]) auto
  then show ?thesis by simp
qed

text \<open>Equality with a fixed program, from every world.\<close>

lemma yields_cong: "(\<And>w. m w = m' w) \<Longrightarrow> yields m' r out \<Longrightarrow> yields m r out"
  by (simp add: yields_def)

lemma yields_retry_loop: "yields m r [] \<Longrightarrow> yields (retry_loop os ds m) r []"
proof (induction ds)
  case Nil
  show ?case
  proof (rule yieldsI)
    fix w
    obtain w1 where "m w = (r, w1)" "printed (log w1) = printed (log w)"
      using yieldsD [OF Nil, of w] by auto
    then show "\<exists>w'. retry_loop os [] m w = (r, w') \<and> printed (log w') = printed (log w) @ []"
      by (cases r) (auto simp: retry_loop.simps)
  qed
next
  case (Cons d ds)
  show ?case
  proof (rule yieldsI)
    fix w
    obtain w1 where m: "m w = (r, w1)" "printed (log w1) = printed (log w)"
      using yieldsD [OF Cons.prems, of w] by auto
    obtain w2 where sleep: "thread_sleep os d w1 = ((), w2)" "printed (log w2) = printed (log w1)"
      by (cases "os_sleep os d (kern w1)") (simp add: thread_sleep_def syscall_def)
    obtain w3 where "retry_loop os ds m w2 = (r, w3)" "printed (log w3) = printed (log w2)"
      using yieldsD [OF Cons.IH [OF Cons.prems], of w2] by auto
    then show "\<exists>w'. retry_loop os (d # ds) m w = (r, w') \<and> printed (log w') = printed (log w) @ []"
      using m sleep by (cases r) (auto simp: retry_loop.simps io_bind_def)
  qed
qed

section \<open>A working device\<close>

text \<open>
  The device as the kernel documents it: a request is the \<open>n\<close> bytes at the request address, and
  its answer is a function of them, either a response of \<open>m\<close> bytes left at the response address
  with \<open>EXITINFO2\<close> clear, or a non-zero \<open>EXITINFO2\<close>.  The kernel state may change in any way.
\<close>

definition device_answers ::
  "'k os \<Rightarrow> nat \<Rightarrow> u32 \<Rightarrow> nat \<Rightarrow> nat \<Rightarrow> (u8 list \<Rightarrow> u64 + u8 list) \<Rightarrow> bool" where
  "device_answers os fd code n m answer \<longleftrightarrow>
     (\<forall>arg mem k. ioctl_exitinfo2 arg = 0 \<longrightarrow>
        (case answer (mem_bytes mem (unat (ioctl_req_data arg)) n) of
           Inl c \<Rightarrow> c \<noteq> 0 \<and> ioctl_exitinfo2 (fst (snd (fst (os_ioctl os fd code arg mem k)))) = c
         | Inr response \<Rightarrow> length response = m
             \<and> (\<exists>k'. os_ioctl os fd code arg mem k =
                  ((0, arg, mem_store (unat (ioctl_resp_data arg)) response mem), k'))))"

text \<open>
  The allocator: a buffer lies in the address space and apart from the one allocated just
  before, and from the one before that when a device call came between.
\<close>

definition fits :: "nat \<Rightarrow> nat \<Rightarrow> bool" where
  "fits a n \<longleftrightarrow> a < 2 ^ 64 \<and> a + n \<le> 2 ^ 64"

definition apart :: "nat \<Rightarrow> nat \<Rightarrow> nat \<Rightarrow> nat \<Rightarrow> bool" where
  "apart a n b m \<longleftrightarrow> a + n \<le> b \<or> b + m \<le> a"

definition allocates :: "'k os \<Rightarrow> nat \<Rightarrow> bool" where
  "allocates os fd \<longleftrightarrow>
     (\<forall>n m k a k1 b k2. n \<le> 0x4000 \<longrightarrow> m \<le> 0x4000 \<longrightarrow>
        os_alloc os n k = (a, k1) \<longrightarrow> os_alloc os m k1 = (b, k2) \<longrightarrow>
        fits a n \<and> fits b m \<and> apart a n b m
        \<and> (\<forall>p code arg mem x k3 c k4. p \<le> 0x4000 \<longrightarrow>
             os_ioctl os fd code arg mem k2 = (x, k3) \<longrightarrow> os_alloc os p k3 = (c, k4) \<longrightarrow>
             fits c p \<and> apart a n c p \<and> apart b m c p))"

lemma unat_address: "a < 2 ^ 64 \<Longrightarrow> unat (of_nat a :: u64) = a"
  by (simp add: unat_of_nat take_bit_nat_eq_self)

lemma honest_issue:
  assumes device: "device_answers os (sg_device self) code n m answer"
    and "req < 2 ^ 64" "resp < 2 ^ 64"
  shows "case answer (mem_bytes (memory w) req n) of
      Inl c \<Rightarrow> \<exists>e w'. from_exitinfo2 c = Some e \<and> issue os self code req resp w = (Inl e, w')
        \<and> printed (log w') = printed (log w)
    | Inr response \<Rightarrow> \<exists>w'. issue os self code req resp w = (Inr (), w')
        \<and> memory w' = mem_store resp response (memory w) \<and> length response = m
        \<and> printed (log w') = printed (log w)"
proof -
  let ?arg = "guest_arg self (of_nat req) (of_nat resp)"
  obtain rc arg' mem k where call: "os_ioctl os (sg_device self) code ?arg (memory w) (kern w)
      = ((rc, arg', mem), k)" by (metis surj_pair)
  have addr: "unat (ioctl_req_data ?arg) = req" "unat (ioctl_resp_data ?arg) = resp"
    "ioctl_exitinfo2 ?arg = 0"
    using assms(2,3) by (simp_all add: guest_arg_def unat_address)
  note law = device [unfolded device_answers_def, rule_format, of ?arg "memory w" "kern w"]
  show ?thesis
    using issue_outcome [OF assms(2,3) call] law call addr
    by (auto simp: exitinfo2_split split: sum.splits)
qed

section \<open>Key derivation\<close>

definition key_answer :: "(u8 list \<Rightarrow> u64 + u8 list) \<Rightarrow> KeyRequest \<Rightarrow> DerivedKey result" where
  "key_answer answer q =
     (if 3 < kr_vmpl q then Inl (InvalidArgument ''vmpl must be 0..=3'')
      else case answer (to_wire q) of
        Inl c \<Rightarrow> (case from_exitinfo2 c of Some e \<Rightarrow> Inl e | None \<Rightarrow> Inl NoBackend)
      | Inr response \<Rightarrow> derived_key_of response)"

lemma yields_derive_key:
  assumes device: "device_answers os (sg_device self) 0xC0205301 40 64 answer"
    and alloc: "allocates os (sg_device self)"
  shows "yields (SevGuest_derive_key os zeroize self q) (key_answer answer q) []"
proof (rule yieldsI)
  fix w
  show "\<exists>w'. SevGuest_derive_key os zeroize self q w = (key_answer answer q, w')
      \<and> printed (log w') = printed (log w) @ []"
  proof (cases "3 < kr_vmpl q")
    case True
    then show ?thesis by (simp add: key_answer_def derive_key_validates_first)
  next
    case False
    obtain req k1 resp k2 where bufs: "os_alloc os 40 (kern w) = (req, k1)" "os_alloc os 64 k1 = (resp, k2)"
      by (metis surj_pair)
    have "fits req 40 \<and> fits resp 64 \<and> apart req 40 resp 64"
      using alloc [unfolded allocates_def, rule_format, OF _ _ bufs] by simp
    then have bounds: "req < 2 ^ 64" "resp < 2 ^ 64" and apart: "req + 40 \<le> resp \<or> resp + 64 \<le> req"
      by (auto simp: fits_def apart_def)
    have len: "length (to_wire q) = 40" by (simp add: to_wire_def Let_def)
    let ?w0 = "w\<lparr>kern := k2, memory := mem_store resp (replicate 64 0)
        (mem_store req (to_wire q) (memory w))\<rparr>"
    have wire: "mem_bytes (memory ?w0) req 40 = to_wire q"
      using apart mem_bytes_store [of req "to_wire q" "memory w"] len
      by (simp add: mem_bytes_store_other)
    have run: "SevGuest_derive_key os zeroize self q w =
        zeroizing zeroize resp 64
          (io_try (issue os self SNP_GET_DERIVED_KEY req resp) (\<lambda>_.
           io_bind (buffer_get resp 64) (\<lambda>response. io_return (derived_key_of response)))) ?w0"
      using False bufs len
      by (simp add: SevGuest_derive_key_def KeyRequest_validate_def MAX_VMPL_def io_bind_apply
          buffer_new_def)
    note sent = honest_issue [OF device bounds, of ?w0, folded ioctl_codes(2), unfolded wire]
    show ?thesis
    proof (cases "answer (to_wire q)")
      case (Inl c)
      then obtain e w1 where "from_exitinfo2 c = Some e" "printed (log w1) = printed (log w)"
        "issue os self SNP_GET_DERIVED_KEY req resp ?w0 = (Inl e, w1)"
        using sent by auto
      then show ?thesis
        using False Inl unfolding run
        by (simp add: zeroizing_def io_bind_def io_try_def buffer_get_def buffer_set_def key_answer_def)
    next
      case (Inr response)
      then obtain w1 where w1: "issue os self SNP_GET_DERIVED_KEY req resp ?w0 = (Inr (), w1)"
        "memory w1 = mem_store resp response (memory ?w0)" "length response = 64"
        "printed (log w1) = printed (log w)"
        using sent by auto
      then have "mem_bytes (memory w1) resp 64 = response"
        using mem_bytes_store [of resp response "memory ?w0"] by simp
      then show ?thesis
        using False Inr w1(1,4) unfolding run
        by (simp add: zeroizing_def io_bind_def io_try_def buffer_get_def buffer_set_def key_answer_def)
    qed
  qed
qed

section \<open>Reports\<close>

definition checked :: "ReportRequest \<Rightarrow> u8 list \<Rightarrow> AttestationReport result" where
  "checked q response =
     try_with (parse_response response) (\<lambda>r. try_with (verify_answers q r) (\<lambda>_. Inr r))"

definition exit_error :: "u64 \<Rightarrow> error" where
  "exit_error c = unwrap_or (from_exitinfo2 c) NoBackend"

definition report_answer ::
  "(u8 list \<Rightarrow> u64 + u8 list) \<Rightarrow> ReportRequest \<Rightarrow> AttestationReport result" where
  "report_answer answer q =
     (case answer (report_req q) of Inl c \<Rightarrow> Inl (exit_error c) | Inr response \<Rightarrow> checked q response)"

lemma check_fold:
  "io_try (io_return (parse_response bs)) (\<lambda>r.
     io_try (io_return (verify_answers q r)) (\<lambda>_. io_return (Inr r))) = io_return (checked q bs)"
  by (cases "parse_response bs") (auto simp: checked_def try_with_def split: sum.split)

lemma yields_report:
  fixes os :: "'k os"
  assumes device: "device_answers os (sg_device self) 0xC0205300 96 4000 answer"
    and alloc: "allocates os (sg_device self)"
  shows "yields (SevGuest_report os self q) (report_answer answer q) []"
proof (rule yieldsI)
  fix w :: "'k world"
  obtain req k1 resp k2 where bufs: "os_alloc os 96 (kern w) = (req, k1)" "os_alloc os 4000 k1 = (resp, k2)"
    by (metis surj_pair)
  have "fits req 96 \<and> fits resp 4000 \<and> apart req 96 resp 4000"
    using alloc [unfolded allocates_def, rule_format, OF _ _ bufs] by simp
  then have bounds: "req < 2 ^ 64" "resp < 2 ^ 64" and apart: "req + 96 \<le> resp \<or> resp + 4000 \<le> req"
    by (auto simp: fits_def apart_def)
  let ?w0 = "w\<lparr>kern := k2, memory := mem_store resp (replicate 4000 0)
      (mem_store req (report_req q) (memory w))\<rparr>"
  have wire: "mem_bytes (memory ?w0) req 96 = report_req q"
    using apart mem_bytes_store [of req "report_req q" "memory w"] by (simp add: mem_bytes_store_other)
  have run: "SevGuest_report os self q w =
      io_try (issue os self SNP_GET_REPORT req resp) (\<lambda>_.
      io_bind (buffer_get resp 4000) (\<lambda>response. io_return (checked q response))) ?w0"
    using bufs
    by (simp add: SevGuest_report_def REPORT_RESP_LEN_def io_bind_apply buffer_new_def check_fold)
  note sent = honest_issue [OF device bounds, of ?w0, folded ioctl_codes(1), unfolded wire]
  show "\<exists>w'. SevGuest_report os self q w = (report_answer answer q, w')
      \<and> printed (log w') = printed (log w) @ []"
  proof (cases "answer (report_req q)")
    case (Inl c)
    then obtain e w1 where "from_exitinfo2 c = Some e" "printed (log w1) = printed (log w)"
      "issue os self SNP_GET_REPORT req resp ?w0 = (Inl e, w1)"
      using sent by auto
    then show ?thesis
      unfolding run by (simp add: io_try_Inl report_answer_def Inl exit_error_def)
  next
    case (Inr response)
    then obtain w1 where w1: "issue os self SNP_GET_REPORT req resp ?w0 = (Inr (), w1)"
      "memory w1 = mem_store resp response (memory ?w0)" "length response = 4000"
      "printed (log w1) = printed (log w)"
      using sent by auto
    then have "mem_bytes (memory w1) resp 4000 = response"
      using mem_bytes_store [of resp response "memory ?w0"] by simp
    then show ?thesis
      using w1(1,4) unfolding run
      by (simp add: io_try_Inr io_bind_def buffer_get_def report_answer_def Inr)
  qed
qed

text \<open>A successful response: status zero, the rest of the header, the signed report.\<close>

definition carries :: "u8 list \<Rightarrow> AttestationReport \<Rightarrow> bool" where
  "carries response r \<longleftrightarrow>
     take 4 response = replicate 4 0 \<and> take 0x4A0 (drop 32 response) = report_raw r \<and> valid_report r"

lemma carries_checked:
  assumes "carries response r" "answers q r"
  shows "checked q response = Inr r"
proof -
  have "length (take 0x4A0 (drop 32 response)) = 0x4A0"
    using assms(1) by (simp add: carries_def valid_report_def wf_report_def SIZE_def)
  then have long: "0x4A0 \<le> length (drop 32 response)" and small: "32 \<le> length response"
    by (simp_all add: min_def split: if_splits)
  have "AttestationReport_parse (drop 32 response) = Inr r"
    using assms(1) long
    by (cases r) (auto simp: AttestationReport_parse_def bytes_at_eq SIZE_def carries_def valid_report_def
        MIN_VERSION_def MAX_VERSION_def Let_def)
  moreover have "u32_at response 0 = Some 0"
    using assms(1) small by (simp add: u32_at_eq carries_def)
  ultimately show ?thesis
    using small assms(2)
    by (simp add: checked_def parse_response_def RESP_PAYLOAD_def slice_from_def verify_answers_def
        answers_def split: option.split)
qed

section \<open>Extended reports\<close>

text \<open>
  The documented two-step protocol: a request that offers too little certificate space fails
  with the hypervisor's \<open>INVALID_LEN\<close> and the size that is needed written into its length field;
  a large enough one is answered, and the certificates are copied to the buffer it names.
\<close>

definition device_extends ::
  "'k os \<Rightarrow> nat \<Rightarrow> (u8 list \<Rightarrow> u8 list) \<Rightarrow> u8 list \<Rightarrow> bool" where
  "device_extends os fd response certs \<longleftrightarrow>
     (\<forall>arg mem k. ioctl_exitinfo2 arg = 0 \<longrightarrow>
        (let req = unat (ioctl_req_data arg); bytes = mem_bytes mem req 112;
             space = unat (from_le_bytes (take 4 (drop 104 bytes)) :: u32);
             buffer = unat (from_le_bytes (take 8 (drop 96 bytes)) :: u64) in
         if space < length certs then
           \<exists>k'. os_ioctl os fd 0xC0205302 arg mem k =
             ((- 1, arg\<lparr>ioctl_exitinfo2 := 0x100000000\<rparr>,
               mem_store (req + 104) (to_le_bytes (of_nat (length certs) :: u32)) mem), k')
         else length (response (take 96 bytes)) = 4000
           \<and> (\<exists>k'. os_ioctl os fd 0xC0205302 arg mem k =
                ((0, arg, mem_store buffer certs
                   (mem_store (unat (ioctl_resp_data arg)) (response (take 96 bytes)) mem)), k'))))"

definition page_sized :: "u8 list \<Rightarrow> bool" where
  "page_sized certs \<longleftrightarrow> length certs \<le> 0x4000 \<and> 4096 dvd length certs"

definition extended_answer ::
  "(u8 list \<Rightarrow> u8 list) \<Rightarrow> u8 list \<Rightarrow> ReportRequest \<Rightarrow> ExtendedReport result" where
  "extended_answer response certs q =
     try_with (checked q (response (report_req q))) (\<lambda>r.
       try_with (CertTable_parse certs) (\<lambda>t. Inr \<lparr>ext_report = r, certificates = t\<rparr>))"

lemma invalid_len: "from_exitinfo2 0x100000000 = Some (Vmm Vmm_InvalidLen)"
  by (simp add: from_exitinfo2_def Let_def to_le_bytes_u64 from_le_bytes_Cons VmmError_from_raw_def)

text \<open>One request to such a device, by the space its request structure offers.\<close>

lemma extends_issue:
  fixes os :: "'k os"
  assumes device: "device_extends os (sg_device self) response certs"
    and addr: "req < 2 ^ 64" "resp < 2 ^ 64" "a < 2 ^ 64"
    and mem: "mem_bytes (memory w) req 112 = ext_report_req q (of_nat a) n"
  shows "unat n < length certs \<Longrightarrow>
      \<exists>w' k' arg mem'. os_ioctl os (sg_device self) 0xC0205302 arg (memory w) (kern w) = (mem', k')
        \<and> issue os self SNP_GET_EXT_REPORT req resp w = (Inl (Vmm Vmm_InvalidLen), w')
        \<and> kern w' = k' \<and> printed (log w') = printed (log w)
        \<and> memory w' = mem_store (req + 104) (to_le_bytes (of_nat (length certs) :: u32)) (memory w)"
    "length certs \<le> unat n \<Longrightarrow>
      \<exists>w'. issue os self SNP_GET_EXT_REPORT req resp w = (Inr (), w')
        \<and> printed (log w') = printed (log w) \<and> length (response (report_req q)) = 4000
        \<and> memory w' = mem_store a certs (mem_store resp (response (report_req q)) (memory w))"
proof -
  let ?arg = "guest_arg self (of_nat req) (of_nat resp)"
  have fields: "take 96 (ext_report_req q (of_nat a) n) = report_req q"
    "from_le_bytes (take 4 (drop 104 (ext_report_req q (of_nat a) n))) = n"
    "unat (from_le_bytes (take 8 (drop 96 (ext_report_req q (of_nat a) n))) :: u64) = a"
    using addr(3) by (simp_all add: ext_report_req_eq unat_address)
  have arg: "unat (ioctl_req_data ?arg) = req" "unat (ioctl_resp_data ?arg) = resp"
    "ioctl_exitinfo2 ?arg = 0"
    using addr by (simp_all add: guest_arg_def unat_address)
  note law = device [unfolded device_extends_def Let_def, rule_format, of ?arg "memory w" "kern w",
      unfolded arg mem fields, simplified]
  show "unat n < length certs \<Longrightarrow>
      \<exists>w' k' arg mem'. os_ioctl os (sg_device self) 0xC0205302 arg (memory w) (kern w) = (mem', k')
        \<and> issue os self SNP_GET_EXT_REPORT req resp w = (Inl (Vmm Vmm_InvalidLen), w')
        \<and> kern w' = k' \<and> printed (log w') = printed (log w)
        \<and> memory w' = mem_store (req + 104) (to_le_bytes (of_nat (length certs) :: u32)) (memory w)"
  proof -
    assume "unat n < length certs"
    then obtain k' where call: "os_ioctl os (sg_device self) 0xC0205302 ?arg (memory w) (kern w) =
        ((- 1, ?arg\<lparr>ioctl_exitinfo2 := 0x100000000\<rparr>,
          mem_store (req + 104) (to_le_bytes (of_nat (length certs) :: u32)) (memory w)), k')"
      using law by auto
    then show ?thesis
      using issue_outcome [OF addr(1,2) call] by (auto simp: ioctl_codes invalid_len)
  qed
  show "length certs \<le> unat n \<Longrightarrow>
      \<exists>w'. issue os self SNP_GET_EXT_REPORT req resp w = (Inr (), w')
        \<and> printed (log w') = printed (log w) \<and> length (response (report_req q)) = 4000
        \<and> memory w' = mem_store a certs (mem_store resp (response (report_req q)) (memory w))"
  proof -
    assume "length certs \<le> unat n"
    then obtain k' where call: "os_ioctl os (sg_device self) 0xC0205302 ?arg (memory w) (kern w) =
        ((0, ?arg, mem_store a certs (mem_store resp (response (report_req q)) (memory w))), k')"
      and "length (response (report_req q)) = 4000"
      using law by auto
    then show ?thesis
      using issue_outcome [OF addr(1,2) call] arg(3) by (auto simp: ioctl_codes)
  qed
qed

lemma extended_after_fetch:
  assumes "ext_fetch os self q req resp w = (Inr (a, n), w1)"
    and "mem_bytes (memory w1) resp 4000 = response (report_req q)"
    and "mem_bytes (memory w1) a n = certs"
  shows "io_try (ext_fetch os self q req resp) (\<lambda>(certs, certs_len).
     io_bind (buffer_get resp 4000) (\<lambda>response.
     io_try (io_return (parse_response response)) (\<lambda>report.
     io_try (io_return (verify_answers q report)) (\<lambda>_.
     io_bind (buffer_get certs certs_len) (\<lambda>blob.
     io_try (io_return (CertTable_parse blob)) (\<lambda>table.
       io_return (Inr \<lparr>ext_report = report, certificates = table\<rparr>))))))) w
   = (extended_answer response certs q, w1)"
  using assms
  by (cases "parse_response (response (report_req q))";
      cases "\<forall>r. parse_response (response (report_req q)) = Inr r \<longrightarrow> is_ok (verify_answers q r)";
      cases "CertTable_parse certs")
    (auto simp: io_try_Inr io_bind_def buffer_get_def extended_answer_def checked_def try_with_def
      is_ok_def split: sum.split)

lemma fetch_certs:
  fixes os :: "'k os"
  assumes device: "device_extends os (sg_device self) response certs"
    and bounds: "fits req 112" "fits resp 4000" "apart req 112 resp 4000"
    and later: "\<And>p code arg mem x k3 c k4. p \<le> 0x4000 \<Longrightarrow>
      os_ioctl os (sg_device self) code arg mem (kern w) = (x, k3) \<Longrightarrow> os_alloc os p k3 = (c, k4) \<Longrightarrow>
      fits c p \<and> apart req 112 c p \<and> apart resp 4000 c p"
    and req: "mem_bytes (memory w) req 112 = ext_report_req q 0 0"
    and size: "page_sized certs"
  shows "\<exists>a n w1. ext_fetch os self q req resp w = (Inr (a, n), w1)
     \<and> mem_bytes (memory w1) resp 4000 = response (report_req q)
     \<and> mem_bytes (memory w1) a n = certs \<and> printed (log w1) = printed (log w)"
proof (cases "certs = []")
  case True
  then obtain w1 where "issue os self SNP_GET_EXT_REPORT req resp w = (Inr (), w1)"
    "printed (log w1) = printed (log w)" "length (response (report_req q)) = 4000"
    "memory w1 = mem_store 0 [] (mem_store resp (response (report_req q)) (memory w))"
    using extends_issue(2) [OF device _ _ _, of req resp 0 w q 0] bounds req by (auto simp: fits_def)
  moreover from this have "mem_bytes (memory w1) resp 4000 = response (report_req q)"
    using mem_bytes_store [of resp "response (report_req q)" "memory w"]
    by (simp add: mem_bytes_store_other)
  ultimately show ?thesis
    using True by (auto simp: ext_fetch_def io_bind_def mem_bytes_def)
next
  case False
  let ?n = "length certs"
  have n: "?n \<le> 0x4000" "4096 dvd ?n" "0 < ?n" using size False by (auto simp: page_sized_def)
  obtain w1 k3 arg x where first: "os_ioctl os (sg_device self) 0xC0205302 arg (memory w) (kern w) = (x, k3)"
    "issue os self SNP_GET_EXT_REPORT req resp w = (Inl (Vmm Vmm_InvalidLen), w1)" "kern w1 = k3"
    "printed (log w1) = printed (log w)"
    "memory w1 = mem_store (req + 104) (to_le_bytes (of_nat ?n :: u32)) (memory w)"
    using extends_issue(1) [OF device _ _ _, of req resp 0 w q 0] bounds req n(3)
    by (auto simp: fits_def)
  have "mem_bytes (memory w1) (req + 104) 4 = to_le_bytes (of_nat ?n :: u32)"
    using first(5) mem_bytes_store [of "req + 104" "to_le_bytes (of_nat ?n :: u32)" "memory w"] by simp
  then have "take 4 (drop 104 (mem_bytes (memory w1) req 112)) = to_le_bytes (of_nat ?n :: u32)"
    by (simp add: mem_bytes_slice)
  then have asked: "requested_cert_len (mem_bytes (memory w1) req 112) = Inr ?n"
    using n by (simp add: requested_cert_len_iff u32_at_eq unat_small_u32)
  obtain c k4 where alloc: "os_alloc os ?n (kern w1) = (c, k4)" by fastforce
  have c: "fits c ?n" "apart req 112 c ?n" "apart resp 4000 c ?n"
    using later [OF n(1) first(1)] alloc first(3) by auto
  let ?w2 = "after_alloc req q c ?n k4 w1"
  have len: "length (ext_report_req q (of_nat c) (of_nat ?n)) = 112" by (simp add: ext_report_req_eq)
  have "mem_bytes (memory ?w2) req 112 = ext_report_req q (of_nat c) (of_nat ?n)"
    using mem_bytes_store [of req "ext_report_req q (of_nat c) (of_nat ?n)"
        "mem_store c (replicate ?n 0) (memory w1)"] by (simp add: after_alloc_def len)
  then obtain w3 where second: "issue os self SNP_GET_EXT_REPORT req resp ?w2 = (Inr (), w3)"
    "printed (log w3) = printed (log ?w2)" "length (response (report_req q)) = 4000"
    "memory w3 = mem_store c certs (mem_store resp (response (report_req q)) (memory ?w2))"
    using extends_issue(2) [OF device _ _ _, of req resp c ?w2 q "of_nat ?n"] bounds c n(1)
    by (auto simp: fits_def unat_small_u32)
  have "mem_bytes (memory w3) c ?n = certs"
    using second(4) mem_bytes_store [of c certs] by simp
  moreover have "mem_bytes (memory w3) resp 4000 = response (report_req q)"
    using second(3,4) c(3) mem_bytes_store [of resp "response (report_req q)" "memory ?w2"]
    by (simp add: mem_bytes_store_other apart_def)
  moreover have "ext_fetch os self q req resp w = (Inr (c, ?n), w3)"
    using first(2) second_call_eq [OF asked alloc] second(1) c(1)
    by (simp add: ext_fetch_def io_bind_def io_try_def fits_def)
  ultimately show ?thesis
    using first(4) second(2) by (auto simp: after_alloc_def)
qed

lemma yields_extended_report:
  fixes os :: "'k os"
  assumes device: "device_extends os (sg_device self) response certs"
    and alloc: "allocates os (sg_device self)" and size: "page_sized certs"
  shows "yields (SevGuest_extended_report os self q) (extended_answer response certs q) []"
proof (rule yieldsI)
  fix w :: "'k world"
  obtain req k1 resp k2 where bufs: "os_alloc os 112 (kern w) = (req, k1)" "os_alloc os 4000 k1 = (resp, k2)"
    by (metis surj_pair)
  note laws = alloc [unfolded allocates_def, rule_format, OF _ _ bufs]
  have fit: "fits req 112" "fits resp 4000" "apart req 112 resp 4000" using laws by auto
  have len: "length (ext_report_req q 0 0) = 112" by (simp add: ext_report_req_eq)
  let ?w0 = "w\<lparr>kern := k2, memory := mem_store resp (replicate 4000 0)
      (mem_store req (ext_report_req q 0 0) (memory w))\<rparr>"
  have "mem_bytes (memory ?w0) req 112 = ext_report_req q 0 0"
    using fit(3) mem_bytes_store [of req "ext_report_req q 0 0" "memory w"] len
    by (simp add: mem_bytes_store_other apart_def)
  then obtain a n w1 where "ext_fetch os self q req resp ?w0 = (Inr (a, n), w1)"
    "mem_bytes (memory w1) resp 4000 = response (report_req q)"
    "mem_bytes (memory w1) a n = certs" "printed (log w1) = printed (log ?w0)"
    using fetch_certs [OF device fit, of ?w0 q] laws size by (auto 0 3)
  then show "\<exists>w'. SevGuest_extended_report os self q w = (extended_answer response certs q, w')
      \<and> printed (log w') = printed (log w) @ []"
    using extended_after_fetch [of os self q req resp ?w0 a n w1 response certs] bufs len
    by (simp add: SevGuest_extended_report_def REPORT_RESP_LEN_def io_bind_apply buffer_new_def)
qed

section \<open>A laboratory device\<close>

text \<open>
  One concrete device on which the predicates hold, for the witnesses: it signs the captured
  report with the requested data in it, derives a key from the bytes of the request that can
  differ, offers one page of certificates, and allocates from an arena that wraps around.
\<close>

definition lab_raw :: "u8 list \<Rightarrow> u8 list" where
  "lab_raw request = take 80 MILAN_V5 @ take 64 request @ drop 144 MILAN_V5"

definition lab_response :: "u8 list \<Rightarrow> u8 list" where
  "lab_response request = replicate 32 0 @ lab_raw request @ replicate 2784 0"

definition lab_key :: "u8 list \<Rightarrow> u8 list" where
  "lab_key request = request ! 0 # request ! 8 # take 24 (drop 16 request) @ replicate 6 0"

definition lab_certs :: "u8 list" where
  "lab_certs = encode_table [(VCEK_GUID, replicate 4048 0x30)]"

definition lab_ioctl ::
  "(u8 list \<Rightarrow> u8 list) \<Rightarrow> u32 \<Rightarrow> GuestRequestIoctl \<Rightarrow> memory \<Rightarrow> int \<times> GuestRequestIoctl \<times> memory" where
  "lab_ioctl key code arg m =
     (let req = unat (ioctl_req_data arg); resp = unat (ioctl_resp_data arg);
          bytes = mem_bytes m req 112;
          space = unat (from_le_bytes (take 4 (drop 104 bytes)) :: u32);
          buffer = unat (from_le_bytes (take 8 (drop 96 bytes)) :: u64) in
      if code = 0xC0205301
      then (0, arg, mem_store resp (replicate 32 0 @ key (mem_bytes m req 40)) m)
      else if code = 0xC0205300 then (0, arg, mem_store resp (lab_response (mem_bytes m req 96)) m)
      else if space < length lab_certs
      then (- 1, arg\<lparr>ioctl_exitinfo2 := 0x100000000\<rparr>,
            mem_store (req + 104) (to_le_bytes (of_nat (length lab_certs) :: u32)) m)
      else (0, arg, mem_store buffer lab_certs (mem_store resp (lab_response (take 96 bytes)) m)))"

definition lab_alloc :: "nat \<Rightarrow> nat \<Rightarrow> nat \<times> nat" where
  "lab_alloc n k = (let start = (if k + n \<le> 0x100000 then k else 0) in (start, start + n))"

definition lab_with :: "(u8 list \<Rightarrow> u8 list) \<Rightarrow> nat os" where
  "lab_with key =
     sample_os\<lparr>os_ioctl := (\<lambda>fd code arg m k. (lab_ioctl key code arg m, k)), os_alloc := lab_alloc\<rparr>"

definition lab_os :: "nat os" where
  "lab_os = lab_with lab_key"

lemma lab_with_allocates: "allocates (lab_with key) fd"
  by (auto simp: allocates_def lab_with_def lab_alloc_def fits_def apart_def Let_def
      split: if_splits)

lemma lab_allocates: "allocates lab_os fd"
  by (simp add: lab_os_def lab_with_allocates)

lemma length_lab [simp]:
  "64 \<le> length request \<Longrightarrow> length (lab_raw request) = 1184"
  "64 \<le> length request \<Longrightarrow> length (lab_response request) = 4000"
  "length request = 40 \<Longrightarrow> length (lab_key request) = 32"
  "length lab_certs = 4096"
  by (simp_all add: lab_raw_def lab_response_def lab_key_def lab_certs_def encode_table_def
      VCEK_GUID_def)

lemma lab_with_device:
  "(\<And>bs. length bs = 40 \<Longrightarrow> length (key bs) = 32) \<Longrightarrow>
    device_answers (lab_with key) fd 0xC0205301 40 64 (\<lambda>bs. Inr (replicate 32 0 @ key bs))"
  "device_answers (lab_with key) fd 0xC0205300 96 4000 (\<lambda>bs. Inr (lab_response bs))"
  "device_extends (lab_with key) fd lab_response lab_certs"
  by (simp_all add: device_answers_def device_extends_def lab_with_def lab_ioctl_def sample_os_def
      Let_def)

lemma lab_device:
  "device_answers lab_os fd 0xC0205301 40 64 (\<lambda>bs. Inr (replicate 32 0 @ lab_key bs))"
  "device_answers lab_os fd 0xC0205300 96 4000 (\<lambda>bs. Inr (lab_response bs))"
  "device_extends lab_os fd lab_response lab_certs"
  by (simp_all add: lab_os_def lab_with_device)

definition lab_report :: "ReportRequest \<Rightarrow> AttestationReport" where
  "lab_report q = \<lparr>report_raw = lab_raw (report_req q)\<rparr>"

lemma lab_fields:
  assumes "wf_report_request q"
  shows "report_data (lab_report q) = req_data q" "vmpl (lab_report q) = 0" "version (lab_report q) = 5"
proof -
  have len: "length (lab_raw (report_req q)) = 1184" by simp
  have data: "take 64 (report_req q) = req_data q"
    using assms by (simp add: report_req_eq wf_report_request_def)
  have early: "take n (drop i (lab_raw bs)) = take n (drop i MILAN_V5)" if "i + n \<le> 80" for n i bs
  proof -
    have "take n (drop i (lab_raw bs)) = take n (drop i (take 80 MILAN_V5))"
      using that by (simp add: lab_raw_def)
    then show ?thesis using that by (simp add: drop_take min_def)
  qed
  have same: "field n (lab_report q) i = field n milan_report i" if "i + n \<le> 80" for n i
    using that early len by (simp add: field_eq lab_report_def milan_report_def)
  show "report_data (lab_report q) = req_data q"
    using len data assms
    by (simp add: report_data_def field_eq lab_report_def lab_raw_def wf_report_request_def)
  show "version (lab_report q) = 5"
    using milan_version same [where i = 0 and n = 4] by (simp add: version_def report_u32_at_def)
  have "field 4 milan_report 0x30 = [0, 0, 0, 0]"
    by (simp add: milan_field MILAN_V5_def milan_head_def)
  then show "vmpl (lab_report q) = 0"
    using same [where i = 48 and n = 4] by (simp add: vmpl_def report_u32_at_def from_le_bytes_Cons)
qed

lemma lab_carries:
  assumes "wf_report_request q"
  shows "carries (lab_response (report_req q)) (lab_report q)"
proof -
  have len: "length (lab_raw (report_req q)) = 1184" by simp
  have "valid_report (lab_report q)"
    using lab_fields(3) [OF assms] len
    by (simp add: valid_report_def wf_report_def lab_report_def SIZE_def MIN_VERSION_def MAX_VERSION_def)
  then show ?thesis
    using len by (simp add: carries_def lab_response_def lab_report_def)
qed

lemma lab_answers:
  "wf_report_request q \<Longrightarrow> req_vmpl q = None \<or> req_vmpl q = Some 0 \<Longrightarrow> answers q (lab_report q)"
  using lab_fields [of q] by (auto simp: answers_def)

lemma lab_table:
  "CertTable_parse lab_certs = Inr (CertTable [named (VCEK_GUID, replicate 4048 0x30)])"
proof -
  have "length (encode_table [(VCEK_GUID, replicate 4048 0x30)]) = 4096"
    using length_lab(4) by (simp add: lab_certs_def)
  then show ?thesis
    using encoded_parse [of "[(VCEK_GUID, replicate 4048 0x30)]"]
    by (simp add: lab_certs_def VCEK_GUID_def MAX_ENTRIES_def)
qed

section \<open>Requests succeed\<close>

text \<open>Reports through a handle of the ioctl transport: what the device answers, errors included.\<close>

lemma yields_report_with:
  assumes "fw_transport f = Ioctl" "fw_ioctl f = Some g" "allocates os (sg_device g)"
    and "device_answers os (sg_device g) 0xC0205300 96 4000 answer"
  shows "yields (report_with os f q) (report_answer answer q) []"
proof -
  have backend: "report_backend f = Inr (DynSevGuest g)"
    by (simp add: report_backend_def assms(1,2))
  have "yields (dyn_report os (DynSevGuest g) q) (report_answer answer q) []"
    using yields_report [OF assms(4,3), of q] by (simp add: dyn_report_def)
  then show ?thesis
    unfolding report_with_backend [OF backend] retrying_def by (rule yields_retry_loop)
qed

lemma yields_extended_with:
  assumes "fw_transport f = Ioctl" "fw_ioctl f = Some g" "allocates os (sg_device g)"
    and "device_extends os (sg_device g) response certs" "page_sized certs"
  shows "yields (extended_report_with os f q) (extended_answer response certs q) []"
proof -
  have backend: "report_backend f = Inr (DynSevGuest g)"
    by (simp add: report_backend_def assms(1,2))
  have "yields (dyn_extended_report os (DynSevGuest g) q) (extended_answer response certs q) []"
    using yields_extended_report [OF assms(4,3,5), of q] by (simp add: dyn_extended_report_def)
  then show ?thesis
    unfolding report_with_backend [OF backend] retrying_def by (rule yields_retry_loop)
qed

lemma signed_answers:
  assumes "answers q r"
  shows "answer (report_req q) = Inr bytes \<Longrightarrow> carries bytes r \<Longrightarrow> report_answer answer q = Inr r"
    "carries (response (report_req q)) r \<Longrightarrow> CertTable_parse certs = Inr t \<Longrightarrow>
      extended_answer response certs q = Inr \<lparr>ext_report = r, certificates = t\<rparr>"
  using carries_checked [OF _ assms] by (simp_all add: report_answer_def extended_answer_def)

text \<open>
  C4: on a working device a report request succeeds, from every state of the system.  The report
  that is returned is the one in the device's response, byte for byte, and an extended request
  returns with it the table of the certificates the host holds, through both steps of its
  protocol when there are any.
\<close>

theorem device_report_liveness:
  assumes handle: "fw_transport f = Ioctl" "fw_ioctl f = Some g"
    and alloc: "allocates os (sg_device g)"
    and device: "device_answers os (sg_device g) 0xC0205300 96 4000 answer"
      "device_extends os (sg_device g) response certs"
    and answer: "answer (report_req q) = Inr bytes" "carries bytes r" "answers q r"
      "carries (response (report_req q)) r"
    and certs: "page_sized certs" "CertTable_parse certs = Inr t"
  shows "fst (report_with os f q w) = Inr r
     \<and> fst (extended_report_with os f q w) = Inr \<lparr>ext_report = r, certificates = t\<rparr>"
  using yields_fst [OF yields_report_with [OF handle alloc device(1), of q], of w]
    yields_fst [OF yields_extended_with [OF handle alloc device(2) certs(1), of q], of w]
    signed_answers(1) [where answer = answer, OF answer(3,1,2)]
    signed_answers(2) [where response = response, OF answer(3,4) certs(2)] by simp

lemma device_report_witness:
  "fst (extended_report_with lab_os sample_handle ReportRequest_new sample_world)
     = Inr \<lparr>ext_report = lab_report ReportRequest_new,
            certificates = CertTable [named (VCEK_GUID, replicate 4048 0x30)]\<rparr>"
proof -
  have "wf_report_request ReportRequest_new" "req_vmpl ReportRequest_new = None"
    by (simp_all add: wf_report_request_def ReportRequest_new_def)
  then show ?thesis
    using device_report_liveness [OF _ _ lab_allocates lab_device(2,3), of sample_handle sample_guest
        ReportRequest_new _ "lab_report ReportRequest_new"] lab_carries lab_answers lab_table
    by (simp add: sample_handle_def page_sized_def)
qed

lemma yields_firmware_key:
  assumes "fw_ioctl f = Some g" "allocates os (sg_device g)"
    and "device_answers os (sg_device g) 0xC0205301 40 64 answer"
  shows "yields (Firmware_derive_key os zeroize f q) (key_answer answer q) []"
  using yields_derive_key [OF assms(3,2)] assms(1) by (simp add: Firmware_derive_key_def)

text \<open>
  C16: on a working device a key request ends the same way in every state of the system and however
  often it is made: its outcome is a function of the 40 bytes sent, so the same request always
  reproduces the same key.  A response with a zero status is the key in its last 32 bytes.
\<close>

theorem derive_key_reproducible:
  assumes "fw_ioctl f = Some g" "allocates os (sg_device g)"
    and "device_answers os (sg_device g) 0xC0205301 40 64 answer"
    and "kr_vmpl q \<le> 3" "answer (to_wire q) = Inr bytes" "take 4 bytes = replicate 4 0"
      "length bytes = 64"
  shows "fst (Firmware_derive_key os zeroize f q w) = Inr (DerivedKey (drop 32 bytes))
     \<and> fst (Firmware_derive_key os zeroize f q w) = fst (Firmware_derive_key os zeroize f q w')"
proof -
  have "key_answer answer q = Inr (DerivedKey (drop 32 bytes))"
    using assms(4-7) by (simp add: key_answer_def derived_key_of_64)
  then show ?thesis
    using yields_fst [OF yields_firmware_key [OF assms(1-3)]] by simp
qed

lemma derive_key_reproducible_witness:
  "fst (Firmware_derive_key lab_os (\<lambda>bs. replicate (length bs) 0) sample_handle (bind_guest_svn 7 KeyRequest_new) sample_world)
     = Inr (DerivedKey (lab_key (to_wire (bind_guest_svn 7 KeyRequest_new))))"
  using derive_key_reproducible [OF _ lab_allocates lab_device(1), of sample_handle sample_guest
      "bind_guest_svn 7 KeyRequest_new"] to_wire_eq [of "bind_guest_svn 7 KeyRequest_new"]
  by (simp add: sample_handle_def builder_defs)

section \<open>Transient failures\<close>

text \<open>
  An attempt that fails transiently while the system is busy and succeeds once it is not: \<open>busy\<close>
  is how many more attempts will fail, and sleeping does not make the system busier.
\<close>

definition settles ::
  "('k world \<Rightarrow> nat) \<Rightarrow> 'k os \<Rightarrow> ('k, 'a result) io \<Rightarrow> 'a \<Rightarrow> bool" where
  "settles busy os attempt x \<longleftrightarrow>
     (\<forall>w. if busy w = 0 then fst (attempt w) = Inr x
          else (\<exists>e w'. attempt w = (Inl e, w') \<and> is_transient e \<and> busy w' < busy w))
     \<and> (\<forall>d w. busy (snd (thread_sleep os d w)) \<le> busy w)"

lemma settles_retry_loop:
  "settles busy os attempt x \<Longrightarrow> busy w \<le> length ds \<Longrightarrow> fst (retry_loop os ds attempt w) = Inr x"
proof (induction ds arbitrary: w)
  case Nil
  then have "fst (attempt w) = Inr x" by (auto simp: settles_def)
  then show ?case by (cases "attempt w") (simp add: retry_loop.simps)
next
  case (Cons d ds)
  show ?case
  proof (cases "busy w = 0")
    case True
    then have "fst (attempt w) = Inr x" using Cons.prems by (simp add: settles_def)
    then show ?thesis by (cases "attempt w") (simp add: retry_loop.simps)
  next
    case False
    then obtain e w1 where again: "attempt w = (Inl e, w1)" "is_transient e" "busy w1 < busy w"
      using Cons.prems(1) unfolding settles_def by metis
    moreover obtain u w2 where sleep: "thread_sleep os d w1 = (u, w2)"
      by (cases "thread_sleep os d w1") auto
    then have "busy w2 \<le> busy w1"
      using Cons.prems(1) unfolding settles_def by (metis snd_conv)
    ultimately have "fst (retry_loop os ds attempt w2) = Inr x"
      using Cons by auto
    then show ?thesis
      using again sleep by (simp add: retry_loop.simps io_bind_def)
  qed
qed

text \<open>
  C11: a request survives two transient failures in a row.  Whatever the operation, if the system
  is busy for at most two more attempts, the retry loop returns the operation's result.
\<close>

theorem retrying_liveness:
  assumes "settles busy os attempt x" "busy w \<le> 2"
  shows "fst (retrying os attempt w) = Inr x"
  unfolding retrying_def
  by (rule settles_retry_loop [OF assms(1)]) (use assms(2) in \<open>simp add: RETRY_BACKOFF_def\<close>)

text \<open>A device that is busy as often as the kernel state says, then serves.\<close>

definition busy_attempt :: "(nat, nat result) io" where
  "busy_attempt w =
     (if kern w = 0 then (Inr 7, w) else (Inl (Vmm Vmm_Busy), w\<lparr>kern := kern w - 1\<rparr>))"

lemma retrying_liveness_witness:
  "fst (retrying sample_os busy_attempt (sample_world\<lparr>kern := 2\<rparr>)) = Inr 7"
proof -
  have "settles kern sample_os busy_attempt 7"
    by (simp add: settles_def busy_attempt_def is_transient_def thread_sleep_def syscall_def
        sample_os_def)
  then show ?thesis by (rule retrying_liveness) simp
qed

end
