(* ===== verification/Attributes.thy ===== *)
theory Attributes
  imports Race Protocol
begin

text \<open>
  The other side of the configfs transport.  \<open>Race\<close> states what its \<open>generation\<close> attribute counts;
  here the kernel also remembers what was written to an entry and signs it: reading \<open>outblob\<close>
  gives the report over the nonce and the level in the entry.  On such a kernel a request that
  nobody disturbs returns that report, and an extended one the host's certificates with it.
\<close>

section \<open>A kernel that signs what is written\<close>

text \<open>
  \<open>file k fd\<close> is the entry and the attribute an open file belongs to, \<open>content k d a\<close> what was last
  written to an attribute of an entry, \<open>sign\<close> the report over a nonce and the level, if one was
  written, and \<open>certs\<close> the certificates the host supplies.
\<close>

definition signs ::
  "'k os \<Rightarrow> ('k \<Rightarrow> nat \<Rightarrow> string \<times> string) \<Rightarrow> ('k \<Rightarrow> string \<Rightarrow> string \<Rightarrow> u8 list option) \<Rightarrow>
     (u8 list \<Rightarrow> u8 list option \<Rightarrow> u8 list) \<Rightarrow> u8 list \<Rightarrow> bool" where
  "signs os file content sign certs \<longleftrightarrow>
     (\<forall>d k k'. os_create_dir os d k = (Inr (), k') \<longrightarrow> content k' d = (\<lambda>_. None))
     \<and> (\<forall>d a k fd k'. plain d \<longrightarrow> a \<in> {''inblob'', ''privlevel''} \<longrightarrow>
          os_open_write os (path_join d a) k = (Inr fd, k') \<longrightarrow>
          file k' fd = (d, a) \<and> content k' = content k)
     \<and> (\<forall>fd bs k n k' d a. os_write os fd bs k = (Inr n, k') \<longrightarrow> file k fd = (d, a) \<longrightarrow>
          content k' d = (content k d)(a \<mapsto> bs))
     \<and> (\<forall>fd k u k'. os_close os fd k = (u, k') \<longrightarrow> content k' = content k)
     \<and> (\<forall>d k bs k' nonce. plain d \<longrightarrow> os_read os (path_join d ''outblob'') k = (Inr bs, k') \<longrightarrow>
          content k d ''inblob'' = Some nonce \<longrightarrow> bs = sign nonce (content k d ''privlevel''))
     \<and> (\<forall>d k bs k'. plain d \<longrightarrow> os_read os (path_join d ''auxblob'') k = (Inr bs, k') \<longrightarrow> bs = certs)"

lemma signs_clauses:
  assumes "signs os file content sign certs"
  shows "os_create_dir os d k = (Inr (), k') \<Longrightarrow> content k' d = (\<lambda>_. None)"
    "plain d \<Longrightarrow> a \<in> {''inblob'', ''privlevel''} \<Longrightarrow>
      os_open_write os (path_join d a) k = (Inr fd, k') \<Longrightarrow> file k' fd = (d, a) \<and> content k' = content k"
    "os_write os fd bs k = (Inr n, k') \<Longrightarrow> file k fd = (d, a) \<Longrightarrow>
      content k' d = (content k d)(a \<mapsto> bs)"
    "os_close os fd k = (u, k') \<Longrightarrow> content k' = content k"
    "plain d \<Longrightarrow> os_read os (path_join d ''outblob'') k = (Inr bs, k') \<Longrightarrow>
      content k d ''inblob'' = Some nonce \<Longrightarrow> bs = sign nonce (content k d ''privlevel'')"
    "plain d \<Longrightarrow> os_read os (path_join d ''auxblob'') k = (Inr bs, k') \<Longrightarrow> bs = certs"
proof -
  note laws = assms [unfolded signs_def]
  note rest = laws [THEN conjunct2, THEN conjunct2]
  show "os_create_dir os d k = (Inr (), k') \<Longrightarrow> content k' d = (\<lambda>_. None)"
    by (rule laws [THEN conjunct1, rule_format])
  show "plain d \<Longrightarrow> a \<in> {''inblob'', ''privlevel''} \<Longrightarrow>
      os_open_write os (path_join d a) k = (Inr fd, k') \<Longrightarrow> file k' fd = (d, a) \<and> content k' = content k"
    by (rule laws [THEN conjunct2, THEN conjunct1, rule_format])
  show "os_write os fd bs k = (Inr n, k') \<Longrightarrow> file k fd = (d, a) \<Longrightarrow>
      content k' d = (content k d)(a \<mapsto> bs)"
    by (rule rest [THEN conjunct1, rule_format])
  show "os_close os fd k = (u, k') \<Longrightarrow> content k' = content k"
    by (rule rest [THEN conjunct2, THEN conjunct1, rule_format])
  show "plain d \<Longrightarrow> os_read os (path_join d ''outblob'') k = (Inr bs, k') \<Longrightarrow>
      content k d ''inblob'' = Some nonce \<Longrightarrow> bs = sign nonce (content k d ''privlevel'')"
    by (rule rest [THEN conjunct2, THEN conjunct2, THEN conjunct1, rule_format])
  show "plain d \<Longrightarrow> os_read os (path_join d ''auxblob'') k = (Inr bs, k') \<Longrightarrow> bs = certs"
    by (rule rest [THEN conjunct2, THEN conjunct2, THEN conjunct2, rule_format])
qed

lemma write_attr_content:
  assumes kernel: "signs os file content sign certs"
    and "plain d" "a \<in> {''inblob'', ''privlevel''}" "write_attr os (path_join d a) bs w = (Inr u, w')"
  shows "content (kern w') d = (content (kern w) d)(a \<mapsto> bs)"
proof -
  obtain fd k1 n k2 c where calls: "os_open_write os (path_join d a) (kern w) = (Inr fd, k1)"
    "os_write os fd bs k1 = (Inr n, k2)" "os_close os fd k2 = (c, kern w')"
    using write_attr_calls [OF assms(4)] by blast
  have "file k1 fd = (d, a)" "content k1 = content (kern w)"
    using signs_clauses(2) [OF kernel assms(2,3) calls(1)] by auto
  then show ?thesis
    using signs_clauses(3) [OF kernel calls(2)] signs_clauses(4) [OF kernel calls(3)] by simp
qed

section \<open>An undisturbed request\<close>

text \<open>The level as the transport writes it: in decimal.\<close>

definition level_text :: "u32 \<Rightarrow> u8 list" where
  "level_text v = bytes_of_string (show_dec (unat v))"

lemma run_signed:
  assumes kernel: "signs os file content sign certs"
    and counts: "counts_writes os own other target" "undisturbed os other"
    and run: "run os self q w = (Inr (out, aux), w')"
  shows "out = sign (req_data q) (map_option level_text (req_vmpl q)) \<and> aux = certs"
proof -
  obtain d w0 w9 where d: "plain d" and create: "os_create_dir os d (kern w) = (Inr (), kern w0)"
    and entry: "run_entry os q (Entry d) w0 = (Inr (out, aux), w9)"
    using run by (rule run_calls)
  from entry show ?thesis
  proof (cases rule: run_entry_calls)
    case (answered n w1 w2 w3 c k2 bs k3 t)
    have fresh: "content (kern w0) d = (\<lambda>_. None)"
      using signs_clauses(1) [OF kernel create] .
    have "content (kern w1) d ''privlevel'' = map_option level_text (req_vmpl q)"
      using answered(1) write_attr_content [OF kernel d, of "''privlevel''"] fresh
      by (cases "req_vmpl q") (auto simp: level_text_def)
    moreover have "content (kern w2) d = (content (kern w1) d)(''inblob'' \<mapsto> req_data q)"
      using write_attr_content [OF kernel d _ answered(2)] by simp
    ultimately have "content (kern w2) d ''inblob'' = Some (req_data q)"
      "content (kern w2) d ''privlevel'' = map_option level_text (req_vmpl q)"
      by simp_all
    then have "out = sign (req_data q) (map_option level_text (req_vmpl q))"
      using signs_clauses(5) [OF kernel d answered(3)] by simp
    moreover have "''auxblob'' \<in> {''outblob'', ''auxblob'', ''generation''}" by simp
    with counts(2) d obtain bs' k' where "os_read os (path_join d ''auxblob'') (kern w3) = (Inr bs', k')"
      by (rule undisturbed_os_read)
    then have "aux = certs"
      using answered(4,8) signs_clauses(6) [OF kernel d] by (auto simp: result_ok_def)
    ultimately show ?thesis by blast
  qed
qed

lemma printed_file_only: "file_only evs \<Longrightarrow> printed evs = []"
  by (induction evs) (auto simp: file_only_def printed_def split: event.splits)

lemma yields_silent:
  assumes "emits m (\<lambda>_. file_only)" "\<And>w. fst (m w) = r"
  shows "yields m r []"
proof (rule yieldsI)
  fix w
  obtain w' where "m w = (r, w')" using assms(2) [of w] by (cases "m w") simp
  moreover from this obtain evs where "log w' = log w @ evs" "file_only evs"
    using assms(1) unfolding emits_def by blast
  ultimately show "\<exists>w'. m w = (r, w') \<and> printed (log w') = printed (log w) @ []"
    using printed_file_only by simp
qed

lemma yields_run:
  assumes "signs os file content sign certs"
    and "counts_writes os own other target" "undisturbed os other"
  shows "yields (run os self q) (Inr (sign (req_data q) (map_option level_text (req_vmpl q)), certs)) []"
proof (rule yields_silent [OF emits_run_file_only])
  fix w
  obtain out aux w' where run: "run os self q w = (Inr (out, aux), w')"
    using undisturbed_run [OF assms(2,3)] by blast
  then show "fst (run os self q w) = Inr (sign (req_data q) (map_option level_text (req_vmpl q)), certs)"
    using run_signed [OF assms run] by simp
qed

text \<open>Reports through a handle of the configfs transport: what comes of the signed bytes, errors included.\<close>

definition configfs_answer ::
  "(u8 list \<Rightarrow> u8 list option \<Rightarrow> u8 list) \<Rightarrow> ReportRequest \<Rightarrow> AttestationReport result" where
  "configfs_answer sign q =
     try_with (AttestationReport_parse (sign (req_data q) (map_option level_text (req_vmpl q)))) (\<lambda>r.
       try_with (verify_answers q r) (\<lambda>_. Inr r))"

lemma yields_configfs:
  assumes handle: "fw_transport f = ConfigFs" "fw_configfs f = Some c"
    and kernel: "signs os file content sign certs"
      "counts_writes os own other target" "undisturbed os other"
  shows "yields (report_with os f q) (configfs_answer sign q) []"
    and "yields (extended_report_with os f q)
      (try_with (configfs_answer sign q) (\<lambda>r. try_with (CertTable_parse certs) (\<lambda>t.
         Inr \<lparr>ext_report = r, certificates = t\<rparr>))) []"
proof -
  have backend: "report_backend f = Inr (DynConfigFs c)"
    by (simp add: report_backend_def handle)
  note run = yields_run [OF kernel, of c q]
  have "yields (dyn_report os (DynConfigFs c) q) (configfs_answer sign q) ([] @ [])"
    unfolding dyn_report_def backend.case ConfigFs_report_def configfs_answer_def
    by (rule yields_try_Inr [OF run])
      (simp add: io_return_def io_try_def io_bind_def yields_def try_with_def split: sum.split)
  moreover have "yields (dyn_extended_report os (DynConfigFs c) q)
      (try_with (configfs_answer sign q) (\<lambda>r. try_with (CertTable_parse certs) (\<lambda>t.
         Inr \<lparr>ext_report = r, certificates = t\<rparr>))) ([] @ [])"
    unfolding dyn_extended_report_def backend.case ConfigFs_extended_report_def configfs_answer_def
    by (rule yields_try_Inr [OF run])
      (simp add: io_return_def io_try_def io_bind_def yields_def try_with_def split: sum.split)
  ultimately show "yields (report_with os f q) (configfs_answer sign q) []"
    "yields (extended_report_with os f q)
      (try_with (configfs_answer sign q) (\<lambda>r. try_with (CertTable_parse certs) (\<lambda>t.
         Inr \<lparr>ext_report = r, certificates = t\<rparr>))) []"
    unfolding report_with_backend [OF backend] retrying_def append_Nil
    by (simp_all only: yields_retry_loop)
qed

lemma configfs_answered:
  "AttestationReport_parse (sign (req_data q) (map_option level_text (req_vmpl q))) = Inr r \<Longrightarrow>
    answers q r \<Longrightarrow> configfs_answer sign q = Inr r"
  using verify_answers_iff [of q r] by (simp add: configfs_answer_def)

text \<open>
  C14: on a kernel that counts writes and signs what is written, a report request through configfs
  that nobody disturbs succeeds from every state of the system: it returns the report over the
  request's nonce and level, the level written in decimal before the nonce, and an extended
  request the host's certificates with it.
\<close>

theorem configfs_report_liveness:
  assumes handle: "fw_transport f = ConfigFs" "fw_configfs f = Some c"
    and kernel: "signs os file content sign certs"
      "counts_writes os own other target" "undisturbed os other"
    and signed: "AttestationReport_parse (sign (req_data q) (map_option level_text (req_vmpl q))) = Inr r"
      "answers q r" "CertTable_parse certs = Inr t"
  shows "fst (report_with os f q w) = Inr r
     \<and> fst (extended_report_with os f q w) = Inr \<lparr>ext_report = r, certificates = t\<rparr>"
  using yields_fst [OF yields_configfs(1) [OF handle kernel, of q], of w]
    yields_fst [OF yields_configfs(2) [OF handle kernel, of q], of w]
    configfs_answered [where sign = sign, OF signed(1,2)] signed(3) by (simp add: try_with_def)

section \<open>A kernel that remembers\<close>

text \<open>
  A concrete kernel with all three properties: it signs the captured report with the nonce in it.
  Its guest device is the laboratory's.
\<close>

record shelf =
  sh_own :: "string \<Rightarrow> nat"
  sh_content :: "string \<Rightarrow> string \<Rightarrow> u8 list option"
  sh_file :: "string \<times> string"
  sh_next :: nat

definition attr_of :: "string \<Rightarrow> string" where
  "attr_of p = rev (takeWhile (\<lambda>c. c \<noteq> CHR ''/'') (rev p))"

definition shelf_sign :: "u8 list \<Rightarrow> u8 list option \<Rightarrow> u8 list" where
  "shelf_sign nonce level = lab_raw nonce"

definition shelf_read :: "string \<Rightarrow> shelf \<Rightarrow> io_error + u8 list" where
  "shelf_read p k =
     (if attr_of p = ''generation'' then Inr (bytes_of_string (show_dec (sh_own k (dir_of p)) @ [CHR 0x0A]))
      else if attr_of p = ''outblob''
      then Inr (shelf_sign (unwrap_or (sh_content k (dir_of p) ''inblob'') [])
        (sh_content k (dir_of p) ''privlevel''))
      else if attr_of p = ''auxblob'' then Inr lab_certs
      else if attr_of p = ''provider'' then Inr (bytes_of_string ''sev_guest'')
      else Inl (OsError 2))"

definition shelf_write :: "u8 list \<Rightarrow> shelf \<Rightarrow> shelf" where
  "shelf_write bs k =
     (case sh_file k of (d, a) \<Rightarrow>
        k\<lparr>sh_own := (sh_own k)(d := sh_own k d + 1),
          sh_content := (sh_content k)(d := (sh_content k d)(a \<mapsto> bs))\<rparr>)"

definition shelf_os :: "shelf os" where
  "shelf_os =
     \<lparr>os_is_dir = (\<lambda>p k. (True, k)),
      os_exists = (\<lambda>p k. (True, k)),
      os_create_dir = (\<lambda>d k. (Inr (), k\<lparr>sh_own := (sh_own k)(d := 0),
        sh_content := (sh_content k)(d := (\<lambda>_. None))\<rparr>)),
      os_remove_dir = (\<lambda>p k. (Inr (), k)),
      os_open_write = (\<lambda>p k. (Inr 3, k\<lparr>sh_file := (dir_of p, attr_of p)\<rparr>)),
      os_open_rw = (\<lambda>p k. (Inr 4, k)),
      os_write = (\<lambda>fd bs k. (Inr (length bs), shelf_write bs k)),
      os_close = (\<lambda>fd k. ((), k)),
      os_read = (\<lambda>p k. (shelf_read p k, k)),
      os_ioctl = (\<lambda>fd code arg m k. (lab_ioctl lab_key code arg m, k)),
      os_errno = (\<lambda>k. 5),
      os_pid = (\<lambda>k. 7),
      os_alloc = (\<lambda>n k. case lab_alloc n (sh_next k) of (a, next) \<Rightarrow> (a, k\<lparr>sh_next := next\<rparr>)),
      os_sleep = (\<lambda>ms k. ((), k)),
      os_print = (\<lambda>s k. (Inr (), k))\<rparr>"

lemma attr_of_join: "plain d \<Longrightarrow> CHR ''/'' \<notin> set a \<Longrightarrow> attr_of (path_join d a) = a"
proof -
  assume "plain d" and a: "CHR ''/'' \<notin> set a"
  have "takeWhile (\<lambda>c. c \<noteq> CHR ''/'') (rev a @ CHR ''/'' # rev d) = rev a"
    using a by (subst takeWhile_append2) auto
  then show ?thesis using \<open>plain d\<close> by (simp add: plain_join attr_of_def)
qed

lemma shelf_signs: "signs shelf_os (\<lambda>k fd. sh_file k) sh_content shelf_sign lab_certs"
  unfolding signs_def
  by (auto simp: shelf_os_def shelf_write_def shelf_read_def dir_of_join attr_of_join)

lemma shelf_counts: "counts_writes shelf_os sh_own (\<lambda>k d. 0) (\<lambda>k fd. fst (sh_file k))"
proof -
  have decimal: "text_read (Inr bs) = Inr (show_dec (sh_own k d) @ [CHR 0x0A])"
    if "plain d" "shelf_read (path_join d ''generation'') k = Inr bs" for d k bs
    using that decimal_text by (auto simp: shelf_read_def dir_of_join attr_of_join)
  show ?thesis
    unfolding counts_writes_def
    by (auto simp: shelf_os_def shelf_write_def dir_of_join decimal split: prod.splits)
qed

lemma shelf_undisturbed: "undisturbed shelf_os (\<lambda>k d. 0)"
  unfolding undisturbed_def
  by (auto simp: shelf_os_def shelf_read_def attr_of_join)

definition shelf_world :: "shelf world" where
  "shelf_world =
     \<lparr>kern = \<lparr>sh_own = (\<lambda>_. 0), sh_content = (\<lambda>_ _. None), sh_file = ([], []), sh_next = 0\<rparr>,
      memory = (\<lambda>_. 0), counter = 0, log = []\<rparr>"

lemma configfs_report_witness:
  "fst (report_with shelf_os
       \<lparr>fw_transport = ConfigFs, fw_configfs = Some \<lparr>cfs_root = REPORT_ROOT\<rparr>, fw_ioctl = None\<rparr>
       (ReportRequest_from (replicate 64 7)) shelf_world)
     = Inr (lab_report (ReportRequest_from (replicate 64 7)))"
proof -
  let ?q = "ReportRequest_from (replicate 64 7)"
  have wf: "wf_report_request ?q" by (simp add: wf_report_request_def)
  have "valid_report (lab_report ?q)"
    using lab_carries [OF wf] by (simp add: carries_def)
  moreover have "lab_raw (req_data ?q) = report_raw (lab_report ?q)"
    by (simp add: lab_report_def lab_raw_def report_req_eq wf)
  ultimately have "AttestationReport_parse (shelf_sign (req_data ?q) (map_option level_text (req_vmpl ?q)))
      = Inr (lab_report ?q)"
    using parse_raw by (simp only: shelf_sign_def)
  then show ?thesis
    using configfs_report_liveness [OF _ _ shelf_signs shelf_counts shelf_undisturbed _ lab_answers [OF wf] lab_table]
    by simp
qed

end
