(* ===== verification/Conformance.thy ===== *)
theory Conformance
  imports Client
begin

text \<open>
  The tests of the repository as definitions: the unit tests at the end of \<^verbatim>\<open>src/key.rs\<close> and the
  suite \<^verbatim>\<open>tests/parse.rs\<close>.  Each test is a truth value, true when every assertion holds and no \<^verbatim>\<open>?\<close>
  returns early; what the tests draw at random is an argument, and the lemmas say for which draws
  a test passes.
\<close>

section \<open>Unit tests of key.rs\<close>

definition test_le32 :: "u8 list \<Rightarrow> nat \<Rightarrow> u32 option" where
  "test_le32 buf offset = u32_at buf offset"

definition test_le64 :: "u8 list \<Rightarrow> nat \<Rightarrow> u64 option" where
  "test_le64 buf offset = map_option from_le_bytes (bytes_at 8 buf offset)"

definition bindings_serialise_to_the_firmware_layout :: "u32 \<Rightarrow> u64 \<Rightarrow> u64 \<Rightarrow> bool" where
  "bindings_serialise_to_the_firmware_layout svn tcb mit \<longleftrightarrow>
     (let request =
            bind_launch_mit_vector mit (bind_tcb (TcbVersion_from_raw tcb) (bind_guest_svn svn
              (bind_guest_policy (bind_measurement (KeyRequest_vmpl 2
                (KeyRequest_root_key Root_Vmrk KeyRequest_new))))));
          selected = KeyRequest_fields request;
          wire = to_wire request
      in KeyFields_measurement selected \<and> KeyFields_guest_policy selected
         \<and> KeyFields_guest_svn selected \<and> KeyFields_tcb_version selected
         \<and> KeyFields_launch_mit_vector selected
         \<and> \<not> KeyFields_image_id selected \<and> \<not> KeyFields_family_id selected
         \<and> test_le32 wire 0 = Some 1
         \<and> test_le32 wire 4 = Some 0
         \<and> test_le64 wire 8 = Some (KeyFields_raw selected)
         \<and> test_le32 wire 16 = Some 2
         \<and> test_le32 wire 20 = Some svn
         \<and> test_le64 wire 24 = Some tcb
         \<and> test_le64 wire 32 = Some mit)"

definition vmpls_outside_the_architected_range_never_reach_the_firmware :: bool where
  "vmpls_outside_the_architected_range_never_reach_the_firmware \<longleftrightarrow>
     is_ok (KeyRequest_validate (KeyRequest_vmpl 3 KeyRequest_new))
     \<and> \<not> is_ok (KeyRequest_validate (KeyRequest_vmpl 4 KeyRequest_new))"

definition key_material_is_wiped_on_drop :: "(u8 list \<Rightarrow> u8 list) \<Rightarrow> u8 list \<Rightarrow> bool" where
  "key_material_is_wiped_on_drop zeroize random \<longleftrightarrow>
     (let key = DerivedKey_from_bytes random in
      DerivedKey_as_bytes key \<noteq> replicate DerivedKey_LEN 0
      \<and> DerivedKey_as_bytes (zeroize_now zeroize key) = replicate DerivedKey_LEN 0)"

section \<open>The suite tests/parse.rs\<close>

definition parses_a_real_v5_report_from_a_zen3_machine :: bool where
  "parses_a_real_v5_report_from_a_zen3_machine \<longleftrightarrow>
     (case AttestationReport_parse MILAN_V5 of
        Inl _ \<Rightarrow> False
      | Inr report \<Rightarrow>
          version report = 5 \<and> vmpl report = 0
          \<and> report_signature_algo report = EcdsaP384Sha384
          \<and> SignerInfo_signing_key (signer_info report) = Sk_Vcek
          \<and> cpuid_fms report = Some (Fms_new 0x19 0x01 0x01)
          \<and> product_of report = Some Milan
          \<and> (case reported_tcb_parts report of
               None \<Rightarrow> False
             | Some tcb \<Rightarrow> fmc tcb = None
                 \<and> (bootloader tcb, tee tcb, snp tcb, microcode tcb) = (4, 0, 29, 222))
          \<and> launch_mit_vector report = Some 0x0b
          \<and> current_mit_vector report = Some 0x0b
          \<and> smt_allowed (policy report) \<and> reserved_bit_set (policy report)
          \<and> \<not> debug_allowed (policy report)
          \<and> GuestPolicy_unknown_bits (policy report) = 0
          \<and> smt_enabled (platform_info report) \<and> alias_check_complete (platform_info report)
          \<and> PlatformInfo_unknown_bits (platform_info report) = 0
          \<and> length (signed_bytes report) = 0x2A0
          \<and> (case ecdsa_signature report of
               None \<Rightarrow> False
             | Some sig \<Rightarrow>
                 r_be sig \<noteq> replicate 48 0 \<and> s_be sig \<noteq> replicate 48 0
                 \<and> last (r_be sig) = hd (signature report)))"

definition with_version :: "u32 \<Rightarrow> u8 list" where
  "with_version v = zip_into MILAN_V5 (to_le_bytes v)"

text \<open>\<^verbatim>\<open>iter_mut().skip(n).zip(bytes)\<close>.\<close>

definition zip_into_at :: "nat \<Rightarrow> u8 list \<Rightarrow> u8 list \<Rightarrow> u8 list" where
  "zip_into_at n dst bytes = take n dst @ zip_into (drop n dst) bytes"

definition tdx_quote :: "u8 list" where
  "tdx_quote =
     zip_into_at 2 (zip_into (replicate 5000 0) (to_le_bytes (4 :: 16 word)))
       (to_le_bytes (2 :: 16 word))"

definition report_rejects_short_ancient_and_foreign_inputs :: bool where
  "report_rejects_short_ancient_and_foreign_inputs \<longleftrightarrow>
     (case slice_range MILAN_V5 0 (SIZE - 1) of
        None \<Rightarrow> False
      | Some truncated \<Rightarrow>
          \<not> is_ok (AttestationReport_parse truncated)
          \<and> \<not> is_ok (AttestationReport_parse (with_version 1))
          \<and> is_ok (AttestationReport_parse (with_version MAX_VERSION))
          \<and> \<not> is_ok (AttestationReport_parse tdx_quote))"

definition tcb_version_round_trips_on_every_generation ::
  "u8 \<Rightarrow> u8 \<Rightarrow> u8 \<Rightarrow> u8 \<Rightarrow> u8 \<Rightarrow> bool" where
  "tcb_version_round_trips_on_every_generation f b t s m \<longleftrightarrow>
     list_all (\<lambda>product.
       let parts = \<lparr>fmc = then_some (product = Turin) f, bootloader = b, tee = t, snp = s,
                    microcode = m\<rparr>
       in decode (encode parts product) product = parts) [Milan, Genoa, Bergamo, Turin]
     \<and> (let raw = TcbVersion_from_raw (from_le_bytes [1, 2, 3, 4, 0, 0, 5, 6]) in
        bootloader (decode raw Milan) = 1 \<and> snp (decode raw Milan) = 5
        \<and> fmc (decode raw Turin) = Some 1 \<and> snp (decode raw Turin) = 4)"

definition fms_round_trips_through_cpuid_encoding :: bool where
  "fms_round_trips_through_cpuid_encoding \<longleftrightarrow>
     list_all (\<lambda>fms. from_cpuid_1_eax (to_cpuid_1_eax fms) = fms)
       [Fms_new 0x19 0x01 0x01, Fms_new 0x19 0x11 0x02, Fms_new 0x1A 0x02 0x00]"

definition vcek_blob :: "u8 list \<Rightarrow> u8 list" where
  "vcek_blob body =
     VCEK_GUID @ to_le_bytes (48 :: u32) @ to_le_bytes (word_of_nat (length body) :: u32)
     @ replicate 24 0 @ body"

definition cert_table_reads_entries_and_rejects_out_of_bounds_offsets :: "u8 list \<Rightarrow> bool" where
  "cert_table_reads_entries_and_rejects_out_of_bounds_offsets body \<longleftrightarrow>
     (case u32_try_from (length body) of
        None \<Rightarrow> False
      | Some _ \<Rightarrow>
          (case CertTable_parse (vcek_blob body) of
             Inl _ \<Rightarrow> False
           | Inr table \<Rightarrow>
               (case CertTable_get table Vcek of
                  None \<Rightarrow> False
                | Some vcek \<Rightarrow> Certificate_data vcek = body))
          \<and> \<not> is_ok (CertTable_parse (zip_into_at 16 (vcek_blob body) (to_le_bytes (9999 :: u32))))
          \<and> (case CertTable_parse [] of Inl _ \<Rightarrow> False | Inr table \<Rightarrow> CertTable_is_empty table))"

definition crowded_blob :: "u8 list" where
  "crowded_blob =
     (let blob = concat (replicate 64
            (replicate 16 0xAA @ to_le_bytes (2048 :: u32) @ to_le_bytes (1024 :: u32)))
      in take 4096 blob @ replicate (4096 - length blob) 0)"

definition cert_table_refuses_blobs_and_entry_counts_beyond_its_limits :: bool where
  "cert_table_refuses_blobs_and_entry_counts_beyond_its_limits \<longleftrightarrow>
     \<not> is_ok (CertTable_parse (replicate 0x4001 0)) \<and> \<not> is_ok (CertTable_parse crowded_blob)"

section \<open>They pass\<close>


lemma wire_test: "bindings_serialise_to_the_firmware_layout svn tcb mit"
  unfolding bindings_serialise_to_the_firmware_layout_def Let_def
  by (simp add: test_le32_def test_le64_def to_wire_eq u32_at_eq bytes_at_eq KeyFields_raw_def
      KeyRequest_fields_def builder_defs RootKey_as_raw_def TcbVersion_from_raw_def
      KeyFields_measurement_def KeyFields_guest_policy_def KeyFields_guest_svn_def
      KeyFields_tcb_version_def KeyFields_launch_mit_vector_def KeyFields_image_id_def
      KeyFields_family_id_def kf.flag_bit bit_with KeyFields_NONE_def)

lemma vmpl_test: "vmpls_outside_the_architected_range_never_reach_the_firmware"
  by (simp add: vmpls_outside_the_architected_range_never_reach_the_firmware_def
      KeyRequest_validate_def KeyRequest_vmpl_def KeyRequest_new_def MAX_VMPL_def)

lemma wipe_test:
  "zeroizes zeroize \<Longrightarrow> length random = 32 \<Longrightarrow> random \<noteq> replicate 32 0 \<Longrightarrow>
   key_material_is_wiped_on_drop zeroize random"
  by (simp add: key_material_is_wiped_on_drop_def Let_def DerivedKey_as_bytes_def wiped
      DerivedKey_from_bytes_def DerivedKey_LEN_def)

lemma tcb_test: "tcb_version_round_trips_on_every_generation f b t s m"
proof -
  have "list_all (\<lambda>product.
       let parts = \<lparr>fmc = then_some (product = Turin) f, bootloader = b, tee = t, snp = s,
                    microcode = m\<rparr>
       in decode (encode parts product) product = parts) [Milan, Genoa, Bergamo, Turin]"
    by (simp add: decode_encode_eq tcb_canonical_def Product_tcb_layout_def then_some_def)
  then show ?thesis
    by (simp only: tcb_version_round_trips_on_every_generation_def)
      (simp add: Let_def decode_def Product_tcb_layout_def TcbVersion_from_raw_def le64.enc_dec)
qed

lemma fms_test: "fms_round_trips_through_cpuid_encoding"
  by code_simp

lemma vcek_blob_table: "length body = 64 \<Longrightarrow> vcek_blob body = encode_table [(VCEK_GUID, body)]"
  by (simp add: vcek_blob_def encode_table_def)

lemma vcek_length: "length body = 64 \<Longrightarrow> length (vcek_blob body) = 112"
  by (simp add: vcek_blob_def VCEK_GUID_def)

lemma cert_test:
  assumes "length body = 64"
  shows "cert_table_reads_entries_and_rejects_out_of_bounds_offsets body"
proof -
  have "CertTable_parse (vcek_blob body) = Inr (CertTable [named (VCEK_GUID, body)])"
    using encoded_parse [of "[(VCEK_GUID, body)]"] vcek_length [OF assms] vcek_blob_table [OF assms]
    by (simp add: MAX_ENTRIES_def VCEK_GUID_def)
  moreover have "CertTable_get (CertTable [named (VCEK_GUID, body)]) Vcek = Some (named (VCEK_GUID, body))"
    by (simp add: CertTable_get_def named_def CertKind_from_guid_def)
  moreover
  let ?bad = "zip_into_at 16 (vcek_blob body) (to_le_bytes (9999 :: u32))"
  have len: "length ?bad = 112"
    using vcek_length [OF assms] by (simp add: zip_into_at_def)
  have rec: "table_record ?bad 0 = VCEK_GUID @ to_le_bytes (9999 :: u32) @ to_le_bytes (64 :: u32)"
    by (simp add: table_record_def zip_into_at_def vcek_blob_def zip_into_eq assms VCEK_GUID_def)
  have "\<not> is_ok (CertTable_parse ?bad)"
  proof -
    have "body_start ?bad 0 = 9999"
      by (simp add: body_start_def rec VCEK_GUID_def)
    then have "leading_entries ?bad = 0"
      using len by (intro leading_entries_unique) (simp_all add: entry_ok_def)
    moreover have "table_record ?bad 0 \<noteq> replicate 24 0"
      by (rule nonzero_record) (simp_all add: rec VCEK_GUID_def)
    ultimately show ?thesis
      using len by (auto simp: table_outcome Let_def)
  qed
  ultimately show ?thesis
    by (simp add: cert_table_reads_entries_and_rejects_out_of_bounds_offsets_def assms
        u32_try_from_def table_outcome Certificate_data_def named_def CertTable_is_empty_def)
qed

lemma crowd_test: "cert_table_refuses_blobs_and_entry_counts_beyond_its_limits"
proof -
  let ?r = "replicate 16 0xAA @ to_le_bytes (2048 :: u32) @ to_le_bytes (1024 :: u32)"
  have "length (concat (replicate 64 ?r)) = 1536"
    by (simp add: length_concat sum_list_replicate)
  then have blob: "crowded_blob = concat (replicate 64 ?r) @ replicate 2560 0"
    by (simp add: crowded_blob_def Let_def)
  have len: "length crowded_blob = 4096"
    unfolding blob by (simp add: length_concat sum_list_replicate)
  have rec: "table_record crowded_blob i = ?r" if "i < 16" for i
    unfolding blob by (rule record_of_repeat) (use that in simp_all)
  then have "entry_ok crowded_blob i" if "i < 16" for i
    using that len nonzero_record [of ?r 24] by (simp add: entry_ok_def body_start_def body_len_def)
  then have "leading_entries crowded_blob = 16"
    by (intro leading_entries_unique) auto
  then show ?thesis
    using len
    by (auto simp: cert_table_refuses_blobs_and_entry_counts_beyond_its_limits_def table_outcome Let_def)
qed

lemma milan_words:
  "report_u32_at milan_report 0x30 = 0" "report_u32_at milan_report 0x34 = 1"
  "report_u32_at milan_report 0x48 = 0"
  "report_u64_at milan_report 0x08 = 0x30000" "report_u64_at milan_report 0x40 = 0x27"
  "report_u64_at milan_report 0x180 = 0xDE1D000000000004"
  "report_u64_at milan_report 0x1F8 = 0x0b" "report_u64_at milan_report 0x200 = 0x0b"
  "field 3 milan_report 0x188 = [25, 1, 1]"
  by (simp_all add: report_u32_at_def report_u64_at_def milan_field MILAN_V5_def milan_head_def
      milan_tcb_def milan_tail_def from_le_bytes_Cons)

lemma milan_signature:
  "field 72 milan_report 0x2A0 = milan_sig_r" "field 72 milan_report 0x2E8 = milan_sig_s"
  "take 72 (signature milan_report) = milan_sig_r"
  by (simp_all add: signature_def milan_field MILAN_V5_def)

lemma foreign_test: "report_rejects_short_ancient_and_foreign_inputs"
proof -
  have tdx: "take 4 tdx_quote = [4, 0, 2, 0]" "length tdx_quote = 5000"
    by (simp_all add: tdx_quote_def zip_into_at_def zip_into_eq take_Cons' to_le_bytes_def upt_rec)
  have ver: "take 4 (with_version v) = to_le_bytes v" "length (with_version v) = 1184" for v
    by (simp_all add: with_version_def zip_into_eq)
  show ?thesis
    by (simp add: report_rejects_short_ancient_and_foreign_inputs_def slice_range_def SIZE_def
        parse_by_case tdx ver MAX_VERSION_def from_le_bytes_Cons)
qed


lemma milan_bits:
  "\<not> bit (0x30000 :: u64) 19" "bit (0x30000 :: u64) 16" "bit (0x30000 :: u64) 17"
  "bit (0x27 :: u64) 0" "bit (0x27 :: u64) 5"
  by simp_all

lemma milan_accessors:
  "report_signature_algo milan_report = EcdsaP384Sha384"
  "SignerInfo_signing_key (signer_info milan_report) = Sk_Vcek"
  "cpuid_fms milan_report = Some (Fms_new 0x19 0x01 0x01)"
  "launch_mit_vector milan_report = Some 0x0b" "current_mit_vector milan_report = Some 0x0b"
  by (simp_all add: report_signature_algo_def milan_words SignatureAlgo_from_raw_def
      signer_info_def SignerInfo_from_raw_def SignerInfo_signing_key_def cpuid_fms_def
      milan_version Let_def then_some_def launch_mit_vector_def current_mit_vector_def
      wrapping_shr_def low_byte_ucast)

lemma milan_product: "product_of milan_report = Some Milan"
  by (simp add: product_of_def milan_accessors Product_from_fms_def Fms_new_def)

lemma milan_flags:
  "smt_allowed (policy milan_report)" "reserved_bit_set (policy milan_report)"
  "\<not> debug_allowed (policy milan_report)" "GuestPolicy_unknown_bits (policy milan_report) = 0"
  "smt_enabled (platform_info milan_report)" "alias_check_complete (platform_info milan_report)"
  "PlatformInfo_unknown_bits (platform_info milan_report) = 0"
  by (simp_all add: policy_def platform_info_def milan_words smt_allowed_def reserved_bit_set_def
      debug_allowed_def gp.flag_bit plat.flag_bit GuestPolicy_from_raw_def PlatformInfo_from_raw_def
      smt_enabled_def alias_check_complete_def GuestPolicy_unknown_bits_def GuestPolicy_KNOWN_def
      PlatformInfo_unknown_bits_def PlatformInfo_KNOWN_def)

lemma milan_test: "parses_a_real_v5_report_from_a_zen3_machine"
proof -
  have "to_le_bytes (0xDE1D000000000004 :: u64) = [4, 0, 0, 0, 0, 0, 29, 222]"
    by (simp add: to_le_bytes_u64)
  then have tcb: "reported_tcb_parts milan_report =
      Some \<lparr>fmc = None, bootloader = 4, tee = 0, snp = 29, microcode = 222\<rparr>"
    by (simp add: reported_tcb_parts_def milan_product reported_tcb_def milan_words decode_def
        TcbVersion_from_raw_def Product_tcb_layout_def)
  have sig: "ecdsa_signature milan_report = Some \<lparr>sig_r = milan_sig_r, sig_s = milan_sig_s\<rparr>"
    by (simp add: ecdsa_signature_def milan_accessors milan_signature)
  have first: "hd (signature milan_report) = hd milan_sig_r"
    using milan_signature(3) by (metis hd_take zero_less_numeral)
  have scalars: "rev (take 48 milan_sig_r) \<noteq> replicate 48 0" "rev (take 48 milan_sig_s) \<noteq> replicate 48 0"
    "last (rev (take 48 milan_sig_r)) = hd milan_sig_r"
    by (rule nonzero_record; simp add: milan_sig_r_def milan_sig_s_def)+
      (simp add: milan_sig_r_def)
  have "AttestationReport_parse MILAN_V5 = Inr milan_report"
    using parse_milan [of "[]"] by simp
  moreover have "length (report_raw milan_report) = 1184" by (simp add: milan_report_def)
  ultimately show ?thesis
    by (simp add: parses_a_real_v5_report_from_a_zen3_machine_def milan_version vmpl_def
        milan_words milan_accessors milan_product milan_flags tcb sig first signed_bytes_def
        split_at_checked_def SIGNED_LEN_def r_be_def s_be_def to_be_48_def
        first_chunk_def scalars)
qed

text \<open>
  The repository's tests pass.  The tests over the captured report, the limits of the certificate
  table and the processor identifications hold outright; the layout and round-trip tests hold
  for every draw.  The wiping test holds for every key but the all-zero one, which its own first
  assertion excludes, given that the \<^verbatim>\<open>zeroize\<close> crate wipes.
\<close>

lemma test_suite_passes:
  assumes "zeroizes zeroize" "length key = 32" "key \<noteq> replicate 32 0" "length body = 64"
  shows "bindings_serialise_to_the_firmware_layout svn tcb mit
     \<and> vmpls_outside_the_architected_range_never_reach_the_firmware
     \<and> key_material_is_wiped_on_drop zeroize key
     \<and> parses_a_real_v5_report_from_a_zen3_machine
     \<and> report_rejects_short_ancient_and_foreign_inputs
     \<and> tcb_version_round_trips_on_every_generation f b t s m
     \<and> fms_round_trips_through_cpuid_encoding
     \<and> cert_table_reads_entries_and_rejects_out_of_bounds_offsets body
     \<and> cert_table_refuses_blobs_and_entry_counts_beyond_its_limits"
  using assms
  by (intro conjI wire_test vmpl_test wipe_test milan_test foreign_test tcb_test fms_test cert_test
      crowd_test)

end
