(* ===== verification/Console.thy ===== *)
theory Console
  imports Protocol
begin

text \<open>
  What the example programs use beyond the library: an environment, standard output, panics and
  assertions.  A program ends by returning, by an error its \<^verbatim>\<open>main\<close> passes on, or by a panic;
  \<open>stop\<close> is the last two.  The lemmas relate a program to the lines it prints.
\<close>

section \<open>The environment of a program\<close>

text \<open>
  The parameters of the library and those of the programs: the random number generator is the
  third-party \<^verbatim>\<open>rand\<close> crate's.
\<close>

record 'k env =
  env_os :: "'k os"
  env_features :: features
  env_zeroize :: "u8 list \<Rightarrow> u8 list"
  env_io_text :: "io_error \<Rightarrow> string"
  env_x86_64 :: bool
  env_cpuid :: "u32 \<Rightarrow> CpuidResult"
  env_random :: "'k \<Rightarrow> u8 list \<times> 'k"

section \<open>Programs that can stop\<close>

datatype stop = Panicked string | Returned error

type_synonym ('k, 'a) program = "('k, stop + 'a) io"

text \<open>\<^verbatim>\<open>m?\<close> in a function that returns the crate's \<^verbatim>\<open>Result\<close>.\<close>

definition to_stop :: "'a result \<Rightarrow> stop + 'a" where
  "to_stop r = (case r of Inl e \<Rightarrow> Inl (Returned e) | Inr x \<Rightarrow> Inr x)"

definition must :: "('k, 'a result) io \<Rightarrow> ('k, 'a) program" where
  "must m = io_bind m (\<lambda>r. io_return (to_stop r))"

text \<open>
  \<^verbatim>\<open>assert_eq!\<close> and \<^verbatim>\<open>assert_ne!\<close> on byte arrays; a failed one panics with both operands in its
  message.
\<close>

definition debug_bytes :: "u8 list \<Rightarrow> string" where
  "debug_bytes bs = debug_list (map (\<lambda>b. show_dec (unat b)) bs)"

definition assert_message :: "string \<Rightarrow> string \<Rightarrow> u8 list \<Rightarrow> u8 list \<Rightarrow> string" where
  "assert_message relation message left right =
     ''assertion `left '' @ relation @ '' right` failed: '' @ message @ newline
     @ ''  left: '' @ debug_bytes left @ newline @ '' right: '' @ debug_bytes right"

definition assert_eq :: "u8 list \<Rightarrow> u8 list \<Rightarrow> string \<Rightarrow> ('k, unit) program" where
  "assert_eq left right message =
     io_return (if left = right then Inr ()
       else Inl (Panicked (assert_message ''=='' message left right)))"

definition assert_ne :: "u8 list \<Rightarrow> u8 list \<Rightarrow> string \<Rightarrow> ('k, unit) program" where
  "assert_ne left right message =
     io_return (if left \<noteq> right then Inr ()
       else Inl (Panicked (assert_message ''!='' message left right)))"

text \<open>\<^verbatim>\<open>println!\<close>, which panics when standard output cannot be written.\<close>

definition print_result :: "(io_error \<Rightarrow> string) \<Rightarrow> io_error + unit \<Rightarrow> stop + unit" where
  "print_result io_text r =
     (case r of
        Inl i \<Rightarrow> Inl (Panicked (''failed printing to stdout: '' @ io_text i))
      | Inr u \<Rightarrow> Inr u)"

definition println :: "'k env \<Rightarrow> string \<Rightarrow> ('k, unit) program" where
  "println env line =
     io_bind (print_text (env_os env) (line @ newline)) (\<lambda>r.
       io_return (print_result (env_io_text env) r))"

definition error_text :: "'k env \<Rightarrow> error \<Rightarrow> string" where
  "error_text env e = Error_display (env_io_text env) e"

definition random_bytes :: "'k env \<Rightarrow> ('k, u8 list) io" where
  "random_bytes env =
     (\<lambda>w. case env_random env (kern w) of (bs, k) \<Rightarrow> (bs, w\<lparr>kern := k\<rparr>))"

text \<open>\<^verbatim>\<open>for x in xs\<close> over a body that can stop.\<close>

fun for_each :: "('a \<Rightarrow> ('k, unit) program) \<Rightarrow> 'a list \<Rightarrow> ('k, unit) program" where
  "for_each body [] = io_return (Inr ())"
| "for_each body (x # xs) = io_try (body x) (\<lambda>_. for_each body xs)"

section \<open>What a program prints\<close>

definition prints_ok :: "'k env \<Rightarrow> bool" where
  "prints_ok env \<longleftrightarrow> (\<forall>s k. \<exists>k'. os_print (env_os env) s k = (Inr (), k'))"

lemma to_stop_simps [simp]: "to_stop (Inl e) = Inl (Returned e)" "to_stop (Inr x) = Inr x"
  by (simp_all add: to_stop_def)

lemma print_result_Inr [simp]: "print_result io_text (Inr u) = Inr u"
  by (simp add: print_result_def)

lemma yields_println:
  fixes env :: "'k env"
  assumes "prints_ok env"
  shows "yields (println env line) (Inr ()) [line @ newline]"
proof (rule yieldsI)
  fix w :: "'k world"
  from assms obtain k where "os_print (env_os env) (line @ newline) (kern w) = (Inr (), k)"
    by (auto simp: prints_ok_def)
  then show "\<exists>w'. println env line w = (Inr (), w')
      \<and> printed (log w') = printed (log w) @ [line @ newline]"
    by (simp add: println_def io_bind_def print_text_def syscall_def)
qed

lemma yields_must: "yields m r out \<Longrightarrow> yields (must m) (to_stop r) out"
proof -
  assume "yields m r out"
  then have "yields (must m) (to_stop r) (out @ [])"
    unfolding must_def by (rule yields_bind) auto
  then show ?thesis by simp
qed

lemma yields_case:
  "(\<And>e. r = Inl e \<Longrightarrow> yields (f e) y (out e)) \<Longrightarrow> (\<And>x. r = Inr x \<Longrightarrow> yields (g x) y (out' x)) \<Longrightarrow>
   yields (case r of Inl e \<Rightarrow> f e | Inr x \<Rightarrow> g x) y (case r of Inl e \<Rightarrow> out e | Inr x \<Rightarrow> out' x)"
  by (cases r) simp_all

lemma yields_for_each:
  "(\<And>x. x \<in> set xs \<Longrightarrow> yields (body x) (Inr ()) (out x)) \<Longrightarrow>
   yields (for_each body xs) (Inr ()) (concat (map out xs))"
  by (induction xs) (auto intro: yields_try_Inr)

text \<open>
  In every world \<open>m\<close> succeeds with a value of which \<open>P\<close> holds, and prints nothing; which value it
  is may depend on the world, as the number of a newly opened file does.
\<close>

definition finds :: "('k, 'a result) io \<Rightarrow> ('a \<Rightarrow> bool) \<Rightarrow> bool" where
  "finds m P \<longleftrightarrow>
     (\<forall>w. \<exists>x w'. m w = (Inr x, w') \<and> printed (log w') = printed (log w) \<and> P x)"

lemma yields_bind_finds:
  assumes "finds m P" "\<And>x. P x \<Longrightarrow> yields (g (Inr x)) r out"
  shows "yields (io_bind m g) r out"
proof (rule yieldsI)
  fix w
  obtain x w1 where x: "m w = (Inr x, w1)" "printed (log w1) = printed (log w)" "P x"
    using assms(1) unfolding finds_def by blast
  then show "\<exists>w'. io_bind m g w = (r, w') \<and> printed (log w') = printed (log w) @ out"
    using yieldsD [OF assms(2) [OF x(3)], of w1] by (simp add: io_bind_def)
qed

text \<open>
  In every world \<open>m\<close> runs to its end, and of the lines it prints \<open>P\<close> holds: for programs whose output
  depends on the world, by a random number.
\<close>

definition ends :: "('k, unit) program \<Rightarrow> (string list \<Rightarrow> bool) \<Rightarrow> bool" where
  "ends m P \<longleftrightarrow> (\<forall>w. \<exists>out w'. m w = (Inr (), w') \<and> printed (log w') = printed (log w) @ out \<and> P out)"

lemma ends_yields: "yields m (Inr ()) out \<Longrightarrow> P out \<Longrightarrow> ends m P"
  unfolding ends_def yields_def by blast

lemma ends_bind:
  assumes "yields m x out" "ends (g x) (\<lambda>out'. P (out @ out'))"
  shows "ends (io_bind m g) P"
  unfolding ends_def
proof
  fix w
  obtain w1 where first: "m w = (x, w1)" "printed (log w1) = printed (log w) @ out"
    using yieldsD [OF assms(1), of w] by blast
  obtain out' w2 where "g x w1 = (Inr (), w2)" "printed (log w2) = printed (log w1) @ out'" "P (out @ out')"
    using assms(2) unfolding ends_def by blast
  then show "\<exists>out w'. io_bind m g w = (Inr (), w') \<and> printed (log w') = printed (log w) @ out \<and> P out"
    using first by (auto simp: io_bind_def)
qed

lemma ends_try: "yields m (Inr x) out \<Longrightarrow> ends (g x) (\<lambda>out'. P (out @ out')) \<Longrightarrow> ends (io_try m g) P"
  unfolding io_try_def by (rule ends_bind) auto

lemma ends_finds:
  assumes "finds m Q" "\<And>x. Q x \<Longrightarrow> ends (g x) P"
  shows "ends (io_try (must m) g) P"
  unfolding ends_def
proof
  fix w
  obtain x w1 where x: "m w = (Inr x, w1)" "printed (log w1) = printed (log w)" "Q x"
    using assms(1) unfolding finds_def by blast
  obtain out w2 where "g x w1 = (Inr (), w2)" "printed (log w2) = printed (log w1) @ out" "P out"
    using assms(2) [OF x(3)] unfolding ends_def by blast
  then show "\<exists>out w'. io_try (must m) g w = (Inr (), w') \<and> printed (log w') = printed (log w) @ out \<and> P out"
    using x(1,2) by (auto simp: io_try_def must_def io_bind_def io_return_def)
qed

lemma ends_random:
  fixes env :: "'k env"
  assumes "\<And>k. Q (fst (env_random env k))" "\<And>x. Q x \<Longrightarrow> ends (g x) P"
  shows "ends (io_bind (random_bytes env) g) P"
  unfolding ends_def
proof
  fix w :: "'k world"
  obtain bs k where draw: "env_random env (kern w) = (bs, k)" by fastforce
  then have "Q bs" using assms(1) [of "kern w"] by simp
  then obtain out w2 where "g bs (w\<lparr>kern := k\<rparr>) = (Inr (), w2)"
    "printed (log w2) = printed (log w) @ out" "P out"
    using assms(2) unfolding ends_def by fastforce
  then show "\<exists>out w'. io_bind (random_bytes env) g w = (Inr (), w') \<and> printed (log w') = printed (log w) @ out \<and> P out"
    using draw by (auto simp: io_bind_def random_bytes_def)
qed

lemma yields_conv: "yields m r out \<Longrightarrow> out = out' \<Longrightarrow> yields m r out'"
  by simp

section \<open>Keys that tell requests apart\<close>

text \<open>
  A system whose answers to key requests are a function of the request; that no two requests the
  builder can make get the same key; and which of them are refused.
\<close>

definition derives ::
  "'k env \<Rightarrow> FirmwareHandle \<Rightarrow> (KeyRequest \<Rightarrow> DerivedKey result) \<Rightarrow> bool" where
  "derives env f ka \<longleftrightarrow>
     (\<forall>q. yields (Firmware_derive_key (env_os env) (env_zeroize env) f q) (ka q) [])"

lemma derives_device:
  assumes "fw_ioctl f = Some g" "allocates (env_os env) (sg_device g)"
    and "device_answers (env_os env) (sg_device g) 0xC0205301 40 64 answer"
  shows "derives env f (key_answer answer)"
  using yields_firmware_key [OF assms] by (simp add: derives_def)

definition collision_free :: "(KeyRequest \<Rightarrow> DerivedKey result) \<Rightarrow> bool" where
  "collision_free ka \<longleftrightarrow>
     (\<forall>q q' d. built q \<longrightarrow> built q' \<longrightarrow> ka q = Inr d \<longrightarrow> ka q' = Inr d \<longrightarrow> q = q')"

definition refusal :: "(KeyRequest \<Rightarrow> DerivedKey result) \<Rightarrow> KeyRequest \<Rightarrow> error option" where
  "refusal ka q = (case ka q of Inl e \<Rightarrow> Some e | Inr _ \<Rightarrow> None)"

definition accepted :: "(KeyRequest \<Rightarrow> DerivedKey result) \<Rightarrow> KeyRequest \<Rightarrow> bool" where
  "accepted ka q \<longleftrightarrow> refusal ka q = None"

lemma accepted_key: "accepted ka q \<longleftrightarrow> (\<exists>d. ka q = Inr d)"
  by (auto simp: accepted_def refusal_def split: sum.splits)

lemma key_bytes_differ:
  "collision_free ka \<Longrightarrow> ka q = Inr d \<Longrightarrow> ka q' = Inr d' \<Longrightarrow> built q \<Longrightarrow> built q' \<Longrightarrow> q \<noteq> q' \<Longrightarrow>
   DerivedKey_as_bytes d \<noteq> DerivedKey_as_bytes d'"
  unfolding collision_free_def DerivedKey_as_bytes_def using DerivedKey.expand by metis

lemmas built_simps = built.new built.vmpl built.root built.measurement built.guest_policy
  built.family_id built.image_id built.guest_svn built.tcb

section \<open>The laboratory system\<close>

definition lab_env :: "(u8 list \<Rightarrow> u8 list) \<Rightarrow> nat env" where
  "lab_env key =
     \<lparr>env_os = lab_with key, env_features = \<lparr>f_configfs = False, f_sev_guest = True\<rparr>,
      env_zeroize = (\<lambda>bs. replicate (length bs) 0), env_io_text = (\<lambda>_. ''input/output error''),
      env_x86_64 = False, env_cpuid = (\<lambda>_. \<lparr>cpuid_eax = 0, cpuid_ebx = 0, cpuid_ecx = 0, cpuid_edx = 0\<rparr>),
      env_random = (\<lambda>k. (replicate 64 0, k))\<rparr>"

lemma lab_env_simps [simp]:
  "env_os (lab_env key) = lab_with key" "env_io_text (lab_env key) = (\<lambda>_. ''input/output error'')"
  "env_features (lab_env key) = \<lparr>f_configfs = False, f_sev_guest = True\<rparr>"
  by (simp_all add: lab_env_def)

lemma lab_prints: "prints_ok (lab_env key)"
  by (simp add: prints_ok_def lab_with_def sample_os_def)

definition lab_answer :: "(u8 list \<Rightarrow> u8 list) \<Rightarrow> u8 list \<Rightarrow> u64 + u8 list" where
  "lab_answer key bs = Inr (replicate 32 0 @ key bs)"

lemma length_to_wire [simp]: "length (to_wire q) = 40"
  by (simp add: to_wire_eq)

lemma lab_key_answer:
  assumes "\<And>bs. length bs = 40 \<Longrightarrow> length (key bs) = 32"
  shows "key_answer (lab_answer key) q =
     (if 3 < kr_vmpl q then Inl (InvalidArgument ''vmpl must be 0..=3'')
      else Inr (DerivedKey (key (to_wire q))))"
  using assms [of "to_wire q"] by (simp add: key_answer_def lab_answer_def derived_key_of_64)

lemma lab_key_wire:
  "lab_key (to_wire q) = ucast (RootKey_as_raw (kr_root_key q)) # ucast (KeyFields_word (kr_fields q))
     # to_le_bytes (kr_vmpl q) @ to_le_bytes (kr_guest_svn q) @ to_le_bytes (kr_tcb_version q)
     @ to_le_bytes (kr_launch_mit_vector q) @ replicate 6 0"
  by (simp add: lab_key_def to_wire_eq nth_append nth_to_le_bytes)

lemma small_byte_inject:
  "unat (a :: u64) < 2 ^ 7 \<Longrightarrow> unat b < 2 ^ 7 \<Longrightarrow> (ucast a :: u8) = ucast b \<Longrightarrow> a = b"
proof -
  assume small: "unat a < 2 ^ 7" "unat b < 2 ^ 7" and same: "(ucast a :: u8) = ucast b"
  have "unat (ucast x :: u8) = unat x" if "unat x < 2 ^ 7" for x :: u64
    using that by (simp add: unsigned_ucast_eq take_bit_nat_eq_self)
  then have "unat (ucast a :: u8) = unat a" "unat (ucast b :: u8) = unat b"
    using small by blast+
  then show "a = b" using same by (metis word_unat_eq_iff)
qed

lemma lab_collision_free: "collision_free (key_answer (lab_answer lab_key))"
  unfolding collision_free_def
proof (intro allI impI)
  fix q q' :: KeyRequest and d
  assume "built q" "built q'" and keys: "key_answer (lab_answer lab_key) q = Inr d"
    "key_answer (lab_answer lab_key) q' = Inr d"
  then have wf: "unat (KeyFields_word (kr_fields q)) < 2 ^ 7" "unat (KeyFields_word (kr_fields q')) < 2 ^ 7"
    using built_wf by (auto simp: wf_request_def)
  have same: "lab_key (to_wire q) = lab_key (to_wire q')"
    using keys by (auto simp: lab_key_answer split: if_splits)
  then have "kr_root_key q = kr_root_key q'"
    by (cases "kr_root_key q"; cases "kr_root_key q'") (simp_all add: lab_key_wire RootKey_as_raw_def)
  moreover have "KeyFields_word (kr_fields q) = KeyFields_word (kr_fields q')"
    using same small_byte_inject [OF wf] by (simp add: lab_key_wire)
  moreover have "kr_vmpl q = kr_vmpl q' \<and> kr_guest_svn q = kr_guest_svn q'
      \<and> kr_tcb_version q = kr_tcb_version q' \<and> kr_launch_mit_vector q = kr_launch_mit_vector q'"
    using same
    by (simp add: lab_key_wire le32.enc_append_inject le64.enc_append_inject le64.enc_inject)
  ultimately show "q = q'"
    by (cases q; cases q') (simp add: KeyFields.expand)
qed

end
