(* ===== verification/Attest.thy ===== *)
theory Attest
  imports Console Attributes
begin

text \<open>
  \<^verbatim>\<open>examples/attest.rs\<close>: the program that exercises every guest operation.
\<close>

definition transport_debug :: "transport \<Rightarrow> string" where
  "transport_debug t = (case t of Ioctl \<Rightarrow> ''Ioctl'' | ConfigFs \<Rightarrow> ''ConfigFs'')"

definition capabilities_line :: "Capabilities option \<Rightarrow> string" where
  "capabilities_line caps =
     (case caps of
        Some c \<Rightarrow>
          ''capabilities: sev='' @ debug_bool (sev c) @ '' sev_es='' @ debug_bool (sev_es c)
          @ '' sev_snp='' @ debug_bool (sev_snp c) @ '' vmpls='' @ show_dec (unat (num_vmpls c))
          @ '' c_bit='' @ show_dec (unat (c_bit_position c))
      | None \<Rightarrow> ''capabilities: CPUID leaf 0x8000001F absent'')"

definition compare_transport ::
  "'k env \<Rightarrow> transport \<Rightarrow> u8 list \<Rightarrow> AttestationReport \<Rightarrow> ('k, unit) program" where
  "compare_transport env transport nonce reference =
     io_bind (Firmware_open_with (env_os env) transport) (\<lambda>r.
       case r of
         Inr one \<Rightarrow>
           io_try (must (Firmware_report (env_os env) one nonce)) (\<lambda>report.
           io_try (must (Firmware_extended_report (env_os env) one nonce)) (\<lambda>extended.
             println env (transport_debug transport @ '': report v'' @ show_dec (unat (version report))
               @ '' measurement matches='' @ debug_bool (measurement report = measurement reference)
               @ '' certs='' @ show_dec (CertTable_len (certificates extended)))))
       | Inl e \<Rightarrow>
           println env (transport_debug transport @ '': unavailable ('' @ error_text env e @ '')''))"

definition derive_keys ::
  "'k env \<Rightarrow> FirmwareHandle \<Rightarrow> AttestationReport \<Rightarrow> ('k, unit) program" where
  "derive_keys env firmware report =
     (if \<not> can_derive_keys firmware
      then println env (newline @ ''key derivation: /dev/sev-guest not open (try as root)'')
      else
        let derive = Firmware_derive_key (env_os env) (env_zeroize env) firmware;
            sealing = bind_tcb (reported_tcb report) (bind_guest_policy (bind_measurement KeyRequest_new))
        in
        io_try (must (derive sealing)) (\<lambda>first.
        io_try (must (derive sealing)) (\<lambda>again.
        io_try (assert_eq (DerivedKey_as_bytes first) (DerivedKey_as_bytes again)
          ''derivation is deterministic'') (\<lambda>_.
        io_try (must (derive (bind_family_id sealing))) (\<lambda>other.
        io_try (assert_ne (DerivedKey_as_bytes first) (DerivedKey_as_bytes other)
          ''bindings change the key'') (\<lambda>_.
        io_try (println env (newline @ ''derived a stable ''
          @ show_dec (length (DerivedKey_as_bytes first)) @ ''-byte key bound to the image'')) (\<lambda>_.
        io_bind (derive (KeyRequest_root_key Root_Vmrk KeyRequest_new)) (\<lambda>r.
          case r of
            Inr _ \<Rightarrow> println env ''VMRK derivation available (guest has a migration agent)''
          | Inl e \<Rightarrow>
              println env (''VMRK derivation unavailable, as expected: '' @ error_text env e)))))))))"

text \<open>The statements of \<^verbatim>\<open>main\<close> from the first report on.\<close>

definition attest_with ::
  "'k env \<Rightarrow> FirmwareHandle \<Rightarrow> u8 list \<Rightarrow> ('k, unit) program" where
  "attest_with env firmware nonce =
     io_try (must (Firmware_report (env_os env) firmware nonce)) (\<lambda>report.
     io_try (assert_eq (report_data report) nonce ''report is bound to our nonce'') (\<lambda>_.
     io_try (println env (newline @ pretty (AttestationReport_debug report))) (\<lambda>_.
     io_try (case reported_tcb_parts report of
               Some parts \<Rightarrow> println env (newline @ ''reported TCB: '' @ TcbParts_display parts)
             | None \<Rightarrow> io_return (Inr ())) (\<lambda>_.
     io_try (must (Firmware_extended_report (env_os env) firmware nonce)) (\<lambda>extended.
     io_try (if CertTable_is_empty (certificates extended)
             then println env (newline
               @ ''certificates: none provisioned by the host (fetch from AMD KDS)'')
             else println env (newline @ ''certificates: ''
               @ debug_list (map Certificate_debug (CertTable_entries (certificates extended))))) (\<lambda>_.
     io_try (if f_sev_guest (env_features env) then derive_keys env firmware report
             else println env (newline
               @ ''key derivation: compiled out (`sev-guest` feature is off)'')) (\<lambda>_.
     io_bind (report_with (env_os env) firmware (ReportRequest_vmpl 3 ReportRequest_new)) (\<lambda>r.
     io_try (case r of
               Inr r \<Rightarrow> println env (newline @ ''VMPL 3 report obtained, vmpl field = ''
                 @ show_dec (unat (vmpl r)))
             | Inl e \<Rightarrow> println env (newline @ ''VMPL 3 report refused: '' @ error_text env e)) (\<lambda>_.
     io_try (println env []) (\<lambda>_.
     io_try (if f_configfs (env_features env) then compare_transport env ConfigFs nonce report
             else io_return (Inr ())) (\<lambda>_.
       if f_sev_guest (env_features env) then compare_transport env Ioctl nonce report
       else io_return (Inr ()))))))))))))"

definition attest_main :: "'k env \<Rightarrow> ('k, unit) program" where
  "attest_main env =
     io_try (println env (capabilities_line (capabilities (env_x86_64 env) (env_cpuid env)))) (\<lambda>_.
     io_bind (is_snp_guest (env_os env) (env_features env) (env_x86_64 env) (env_cpuid env)) (\<lambda>guest.
     io_try (println env (''running inside an SNP guest: '' @ debug_bool guest)) (\<lambda>_.
     io_try (must (Firmware_open (env_os env) (env_features env))) (\<lambda>firmware.
     io_try (println env (''transport: '' @ transport_debug (Firmware_transport firmware))) (\<lambda>_.
     io_bind (random_bytes env) (\<lambda>nonce.
       attest_with env firmware nonce))))))"

section \<open>How the program can panic\<close>

text \<open>
  For every kernel, \<open>panics_in A m\<close> says that a panic of \<open>m\<close> is a failed \<^verbatim>\<open>println!\<close> or one of the
  messages \<open>A\<close>.
\<close>

definition print_panic :: "string \<Rightarrow> bool" where
  "print_panic s \<longleftrightarrow> take 26 s = ''failed printing to stdout:''"

definition panics_in :: "string set \<Rightarrow> ('k, 'a) program \<Rightarrow> bool" where
  "panics_in A m \<longleftrightarrow> (\<forall>w s w'. m w = (Inl (Panicked s), w') \<longrightarrow> print_panic s \<or> s \<in> A)"

named_theorems panics

lemma panics_return [panics]: "panics_in A (io_return (Inr x))"
  by (simp add: panics_in_def io_return_def)

lemma panics_must [panics]: "panics_in A (must m)"
  by (auto simp: panics_in_def must_def io_bind_def io_return_def to_stop_def split: prod.splits sum.splits)

lemma panics_println [panics]: "panics_in A (println env line)"
  by (auto simp: panics_in_def println_def io_bind_def io_return_def print_result_def print_panic_def
      split: prod.splits sum.splits)

lemma panics_assert_eq [panics]:
  "(left \<noteq> right \<Longrightarrow> assert_message ''=='' message left right \<in> A) \<Longrightarrow>
    panics_in A (assert_eq left right message)"
  by (simp add: panics_in_def assert_eq_def io_return_def)

lemma panics_assert_ne [panics]:
  "(left = right \<Longrightarrow> assert_message ''!='' message left right \<in> A) \<Longrightarrow>
    panics_in A (assert_ne left right message)"
  by (simp add: panics_in_def assert_ne_def io_return_def)

lemma panics_try [panics]: "panics_in A m \<Longrightarrow> (\<And>x. panics_in A (g x)) \<Longrightarrow> panics_in A (io_try m g)"
  unfolding panics_in_def io_try_def io_bind_def
  by (auto simp: io_return_def split: prod.splits sum.splits)

lemma panics_bind [panics]: "(\<And>x. panics_in A (g x)) \<Longrightarrow> panics_in A (io_bind m g)"
  by (auto simp: panics_in_def io_bind_def split: prod.splits)

lemma panics_if [panics]: "(b \<Longrightarrow> panics_in A m) \<Longrightarrow> (\<not> b \<Longrightarrow> panics_in A n) \<Longrightarrow> panics_in A (if b then m else n)"
  by simp

lemma panics_cases [panics]:
  "(\<And>e. panics_in A (g e)) \<Longrightarrow> (\<And>x. panics_in A (h x)) \<Longrightarrow>
    panics_in A (case r of Inl e \<Rightarrow> g e | Inr x \<Rightarrow> h x)"
  "panics_in A k \<Longrightarrow> (\<And>x. panics_in A (l x)) \<Longrightarrow>
    panics_in A (case v of None \<Rightarrow> k | Some x \<Rightarrow> l x)"
  by (simp_all split: sum.split option.split)

definition derivation_panics :: "string set" where
  "derivation_panics =
     {assert_message ''=='' ''derivation is deterministic'' k k' |k k'. k \<noteq> k'}
     \<union> {assert_message ''!='' ''bindings change the key'' k k |k. True}"

lemma panics_derivation [panics]:
  "k \<noteq> k' \<Longrightarrow> assert_message ''=='' ''derivation is deterministic'' k k' \<in> derivation_panics"
  "k = k' \<Longrightarrow> assert_message ''!='' ''bindings change the key'' k k' \<in> derivation_panics"
  by (auto simp: derivation_panics_def)

lemma panics_derive_keys [panics]: "panics_in derivation_panics (derive_keys env f report)"
  unfolding derive_keys_def Let_def by (intro panics)

lemma panics_compare [panics]: "panics_in A (compare_transport env t nonce report)"
  unfolding compare_transport_def by (intro panics)

text \<open>The assertion on the nonce cannot fail: the library has refused such a report before.\<close>

lemma report_then_assert:
  "io_try (must (Firmware_report os f nonce)) (\<lambda>r. io_try (assert_eq (report_data r) nonce s) (\<lambda>_. g r))
     = io_try (must (Firmware_report os f nonce)) g"
proof
  fix w
  obtain x w' where run: "Firmware_report os f nonce w = (x, w')" by fastforce
  show "io_try (must (Firmware_report os f nonce)) (\<lambda>r. io_try (assert_eq (report_data r) nonce s) (\<lambda>_. g r)) w
     = io_try (must (Firmware_report os f nonce)) g w"
  proof (cases x)
    case (Inr r)
    then have "answers (ReportRequest_from nonce) r"
      using run by (auto simp: Firmware_report_def dest: report_with_Inr)
    then have "report_data r = nonce" by (simp add: answers_def)
    then show ?thesis
      using run Inr by (simp add: io_try_def must_def io_bind_def io_return_def assert_eq_def)
  qed (use run in \<open>simp add: io_try_def must_def io_bind_def io_return_def\<close>)
qed

text \<open>
  C22: the program never panics on a report that is not bound to its nonce, whatever the kernel
  and the device answer.  A panic is a failure to print, two different keys for one request, or
  one key for two requests; in the last two cases the keys are in the message.
\<close>

theorem attest_panics:
  assumes "fst (attest_main env w) = Inl (Panicked s)"
  shows "print_panic s
     \<or> (\<exists>k k'. k \<noteq> k' \<and> s = assert_message ''=='' ''derivation is deterministic'' k k')
     \<or> (\<exists>k. s = assert_message ''!='' ''bindings change the key'' k k)"
proof -
  have "panics_in derivation_panics (attest_with env f nonce)" for f nonce
    unfolding attest_with_def report_then_assert by (intro panics)
  then have "panics_in derivation_panics (attest_main env)"
    unfolding attest_main_def by (intro panics)
  moreover obtain w' where "attest_main env w = (Inl (Panicked s), w')"
    using assms by (cases "attest_main env w") simp
  ultimately have "print_panic s \<or> s \<in> derivation_panics"
    unfolding panics_in_def by blast
  then show ?thesis unfolding derivation_panics_def by blast
qed

text \<open>A terminal that cannot be written to.\<close>

definition mute_env :: "nat env" where
  "mute_env = lab_env lab_key\<lparr>env_os := lab_os\<lparr>os_print := (\<lambda>s k. (Inl (OsError 5), k))\<rparr>\<rparr>"

lemma attest_panics_witness:
  "fst (attest_main mute_env sample_world) = Inl (Panicked ''failed printing to stdout: input/output error'')
     \<and> (print_panic ''failed printing to stdout: input/output error''
       \<or> (\<exists>k k'. k \<noteq> k' \<and> ''failed printing to stdout: input/output error''
            = assert_message ''=='' ''derivation is deterministic'' k k')
       \<or> (\<exists>k. ''failed printing to stdout: input/output error''
            = assert_message ''!='' ''bindings change the key'' k k))"
proof -
  have ends: "fst (attest_main mute_env sample_world)
      = Inl (Panicked ''failed printing to stdout: input/output error'')"
    by (simp add: attest_main_def mute_env_def io_try_def io_bind_def io_return_def println_def
        print_text_def syscall_def print_result_def lab_os_def)
  then show ?thesis using attest_panics [OF ends] by (rule conjI)
qed

section \<open>The program on a working machine\<close>

text \<open>
  A handle whose reports and extended reports succeed, over every nonce, with a report that may
  depend on the nonce and a certificate table that does not.  Both transports provide it: a
  working device by \<open>ioctl_reports\<close>, an undisturbed configfs kernel by \<open>configfs_reports\<close>.
\<close>

definition reports ::
  "'k env \<Rightarrow> (u8 list \<Rightarrow> AttestationReport) \<Rightarrow> CertTable \<Rightarrow> FirmwareHandle \<Rightarrow> bool" where
  "reports env rep t f \<longleftrightarrow>
     (\<forall>nonce. length nonce = 64 \<longrightarrow>
        yields (report_with (env_os env) f (ReportRequest_from nonce)) (Inr (rep nonce)) []
        \<and> yields (extended_report_with (env_os env) f (ReportRequest_from nonce))
            (Inr \<lparr>ext_report = rep nonce, certificates = t\<rparr>) [])"

lemma ioctl_reports:
  assumes "fw_transport f = Ioctl" "fw_ioctl f = Some g" "allocates (env_os env) (sg_device g)"
    and "device_answers (env_os env) (sg_device g) 0xC0205300 96 4000 answer"
    and "device_extends (env_os env) (sg_device g) response certs" "page_sized certs"
    and signed: "\<And>nonce. length nonce = 64 \<Longrightarrow> report_answer answer (ReportRequest_from nonce) = Inr (rep nonce)"
      "\<And>nonce. length nonce = 64 \<Longrightarrow> extended_answer response certs (ReportRequest_from nonce)
        = Inr \<lparr>ext_report = rep nonce, certificates = t\<rparr>"
  shows "reports env rep t f"
  using yields_report_with [OF assms(1-4)] yields_extended_with [OF assms(1-3,5,6)] signed
  unfolding reports_def by metis

lemma configfs_reports:
  assumes "fw_transport f = ConfigFs" "fw_configfs f = Some c"
    and "signs (env_os env) file content sign certs" "counts_writes (env_os env) own other target"
      "undisturbed (env_os env) other"
    and "\<And>nonce. length nonce = 64 \<Longrightarrow> AttestationReport_parse (sign nonce None) = Inr (rep nonce)"
      "\<And>nonce. length nonce = 64 \<Longrightarrow> report_data (rep nonce) = nonce" "CertTable_parse certs = Inr t"
  shows "reports env rep t f"
proof -
  have "configfs_answer sign (ReportRequest_from nonce) = Inr (rep nonce)" if "length nonce = 64" for nonce
    using that assms(6,7) by (intro configfs_answered) (simp_all add: answers_def)
  then show ?thesis
    unfolding reports_def
    using yields_configfs [OF assms(1-5)] assms(8) by (metis try_with_simps(2))
qed

text \<open>
  The handle \<^verbatim>\<open>main\<close> opens: it serves reports through \<open>tr\<close>, asks for VMPL 3 with the outcome \<open>level3\<close>,
  and, if \<open>keyed\<close>, derives the keys \<open>ka\<close>.
\<close>

definition attested ::
  "'k env \<Rightarrow> transport \<Rightarrow> bool \<Rightarrow> (KeyRequest \<Rightarrow> DerivedKey result) \<Rightarrow> (u8 list \<Rightarrow> AttestationReport) \<Rightarrow>
     CertTable \<Rightarrow> AttestationReport result \<Rightarrow> FirmwareHandle \<Rightarrow> bool" where
  "attested env tr keyed ka rep t level3 f \<longleftrightarrow>
     fw_transport f = tr \<and> can_derive_keys f = keyed \<and> reports env rep t f
     \<and> yields (report_with (env_os env) f (ReportRequest_vmpl 3 ReportRequest_new)) level3 []
     \<and> (keyed \<longrightarrow> derives env f ka)"

text \<open>
  What reopening one transport on its own gives: an error, or a handle with reports of its own.  Which
  handle it is may differ from one reopening to the next.
\<close>

type_synonym reopening = "error + (u8 list \<Rightarrow> AttestationReport) \<times> CertTable"

definition reopens :: "'k env \<Rightarrow> transport \<Rightarrow> reopening \<Rightarrow> bool" where
  "reopens env tr reopening \<longleftrightarrow>
     (case reopening of
        Inl e \<Rightarrow> yields (Firmware_open_with (env_os env) tr) (Inl e) []
      | Inr (rep, t) \<Rightarrow> finds (Firmware_open_with (env_os env) tr) (reports env rep t))"

subsection \<open>The lines of a run\<close>

definition opening_lines :: "'k env \<Rightarrow> bool \<Rightarrow> transport \<Rightarrow> string list" where
  "opening_lines env guest tr =
     [capabilities_line (capabilities (env_x86_64 env) (env_cpuid env)) @ newline,
      (''running inside an SNP guest: '' @ debug_bool guest) @ newline,
      (''transport: '' @ transport_debug tr) @ newline]"

definition tcb_lines :: "AttestationReport \<Rightarrow> string list" where
  "tcb_lines report =
     (case reported_tcb_parts report of
        Some parts \<Rightarrow> [(newline @ ''reported TCB: '' @ TcbParts_display parts) @ newline]
      | None \<Rightarrow> [])"

definition certs_line :: "CertTable \<Rightarrow> string" where
  "certs_line t =
     (if CertTable_is_empty t
      then newline @ ''certificates: none provisioned by the host (fetch from AMD KDS)''
      else newline @ ''certificates: '' @ debug_list (map Certificate_debug (CertTable_entries t)))"

definition vmrk_line :: "'k env \<Rightarrow> DerivedKey result \<Rightarrow> string" where
  "vmrk_line env r =
     (case r of
        Inr _ \<Rightarrow> ''VMRK derivation available (guest has a migration agent)''
      | Inl e \<Rightarrow> ''VMRK derivation unavailable, as expected: '' @ error_text env e)"

definition key_lines :: "'k env \<Rightarrow> bool \<Rightarrow> (KeyRequest \<Rightarrow> DerivedKey result) \<Rightarrow> string list" where
  "key_lines env keyed ka =
     (if \<not> f_sev_guest (env_features env)
      then [(newline @ ''key derivation: compiled out (`sev-guest` feature is off)'') @ newline]
      else if \<not> keyed
      then [(newline @ ''key derivation: /dev/sev-guest not open (try as root)'') @ newline]
      else [newline @ ''derived a stable 32-byte key bound to the image'' @ newline,
            vmrk_line env (ka (KeyRequest_root_key Root_Vmrk KeyRequest_new)) @ newline])"

definition level_line :: "'k env \<Rightarrow> AttestationReport result \<Rightarrow> string" where
  "level_line env r =
     (case r of
        Inr r \<Rightarrow> newline @ ''VMPL 3 report obtained, vmpl field = '' @ show_dec (unat (vmpl r))
      | Inl e \<Rightarrow> newline @ ''VMPL 3 report refused: '' @ error_text env e)"

definition transport_line ::
  "'k env \<Rightarrow> transport \<Rightarrow> reopening \<Rightarrow> u8 list \<Rightarrow> AttestationReport \<Rightarrow> string" where
  "transport_line env tr reopening nonce report =
     (case reopening of
        Inl e \<Rightarrow> transport_debug tr @ '': unavailable ('' @ error_text env e @ '')''
      | Inr (rep, t) \<Rightarrow>
          transport_debug tr @ '': report v'' @ show_dec (unat (version (rep nonce)))
          @ '' measurement matches='' @ debug_bool (measurement (rep nonce) = measurement report)
          @ '' certs='' @ show_dec (CertTable_len t))"

definition attest_lines ::
  "'k env \<Rightarrow> bool \<Rightarrow> (KeyRequest \<Rightarrow> DerivedKey result) \<Rightarrow> AttestationReport \<Rightarrow> CertTable \<Rightarrow>
     AttestationReport result \<Rightarrow> (transport \<Rightarrow> reopening) \<Rightarrow> u8 list \<Rightarrow> string list" where
  "attest_lines env keyed ka report t level3 reopening nonce =
     [(newline @ pretty (AttestationReport_debug report)) @ newline]
     @ tcb_lines report
     @ [certs_line t @ newline]
     @ key_lines env keyed ka
     @ [level_line env level3 @ newline, newline]
     @ (if f_configfs (env_features env)
        then [transport_line env ConfigFs (reopening ConfigFs) nonce report @ newline] else [])
     @ (if f_sev_guest (env_features env)
        then [transport_line env Ioctl (reopening Ioctl) nonce report @ newline] else [])"

subsection \<open>The steps of a run\<close>

definition sealing_request :: "AttestationReport \<Rightarrow> KeyRequest" where
  "sealing_request report =
     bind_tcb (reported_tcb report) (bind_guest_policy (bind_measurement KeyRequest_new))"

lemma sealing_built:
  "built (sealing_request report)" "built (bind_family_id (sealing_request report))"
  "sealing_request report \<noteq> bind_family_id (sealing_request report)"
proof -
  show "built (sealing_request report)" unfolding sealing_request_def by (intro built_simps)
  then show "built (bind_family_id (sealing_request report))" by (rule built.family_id)
  show "sealing_request report \<noteq> bind_family_id (sealing_request report)"
    by (simp add: sealing_request_def builder_defs KeyFields_with_def KeyFields_NONE_def wrapping_shl_def)
qed

text \<open>The keys the program can be granted: the sealing key, with and without the family id.\<close>

definition sealable :: "(KeyRequest \<Rightarrow> DerivedKey result) \<Rightarrow> AttestationReport \<Rightarrow> bool" where
  "sealable ka report \<longleftrightarrow>
     collision_free ka \<and> accepted ka (sealing_request report)
     \<and> accepted ka (bind_family_id (sealing_request report))"

lemma yields_asserts:
  "yields (assert_eq bs bs s) (Inr ()) []" "bs \<noteq> bs' \<Longrightarrow> yields (assert_ne bs bs' s) (Inr ()) []"
  by (auto simp: assert_eq_def assert_ne_def)

lemma derived_length:
  assumes "can_derive_keys f" "derives env f ka" "ka q = Inr d"
  shows "length (DerivedKey_as_bytes d) = 32"
proof -
  obtain g where "fw_ioctl f = Some g"
    using assms(1) by (auto simp: can_derive_keys_def)
  then have same: "Firmware_derive_key (env_os env) (env_zeroize env) f q = SevGuest_derive_key (env_os env) (env_zeroize env) g q"
    by (auto simp: Firmware_derive_key_def)
  obtain w' where run: "SevGuest_derive_key (env_os env) (env_zeroize env) g q undefined = (Inr d, w')"
    using assms(2,3) unfolding derives_def yields_def same [symmetric] by metis
  show ?thesis
    using sg.derive_key_Inr [OF run] by (simp add: DerivedKey_as_bytes_def DerivedKey_LEN_def)
qed

text \<open>The two assertions on keys hold, and only whether there is a VMRK is printed of them.\<close>

lemma yields_derive_keys:
  assumes handle: "can_derive_keys f" "derives env f ka" and prints: "prints_ok env"
    and keys: "sealable ka report"
  shows "yields (derive_keys env f report) (Inr ())
    [newline @ ''derived a stable 32-byte key bound to the image'' @ newline,
     vmrk_line env (ka (KeyRequest_root_key Root_Vmrk KeyRequest_new)) @ newline]"
proof -
  let ?vmrk = "KeyRequest_root_key Root_Vmrk KeyRequest_new"
  have derive: "yields (Firmware_derive_key (env_os env) (env_zeroize env) f q) (ka q) []" for q
    using handle(2) by (simp add: derives_def)
  have must: "yields (must (Firmware_derive_key (env_os env) (env_zeroize env) f q)) (Inr d) []"
    if "ka q = Inr d" for q d
    using yields_must [OF derive, of q] that by simp
  obtain d d' where d: "ka (sealing_request report) = Inr d"
    and d': "ka (bind_family_id (sealing_request report)) = Inr d'"
    using keys by (auto simp: sealable_def accepted_key)
  have differ: "DerivedKey_as_bytes d \<noteq> DerivedKey_as_bytes d'"
    using key_bytes_differ [OF _ d d' sealing_built] keys by (simp add: sealable_def)
  have "show_dec 32 = ''32''" by code_simp
  then have line: "show_dec (length (DerivedKey_as_bytes d)) = ''32''"
    using derived_length [OF handle d] by metis
  have last: "yields (io_bind (Firmware_derive_key (env_os env) (env_zeroize env) f ?vmrk) (\<lambda>r.
      case r of Inr _ \<Rightarrow> println env ''VMRK derivation available (guest has a migration agent)''
      | Inl e \<Rightarrow> println env (''VMRK derivation unavailable, as expected: '' @ error_text env e)))
    (Inr ()) ([] @ [vmrk_line env (ka ?vmrk) @ newline])"
    unfolding vmrk_line_def
    by (rule yields_bind [OF derive]) (cases "ka ?vmrk"; simp only: sum.case yields_println [OF prints])
  have can: "\<not> \<not> can_derive_keys f" using handle by simp
  have "yields (derive_keys env f report) (Inr ())
    ([] @ [] @ [] @ [] @ [] @ [(newline @ ''derived a stable '' @ ''32'' @ ''-byte key bound to the image'') @ newline]
      @ [] @ [vmrk_line env (ka ?vmrk) @ newline])"
    unfolding derive_keys_def Let_def sealing_request_def [symmetric] line [symmetric] if_not_P [OF can]
    by (rule yields_try_Inr must d d' yields_asserts refl differ yields_println prints last)+
  then show ?thesis by simp
qed

lemma yields_keys:
  assumes handle: "attested env tr keyed ka rep t level3 f" and prints: "prints_ok env"
    and keys: "f_sev_guest (env_features env) \<Longrightarrow> keyed \<Longrightarrow> sealable ka report"
  shows "yields (if f_sev_guest (env_features env) then derive_keys env f report
      else println env (newline @ ''key derivation: compiled out (`sev-guest` feature is off)''))
    (Inr ()) (key_lines env keyed ka)"
proof -
  have off: "derive_keys env f report
      = println env (newline @ ''key derivation: /dev/sev-guest not open (try as root)'')" if "\<not> keyed"
    using that handle unfolding derive_keys_def attested_def by (simp only: if_True not_False_eq_True)
  have on: "yields (derive_keys env f report) (Inr ())
    [newline @ ''derived a stable 32-byte key bound to the image'' @ newline,
     vmrk_line env (ka (KeyRequest_root_key Root_Vmrk KeyRequest_new)) @ newline]"
    if "f_sev_guest (env_features env)" keyed
    using yields_derive_keys [OF _ _ prints keys [OF that]] handle that by (simp add: attested_def)
  show ?thesis
    unfolding key_lines_def using on off
    by (cases "f_sev_guest (env_features env)"; cases keyed)
      (simp_all only: if_True if_False not_True_eq_False not_False_eq_True yields_println [OF prints])
qed

lemma reports_yields:
  assumes "reports env rep t f" "length nonce = 64"
  shows "yields (must (Firmware_report (env_os env) f nonce)) (Inr (rep nonce)) []"
    and "yields (must (Firmware_extended_report (env_os env) f nonce))
      (Inr \<lparr>ext_report = rep nonce, certificates = t\<rparr>) []"
  using assms yields_must [of "report_with (env_os env) f (ReportRequest_from nonce)" "Inr (rep nonce)" "[]"]
    yields_must [of "extended_report_with (env_os env) f (ReportRequest_from nonce)"
      "Inr \<lparr>ext_report = rep nonce, certificates = t\<rparr>" "[]"]
  by (auto simp: reports_def Firmware_report_def Firmware_extended_report_def)

lemma yields_transport:
  assumes "reopens env tr reopening" "length nonce = 64" "prints_ok env"
  shows "yields (compare_transport env tr nonce report) (Inr ())
    [transport_line env tr reopening nonce report @ newline]"
proof (cases reopening)
  case (Inl e)
  then have failed: "yields (Firmware_open_with (env_os env) tr) (Inl e) []"
    using assms(1) by (simp add: reopens_def)
  have "yields (compare_transport env tr nonce report) (Inr ())
      ([] @ [transport_line env tr reopening nonce report @ newline])"
    unfolding compare_transport_def transport_line_def Inl sum.case
    by (rule yields_bind [OF failed], unfold sum.case) (rule yields_println [OF assms(3)])
  then show ?thesis by simp
next
  case (Inr rt)
  obtain rep t where rt: "rt = (rep, t)" by (cases rt)
  then have opens: "finds (Firmware_open_with (env_os env) tr) (reports env rep t)"
    using assms(1) Inr by (simp add: reopens_def)
  have "yields (compare_transport env tr nonce report) (Inr ())
      ([] @ [] @ [transport_line env tr reopening nonce report @ newline])"
    unfolding compare_transport_def transport_line_def Inr rt sum.case prod.case
  proof (rule yields_bind_finds [OF opens], unfold sum.case)
    fix h
    assume h: "reports env rep t h"
    have table: "certificates \<lparr>ext_report = rep nonce, certificates = t\<rparr> = t" by simp
    show "yields
       (io_try (must (Firmware_report (env_os env) h nonce)) (\<lambda>r.
        io_try (must (Firmware_extended_report (env_os env) h nonce)) (\<lambda>x.
          println env (transport_debug tr @ '': report v'' @ show_dec (unat (version r))
            @ '' measurement matches='' @ debug_bool (measurement r = measurement report)
            @ '' certs='' @ show_dec (CertTable_len (certificates x))))))
       (Inr ())
       ([] @ [] @ [(transport_debug tr @ '': report v'' @ show_dec (unat (version (rep nonce)))
          @ '' measurement matches='' @ debug_bool (measurement (rep nonce) = measurement report)
          @ '' certs='' @ show_dec (CertTable_len t)) @ newline])"
      by (rule yields_try_Inr [OF reports_yields(1) [OF h assms(2)]])
        (rule yields_try_Inr [OF reports_yields(2) [OF h assms(2)]],
          unfold table, rule yields_println [OF assms(3)])
  qed
  then show ?thesis by simp
qed

subsection \<open>The whole run\<close>

lemma yields_attest_with:
  assumes prints: "prints_ok env" and handle: "attested env tr keyed ka rep t level3 f"
    and nonce: "length nonce = 64"
    and keys: "f_sev_guest (env_features env) \<Longrightarrow> keyed \<Longrightarrow> sealable ka (rep nonce)"
    and reopened: "f_configfs (env_features env) \<Longrightarrow> reopens env ConfigFs (op ConfigFs)"
      "f_sev_guest (env_features env) \<Longrightarrow> reopens env Ioctl (op Ioctl)"
  shows "yields (attest_with env f nonce) (Inr ())
    (attest_lines env keyed ka (rep nonce) t level3 op nonce)"
proof -
  note line = yields_println [OF prints]
  have reports: "reports env rep t f"
    and level3: "yields (report_with (env_os env) f (ReportRequest_vmpl 3 ReportRequest_new)) level3 []"
    using handle by (simp_all only: attested_def)
  have tcb: "yields (case reported_tcb_parts report of
      Some parts \<Rightarrow> println env (newline @ ''reported TCB: '' @ TcbParts_display parts)
    | None \<Rightarrow> io_return (Inr ())) (Inr ()) (tcb_lines report)" for report
    unfolding tcb_lines_def
    by (cases "reported_tcb_parts report"; simp only: option.case yields_return line)
  have table: "yields (if CertTable_is_empty t
      then println env (newline @ ''certificates: none provisioned by the host (fetch from AMD KDS)'')
      else println env (newline @ ''certificates: ''
        @ debug_list (map Certificate_debug (CertTable_entries t)))) (Inr ()) [certs_line t @ newline]"
    unfolding certs_line_def by (cases "CertTable_is_empty t"; simp only: if_True if_False line)
  have level: "yields (case r of
        Inr r \<Rightarrow> println env (newline @ ''VMPL 3 report obtained, vmpl field = '' @ show_dec (unat (vmpl r)))
      | Inl e \<Rightarrow> println env (newline @ ''VMPL 3 report refused: '' @ error_text env e)) (Inr ())
      [level_line env r @ newline]" for r
    unfolding level_line_def by (cases r; simp only: sum.case line)
  have blank: "yields (println env []) (Inr ()) [newline]" using line [of "[]"] by simp
  have compared: "yields (if b then compare_transport env tr' nonce (rep nonce) else io_return (Inr ())) (Inr ())
      (if b then [transport_line env tr' (op tr') nonce (rep nonce) @ newline] else [])"
    if "b \<Longrightarrow> reopens env tr' (op tr')" for b tr'
    using that yields_transport [OF _ nonce prints] by (cases b) (simp_all only: if_True if_False yields_return)
  have "yields (attest_with env f nonce) (Inr ())
    ([] @ [(newline @ pretty (AttestationReport_debug (rep nonce))) @ newline] @ tcb_lines (rep nonce) @ []
      @ [certs_line t @ newline] @ key_lines env keyed ka
      @ [] @ [level_line env level3 @ newline] @ [newline]
      @ (if f_configfs (env_features env)
         then [transport_line env ConfigFs (op ConfigFs) nonce (rep nonce) @ newline] else [])
      @ (if f_sev_guest (env_features env)
         then [transport_line env Ioctl (op Ioctl) nonce (rep nonce) @ newline] else []))"
    unfolding attest_with_def report_then_assert
    apply (rule yields_try_Inr [OF reports_yields(1) [OF reports nonce]])
    apply (rule yields_try_Inr [OF line])
    apply (rule yields_try_Inr [OF tcb])
    apply (rule yields_try_Inr [OF reports_yields(2) [OF reports nonce]])
    apply (unfold ExtendedReport.simps)
    apply (rule yields_try_Inr [OF table])
    apply (rule yields_try_Inr [OF yields_keys [OF handle prints keys]], assumption, assumption)
    apply (rule yields_bind [OF level3])
    apply (rule yields_try_Inr [OF level])
    apply (rule yields_try_Inr [OF blank])
    apply (rule yields_try_Inr [OF compared [OF reopened(1)]], assumption)
    apply (rule compared [OF reopened(2)], assumption)
    done
  then show ?thesis unfolding attest_lines_def append.simps append_assoc .
qed

text \<open>
  C23: the attest example as a whole, its main function with every line it prints, in any build.  On
  a machine where the transports opened serve reports, it runs to its end from every state,
  whatever the nonce drawn.  It prints the processor's capabilities, whether this is a guest and the
  transport in use; the report the firmware signed over the nonce, its TCB when the processor is
  known and the host's certificates; that a stable key was derived (or why none could be) and
  whether there is a VMRK; the report for VMPL 3 or its refusal; and for each transport compiled
  in, that it is unavailable or the report's version, whether the measurement agrees and how many
  certificates it gives.  No other line is printed.  Where keys are derived the hypotheses are that
  the sealing requests are granted and that no two requests get the same key.
\<close>

theorem attest_transcript:
  fixes env :: "'k env"
  assumes prints: "prints_ok env"
    and random: "\<And>k. length (fst (env_random env k)) = 64"
    and guest: "yields (is_snp_guest (env_os env) (env_features env) (env_x86_64 env) (env_cpuid env)) guest []"
    and opened: "finds (Firmware_open (env_os env) (env_features env)) (attested env tr keyed ka rep t level3)"
    and reopened: "f_configfs (env_features env) \<Longrightarrow> reopens env ConfigFs (op ConfigFs)"
      "f_sev_guest (env_features env) \<Longrightarrow> reopens env Ioctl (op Ioctl)"
    and keys: "\<And>nonce. f_sev_guest (env_features env) \<Longrightarrow> keyed \<Longrightarrow> length nonce = 64 \<Longrightarrow> sealable ka (rep nonce)"
  shows "\<exists>k w'. attest_main env w = (Inr (), w')
     \<and> printed (log w') = printed (log w) @ opening_lines env guest tr
         @ attest_lines env keyed ka (rep (fst (env_random env k))) t level3 op (fst (env_random env k))"
proof -
  note line = yields_println [OF prints]
  have rest: "ends (attest_with env f (fst (env_random env k)))
      (\<lambda>out. \<exists>k. out = attest_lines env keyed ka (rep (fst (env_random env k))) t level3 op (fst (env_random env k)))"
    if "attested env tr keyed ka rep t level3 f" for f k
    using yields_attest_with [OF prints that random [of k] keys [OF _ _ random [of k]] reopened]
    by (rule ends_yields) auto
  have tr: "Firmware_transport f = tr" if "attested env tr keyed ka rep t level3 f" for f
    using that by (simp add: attested_def Firmware_transport_def)
  have "ends (attest_main env) (\<lambda>out. \<exists>k. out = opening_lines env guest tr
      @ attest_lines env keyed ka (rep (fst (env_random env k))) t level3 op (fst (env_random env k)))"
    unfolding attest_main_def opening_lines_def
    apply (rule ends_try [OF line])
    apply (rule ends_bind [OF guest])
    apply (rule ends_try [OF line])
    apply (rule ends_finds [OF opened])
    apply (simp only: tr)
    apply (rule ends_try [OF line])
    apply (rule ends_random [where Q = "\<lambda>nonce. \<exists>k. nonce = fst (env_random env k)"], blast)
    apply (simp only: append.simps append_Nil list.inject simp_thms)
    apply (elim exE, hypsubst, rule rest, assumption)
    done
  then show ?thesis unfolding ends_def by metis
qed

subsection \<open>A machine with both transports\<close>

definition shelf_env :: "shelf env" where
  "shelf_env =
     \<lparr>env_os = shelf_os, env_features = \<lparr>f_configfs = True, f_sev_guest = True\<rparr>,
      env_zeroize = (\<lambda>bs. replicate (length bs) 0), env_io_text = (\<lambda>_. ''input/output error''),
      env_x86_64 = True,
      env_cpuid = (\<lambda>_. \<lparr>cpuid_eax = 0x8000001F, cpuid_ebx = 0, cpuid_ecx = 0, cpuid_edx = 0\<rparr>),
      env_random = (\<lambda>k. (replicate 64 (of_nat (sh_next k)), k))\<rparr>"

definition shelf_handle :: FirmwareHandle where
  "shelf_handle =
     \<lparr>fw_transport = ConfigFs, fw_configfs = Some \<lparr>cfs_root = REPORT_ROOT\<rparr>, fw_ioctl = Some sample_guest\<rparr>"

lemma shelf_env_simps [simp]:
  "env_os shelf_env = shelf_os" "env_features shelf_env = \<lparr>f_configfs = True, f_sev_guest = True\<rparr>"
  by (simp_all add: shelf_env_def)

lemma shelf_opens:
  "yields (ConfigFs_open shelf_os) (Inr \<lparr>cfs_root = REPORT_ROOT\<rparr>) []"
  "yields (SevGuest_open shelf_os) (Inr sample_guest) []"
proof -
  have provider: "attr_of (path_join (entry_name REPORT_ROOT pid n) ''provider'') = ''provider''" for pid n
    by (rule attr_of_join) (simp_all add: plain_entry_name)
  have name: "utf8_text (bytes_of_string ''sev_guest'') = Inr ''sev_guest''" "trim ''sev_guest'' = ''sev_guest''"
    by code_simp+
  show "yields (ConfigFs_open shelf_os) (Inr \<lparr>cfs_root = REPORT_ROOT\<rparr>) []"
    by (rule yieldsI)
      (simp add: ConfigFs_open_def ConfigFs_open_at_def provider_def with_entry_def Entry_create_def
        Entry_drop_def create_dir_def remove_dir_def read_to_string_def path_is_dir_def io_try_os_def
        io_try_def io_bind_def io_return_def syscall_def shelf_os_def shelf_read_def provider printed_def
        Let_def fs_read_def PROVIDER_def name)
  show "yields (SevGuest_open shelf_os) (Inr sample_guest) []"
    by (rule yieldsI)
      (simp add: SevGuest_open_def SevGuest_open_at_def io_try_os_def io_try_def io_bind_def
        io_return_def open_rw_def syscall_def shelf_os_def sample_guest_def printed_def)
qed

lemma shelf_device:
  "allocates shelf_os fd"
  "device_answers shelf_os fd 0xC0205301 40 64 (lab_answer lab_key)"
  "device_answers shelf_os fd 0xC0205300 96 4000 (\<lambda>bs. Inr (lab_response bs))"
  "device_extends shelf_os fd lab_response lab_certs"
proof -
  show "allocates shelf_os fd"
    by (auto simp: allocates_def shelf_os_def lab_alloc_def fits_def apart_def Let_def
        split: if_splits)
  show "device_answers shelf_os fd 0xC0205301 40 64 (lab_answer lab_key)"
    "device_answers shelf_os fd 0xC0205300 96 4000 (\<lambda>bs. Inr (lab_response bs))"
    "device_extends shelf_os fd lab_response lab_certs"
    by (simp_all add: device_answers_def device_extends_def shelf_os_def lab_ioctl_def lab_answer_def Let_def)
qed

definition shelf_report :: "u8 list \<Rightarrow> AttestationReport" where
  "shelf_report nonce = lab_report (ReportRequest_from nonce)"

definition shelf_table :: CertTable where
  "shelf_table = CertTable [named (VCEK_GUID, replicate 4048 0x30)]"

lemma shelf_answers:
  assumes "length nonce = 64"
  shows "report_answer (\<lambda>bs. Inr (lab_response bs)) (ReportRequest_from nonce) = Inr (shelf_report nonce)"
    "extended_answer lab_response lab_certs (ReportRequest_from nonce)
      = Inr \<lparr>ext_report = shelf_report nonce, certificates = shelf_table\<rparr>"
    "AttestationReport_parse (shelf_sign nonce None) = Inr (shelf_report nonce)"
    "report_data (shelf_report nonce) = nonce"
proof -
  let ?q = "ReportRequest_from nonce"
  have wf: "wf_report_request ?q" using assms by (simp add: wf_report_request_def)
  have answers: "answers ?q (lab_report ?q)" using lab_answers [OF wf] by simp
  then show "report_data (shelf_report nonce) = nonce"
    by (simp add: answers_def shelf_report_def)
  show "report_answer (\<lambda>bs. Inr (lab_response bs)) ?q = Inr (shelf_report nonce)"
    unfolding shelf_report_def
    by (rule signed_answers(1) [where answer = "\<lambda>bs. Inr (lab_response bs)", OF answers refl lab_carries [OF wf]])
  show "extended_answer lab_response lab_certs ?q
      = Inr \<lparr>ext_report = shelf_report nonce, certificates = shelf_table\<rparr>"
    unfolding shelf_report_def shelf_table_def
    by (rule signed_answers(2) [where response = lab_response, OF answers lab_carries [OF wf] lab_table])
  have "valid_report (lab_report ?q)" using lab_carries [OF wf] by (simp add: carries_def)
  moreover have "lab_raw nonce = report_raw (lab_report ?q)"
    by (simp add: lab_report_def lab_raw_def report_req_eq wf assms)
  ultimately show "AttestationReport_parse (shelf_sign nonce None) = Inr (shelf_report nonce)"
    using parse_raw by (simp only: shelf_sign_def shelf_report_def)
qed

lemma shelf_reports:
  "fw_transport f = ConfigFs \<Longrightarrow> fw_configfs f = Some c \<Longrightarrow> reports shelf_env shelf_report shelf_table f"
  "fw_transport f = Ioctl \<Longrightarrow> fw_ioctl f = Some g \<Longrightarrow> reports shelf_env shelf_report shelf_table f"
proof -
  show "reports shelf_env shelf_report shelf_table f" if "fw_transport f = ConfigFs" "fw_configfs f = Some c"
    by (rule configfs_reports [OF that shelf_signs [folded shelf_env_simps(1)]
          shelf_counts [folded shelf_env_simps(1)] shelf_undisturbed [folded shelf_env_simps(1)]])
      (simp_all add: shelf_answers shelf_table_def lab_table)
  show "reports shelf_env shelf_report shelf_table f" if "fw_transport f = Ioctl" "fw_ioctl f = Some g"
    by (rule ioctl_reports [OF that shelf_device(1,3,4) [folded shelf_env_simps(1)]])
      (simp_all add: shelf_answers page_sized_def)
qed

lemma shelf_attested:
  "finds (Firmware_open shelf_os \<lparr>f_configfs = True, f_sev_guest = True\<rparr>)
     (attested shelf_env ConfigFs True (key_answer (lab_answer lab_key)) shelf_report shelf_table
       (configfs_answer shelf_sign (ReportRequest_vmpl 3 ReportRequest_new)))"
proof -
  have handle: "attested shelf_env ConfigFs True (key_answer (lab_answer lab_key)) shelf_report shelf_table
      (configfs_answer shelf_sign (ReportRequest_vmpl 3 ReportRequest_new)) shelf_handle"
  proof -
    have parts: "fw_transport shelf_handle = ConfigFs" "fw_configfs shelf_handle = Some \<lparr>cfs_root = REPORT_ROOT\<rparr>"
      "fw_ioctl shelf_handle = Some sample_guest"
      by (simp_all add: shelf_handle_def)
    have "derives shelf_env shelf_handle (key_answer (lab_answer lab_key))"
      by (rule derives_device [OF parts(3) shelf_device(1,2) [folded shelf_env_simps(1)]])
    moreover have "yields (report_with shelf_os shelf_handle q) (configfs_answer shelf_sign q) []" for q
      by (rule yields_configfs(1) [OF parts(1,2) shelf_signs shelf_counts shelf_undisturbed])
    ultimately show ?thesis
      using parts shelf_reports(1) [OF parts(1,2)] by (simp add: attested_def can_derive_keys_def)
  qed
  have "yields (Firmware_open shelf_os \<lparr>f_configfs = True, f_sev_guest = True\<rparr>) (Inr shelf_handle) []"
  proof (rule yieldsI)
    fix w
    obtain w1 where c: "ConfigFs_open shelf_os w = (Inr \<lparr>cfs_root = REPORT_ROOT\<rparr>, w1)"
      "printed (log w1) = printed (log w)"
      using yieldsD [OF shelf_opens(1), of w] by auto
    obtain w2 where "SevGuest_open shelf_os w1 = (Inr sample_guest, w2)" "printed (log w2) = printed (log w1)"
      using yieldsD [OF shelf_opens(2), of w1] by auto
    then show "\<exists>w'. Firmware_open shelf_os \<lparr>f_configfs = True, f_sev_guest = True\<rparr> w = (Inr shelf_handle, w')
        \<and> printed (log w') = printed (log w) @ []"
      using c by (simp add: Firmware_open_eq [of _ _ _ _ w1] shelf_handle_def)
  qed
  with handle show ?thesis unfolding finds_def yields_def by (metis append_Nil2)
qed

definition shelf_reopening :: "transport \<Rightarrow> reopening" where
  "shelf_reopening tr = Inr (shelf_report, shelf_table)"

lemma shelf_reopens: "reopens shelf_env tr (shelf_reopening tr)"
proof -
  have opens: "yields (Firmware_open_with shelf_os ConfigFs)
      (Inr \<lparr>fw_transport = ConfigFs, fw_configfs = Some \<lparr>cfs_root = REPORT_ROOT\<rparr>, fw_ioctl = None\<rparr>) ([] @ [])"
    "yields (Firmware_open_with shelf_os Ioctl)
      (Inr \<lparr>fw_transport = Ioctl, fw_configfs = None, fw_ioctl = Some sample_guest\<rparr>) ([] @ [])"
    unfolding Firmware_open_with_def transport.case
    by (rule yields_try_Inr [OF shelf_opens(1)], rule yields_return)
      (rule yields_try_Inr [OF shelf_opens(2)], rule yields_return)
  show ?thesis
  proof (cases tr)
    case ConfigFs
    then show ?thesis
      using opens(1) shelf_reports(1) unfolding reopens_def shelf_reopening_def finds_def yields_def
      by (fastforce)
  next
    case Ioctl
    then show ?thesis
      using opens(2) shelf_reports(2) unfolding reopens_def shelf_reopening_def finds_def yields_def
      by (fastforce)
  qed
qed

lemma attest_transcript_witness:
  "\<exists>k w'. attest_main shelf_env shelf_world = (Inr (), w')
     \<and> printed (log w') = opening_lines shelf_env True ConfigFs
         @ attest_lines shelf_env True (key_answer (lab_answer lab_key)) (shelf_report (fst (env_random shelf_env k)))
             shelf_table (configfs_answer shelf_sign (ReportRequest_vmpl 3 ReportRequest_new)) shelf_reopening
             (fst (env_random shelf_env k))"
proof -
  let ?ka = "key_answer (lab_answer lab_key)"
  have prints: "prints_ok shelf_env"
    by (simp add: prints_ok_def shelf_os_def)
  have random: "length (fst (env_random shelf_env k)) = 64" for k
    by (simp add: shelf_env_def)
  have "capabilities True (env_cpuid shelf_env) \<noteq> None \<and> sev_snp (the (capabilities True (env_cpuid shelf_env)))"
    by (simp add: shelf_env_def capabilities_def capabilities_x86_64_def sev_snp_def
        Capabilities_feature_def wrapping_shr_def)
  then have guest: "yields (is_snp_guest (env_os shelf_env) (env_features shelf_env) (env_x86_64 shelf_env)
      (env_cpuid shelf_env)) True []"
    by (intro yieldsI) (auto simp: shelf_env_def is_snp_guest_def any_available_def configfs_available_def
        path_is_dir_def io_bind_def io_return_def syscall_def shelf_os_def printed_def)
  have keys: "accepted ?ka q" if "kr_vmpl q = 0" for q
    using that by (simp add: accepted_key lab_key_answer)
  have sealing: "sealable ?ka (shelf_report nonce)" for nonce
    by (simp add: sealable_def lab_collision_free keys sealing_request_def builder_defs)
  have opened: "finds (Firmware_open (env_os shelf_env) (env_features shelf_env))
     (attested shelf_env ConfigFs True ?ka shelf_report shelf_table
       (configfs_answer shelf_sign (ReportRequest_vmpl 3 ReportRequest_new)))"
    using shelf_attested by simp
  have "printed (log shelf_world) = []" by (simp add: shelf_world_def printed_def)
  then show ?thesis
    using attest_transcript [OF prints random guest opened shelf_reopens shelf_reopens sealing, of shelf_world]
    by (simp only: append_Nil)
qed

end
