(* ===== verification/DeriveKey.thy ===== *)
theory DeriveKey
  imports Console
begin

text \<open>
  \<^verbatim>\<open>examples/derive_key.rs\<close>: the program that demonstrates what the secure processor reproduces.
\<close>

datatype expect = Same | Different

definition key_line :: "string \<Rightarrow> bool \<Rightarrow> expect \<Rightarrow> string" where
  "key_line label identical expect =
     (let held = (case expect of Same \<Rightarrow> identical | Different \<Rightarrow> \<not> identical);
          relation = (if identical then ''identical'' else ''distinct'');
          verdict = (if held then ''ok'' else ''UNEXPECTED'')
      in ''  '' @ pad_right 26 label @ '' '' @ pad_right 9 relation @ '' '' @ verdict)"

definition report_pair ::
  "'k env \<Rightarrow> string \<Rightarrow> DerivedKey \<Rightarrow> DerivedKey \<Rightarrow> expect \<Rightarrow> ('k, unit) program" where
  "report_pair env label left right expect =
     println env (key_line label (DerivedKey_as_bytes left = DerivedKey_as_bytes right) expect)"

definition describe :: "AttestationReport \<Rightarrow> string" where
  "describe report =
     (case product_of report of None \<Rightarrow> ''unknown product'' | Some p \<Rightarrow> Product_display p)"

definition env_derive_key ::
  "'k env \<Rightarrow> FirmwareHandle \<Rightarrow> KeyRequest \<Rightarrow> ('k, DerivedKey result) io" where
  "env_derive_key env firmware request =
     Firmware_derive_key (env_os env) (env_zeroize env) firmware request"

definition determinism :: "'k env \<Rightarrow> FirmwareHandle \<Rightarrow> ('k, unit) program" where
  "determinism env firmware =
     (let request = bind_measurement KeyRequest_new in
      io_try (must (env_derive_key env firmware request)) (\<lambda>first.
      io_try (must (env_derive_key env firmware request)) (\<lambda>second.
      io_try (println env ''determinism'') (\<lambda>_.
        report_pair env ''same request, twice'' first second Same))))"

definition binding_variants :: "(string \<times> KeyRequest) list" where
  "binding_variants =
     (let baseline = KeyRequest_new in
      [(''measurement'', bind_measurement baseline),
       (''guest policy'', bind_guest_policy baseline),
       (''family id'', bind_family_id baseline),
       (''image id'', bind_image_id baseline),
       (''guest svn'', bind_guest_svn 0 baseline)])"

definition binding_sensitivity :: "'k env \<Rightarrow> FirmwareHandle \<Rightarrow> ('k, unit) program" where
  "binding_sensitivity env firmware =
     io_try (must (env_derive_key env firmware KeyRequest_new)) (\<lambda>unbound.
     io_try (println env []) (\<lambda>_.
     io_try (println env ''binding sensitivity (each compared against an unbound key)'') (\<lambda>_.
       for_each (\<lambda>(name, request).
         io_try (must (env_derive_key env firmware request)) (\<lambda>key.
           report_pair env name unbound key Different)) binding_variants)))"

definition levels :: "u32 list" where
  "levels = map word_of_nat [1..<Suc (unat MAX_VMPL)]"

definition privilege_separation :: "'k env \<Rightarrow> FirmwareHandle \<Rightarrow> ('k, unit) program" where
  "privilege_separation env firmware =
     io_try (must (env_derive_key env firmware (KeyRequest_vmpl 0 KeyRequest_new))) (\<lambda>at_vmpl0.
     io_try (println env []) (\<lambda>_.
     io_try (println env ''privilege separation'') (\<lambda>_.
       for_each (\<lambda>level.
         io_bind (env_derive_key env firmware (KeyRequest_vmpl level KeyRequest_new)) (\<lambda>r.
           case r of
             Inr key \<Rightarrow>
               report_pair env (''vmpl 0 vs vmpl '' @ show_dec (unat level)) at_vmpl0 key Different
           | Inl e \<Rightarrow>
               println env (''  vmpl '' @ pad_right 21 (show_dec (unat level)) @ '' refused: ''
                 @ error_text env e))) levels)))"

definition older_tcb :: "AttestationReport \<Rightarrow> TcbVersion" where
  "older_tcb report =
     (let current = reported_tcb report in
      case product_of report of
        None \<Rightarrow> TcbVersion_from_raw (saturating_sub (TcbVersion_raw current) 1)
      | Some product \<Rightarrow>
          let parts = decode current product in
          encode (parts\<lparr>microcode := saturating_sub (microcode parts) 1\<rparr>) product)"

definition rollback_resistance ::
  "'k env \<Rightarrow> FirmwareHandle \<Rightarrow> AttestationReport \<Rightarrow> ('k, unit) program" where
  "rollback_resistance env firmware report =
     (let current = reported_tcb report; older = older_tcb report in
      io_try (println env []) (\<lambda>_.
      io_try (println env ''rollback resistance'') (\<lambda>_.
      io_try (must (env_derive_key env firmware (bind_tcb current KeyRequest_new))) (\<lambda>at_current.
      io_bind (env_derive_key env firmware (bind_tcb older KeyRequest_new)) (\<lambda>r.
        case r of
          Inr at_older \<Rightarrow> report_pair env ''current TCB vs older'' at_current at_older Different
        | Inl e \<Rightarrow> println env (''  older TCB refused by firmware: '' @ error_text env e))))))"

definition root_key_choice :: "'k env \<Rightarrow> FirmwareHandle \<Rightarrow> ('k, unit) program" where
  "root_key_choice env firmware =
     io_try (println env []) (\<lambda>_.
     io_try (println env ''root key choice'') (\<lambda>_.
     io_try (must (env_derive_key env firmware (KeyRequest_root_key Root_Vcek KeyRequest_new))) (\<lambda>vcek.
     io_bind (env_derive_key env firmware (KeyRequest_root_key Root_Vmrk KeyRequest_new)) (\<lambda>r.
       case r of
         Inr vmrk \<Rightarrow> report_pair env ''VCEK vs VMRK'' vcek vmrk Different
       | Inl e \<Rightarrow> println env (''  VMRK unavailable (no migration agent): '' @ error_text env e)))))"

definition refused_bindings ::
  "'k env \<Rightarrow> FirmwareHandle \<Rightarrow> AttestationReport \<Rightarrow> ('k, unit) program" where
  "refused_bindings env firmware report =
     (let above_launch = word_saturating_add (guest_svn report) 1;
          svn_label = ''guest svn '' @ show_dec (unat above_launch);
          too_high = word_saturating_add MAX_VMPL 1;
          vmpl_label = ''vmpl '' @ show_dec (unat too_high)
      in
      io_try (println env []) (\<lambda>_.
      io_try (println env ''bindings the firmware refuses'') (\<lambda>_.
      io_bind (env_derive_key env firmware (bind_guest_svn above_launch KeyRequest_new)) (\<lambda>r.
      io_try
        (case r of
           Inr _ \<Rightarrow>
             println env (''  '' @ pad_right 26 svn_label @ '' accepted (launch svn is ''
               @ show_dec (unat (guest_svn report)) @ '')'')
         | Inl e \<Rightarrow> println env (''  '' @ pad_right 26 svn_label @ '' refused: '' @ error_text env e))
        (\<lambda>_.
      io_bind (env_derive_key env firmware (KeyRequest_vmpl too_high KeyRequest_new)) (\<lambda>r.
        case r of
          Inr _ \<Rightarrow> println env (''  '' @ pad_right 26 vmpl_label @ '' unexpectedly accepted'')
        | Inl e \<Rightarrow> println env (''  '' @ pad_right 26 vmpl_label @ '' refused: '' @ error_text env e)))))))"

definition recommendations :: "(string \<times> string) list" where
  "recommendations =
     [(''.bind_measurement()'', ''dies if the guest image changes''),
      (''.bind_guest_policy()'', ''dies if the VM is relaunched debuggable''),
      (''.bind_tcb(report.reported_tcb())'', ''dies on firmware rollback'')]"

definition demonstrate ::
  "'k env \<Rightarrow> FirmwareHandle \<Rightarrow> ('k, unit) program" where
  "demonstrate env firmware =
     io_try (must (Firmware_report (env_os env) firmware (replicate 64 0))) (\<lambda>report.
     io_try (println env (''platform: '' @ describe report @ '' firmware ''
       @ FirmwareVersion_display (current_firmware report))) (\<lambda>_.
     io_try (println env []) (\<lambda>_.
     io_try (determinism env firmware) (\<lambda>_.
     io_try (binding_sensitivity env firmware) (\<lambda>_.
     io_try (privilege_separation env firmware) (\<lambda>_.
     io_try (rollback_resistance env firmware report) (\<lambda>_.
     io_try (root_key_choice env firmware) (\<lambda>_.
     io_try (refused_bindings env firmware report) (\<lambda>_.
     io_try (println env []) (\<lambda>_.
     io_try (println env ''Recommended sealing key for data at rest:'') (\<lambda>_.
     io_try (println env ''  KeyRequest::new()'') (\<lambda>_.
     io_try (for_each (\<lambda>(call, why).
       println env (''      '' @ pad_right 34 call @ '' // '' @ why)) recommendations) (\<lambda>_.
     io_try (println env []) (\<lambda>_.
       println env ''Feed the result to a KDF or AEAD; do not use it as a cipher key directly.''))))))))))))))"

definition derive_key_main :: "'k env \<Rightarrow> ('k, unit) program" where
  "derive_key_main env =
     io_try (must (Firmware_open (env_os env) (env_features env))) (\<lambda>firmware.
       if \<not> can_derive_keys firmware then
         io_try (println env ''Key derivation needs /dev/sev-guest, which is not open.'') (\<lambda>_.
           println env ''configfs-TSM implements attestation reports only. Try as root.'')
       else demonstrate env firmware)"

section \<open>The transcript on a working device\<close>

definition ok_line :: "string \<Rightarrow> string" where
  "ok_line label = ''  '' @ pad_right 26 label @ '' distinct  ok'' @ newline"

definition same_line :: "string \<Rightarrow> string" where
  "same_line label = ''  '' @ pad_right 26 label @ '' identical ok'' @ newline"

definition alarm_line :: "string \<Rightarrow> string" where
  "alarm_line label = ''  '' @ pad_right 26 label @ '' identical UNEXPECTED'' @ newline"

text \<open>The line on an older TCB that was granted: an alarm when it is the current one.\<close>

definition older_line :: "AttestationReport \<Rightarrow> string" where
  "older_line report =
     (if older_tcb report = reported_tcb report then alarm_line ''current TCB vs older''
      else ok_line ''current TCB vs older'')"

lemma key_line_simps:
  "key_line label False Different @ newline = ok_line label"
  "key_line label True Same @ newline = same_line label"
  "key_line label True Different @ newline = alarm_line label"
proof -
  have "pad_right 9 ''distinct'' = ''distinct ''" "pad_right 9 ''identical'' = ''identical''"
    by code_simp+
  then show "key_line label False Different @ newline = ok_line label"
    "key_line label True Same @ newline = same_line label"
    "key_line label True Different @ newline = alarm_line label"
    by (simp_all add: key_line_def ok_line_def same_line_def alarm_line_def)
qed

text \<open>
  What each section prints, from the report and the refusals alone: no key enters these lines.
\<close>

definition or_refusal :: "'k env \<Rightarrow> string \<Rightarrow> error option \<Rightarrow> string \<Rightarrow> string" where
  "or_refusal env line refused prefix =
     (case refused of None \<Rightarrow> line | Some e \<Rightarrow> prefix @ error_text env e @ newline)"

definition sections ::
  "'k env \<Rightarrow> (KeyRequest \<Rightarrow> error option) \<Rightarrow> AttestationReport \<Rightarrow> string list" where
  "sections env refused report =
     (let next_svn = word_saturating_add (guest_svn report) 1;
          svn_label = pad_right 26 (''guest svn '' @ show_dec (unat next_svn)) in
      [''determinism'' @ newline,
       same_line ''same request, twice'',
       newline, ''binding sensitivity (each compared against an unbound key)'' @ newline,
       ok_line ''measurement'', ok_line ''guest policy'', ok_line ''family id'', ok_line ''image id'',
       ok_line ''guest svn'',
       newline, ''privilege separation'' @ newline]
      @ map (\<lambda>l. or_refusal env (ok_line (''vmpl 0 vs vmpl '' @ show_dec (unat l)))
          (refused (KeyRequest_vmpl l KeyRequest_new))
          (''  vmpl '' @ pad_right 21 (show_dec (unat l)) @ '' refused: '')) [1, 2, 3]
      @ [newline, ''rollback resistance'' @ newline,
         or_refusal env (older_line report)
           (refused (bind_tcb (older_tcb report) KeyRequest_new))
           ''  older TCB refused by firmware: '',
         newline, ''root key choice'' @ newline,
         or_refusal env (ok_line ''VCEK vs VMRK'')
           (refused (KeyRequest_root_key Root_Vmrk KeyRequest_new))
           ''  VMRK unavailable (no migration agent): '',
         newline, ''bindings the firmware refuses'' @ newline,
         or_refusal env
           (''  '' @ svn_label @ '' accepted (launch svn is '' @ show_dec (unat (guest_svn report))
             @ '')'' @ newline)
           (refused (bind_guest_svn next_svn KeyRequest_new)) (''  '' @ svn_label @ '' refused: ''),
         ''  '' @ pad_right 26 ''vmpl 4'' @ '' refused: ''
           @ error_text env (InvalidArgument ''vmpl must be 0..=3'') @ newline])"

lemma yields_env_key: "derives env f ka \<Longrightarrow> yields (env_derive_key env f q) (ka q) []"
  by (simp add: derives_def env_derive_key_def)

lemma yields_required:
  "derives env f ka \<Longrightarrow> ka q = Inr d \<Longrightarrow> yields (must (env_derive_key env f q)) (Inr d) []"
  using yields_must [OF yields_env_key, of env f ka q] by simp

lemma yields_pair:
  assumes "prints_ok env" "collision_free ka" "ka q = Inr d" "ka q' = Inr d'" "built q" "built q'"
    "q \<noteq> q'"
  shows "yields (report_pair env label d d' Different) (Inr ()) [ok_line label]"
  using yields_println [OF assms(1)] key_bytes_differ [OF assms(2-7)]
  by (simp add: report_pair_def key_line_simps flip: key_line_simps(1))

text \<open>A derivation that may be refused, compared with a key in hand.\<close>

lemma yields_compare:
  assumes "prints_ok env" "derives env f ka" "collision_free ka" "ka q = Inr d"
    and "built q" "built q'" "q \<noteq> q'"
  shows "yields (io_bind (env_derive_key env f q') (\<lambda>r.
      case r of Inr key \<Rightarrow> report_pair env label d key Different
      | Inl e \<Rightarrow> println env (prefix @ error_text env e))) (Inr ())
    [or_refusal env (ok_line label) (refusal ka q') prefix]"
proof (rule yields_conv [OF yields_bind [OF yields_env_key [OF assms(2)] yields_case]])
  show "yields (println env (prefix @ error_text env e)) (Inr ()) [(prefix @ error_text env e) @ newline]" for e
    by (rule yields_println [OF assms(1)])
  show "yields (report_pair env label d key Different) (Inr ()) [ok_line label]" if "ka q' = Inr key" for key
    using yields_pair [OF assms(1,3,4) that assms(5-7)] .
qed (simp add: or_refusal_def refusal_def split: sum.split)

lemma bindings_change:
  "bind_measurement KeyRequest_new \<noteq> KeyRequest_new" "bind_guest_policy KeyRequest_new \<noteq> KeyRequest_new"
  "bind_family_id KeyRequest_new \<noteq> KeyRequest_new" "bind_image_id KeyRequest_new \<noteq> KeyRequest_new"
  "bind_guest_svn svn KeyRequest_new \<noteq> KeyRequest_new"
  "KeyRequest_vmpl 0 KeyRequest_new = KeyRequest_new"
  "KeyRequest_root_key Root_Vcek KeyRequest_new = KeyRequest_new"
  "KeyRequest_root_key Root_Vmrk KeyRequest_new \<noteq> KeyRequest_new"
  "l \<noteq> 0 \<Longrightarrow> KeyRequest_vmpl l KeyRequest_new \<noteq> KeyRequest_new"
  "bind_tcb t KeyRequest_new = bind_tcb t' KeyRequest_new \<longleftrightarrow> t = t'"
  by (auto simp: builder_defs KeyFields_with_def KeyFields_NONE_def wrapping_shl_def
      intro: TcbVersion.expand)

lemma yields_determinism:
  assumes "prints_ok env" "derives env f ka" "accepted ka (bind_measurement KeyRequest_new)"
  shows "yields (determinism env f) (Inr ())
    [''determinism'' @ newline, same_line ''same request, twice'']"
proof -
  obtain d where d: "ka (bind_measurement KeyRequest_new) = Inr d"
    using assms(3) accepted_key by blast
  note key = yields_required [OF assms(2) d]
  have pair: "yields (report_pair env label d d Same) (Inr ()) [same_line label]" for label
    using yields_println [OF assms(1)] by (simp add: report_pair_def flip: key_line_simps(2))
  have "yields (determinism env f) (Inr ())
      ([] @ [] @ [''determinism'' @ newline] @ [same_line ''same request, twice''])"
    unfolding determinism_def Let_def
    by (rule yields_try_Inr key pair yields_println [OF assms(1)])+
  then show ?thesis by simp
qed

lemma yields_binding:
  assumes env: "prints_ok env" "derives env f ka" "collision_free ka"
    and ok: "accepted ka KeyRequest_new" "list_all (\<lambda>(n, q). accepted ka q) binding_variants"
  shows "yields (binding_sensitivity env f) (Inr ())
    ([newline, ''binding sensitivity (each compared against an unbound key)'' @ newline]
     @ map (\<lambda>(n, q). ok_line n) binding_variants)"
proof -
  obtain d where d: "ka KeyRequest_new = Inr d" using ok(1) accepted_key by blast
  have each: "yields (io_try (must (env_derive_key env f q)) (\<lambda>key. report_pair env n d key Different))
      (Inr ()) [ok_line n]" if "(n, q) \<in> set binding_variants" for n q
  proof -
    have "built q" "q \<noteq> KeyRequest_new"
      using that
      by (auto simp: binding_variants_def Let_def bindings_change(1-5)
          bindings_change(1-5) [symmetric] intro: built_simps)
    moreover have "accepted ka q"
      using that ok(2) unfolding list_all_iff by fastforce
    then obtain d' where d': "ka q = Inr d'" using accepted_key by blast
    ultimately have "yields (report_pair env n d d' Different) (Inr ()) [ok_line n]"
      using yields_pair [OF env(1,3) d d' built.new] by metis
    from yields_try_Inr [OF yields_required [OF env(2) d'], of "\<lambda>key. report_pair env n d key Different", OF this]
    show ?thesis by simp
  qed
  have "yields (for_each (\<lambda>(n, q). io_try (must (env_derive_key env f q))
      (\<lambda>key. report_pair env n d key Different)) binding_variants) (Inr ())
      (concat (map (\<lambda>(n, q). [ok_line n]) binding_variants))"
    by (rule yields_for_each) (use each in auto)
  moreover have "concat (map (\<lambda>(n, q). [ok_line n]) binding_variants)
      = map (\<lambda>(n, q). ok_line n) binding_variants"
    by (simp add: binding_variants_def Let_def)
  moreover have "yields (println env []) (Inr ()) [newline]"
    using yields_println [OF env(1), of "[]"] by simp
  ultimately have "yields (binding_sensitivity env f) (Inr ())
      ([] @ [newline] @ [''binding sensitivity (each compared against an unbound key)'' @ newline]
       @ map (\<lambda>(n, q). ok_line n) binding_variants)"
    unfolding binding_sensitivity_def
    by - ((rule yields_try_Inr yields_required [OF env(2) d] yields_println [OF env(1)]
        | assumption)+, simp)
  then show ?thesis by simp
qed

lemma yields_privilege:
  assumes env: "prints_ok env" "derives env f ka" "collision_free ka"
    and ok: "accepted ka KeyRequest_new"
  shows "yields (privilege_separation env f) (Inr ())
    ([newline, ''privilege separation'' @ newline]
     @ map (\<lambda>l. or_refusal env (ok_line (''vmpl 0 vs vmpl '' @ show_dec (unat l)))
         (refusal ka (KeyRequest_vmpl l KeyRequest_new))
         (''  vmpl '' @ pad_right 21 (show_dec (unat l)) @ '' refused: '')) [1, 2, 3])"
proof -
  obtain d where d: "ka KeyRequest_new = Inr d" using ok accepted_key by blast
  have levels: "levels = [1, 2, 3]"
    by (simp add: levels_def MAX_VMPL_def upt_rec)
  have each: "yields (io_bind (env_derive_key env f (KeyRequest_vmpl l KeyRequest_new)) (\<lambda>r.
        case r of
          Inl e \<Rightarrow> println env (''  vmpl '' @ pad_right 21 (show_dec (unat l)) @ '' refused: ''
              @ error_text env e)
        | Inr key \<Rightarrow> report_pair env (''vmpl 0 vs vmpl '' @ show_dec (unat l)) d key Different)) (Inr ())
      [or_refusal env (ok_line (''vmpl 0 vs vmpl '' @ show_dec (unat l)))
         (refusal ka (KeyRequest_vmpl l KeyRequest_new))
         (''  vmpl '' @ pad_right 21 (show_dec (unat l)) @ '' refused: '')]"
    if "l \<in> set [1, 2, 3]" for l
  proof -
    have "KeyRequest_new \<noteq> KeyRequest_vmpl l KeyRequest_new"
      using bindings_change(9) [of l] that by fastforce
    then show ?thesis
      using yields_compare [OF env d built.new built.vmpl [OF built.new, of l], where label = "''vmpl 0 vs vmpl '' @ show_dec (unat l)"
          and prefix = "''  vmpl '' @ pad_right 21 (show_dec (unat l)) @ '' refused: ''"]
      by (simp only: append_assoc not_False_eq_True simp_thms)
  qed
  note loop = yields_for_each [OF each]
  have "yields (println env []) (Inr ()) [newline]"
    using yields_println [OF env(1), of "[]"] by simp
  then have "yields (privilege_separation env f) (Inr ())
      ([] @ [newline] @ [''privilege separation'' @ newline]
       @ concat (map (\<lambda>l. [or_refusal env (ok_line (''vmpl 0 vs vmpl '' @ show_dec (unat l)))
           (refusal ka (KeyRequest_vmpl l KeyRequest_new))
           (''  vmpl '' @ pad_right 21 (show_dec (unat l)) @ '' refused: '')]) [1, 2, 3]))"
    unfolding privilege_separation_def levels bindings_change
    by - (rule yields_try_Inr yields_required [OF env(2) d] loop yields_println [OF env(1)]
        | assumption)+
  then show ?thesis by simp
qed

lemma yields_blank: "prints_ok env \<Longrightarrow> yields (println env []) (Inr ()) [newline]"
  using yields_println [of env "[]"] by simp

text \<open>
  When the reported TCB cannot be stepped down, because its microcode version or, on a version 2
  report, the whole word is zero, the "older" request is the same one.
\<close>

lemma older_tcb_saturates:
  "product_of report = None \<Longrightarrow>
   older_tcb report = reported_tcb report \<longleftrightarrow> raw (reported_tcb report) = 0"
  by (cases "reported_tcb report")
    (auto simp: older_tcb_def Let_def TcbVersion_raw_def TcbVersion_from_raw_def saturating_sub_def
      diff_eq_eq)

lemma yields_older:
  assumes env: "prints_ok env" "derives env f ka" "collision_free ka"
    and d: "ka (bind_tcb (reported_tcb report) KeyRequest_new) = Inr d"
  shows "yields (io_bind (env_derive_key env f (bind_tcb (older_tcb report) KeyRequest_new)) (\<lambda>r.
      case r of Inr key \<Rightarrow> report_pair env ''current TCB vs older'' d key Different
      | Inl e \<Rightarrow> println env (''  older TCB refused by firmware: '' @ error_text env e))) (Inr ())
    [or_refusal env (older_line report) (refusal ka (bind_tcb (older_tcb report) KeyRequest_new))
      ''  older TCB refused by firmware: '']"
proof (cases "older_tcb report = reported_tcb report")
  case True
  have again: "yields (env_derive_key env f (bind_tcb (reported_tcb report) KeyRequest_new)) (Inr d) []"
    using yields_env_key [OF env(2), of "bind_tcb (reported_tcb report) KeyRequest_new"] d by simp
  have line: "yields (case Inr d of Inr key \<Rightarrow> report_pair env ''current TCB vs older'' d key Different
      | Inl e \<Rightarrow> println env (''  older TCB refused by firmware: '' @ error_text env e)) (Inr ())
      [alarm_line ''current TCB vs older'']"
    using yields_println [OF env(1)]
    by (simp only: sum.case report_pair_def refl simp_thms key_line_simps(3) [symmetric])
  have "older_line report = alarm_line ''current TCB vs older''"
    "refusal ka (bind_tcb (reported_tcb report) KeyRequest_new) = None"
    using True d by (simp_all add: older_line_def refusal_def)
  then have out: "[or_refusal env (older_line report) (refusal ka (bind_tcb (reported_tcb report) KeyRequest_new))
      ''  older TCB refused by firmware: ''] = [] @ [alarm_line ''current TCB vs older'']"
    by (simp only: or_refusal_def option.case append_Nil)
  show ?thesis
    unfolding True out by (rule yields_bind [where x = "Inr d", OF again], rule line)
next
  case False
  then have differ: "bind_tcb (reported_tcb report) KeyRequest_new \<noteq> bind_tcb (older_tcb report) KeyRequest_new"
    by (simp add: bindings_change)
  from False have line: "older_line report = ok_line ''current TCB vs older''"
    by (simp add: older_line_def)
  show ?thesis
    unfolding line
    by (rule yields_compare [OF env d built.tcb built.tcb differ, OF built.new built.new])
qed

lemma yields_rollback:
  assumes env: "prints_ok env" "derives env f ka" "collision_free ka"
    and ok: "accepted ka (bind_tcb (reported_tcb report) KeyRequest_new)"
  shows "yields (rollback_resistance env f report) (Inr ())
    [newline, ''rollback resistance'' @ newline,
     or_refusal env (older_line report) (refusal ka (bind_tcb (older_tcb report) KeyRequest_new))
       ''  older TCB refused by firmware: '']"
proof -
  obtain d where d: "ka (bind_tcb (reported_tcb report) KeyRequest_new) = Inr d"
    using ok accepted_key by blast
  have "yields (rollback_resistance env f report) (Inr ())
     ([newline] @ [''rollback resistance'' @ newline] @ []
      @ [or_refusal env (older_line report) (refusal ka (bind_tcb (older_tcb report) KeyRequest_new))
           ''  older TCB refused by firmware: ''])"
    unfolding rollback_resistance_def Let_def
    by (rule yields_try_Inr yields_blank [OF env(1)] yields_println [OF env(1)]
        yields_required [OF env(2) d] yields_older [OF env d])+
  then show ?thesis by simp
qed

lemma yields_root_key:
  assumes env: "prints_ok env" "derives env f ka" "collision_free ka"
    and ok: "accepted ka KeyRequest_new"
  shows "yields (root_key_choice env f) (Inr ())
    [newline, ''root key choice'' @ newline,
     or_refusal env (ok_line ''VCEK vs VMRK'')
       (refusal ka (KeyRequest_root_key Root_Vmrk KeyRequest_new))
       ''  VMRK unavailable (no migration agent): '']"
proof -
  obtain d where d: "ka KeyRequest_new = Inr d" using ok accepted_key by blast
  note pair = yields_compare [OF env d built.new built.root bindings_change(8) [symmetric], OF built.new]
  have "yields (root_key_choice env f) (Inr ())
     ([newline] @ [''root key choice'' @ newline] @ []
      @ [or_refusal env (ok_line ''VCEK vs VMRK'')
           (refusal ka (KeyRequest_root_key Root_Vmrk KeyRequest_new))
           ''  VMRK unavailable (no migration agent): ''])"
    unfolding root_key_choice_def bindings_change(7)
    by (rule yields_try_Inr yields_blank [OF env(1)] yields_println [OF env(1)]
        yields_required [OF env(2) d] pair)+
  then show ?thesis by simp
qed

lemma yields_either:
  assumes "prints_ok env" "derives env f ka"
  shows "yields (io_bind (env_derive_key env f q) (\<lambda>r.
      case r of Inr _ \<Rightarrow> println env line | Inl e \<Rightarrow> println env (prefix @ error_text env e))) (Inr ())
    [or_refusal env (line @ newline) (refusal ka q) prefix]"
proof (rule yields_conv [OF yields_bind [OF yields_env_key [OF assms(2)] yields_case]])
  show "yields (println env (prefix @ error_text env e)) (Inr ()) [(prefix @ error_text env e) @ newline]" for e
    by (rule yields_println [OF assms(1)])
  show "yields (println env line) (Inr ()) [line @ newline]"
    by (rule yields_println [OF assms(1)])
qed (simp add: or_refusal_def refusal_def split: sum.split)

lemma io_bind_try: "io_bind m (\<lambda>r. io_try (g r) h) = io_try (io_bind m g) h"
  by (rule ext) (simp add: io_bind_def io_try_def split: prod.split)

lemma yields_refused:
  assumes env: "prints_ok env" "derives env f ka"
    and high: "ka (KeyRequest_vmpl 4 KeyRequest_new) = Inl (InvalidArgument ''vmpl must be 0..=3'')"
    and next_svn: "next_svn = word_saturating_add (guest_svn report) 1"
      "svn_label = pad_right 26 (''guest svn '' @ show_dec (unat next_svn))"
  shows "yields (refused_bindings env f report) (Inr ())
    [newline, ''bindings the firmware refuses'' @ newline,
     or_refusal env
       (''  '' @ svn_label @ '' accepted (launch svn is '' @ show_dec (unat (guest_svn report))
         @ '')'' @ newline)
       (refusal ka (bind_guest_svn next_svn KeyRequest_new)) (''  '' @ svn_label @ '' refused: ''),
     ''  '' @ pad_right 26 ''vmpl 4'' @ '' refused: ''
       @ error_text env (InvalidArgument ''vmpl must be 0..=3'') @ newline]"
proof -
  have four: "word_saturating_add MAX_VMPL 1 = 4"
    by (simp add: word_saturating_add_def MAX_VMPL_def)
  have label: "''vmpl '' @ show_dec (unat (4 :: u32)) = ''vmpl 4''"
    by code_simp
  note svn = yields_either [OF env, where q = "bind_guest_svn next_svn KeyRequest_new"
      and line = "''  '' @ svn_label @ '' accepted (launch svn is '' @ show_dec (unat (guest_svn report)) @ '')''"
      and prefix = "''  '' @ svn_label @ '' refused: ''", unfolded append_assoc]
  note last = yields_either [OF env, where q = "KeyRequest_vmpl 4 KeyRequest_new"
      and line = "''  '' @ pad_right 26 ''vmpl 4'' @ '' unexpectedly accepted''"
      and prefix = "''  '' @ pad_right 26 ''vmpl 4'' @ '' refused: ''", unfolded append_assoc]
  have "yields (refused_bindings env f report) (Inr ())
    ([newline] @ [''bindings the firmware refuses'' @ newline]
     @ [or_refusal env
         (''  '' @ svn_label @ '' accepted (launch svn is '' @ show_dec (unat (guest_svn report))
           @ '')'' @ newline)
         (refusal ka (bind_guest_svn next_svn KeyRequest_new)) (''  '' @ svn_label @ '' refused: '')]
     @ [or_refusal env (''  '' @ pad_right 26 ''vmpl 4'' @ '' unexpectedly accepted'' @ newline)
         (refusal ka (KeyRequest_vmpl 4 KeyRequest_new)) (''  '' @ pad_right 26 ''vmpl 4'' @ '' refused: '')])"
    unfolding refused_bindings_def Let_def four label io_bind_try
    unfolding next_svn(1) [symmetric] next_svn(2) [symmetric]
    by (rule yields_try_Inr yields_blank [OF env(1)] yields_println [OF env(1)] svn last)+
  then show ?thesis
    by (simp add: or_refusal_def refusal_def high)
qed

text \<open>The derivations \<open>demonstrate\<close> cannot do without.\<close>

definition required_keys :: "AttestationReport \<Rightarrow> KeyRequest list" where
  "required_keys report =
     [KeyRequest_new, bind_measurement KeyRequest_new, bind_guest_policy KeyRequest_new,
      bind_family_id KeyRequest_new, bind_image_id KeyRequest_new, bind_guest_svn 0 KeyRequest_new,
      bind_tcb (reported_tcb report) KeyRequest_new]"

definition transcript ::
  "'k env \<Rightarrow> (KeyRequest \<Rightarrow> error option) \<Rightarrow> AttestationReport \<Rightarrow> string list" where
  "transcript env refused report =
     [''platform: '' @ describe report @ '' firmware ''
        @ FirmwareVersion_display (current_firmware report) @ newline, newline]
     @ sections env refused report
     @ [newline, ''Recommended sealing key for data at rest:'' @ newline,
        ''  KeyRequest::new()'' @ newline]
     @ map (\<lambda>(call, why). ''      '' @ pad_right 34 call @ '' // '' @ why @ newline) recommendations
     @ [newline,
        ''Feed the result to a KDF or AEAD; do not use it as a cipher key directly.'' @ newline]"

lemma yields_demonstrate:
  assumes env: "prints_ok env" "derives env f ka" "collision_free ka"
    and high: "ka (KeyRequest_vmpl 4 KeyRequest_new) = Inl (InvalidArgument ''vmpl must be 0..=3'')"
    and report: "yields (Firmware_report (env_os env) f (replicate 64 0)) (Inr report) []"
    and keys: "list_all (accepted ka) (required_keys report)"
  shows "yields (demonstrate env f) (Inr ()) (transcript env (refusal ka) report)"
proof -
  have variants: "list_all (\<lambda>(n, q). accepted ka q) binding_variants"
    and ok: "accepted ka KeyRequest_new" "accepted ka (bind_measurement KeyRequest_new)"
      "accepted ka (bind_tcb (reported_tcb report) KeyRequest_new)"
    using keys by (simp_all add: required_keys_def binding_variants_def Let_def)
  have got: "yields (must (Firmware_report (env_os env) f (replicate 64 0))) (Inr report) []"
    using yields_must [OF report] by simp
  have advice: "yields (for_each (\<lambda>(call, why). println env (''      '' @ pad_right 34 call @ '' // '' @ why))
      recommendations) (Inr ())
      (concat (map (\<lambda>(call, why). [''      '' @ pad_right 34 call @ '' // '' @ why @ newline]) recommendations))"
    by (rule yields_for_each, clarify)
      (rule yields_conv [OF yields_println [OF env(1)]], simp)
  note parts = got yields_determinism [OF env(1,2) ok(2)] yields_binding [OF env ok(1) variants]
    yields_privilege [OF env ok(1)] yields_rollback [OF env ok(3)] yields_root_key [OF env ok(1)]
    yields_refused [OF env(1,2) high refl refl] advice yields_blank [OF env(1)]
  show ?thesis
    unfolding demonstrate_def
    by (rule yields_conv, (rule yields_try_Inr parts yields_println [OF env(1)])+)
      (simp add: transcript_def sections_def Let_def binding_variants_def recommendations_def)
qed

section \<open>The program on a working device\<close>

lemma yields_firmware_report:
  assumes "fw_transport f = Ioctl" "fw_ioctl f = Some g" "allocates os (sg_device g)"
    and "device_answers os (sg_device g) 0xC0205300 96 4000 answer"
    and "answer (report_req (ReportRequest_from d)) = Inr bytes" "carries bytes r"
      "answers (ReportRequest_from d) r"
  shows "yields (Firmware_report os f d) (Inr r) []"
  using yields_report_with [OF assms(1-4), of "ReportRequest_from d"] signed_answers(1) [where answer = answer, OF assms(7,5,6)]
  by (simp add: Firmware_report_def)

lemma refused_level: "key_answer answer (KeyRequest_vmpl 4 q) = Inl (InvalidArgument ''vmpl must be 0..=3'')"
  by (simp add: key_answer_def KeyRequest_vmpl_def)

text \<open>
  C21: what \<^verbatim>\<open>examples/derive_key.rs\<close> prints once it holds a handle with the key device, whichever
  transport serves the report, if the report operation succeeds, the device never gives the same
  key for two different requests, and it grants the seven requests the program cannot do
  without.  It runs to the end; each line is a function of the report and of which requests the
  device refuses, with no key in it.  Every comparison of keys says "ok", with one
  exception: where stepping the reported TCB down leaves it as it is, the section on rollback
  compares a request with itself and says "UNEXPECTED" although the device is right.
\<close>

theorem derive_key_transcript:
  assumes opened: "Firmware_open (env_os env) (env_features env) w = (Inr f, w1)"
    and handle: "fw_ioctl f = Some g"
    and system: "prints_ok env" "allocates (env_os env) (sg_device g)"
    and device: "device_answers (env_os env) (sg_device g) 0xC0205301 40 64 answer"
    and report: "yields (Firmware_report (env_os env) f (replicate 64 0)) (Inr report) []"
    and keys: "collision_free (key_answer answer)"
      "list_all (accepted (key_answer answer)) (required_keys report)"
  shows "\<exists>w'. derive_key_main env w = (Inr (), w')
     \<and> printed (log w') = printed (log w1) @ transcript env (refusal (key_answer answer)) report"
proof -
  have "yields (demonstrate env f) (Inr ()) (transcript env (refusal (key_answer answer)) report)"
    by (rule yields_demonstrate [OF system(1) derives_device [OF handle system(2) device] keys(1)
        refused_level report keys(2)])
  moreover have "derive_key_main env w = demonstrate env f w1"
    using opened handle
    by (simp add: derive_key_main_def must_def io_try_def io_bind_def can_derive_keys_def)
  ultimately show ?thesis using yieldsD [of "demonstrate env f" "Inr ()" _ w1] by simp
qed

section \<open>The program in the laboratory\<close>

lemma lab_open:
  obtains w1 where "Firmware_open (lab_with key) \<lparr>f_configfs = False, f_sev_guest = True\<rparr> w
      = (Inr sample_handle, w1)" "printed (log w1) = printed (log w)"
proof -
  obtain w1 where dev: "SevGuest_open (lab_with key) w = (Inr sample_guest, w1)"
    and quiet: "printed (log w1) = printed (log w)"
    by (simp add: SevGuest_open_def SevGuest_open_at_def io_try_os_def io_try_def io_bind_def
        open_rw_def syscall_def lab_with_def sample_os_def sample_guest_def printed_def)
  have "Firmware_open (lab_with key) \<lparr>f_configfs = False, f_sev_guest = True\<rparr> w = (Inr sample_handle, w1)"
    using Firmware_open_eq [of "\<lparr>f_configfs = False, f_sev_guest = True\<rparr>" "lab_with key" w
        "Inl NoBackend" w "Inr sample_guest" w1] dev by (simp add: sample_handle_def)
  then show thesis using that quiet by blast
qed

lemma zero_request: "wf_report_request (ReportRequest_from (replicate 64 0))"
  by (simp add: wf_report_request_def)

lemma lab_late_fields:
  assumes "144 \<le> i" "i + n \<le> 1184"
  shows "field n (lab_report q) i = field n milan_report i"
proof -
  have "drop i (lab_raw bs) = drop i MILAN_V5" if "64 \<le> length bs" for bs
    using assms that by (simp add: lab_raw_def)
  then show ?thesis
    using assms by (simp add: field_eq lab_report_def milan_report_def)
qed

lemma lab_tcb:
  assumes "wf_report_request q"
  shows "older_tcb (lab_report q) \<noteq> reported_tcb (lab_report q)"
proof -
  have words: "report_u64_at (lab_report q) 0x180 = 0xDE1D000000000004"
    "field 3 (lab_report q) 0x188 = [25, 1, 1]"
    by (simp_all add: report_u64_at_def lab_late_fields milan_field MILAN_V5_def milan_tcb_def
        from_le_bytes_Cons)
  have product: "product_of (lab_report q) = Some Milan"
    using lab_fields(3) [OF assms] words(2)
    by (simp add: product_of_def cpuid_fms_def Let_def then_some_def Product_from_fms_def Fms_new_def)
  have bytes: "to_le_bytes (0xDE1D000000000004 :: u64) = [4, 0, 0, 0, 0, 0, 29, 222]"
    by (simp add: to_le_bytes_u64)
  have "older_tcb (lab_report q) = TcbVersion (from_le_bytes [4, 0, 0, 0, 0, 0, 29, 221])"
    by (simp add: older_tcb_def Let_def product reported_tcb_def words TcbVersion_from_raw_def
        decode_def Product_tcb_layout_def bytes encode_def saturating_sub_def)
  then show ?thesis
    by (simp add: reported_tcb_def words TcbVersion_from_raw_def from_le_bytes_Cons)
qed

lemma derive_key_transcript_witness:
  "\<exists>w'. derive_key_main (lab_env lab_key) sample_world = (Inr (), w')
     \<and> same_line ''same request, twice'' \<in> set (printed (log w'))
     \<and> ok_line ''current TCB vs older'' \<in> set (printed (log w'))"
proof -
  obtain w1 where opened: "Firmware_open (env_os (lab_env lab_key)) (env_features (lab_env lab_key)) sample_world
      = (Inr sample_handle, w1)"
    using lab_open [of lab_key sample_world] by auto
  have handle: "fw_transport sample_handle = Ioctl" "fw_ioctl sample_handle = Some sample_guest"
    by (simp_all add: sample_handle_def)
  let ?q = "ReportRequest_from (replicate 64 0)"
  have signed: "carries (lab_response (report_req ?q)) (lab_report ?q)" "answers ?q (lab_report ?q)"
    using zero_request by (simp_all add: lab_carries lab_answers)
  have report: "yields (Firmware_report (env_os (lab_env lab_key)) sample_handle (replicate 64 0))
      (Inr (lab_report ?q)) []"
    using yields_firmware_report [OF handle lab_with_allocates lab_with_device(2) refl signed] by simp
  have keys: "list_all (accepted (key_answer (lab_answer lab_key))) (required_keys (lab_report ?q))"
    by (simp add: required_keys_def accepted_key lab_key_answer builder_defs)
  have device: "device_answers (env_os (lab_env lab_key)) (sg_device sample_guest) 0xC0205301 40 64
      (lab_answer lab_key)"
    using lab_with_device(1) [of lab_key] by (simp add: lab_answer_def [abs_def])
  have older: "older_line (lab_report ?q) = ok_line ''current TCB vs older''"
    using lab_tcb [OF zero_request] by (simp add: older_line_def)
  show ?thesis
    using derive_key_transcript [OF opened handle(2) lab_prints _ device report lab_collision_free keys]
      lab_with_allocates
    by (auto simp: transcript_def sections_def Let_def older or_refusal_def refusal_def lab_key_answer
        builder_defs)
qed

end
