(* ===== verification/Secrecy.thy ===== *)
theory Secrecy
  imports DeriveKey
begin

text \<open>
  Key material stays off the terminal.  Two systems whose keys differ by an injective renaming
  are run side by side: the programs compare keys with each other but print none of them, so both
  systems print the same lines.
\<close>

section \<open>Runs that cannot be told apart\<close>

text \<open>
  Two runs are alike when both have a fixed outcome, print the same lines and end in related
  results.
\<close>

definition alike :: "('a \<Rightarrow> 'b \<Rightarrow> bool) \<Rightarrow> ('k, 'a) io \<Rightarrow> ('l, 'b) io \<Rightarrow> bool" where
  "alike R m m' \<longleftrightarrow> (\<exists>r r' out. yields m r out \<and> yields m' r' out \<and> R r r')"

lemma alikeI: "yields m r out \<Longrightarrow> yields m' r' out \<Longrightarrow> R r r' \<Longrightarrow> alike R m m'"
  unfolding alike_def by blast

lemma alikeE:
  assumes "alike R m m'"
  obtains r r' out where "yields m r out" "yields m' r' out" "R r r'"
  using assms unfolding alike_def by blast

lemma alike_bind:
  assumes "alike R m m'" "\<And>x y. R x y \<Longrightarrow> alike S (g x) (g' y)"
  shows "alike S (io_bind m g) (io_bind m' g')"
proof -
  obtain x y out where first: "yields m x out" "yields m' y out" "R x y"
    using assms(1) by (rule alikeE)
  obtain z z' out' where "yields (g x) z out'" "yields (g' y) z' out'" "S z z'"
    using assms(2) [OF first(3)] by (rule alikeE)
  then show ?thesis
    by (rule alikeI [OF yields_bind [OF first(1)] yields_bind [OF first(2)]])
qed

lemma alike_return: "R x y \<Longrightarrow> alike R (io_return x) (io_return y)"
  by (rule alikeI [where out = "[]"]) auto

lemma alike_try:
  assumes "alike (rel_sum E R) m m'" "\<And>x y. R x y \<Longrightarrow> alike (rel_sum E S) (g x) (g' y)"
  shows "alike (rel_sum E S) (io_try m g) (io_try m' g')"
  unfolding io_try_def
proof (rule alike_bind [OF assms(1)])
  fix r r'
  assume "rel_sum E R r r'"
  then show "alike (rel_sum E S) (case r of Inl e \<Rightarrow> io_return (Inl e) | Inr x \<Rightarrow> g x)
      (case r' of Inl e \<Rightarrow> io_return (Inl e) | Inr x \<Rightarrow> g' x)"
    using assms(2) by cases (auto intro: alike_return)
qed

section \<open>Systems that differ in their keys only\<close>

definition same_but_keys ::
  "(DerivedKey \<Rightarrow> DerivedKey) \<Rightarrow> 'k env \<Rightarrow> FirmwareHandle \<Rightarrow> 'l env \<Rightarrow> FirmwareHandle \<Rightarrow> bool" where
  "same_but_keys \<pi> env f env' f' \<longleftrightarrow>
     inj \<pi> \<and> prints_ok env \<and> prints_ok env' \<and> env_io_text env = env_io_text env'
     \<and> (\<exists>ka. derives env f ka \<and> derives env' f' (map_sum id \<pi> \<circ> ka))"

abbreviation unit_alike :: "('k, unit) program \<Rightarrow> ('l, unit) program \<Rightarrow> bool" where
  "unit_alike \<equiv> alike (rel_sum (=) (=))"

lemma alike_println:
  "same_but_keys \<pi> env f env' f' \<Longrightarrow> unit_alike (println env line) (println env' line)"
  unfolding same_but_keys_def by (auto intro: alikeI yields_println)

lemma alike_key:
  assumes "same_but_keys \<pi> env f env' f'"
  shows "alike (rel_sum (=) (\<lambda>d d'. d' = \<pi> d)) (env_derive_key env f q) (env_derive_key env' f' q)"
proof -
  obtain ka where ka: "derives env f ka" "derives env' f' (map_sum id \<pi> \<circ> ka)"
    using assms by (auto simp: same_but_keys_def)
  have "yields (env_derive_key env f q) (ka q) []"
    "yields (env_derive_key env' f' q) (map_sum id \<pi> (ka q)) []"
    using yields_env_key [OF ka(1), of q] yields_env_key [OF ka(2), of q] by simp_all
  then show ?thesis
    by (rule alikeI) (cases "ka q"; simp)
qed

lemma alike_must:
  assumes "alike (rel_sum (=) R) m m'"
  shows "alike (rel_sum (=) R) (must m) (must m')"
proof -
  obtain r r' out where both: "yields m r out" "yields m' r' out" "rel_sum (=) R r r'"
    using assms by (rule alikeE)
  from both(3) have "rel_sum (=) R (to_stop r) (to_stop r')" by cases auto
  then show ?thesis
    by (rule alikeI [OF yields_must [OF both(1)] yields_must [OF both(2)]])
qed

lemma alike_pair:
  assumes "same_but_keys \<pi> env f env' f'"
  shows "unit_alike (report_pair env label d e x) (report_pair env' label (\<pi> d) (\<pi> e) x)"
proof -
  have "(DerivedKey_as_bytes d = DerivedKey_as_bytes e)
      = (DerivedKey_as_bytes (\<pi> d) = DerivedKey_as_bytes (\<pi> e))"
    using assms unfolding DerivedKey_as_bytes_def same_but_keys_def
    by (metis DerivedKey.expand injD)
  then show ?thesis
    using alike_println [OF assms] by (simp add: report_pair_def)
qed

lemma alike_for_each:
  "(\<And>x. unit_alike (body x) (body' x)) \<Longrightarrow> unit_alike (for_each body xs) (for_each body' xs)"
  by (induction xs) (auto intro: alike_return alike_try)

lemma alike_error_text: "same_but_keys \<pi> env f env' f' \<Longrightarrow> error_text env' = error_text env"
  by (simp add: error_text_def [abs_def] same_but_keys_def)

text \<open>A derivation that may be refused.\<close>

lemma alike_split:
  assumes "rel_sum (=) (\<lambda>d d'. d' = \<pi> d) r r'"
    and "\<And>d. unit_alike (g d) (g' (\<pi> d))" "\<And>e. unit_alike (h e) (h' e)"
  shows "unit_alike (case r of Inr d \<Rightarrow> g d | Inl e \<Rightarrow> h e) (case r' of Inr d \<Rightarrow> g' d | Inl e \<Rightarrow> h' e)"
  using assms by (cases r; cases r') auto

lemma alike_cases:
  assumes "same_but_keys \<pi> env f env' f'"
    and "\<And>d. unit_alike (g d) (g' (\<pi> d))" "\<And>e. unit_alike (h e) (h' e)"
  shows "unit_alike
    (io_bind (env_derive_key env f q) (\<lambda>r. case r of Inr d \<Rightarrow> g d | Inl e \<Rightarrow> h e))
    (io_bind (env_derive_key env' f' q) (\<lambda>r. case r of Inr d \<Rightarrow> g' d | Inl e \<Rightarrow> h' e))"
  by (rule alike_bind [OF alike_key [OF assms(1)]], erule alike_split) (rule assms)+

text \<open>The bind and the key steps of a program, in one rule each.\<close>

lemma alike_line:
  assumes "same_but_keys \<pi> env f env' f'" "unit_alike m m'"
  shows "unit_alike (io_try (println env line) (\<lambda>_. m)) (io_try (println env' line) (\<lambda>_. m'))"
  by (rule alike_try [OF alike_println [OF assms(1)]]) (rule assms(2))

lemma alike_first:
  assumes "same_but_keys \<pi> env f env' f'" "\<And>d. unit_alike (g d) (g' (\<pi> d))"
  shows "unit_alike (io_try (must (env_derive_key env f q)) g) (io_try (must (env_derive_key env' f' q)) g')"
  by (rule alike_try [OF alike_must [OF alike_key [OF assms(1)]]]) (simp add: assms(2))

lemma alike_seq:
  assumes "unit_alike m m'" "unit_alike n n'"
  shows "unit_alike (io_try m (\<lambda>_. n)) (io_try m' (\<lambda>_. n'))"
  by (rule alike_try [OF assms(1)]) (rule assms(2))

lemmas alike_rules = alike_line alike_first alike_pair alike_println alike_cases

section \<open>The sections of the demonstration\<close>

lemma alike_sections:
  assumes same: "same_but_keys \<pi> env f env' f'"
  shows "unit_alike (determinism env f) (determinism env' f')"
    and "unit_alike (binding_sensitivity env f) (binding_sensitivity env' f')"
    and "unit_alike (privilege_separation env f) (privilege_separation env' f')"
    and "unit_alike (rollback_resistance env f report) (rollback_resistance env' f' report)"
    and "unit_alike (root_key_choice env f) (root_key_choice env' f')"
proof -
  note rules = alike_rules [OF same] alike_for_each
  show "unit_alike (determinism env f) (determinism env' f')"
    unfolding determinism_def Let_def by (intro rules)
  show "unit_alike (binding_sensitivity env f) (binding_sensitivity env' f')"
    unfolding binding_sensitivity_def case_prod_beta by (intro rules)
  show "unit_alike (privilege_separation env f) (privilege_separation env' f')"
    unfolding privilege_separation_def alike_error_text [OF same] by (intro rules)
  show "unit_alike (rollback_resistance env f report) (rollback_resistance env' f' report)"
    unfolding rollback_resistance_def Let_def alike_error_text [OF same] by (intro rules)
  show "unit_alike (root_key_choice env f) (root_key_choice env' f')"
    unfolding root_key_choice_def alike_error_text [OF same] by (intro rules)
qed

lemma alike_refused:
  assumes same: "same_but_keys \<pi> env f env' f'"
  shows "unit_alike (refused_bindings env f report) (refused_bindings env' f' report)"
proof -
  note bind = alike_bind [OF alike_key [OF same]] and line = alike_println [OF same]
  show ?thesis
    unfolding refused_bindings_def Let_def alike_error_text [OF same]
    by (intro alike_line [OF same], rule bind, rule alike_seq, erule alike_split, rule line, rule line,
        rule bind, erule alike_split, rule line, rule line)
qed

lemma alike_demonstrate:
  assumes same: "same_but_keys \<pi> env f env' f'"
    and report: "yields (Firmware_report (env_os env) f (replicate 64 0)) (Inr report) []"
      "yields (Firmware_report (env_os env') f' (replicate 64 0)) (Inr report) []"
  shows "unit_alike (demonstrate env f) (demonstrate env' f')"
proof -
  have "alike (rel_sum (=) (=)) (must (Firmware_report (env_os env) f (replicate 64 0)))
      (must (Firmware_report (env_os env') f' (replicate 64 0)))"
    using alikeI [OF report] by (intro alike_must) auto
  then show ?thesis
    unfolding demonstrate_def
    unfolding case_prod_beta by (rule alike_try) (simp only:,
      intro alike_line [OF same] alike_seq alike_sections [OF same] alike_refused [OF same]
        alike_for_each alike_println [OF same])
qed

section \<open>On working devices\<close>

text \<open>
  A handle of the ioctl transport on a working device: its answer to key requests, and the report
  it signs over 64 zero bytes.
\<close>

definition works ::
  "'k env \<Rightarrow> FirmwareHandle \<Rightarrow> (u8 list \<Rightarrow> u64 + u8 list) \<Rightarrow> AttestationReport \<Rightarrow> bool" where
  "works env f answer report \<longleftrightarrow>
     prints_ok env \<and> fw_transport f = Ioctl
     \<and> (\<exists>g attest bytes. fw_ioctl f = Some g \<and> allocates (env_os env) (sg_device g)
        \<and> device_answers (env_os env) (sg_device g) 0xC0205301 40 64 answer
        \<and> device_answers (env_os env) (sg_device g) 0xC0205300 96 4000 attest
        \<and> attest (report_req (ReportRequest_from (replicate 64 0))) = Inr bytes
        \<and> carries bytes report \<and> answers (ReportRequest_from (replicate 64 0)) report)"

lemma works_derives: "works env f answer report \<Longrightarrow> derives env f (key_answer answer)"
  unfolding works_def using derives_device by blast

lemma works_report:
  "works env f answer report \<Longrightarrow>
   yields (Firmware_report (env_os env) f (replicate 64 0)) (Inr report) []"
  unfolding works_def using yields_firmware_report by blast

text \<open>
  C3: the demonstration prints no key.  Run it on two working systems whose devices sign the same
  report and refuse the same requests but derive different keys, each the image of the other's
  under one injective renaming: the lines printed, and the outcome, are the same.  What a reader
  of the terminal learns of the keys is which of them are equal.
\<close>

theorem output_hides_keys:
  assumes works: "works env f answer report" "works env' f' answer' report"
    and keys: "inj \<pi>" "\<And>q. key_answer answer' q = map_sum id \<pi> (key_answer answer q)"
    and "env_io_text env = env_io_text env'"
  shows "\<exists>r out w1 w1'. demonstrate env f w = (r, w1) \<and> printed (log w1) = printed (log w) @ out
     \<and> demonstrate env' f' w' = (r, w1') \<and> printed (log w1') = printed (log w') @ out"
proof -
  have "key_answer answer' = map_sum id \<pi> \<circ> key_answer answer"
    using keys(2) by auto
  then have "derives env' f' (map_sum id \<pi> \<circ> key_answer answer)"
    using works_derives [OF works(2)] by simp
  then have "same_but_keys \<pi> env f env' f'"
    using works_derives [OF works(1)] works keys(1) assms(5)
    unfolding same_but_keys_def works_def by blast
  then have "unit_alike (demonstrate env f) (demonstrate env' f')"
    by (rule alike_demonstrate [OF _ works_report [OF works(1)] works_report [OF works(2)]])
  then obtain r r' out where both: "yields (demonstrate env f) r out" "yields (demonstrate env' f') r' out"
    and "rel_sum (=) (=) r r'" by (rule alikeE)
  then have "r = r'" by (simp add: sum.rel_eq)
  then show ?thesis
    using yieldsD [OF both(1), of w] yieldsD [OF both(2), of w'] by blast
qed

text \<open>The laboratory device beside one that derives the complement of every byte.\<close>

definition lab_complement :: "u8 list \<Rightarrow> u8 list" where
  "lab_complement bs = map (\<lambda>b. 0xFF - b) (lab_key bs)"

definition complement :: "DerivedKey \<Rightarrow> DerivedKey" where
  "complement d = DerivedKey (map (\<lambda>b. 0xFF - b) (DerivedKey_as_bytes d))"

lemma lab_works:
  assumes "\<And>bs. length bs = 40 \<Longrightarrow> length (key bs) = 32"
  shows "works (lab_env key) sample_handle (lab_answer key) (lab_report (ReportRequest_from (replicate 64 0)))"
proof -
  let ?q = "ReportRequest_from (replicate 64 0)"
  have "carries (lab_response (report_req ?q)) (lab_report ?q)" "answers ?q (lab_report ?q)"
    using zero_request by (simp_all add: lab_carries lab_answers)
  moreover have "device_answers (lab_with key) (sg_device sample_guest) 0xC0205301 40 64 (lab_answer key)"
    using lab_with_device(1) [OF assms] by (simp add: lab_answer_def [abs_def])
  ultimately show ?thesis
    unfolding works_def using lab_prints lab_with_device(2) lab_with_allocates
    by (fastforce simp: sample_handle_def)
qed

lemma output_hides_keys_witness:
  "\<exists>r out w1 w1'. demonstrate (lab_env lab_key) sample_handle sample_world = (r, w1)
     \<and> printed (log w1) = printed (log (sample_world :: nat world)) @ out
     \<and> demonstrate (lab_env lab_complement) sample_handle sample_world = (r, w1')
     \<and> printed (log w1') = printed (log (sample_world :: nat world)) @ out"
proof (rule output_hides_keys [OF lab_works lab_works])
  show "inj complement"
  proof (rule injI)
    fix x y assume same: "complement x = complement y"
    have "inj (\<lambda>b :: u8. 0xFF - b)" by (simp add: inj_def)
    then show "x = y"
      using same by (cases x; cases y) (simp add: complement_def DerivedKey_as_bytes_def inj_map_eq_map)
  qed
  show "key_answer (lab_answer lab_complement) q = map_sum id complement (key_answer (lab_answer lab_key) q)" for q
    by (simp add: lab_key_answer lab_complement_def complement_def DerivedKey_as_bytes_def)
qed (simp_all add: lab_complement_def)

end
