(* ===== verification/Loops.thy ===== *)
theory Loops
  imports Client
begin

text \<open>
  The two \<^verbatim>\<open>loop\<close> statements of the crate, as their bodies: one round of a loop either goes on with
  a new state or ends, and nothing in the form of the loop says that it does end.  The theorem is
  that both end, within a fixed number of rounds, with the results of the recursive definitions
  the rest of the library uses.
\<close>

section \<open>Loops and rounds\<close>

datatype ('s, 'r) round_end = Again 's | Ended 'r

text \<open>At most \<open>n\<close> rounds; \<open>None\<close> when the loop is still running after them.\<close>

fun run_rounds :: "nat \<Rightarrow> ('s \<Rightarrow> ('s, 'r) round_end) \<Rightarrow> 's \<Rightarrow> 'r option" where
  "run_rounds 0 body s = None"
| "run_rounds (Suc n) body s =
     (case body s of Again s' \<Rightarrow> run_rounds n body s' | Ended r \<Rightarrow> Some r)"

lemma run_rounds_more: "run_rounds n body s = Some r \<Longrightarrow> n \<le> n' \<Longrightarrow> run_rounds n' body s = Some r"
proof (induction n arbitrary: n' s)
  case (Suc n)
  then show ?case by (cases n') (auto split: round_end.splits)
qed simp

text \<open>
  A function that agrees with every round of a loop whose measure decreases is what the loop
  computes, in one round more than the measure at its start.
\<close>

lemma run_rounds_measure:
  fixes m :: "'s \<Rightarrow> nat"
  assumes "\<And>s. case body s of Again s' \<Rightarrow> m s' < m s \<and> f s = f s' | Ended r \<Rightarrow> f s = r"
  shows "run_rounds (Suc (m s)) body s = Some (f s)"
proof (induction "m s" arbitrary: s rule: less_induct)
  case less
  show ?case
  proof (cases "body s")
    case (Again s')
    then have "m s' < m s" "f s = f s'" using assms [of s] by auto
    then have "run_rounds (m s) body s' = Some (f s)"
      using less [of s'] run_rounds_more [of "Suc (m s')" body s' _ "m s"] by simp
    then show ?thesis using Again by simp
  qed (use assms [of s] in simp)
qed

section \<open>The certificate table\<close>

text \<open>One round of the loop of \<^verbatim>\<open>CertTable::parse\<close>, on the vector and the cursor.\<close>

definition parse_round ::
  "u8 list \<Rightarrow> Certificate list \<times> nat \<Rightarrow> (Certificate list \<times> nat, Certificate list result) round_end" where
  "parse_round blob = (\<lambda>(certs, cursor).
     if MAX_ENTRIES \<le> length certs
     then Ended (Inl (Parse (CertTableTooLarge ''entry count'' MAX_ENTRIES)))
     else
       (case parse_entry blob cursor of
          Inl e \<Rightarrow> Ended (Inl e)
        | Inr Terminator \<Rightarrow> Ended (Inr certs)
        | Inr (entry_step.Entry c) \<Rightarrow> Again (certs @ [c], saturating_add cursor ENTRY_SIZE)))"

lemma parse_rounds:
  "run_rounds (Suc (MAX_ENTRIES - length certs)) (parse_round blob) (certs, cursor)
     = Some (parse_loop blob certs cursor)"
proof -
  let ?m = "\<lambda>(certs :: Certificate list, cursor :: nat). MAX_ENTRIES - length certs"
  let ?f = "\<lambda>(certs, cursor). parse_loop blob certs cursor"
  have round: "case parse_round blob (cs, k) of
      Again s' \<Rightarrow> ?m s' < ?m (cs, k) \<and> ?f (cs, k) = ?f s' | Ended r \<Rightarrow> ?f (cs, k) = r" for cs k
    using parse_loop.simps [of blob cs k]
    by (simp add: parse_round_def diff_less_mono2 split: sum.split entry_step.split)
  show ?thesis
    using run_rounds_measure [where body = "parse_round blob" and m = ?m and f = ?f and s = "(certs, cursor)"] round
    by auto
qed

section \<open>Retries\<close>

text \<open>One round of the loop of \<^verbatim>\<open>retrying\<close>, on the iterator over the delays and the world.\<close>

definition retry_round ::
  "'k os \<Rightarrow> ('k, 'a result) io \<Rightarrow> nat list \<times> 'k world \<Rightarrow>
     (nat list \<times> 'k world, 'a result \<times> 'k world) round_end" where
  "retry_round os attempt = (\<lambda>(backoff, w).
     case attempt w of
       (Inl e, w1) \<Rightarrow>
         if is_transient e
         then (case backoff of
                 delay # rest \<Rightarrow> Again (rest, snd (thread_sleep os delay w1))
               | [] \<Rightarrow> Ended (Inl e, w1))
         else Ended (Inl e, w1)
     | (Inr x, w1) \<Rightarrow> Ended (Inr x, w1))"

lemma retry_rounds:
  "run_rounds (Suc (length backoff)) (retry_round os attempt) (backoff, w)
     = Some (retry_loop os backoff attempt w)"
  using run_rounds_measure [where body = "retry_round os attempt" and s = "(backoff, w)"
      and m = "\<lambda>(backoff, w). length backoff"
      and f = "\<lambda>(backoff, w). retry_loop os backoff attempt w"]
  by (auto simp: retry_round_def retry_loop.simps io_bind_def
      split: prod.split sum.split list.split)

text \<open>Sixteen entries and no terminator.\<close>

definition full_blob :: "u8 list" where
  "full_blob = concat (replicate 16 (1 # replicate 23 0))"

lemma full_blob_rounds:
  "k \<le> 16 \<Longrightarrow>
   run_rounds k (parse_round full_blob) (map (entry_cert full_blob) [0..<16 - k], 24 * (16 - k)) = None"
proof (induction k)
  case (Suc k)
  define n where "n = 16 - Suc k"
  have n: "n < 16" "16 - k = Suc n" using Suc.prems by (auto simp: n_def)
  have rec: "table_record full_blob n = 1 # replicate 23 0"
    using record_of_repeat [of "1 # replicate 23 0" n 16 "[]"] n by (simp add: full_blob_def)
  have len: "length full_blob = 384"
    by (simp add: full_blob_def length_concat sum_list_replicate)
  have "entry_ok full_blob n"
    using n len nonzero_record [of "1 # replicate 23 0" 24]
    by (simp add: entry_ok_def rec body_start_def body_len_def)
  then have "parse_entry full_blob (24 * n) = Inr (entry_step.Entry (entry_cert full_blob n))"
    using n by (simp add: parse_entry_eq entry_ok_def)
  moreover have "saturating_add (24 * n) ENTRY_SIZE = 24 * Suc n"
    using n by (simp add: saturating_add_small usize_max_def ENTRY_SIZE_def)
  ultimately have "parse_round full_blob (map (entry_cert full_blob) [0..<n], 24 * n)
      = Again (map (entry_cert full_blob) [0..<Suc n], 24 * Suc n)"
    using n(1) by (simp add: parse_round_def MAX_ENTRIES_def)
  then show ?case
    using Suc n unfolding n_def [symmetric] by simp
qed simp

text \<open>
  C9: both loops of the crate end.  The certificate loop ends within 17 rounds on every blob, and
  the retry loop within three attempts, whatever they do, with the results of \<open>parse_loop\<close> and
  \<open>retrying\<close>.  The bounds are the least: a table of 16 entries takes 17 rounds, and an
  attempt that always fails transiently is made three times.
\<close>

theorem loops_terminate:
  "run_rounds 17 (parse_round blob) ([], 0) = Some (parse_loop blob [] 0)
   \<and> run_rounds 3 (retry_round os attempt) (RETRY_BACKOFF, w) = Some (retrying os attempt w)
   \<and> run_rounds 16 (parse_round full_blob) ([], 0) = None
   \<and> run_rounds 2 (retry_round os (io_return (Inl (Vmm Vmm_Busy) :: 'a result))) (RETRY_BACKOFF, w) = None"
proof (intro conjI)
  have "Suc (MAX_ENTRIES - length ([] :: Certificate list)) = 17" "Suc (length RETRY_BACKOFF) = 3"
    by (simp_all add: MAX_ENTRIES_def RETRY_BACKOFF_def)
  then show "run_rounds 17 (parse_round blob) ([], 0) = Some (parse_loop blob [] 0)"
    "run_rounds 3 (retry_round os attempt) (RETRY_BACKOFF, w) = Some (retrying os attempt w)"
    using parse_rounds [of "[]" blob 0] retry_rounds [of RETRY_BACKOFF os attempt w]
    by (simp_all only: retrying_def)
  show "run_rounds 16 (parse_round full_blob) ([], 0) = None"
    using full_blob_rounds [of 16] by simp
  show "run_rounds 2 (retry_round os (io_return (Inl (Vmm Vmm_Busy)))) (RETRY_BACKOFF, w) = None"
    by (simp add: numeral_2_eq_2 retry_round_def RETRY_BACKOFF_def io_return_def is_transient_def)
qed

end
