(* ===== verification/Failures.thy ===== *)
theory Failures
  imports Client
begin

text \<open>
  How the client's operations fail: for each operation and transport the errors it can end with,
  whatever the kernel, the device and the host do, and from every state.
\<close>

section \<open>The errors of an operation\<close>







definition ends_in :: "('a \<Rightarrow> bool) \<Rightarrow> (error \<Rightarrow> bool) \<Rightarrow> 'a result \<Rightarrow> bool" where
  "ends_in P Q r = (case r of Inr x \<Rightarrow> P x | Inl e \<Rightarrow> Q e)"

lemma ends_inI: "(\<And>x. r = Inr x \<Longrightarrow> P x) \<Longrightarrow> (\<And>e. r = Inl e \<Longrightarrow> Q e) \<Longrightarrow> ends_in P Q r"
  by (simp add: ends_in_def split: sum.split)

section \<open>The device\<close>










section \<open>The handle\<close>







end
