(* ===== verification/Spec2Isabelle.thy ===== *)
theory Spec2Isabelle
  imports Attributes Conformance Attest Secrecy Loops Failures
begin

text \<open>
  A verification library for \<^verbatim>\<open>sev-snp\<close>, the Rust bindings for the Linux AMD SEV-SNP guest
  interface.

  The program.  A guest asks the secure processor for signed attestation reports, for the
  certificates that verify them and for derived keys.  \<^verbatim>\<open>src/lib.rs\<close> holds the \<^verbatim>\<open>Firmware\<close> handle:
  it opens the two kernel transports, routes each request to one, and retries transient
  failures.  \<^verbatim>\<open>src/backend/\<close> holds the transports, configfs-TSM (a directory entry per request,
  attributes written and read as files) and \<^verbatim>\<open>/dev/sev-guest\<close> (an \<^verbatim>\<open>ioctl\<close> over request and
  response buffers), behind the trait \<^verbatim>\<open>GuestBackend\<close>.  The remaining modules decode what comes
  back: \<^verbatim>\<open>src/report.rs\<close> the 1184-byte report, \<^verbatim>\<open>src/policy.rs\<close> its bit fields, \<^verbatim>\<open>src/tcb.rs\<close> its TCB
  versions and processor identification, \<^verbatim>\<open>src/certs.rs\<close> the certificate table, \<^verbatim>\<open>src/error.rs\<close>
  the status codes; \<^verbatim>\<open>src/key.rs\<close> builds key requests and \<^verbatim>\<open>src/detect.rs\<close> reads \<^verbatim>\<open>CPUID\<close>.

  The theories, bottom up.
  \<^item> \<open>Prelude\<close>: machine integers as words, \<^verbatim>\<open>usize\<close> as a natural number with its bound written out,
    \<^verbatim>\<open>Option\<close> and \<^verbatim>\<open>Result\<close> combinators, total slice operations.
  \<^item> \<open>Bytes\<close>: little-endian conversion, the readers \<^verbatim>\<open>bytes_at\<close> and \<^verbatim>\<open>u32_at\<close>, \<^verbatim>\<open>fill\<close>; the locale
    \<open>fixed_codec\<close>, interpreted on the two widths the crate uses, on which every layout rests.
  \<^item> \<open>Std\<close>: what the source uses of the Rust standard library on text and I/O errors.  Strings
    are lists of bytes in their UTF-8 form.
  \<^item> \<open>Errors\<close> (\<^verbatim>\<open>src/error.rs\<close>): the error types, the code tables, the texts, the split of
    \<^verbatim>\<open>EXITINFO2\<close>.  No two status codes have the same decoded error.
  \<^item> \<open>Tcb\<close> (\<^verbatim>\<open>src/tcb.rs\<close>): both encodings of the processor identification and of the TCB word,
    with the round trips in both directions and exactly what each loses.
  \<^item> \<open>Policy\<close> (\<^verbatim>\<open>src/policy.rs\<close>): the bit fields; the locales \<open>flag_word\<close> and \<open>known_flags\<close> state what
    a bit-field type promises, and \<open>GuestPolicy\<close>, \<open>PlatformInfo\<close>, \<open>KeyFields\<close> and \<open>Capabilities\<close>
    interpret them.
  \<^item> \<open>Fixture\<close>: the captured Milan report of the repository's tests, used by witnesses.
  \<^item> \<open>Report\<close> (\<^verbatim>\<open>src/report.rs\<close>): the report as its raw bytes, every accessor, \<^verbatim>\<open>parse\<close>.  Parsing is
    characterised on every input; the accessors tile the structure; signatures are converted
    faithfully.
  \<^item> \<open>Certs\<close> (\<^verbatim>\<open>src/certs.rs\<close>): the parsing loop.  It refines \<open>table_spec\<close>, the table as its
    records describe it, is bounded, and inverts a layout of a table.
  \<^item> \<open>Key\<close> (\<^verbatim>\<open>src/key.rs\<close>): the builder as an inductive set of reachable requests, the wire form.
  \<^item> \<open>World\<close>: the environment.  The kernel, file system, allocator and clock are the functions of
    a record \<open>'k os\<close> over an arbitrary state, an argument of every definition that does I/O;
    \<open>io\<close> is the type of programs, \<open>io_try\<close> the source's \<^verbatim>\<open>?\<close>, and \<open>emits\<close> relates an outcome to
    the calls logged on the way.
  \<^item> \<open>Sample\<close>: one concrete \<open>os\<close>, on which the witnesses run.
  \<^item> \<open>Backend\<close> (\<^verbatim>\<open>src/backend/mod.rs\<close>): requests, \<^verbatim>\<open>verify_answers\<close>, and the trait as the locale
    \<open>guest_backend\<close>; its laws are that a returned report is valid and answers its request, that
    a returned certificate table is bounded, that a derived key has its length, and which errors
    a request cannot have.
  \<^item> \<open>Configfs\<close> (\<^verbatim>\<open>src/backend/configfs.rs\<close>) and \<open>Ioctl\<close> (\<^verbatim>\<open>src/backend/ioctl.rs\<close>): the two
    transports, each an interpretation of the trait.  The configfs operations implement
    specifications over the calls they make; entries never outlive a call.  The ioctl
    transport works on byte-addressed process memory, so the addresses it hands to the kernel
    mean what they mean in the source.
  \<^item> \<open>Race\<close>: the generation counter of configfs under its documented meaning, on a kernel with
    other writers: in a run that returns a report nobody else had written to its entry when the
    report was read, and an undisturbed request returns one.
  \<^item> \<open>Detect\<close> (\<^verbatim>\<open>src/detect.rs\<close> and \<^verbatim>\<open>any_available\<close>): capability bits and the guest test.
  \<^item> \<open>Client\<close> (\<^verbatim>\<open>src/lib.rs\<close>): the handle.  Dynamic dispatch is a datatype and a third
    interpretation of the trait; the lemmas of clients are proved once in the trait's locale.
  \<^item> \<open>Failures\<close>: the errors each operation can end with on each transport.
  \<^item> \<open>Loops\<close>: the crate's two \<^verbatim>\<open>loop\<close> statements as rounds, and that they end.
  \<^item> \<open>Protocol\<close>: the other side of the device protocol.  A working \<^verbatim>\<open>/dev/sev-guest\<close> as predicates of
    the \<open>os\<close> parameter, the success of reports, extended reports and key requests on it, and a
    concrete laboratory device; the recovery from transient failures.
  \<^item> \<open>Attributes\<close>: the other side of configfs, a kernel that signs what is written to an entry, and
    the success of undisturbed requests on it; a concrete such kernel, which has a working
    device as well.
  \<^item> \<open>Conformance\<close> (\<^verbatim>\<open>tests/parse.rs\<close> and the tests of \<^verbatim>\<open>src/key.rs\<close>): the crate's tests as
    predicates of their random inputs, and for which of these they hold: the wiping test needs
    a key that is not all zeros, the others hold for all.
  \<^item> \<open>Console\<close>: what the example programs use beyond the library, the lines a program prints, the
    panics and assertions that end one.
  \<^item> \<open>Attest\<close> (\<^verbatim>\<open>examples/attest.rs\<close>): the program, every way it can panic, and the transcript of
    its \<^verbatim>\<open>main\<close> on a working machine, in any build and whichever transport serves it.
  \<^item> \<open>DeriveKey\<close> (\<^verbatim>\<open>examples/derive_key.rs\<close>): the program and its transcript on a working device,
    with the line it prints where the TCB it steps down to is the one it started from.
  \<^item> \<open>Secrecy\<close>: the same program on two systems whose keys differ; the terminal shows no key.

  Correspondence of state.  A Rust struct is a record or a one-constructor datatype with the same
  fields; an enum is a datatype; \<^verbatim>\<open>Result<T>\<close> is \<open>error + 'a\<close>; a fixed array is a list whose length is a
  hypothesis (\<open>wf_report\<close>, \<open>wf_report_request\<close>) or a lemma.  The only mutable process state is the
  \<open>world\<close> record: memory, the configfs entry counter (a wrapping \<^verbatim>\<open>u64\<close>), the kernel state and the
  log, which is a ghost: programs append to it and never read it.  \<^verbatim>\<open>Drop\<close> is written out where it
  acts: the removal of a configfs entry, the closing of an attribute file, the wiping of the key
  response, the closing of the device by a refused \<^verbatim>\<open>with_msg_version\<close>.

  Loops.  The certificate loop ends because its vector grows and is bounded by 16, the retry loop
  because its iterator of two delays shrinks; all functions are total.  \<open>Loops\<close> states both as
  loops with a bound on the rounds, 17 and 3, and shows the bounds sufficient and least.  No
  other definition uses fuel.

  Parameters and hypotheses.  Besides the \<open>os\<close> record: the \<^verbatim>\<open>CPUID\<close> instruction, the build
  features, the text of an I/O error, the random number generator of the \<^verbatim>\<open>rand\<close> crate, and the
  wiping operation of the \<^verbatim>\<open>zeroize\<close> crate, whose documented behaviour \<open>zeroizes\<close> is a hypothesis
  of the theorem on key derivation.  Up to \<open>Client\<close> nothing is assumed about the kernel: the
  theorems hold for any answer it gives, including answers made while other processes interfere
  between two calls.  Success needs a kernel that works, and these are its hypotheses:
  \<open>counts_writes\<close> and \<open>undisturbed\<close> in \<open>Race\<close>; \<open>signs\<close> in \<open>Attributes\<close>; \<open>device_answers\<close>, \<open>device_extends\<close>, \<open>allocates\<close>
  and \<open>settles\<close> in \<open>Protocol\<close>; \<open>prints_ok\<close> and \<open>collision_free\<close> in \<open>Console\<close>.  The transcripts are stated over
  what these give a program, \<open>finds\<close> and \<open>derives\<close> in \<open>Console\<close> and \<open>reports\<close> in \<open>Attest\<close>: an operation that
  succeeds from every state with the same outcome, or with one of which a predicate holds.
  A concrete system satisfies each, and the witnesses run on it.

  Not modelled: closing handles when the caller drops them, the derived \<^verbatim>\<open>Debug\<close> texts of the
  handle types, hashing, the compile-time choice between features beyond the flags and the
  compile-time assertions on structure sizes, how the Rust runtime reports the error \<^verbatim>\<open>main\<close>
  returns or a panic, and what the kernel and the firmware do.  \<^verbatim>\<open>SevGuest::derive_key\<close> copies the
  key out of the response into a second buffer that wipes itself; that copy is a value here, so
  of the two wipes only the one of the response is stated.  Addresses are natural numbers,
  and a conversion that cannot fail on 64-bit targets keeps its error branch.  What remains of the
  sources beside these is declarations, imports and documentation.

  Planned next: the derived \<^verbatim>\<open>Debug\<close> text of the error type, with which the runtime reports the error
  \<^verbatim>\<open>main\<close> returns.
\<close>

end
